(* ===== verification/Prelude.thy ===== *)
theory Prelude
  imports Main "HOL-Library.Multiset"
begin

text \<open>
  Shared vocabulary of the development: Go's error values and fallible results, 64-bit signed
  arithmetic, sorting as an interface, and the generic facts the component theories use.
\<close>

section \<open>Errors and fallible results\<close>

text \<open>
  A Go function that returns \<open>(T, error)\<close> is modelled by a function into \<open>'a res\<close>:
  \<open>Inl e\<close> for a non-nil error, \<open>Inr v\<close> for the value. \<open>Errorf fmt args\<close> is
  \<open>fmt.Errorf\<close>/\<open>errors.New\<close> with its format string and the rendered arguments kept apart;
  \<open>NumError\<close> is strconv's error (function, input, reason); \<open>OsError\<close> carries an error
  handed over by the operating system or by another package; \<open>Panic\<close> is a run-time panic.
\<close>

datatype num_err = ErrSyntax | ErrRange

datatype go_error =
    Errorf string "string list"
  | NumError string string num_err
  | OsError string
  | Panic string

type_synonym 'a res = "go_error + 'a"

fun ebind :: "'e + 'a \<Rightarrow> ('a \<Rightarrow> 'e + 'b) \<Rightarrow> 'e + 'b" where
  "ebind (Inl e) f = Inl e"
| "ebind (Inr x) f = f x"

fun is_ok :: "'e + 'a \<Rightarrow> bool" where
  "is_ok (Inl e) = False"
| "is_ok (Inr x) = True"

named_theorems res_elims \<open>case analysis of a fallible result\<close>

lemma ebind_eq_Inr [res_elims]: "ebind m f = Inr y \<longleftrightarrow> (\<exists>x. m = Inr x \<and> f x = Inr y)"
  by (cases m) auto

lemma ebind_eq_Inl: "ebind m f = Inl e \<longleftrightarrow> m = Inl e \<or> (\<exists>x. m = Inr x \<and> f x = Inl e)"
  by (cases m) auto

lemma ebind_split:
  "P (ebind m f) \<longleftrightarrow> (\<forall>e. m = Inl e \<longrightarrow> P (Inl e)) \<and> (\<forall>x. m = Inr x \<longrightarrow> P (f x))"
  by (cases m) auto

lemma is_ok_iff: "is_ok r \<longleftrightarrow> (\<exists>x. r = Inr x)"
  by (cases r) auto

lemma not_is_ok_iff: "\<not> is_ok r \<longleftrightarrow> (\<exists>e. r = Inl e)"
  by (cases r) auto

lemma is_ok_unit: "is_ok r \<longleftrightarrow> r = Inr ()" for r :: "'e + unit"
  by (cases r) auto

lemma is_ok_ebind [simp]: "is_ok (ebind m f) \<longleftrightarrow> (\<exists>x. m = Inr x \<and> is_ok (f x))"
  by (cases m) auto

lemma ebind_Inr [simp]: "ebind m Inr = m"
  by (cases m) auto

lemma is_ok_seq: "is_ok (ebind a (\<lambda>_. b)) \<longleftrightarrow> is_ok a \<and> is_ok b"
  by (cases a) auto

lemma is_ok_if: "is_ok (if c then Inl e else r) \<longleftrightarrow> \<not> c \<and> is_ok r"
  by simp

section \<open>64-bit signed integers\<close>

text \<open>
  Go's \<open>int64\<close> (and \<open>int\<close> on the supported 64-bit hosts) is an \<open>int\<close> whose
  arithmetic wraps around: \<open>i64\<close> reduces a mathematical result to two's complement.
\<close>

definition i64 :: "int \<Rightarrow> int" where
  "i64 x = (x + 2 ^ 63) mod 2 ^ 64 - 2 ^ 63"

definition in_i64 :: "int \<Rightarrow> bool" where
  "in_i64 x \<longleftrightarrow> - (2 ^ 63) \<le> x \<and> x < 2 ^ 63"

abbreviation add64 :: "int \<Rightarrow> int \<Rightarrow> int" where "add64 a b \<equiv> i64 (a + b)"
abbreviation sub64 :: "int \<Rightarrow> int \<Rightarrow> int" where "sub64 a b \<equiv> i64 (a - b)"
abbreviation mul64 :: "int \<Rightarrow> int \<Rightarrow> int" where "mul64 a b \<equiv> i64 (a * b)"

lemma i64_id: "in_i64 x \<Longrightarrow> i64 x = x"
  by (simp add: i64_def in_i64_def)

lemma in_i64_i64 [simp]: "in_i64 (i64 x)"
proof -
  have "0 \<le> (x + 2 ^ 63) mod 2 ^ 64" "(x + 2 ^ 63) mod 2 ^ 64 < (2::int) ^ 64"
    by simp_all
  then show ?thesis by (simp add: i64_def in_i64_def)
qed

lemma i64_i64 [simp]: "i64 (i64 x) = i64 x"
  by (rule i64_id) simp

lemma i64_small: "- 9223372036854775808 \<le> x \<Longrightarrow> x < 9223372036854775808 \<Longrightarrow> i64 x = x"
  by (rule i64_id) (simp add: in_i64_def)

lemma i64_eq_iff: "i64 x = x \<longleftrightarrow> in_i64 x"
  using i64_id in_i64_i64 [of x] by metis

section \<open>Sorting as an interface\<close>

text \<open>
  \<open>sort.Sort\<close> promises a sorted rearrangement for the caller's \<open>Less\<close> and nothing about the
  order of equal elements. Definitions that sort take the sorting function as an argument, and
  \<open>go_sort\<close> states the promise. The sort of short slices in Go's package is the insertion
  sort below, which keeps the promise for every \<open>Less\<close> that is a strict weak order.
\<close>

locale go_sort =
  fixes lt :: "'a \<Rightarrow> 'a \<Rightarrow> bool" and srt :: "'a list \<Rightarrow> 'a list"
  assumes srt_mset: "mset (srt xs) = mset xs"
    and srt_sorted: "sorted_wrt (\<lambda>a b. \<not> lt b a) (srt xs)"
begin

lemma srt_set: "set (srt xs) = set xs"
  using srt_mset [of xs] by (metis set_mset_mset)

lemma srt_length: "length (srt xs) = length xs"
  using srt_mset [of xs] by (metis size_mset)

lemma srt_distinct: "distinct (srt xs) = distinct xs"
  using srt_mset [of xs] by (metis mset_eq_imp_distinct_iff)

lemma srt_take_least:
  assumes "x \<in> set (take n (srt xs))" "y \<in> set (drop n (srt xs))"
  shows "\<not> lt y x"
proof -
  have "sorted_wrt (\<lambda>a b. \<not> lt b a) (take n (srt xs) @ drop n (srt xs))"
    using srt_sorted by simp
  then show ?thesis using assms by (simp only: sorted_wrt_append) blast
qed

end

fun insert_sorted :: "('a \<Rightarrow> 'a \<Rightarrow> bool) \<Rightarrow> 'a \<Rightarrow> 'a list \<Rightarrow> 'a list" where
  "insert_sorted lt x [] = [x]"
| "insert_sorted lt x (y # ys) = (if lt y x then y # insert_sorted lt x ys else x # y # ys)"

fun insertion_sort :: "('a \<Rightarrow> 'a \<Rightarrow> bool) \<Rightarrow> 'a list \<Rightarrow> 'a list" where
  "insertion_sort lt [] = []"
| "insertion_sort lt (x # xs) = insert_sorted lt x (insertion_sort lt xs)"

definition strict_weak :: "('a \<Rightarrow> 'a \<Rightarrow> bool) \<Rightarrow> bool" where
  "strict_weak lt \<longleftrightarrow> (\<forall>x y. lt x y \<longrightarrow> \<not> lt y x) \<and>
     (\<forall>x y z. \<not> lt x y \<longrightarrow> \<not> lt y z \<longrightarrow> \<not> lt x z)"

lemma mset_insert_sorted: "mset (insert_sorted lt x xs) = add_mset x (mset xs)"
  by (induction xs) auto

lemma mset_insertion_sort: "mset (insertion_sort lt xs) = mset xs"
  by (induction xs) (auto simp: mset_insert_sorted)

lemma set_insert_sorted: "set (insert_sorted lt x xs) = insert x (set xs)"
  by (induction xs) auto

lemma sorted_insert_sorted:
  assumes "strict_weak lt" "sorted_wrt (\<lambda>a b. \<not> lt b a) xs"
  shows "sorted_wrt (\<lambda>a b. \<not> lt b a) (insert_sorted lt x xs)"
  using assms(2)
proof (induction xs)
  case Nil
  then show ?case by simp
next
  case (Cons y ys)
  show ?case
  proof (cases "lt y x")
    case True
    have "\<not> lt x y" using assms(1) True unfolding strict_weak_def by blast
    with True Cons show ?thesis by (simp add: set_insert_sorted)
  next
    case False
    have "\<And>a. \<not> lt a y \<Longrightarrow> \<not> lt a x"
      using assms(1) False unfolding strict_weak_def by blast
    with False Cons.prems show ?thesis by simp
  qed
qed

lemma sorted_insertion_sort:
  "strict_weak lt \<Longrightarrow> sorted_wrt (\<lambda>a b. \<not> lt b a) (insertion_sort lt xs)"
  by (induction xs) (auto intro: sorted_insert_sorted)

lemma go_sort_insertion_sort: "strict_weak lt \<Longrightarrow> go_sort lt (insertion_sort lt)"
  by unfold_locales (auto simp: mset_insertion_sort sorted_insertion_sort)

lemma strict_weak_key: "strict_weak (\<lambda>a b. f a < (f b :: 'b :: linorder))"
  by (auto simp: strict_weak_def)

section \<open>Go maps\<close>

text \<open>
  A Go map is modelled by an association list with distinct keys. The order of the list is the
  order in which a \<open>range\<close> loop visits the map, which the language leaves open: a statement
  about every association list with the same lookups is a statement about every visiting order.
\<close>

type_synonym 'v gomap = "(string \<times> 'v) list"

definition gm_wf :: "('k \<times> 'v) list \<Rightarrow> bool" where
  "gm_wf m \<longleftrightarrow> distinct (map fst m)"

definition gm_has :: "('k \<times> 'v) list \<Rightarrow> 'k \<Rightarrow> bool" where
  "gm_has m k \<longleftrightarrow> map_of m k \<noteq> None"

text \<open>\<open>m[k]\<close> on a map of strings: the zero value for a missing key.\<close>

definition gm_str :: "('k \<times> string) list \<Rightarrow> 'k \<Rightarrow> string" where
  "gm_str m k = (case map_of m k of None \<Rightarrow> [] | Some v \<Rightarrow> v)"

text \<open>\<open>m[k] = v\<close> and \<open>delete(m, k)\<close>.\<close>

fun gm_set :: "('k \<times> 'v) list \<Rightarrow> 'k \<Rightarrow> 'v \<Rightarrow> ('k \<times> 'v) list" where
  "gm_set [] k v = [(k, v)]"
| "gm_set ((k', v') # m) k v = (if k' = k then (k, v) # m else (k', v') # gm_set m k v)"

definition gm_del :: "('k \<times> 'v) list \<Rightarrow> 'k \<Rightarrow> ('k \<times> 'v) list" where
  "gm_del m k = filter (\<lambda>(k', v). k' \<noteq> k) m"

lemma map_of_gm_set [simp]: "map_of (gm_set m k v) = (map_of m)(k \<mapsto> v)"
  by (induction m k v rule: gm_set.induct) auto

lemma map_of_gm_del [simp]: "map_of (gm_del m k) = (map_of m)(k := None)"
  by (induction m) (auto simp: gm_del_def)

lemma dom_gm_set: "fst ` set (gm_set m k v) = insert k (fst ` set m)"
  by (induction m k v rule: gm_set.induct) auto

lemma gm_wf_set [simp]: "gm_wf m \<Longrightarrow> gm_wf (gm_set m k v)"
proof (induction m k v rule: gm_set.induct)
  case (2 k' v' m k v)
  then show ?case using dom_gm_set [of m k v] by (auto simp: gm_wf_def)
qed (simp add: gm_wf_def)

lemma gm_wf_del [simp]: "gm_wf m \<Longrightarrow> gm_wf (gm_del m k)"
  by (simp add: gm_wf_def gm_del_def distinct_map_filter)

lemma gm_wf_map_of: "gm_wf m \<Longrightarrow> (k, v) \<in> set m \<longleftrightarrow> map_of m k = Some v"
  by (auto simp: gm_wf_def dest: map_of_SomeD)

lemma gm_wf_ball:
  "gm_wf m \<Longrightarrow> (\<forall>(k, v) \<in> set m. P k v) \<longleftrightarrow> (\<forall>k v. map_of m k = Some v \<longrightarrow> P k v)"
  by (simp add: gm_wf_map_of [symmetric] Ball_def)

lemma gm_wf_perm:
  "gm_wf m \<Longrightarrow> gm_wf m' \<Longrightarrow> map_of m = map_of m' \<Longrightarrow> set m = set m'"
  by (auto simp: gm_wf_map_of)

lemma gm_wf_Nil [simp]: "gm_wf []"
  by (simp add: gm_wf_def)

section \<open>Validating a map key by key\<close>

text \<open>
  Every configuration validator of the daemon has the same shape: a \<open>range\<close> loop over a map
  that returns the first error its per-key check reports. Which error is reported depends on the
  visiting order; whether one is reported does not.
\<close>

fun check_all :: "('k \<times> 'v \<Rightarrow> unit res) \<Rightarrow> ('k \<times> 'v) list \<Rightarrow> unit res" where
  "check_all chk [] = Inr ()"
| "check_all chk (kv # m) = ebind (chk kv) (\<lambda>_. check_all chk m)"

lemma check_all_ok: "check_all chk m = Inr () \<longleftrightarrow> (\<forall>kv \<in> set m. chk kv = Inr ())"
  by (induction m) (auto simp: ebind_eq_Inr)

lemma check_all_error:
  "check_all chk m = Inl e \<Longrightarrow> \<exists>kv \<in> set m. chk kv = Inl e"
  by (induction m) (auto simp: ebind_eq_Inl)

lemma check_all_is_ok: "is_ok (check_all chk m) \<longleftrightarrow> (\<forall>kv \<in> set m. is_ok (chk kv))"
  by (auto simp: is_ok_unit check_all_ok)

text \<open>
  The interface of such a validator: its verdict is the conjunction of a verdict on the map as a
  whole (a function of lookups only) and the verdicts of a per-key check that sees the map
  through lookups only.
\<close>

locale map_validator =
  fixes validate :: "(string \<times> 'v) list \<Rightarrow> unit res"
    and globally :: "(string \<Rightarrow> 'v option) \<Rightarrow> bool"
    and per_key :: "(string \<Rightarrow> 'v option) \<Rightarrow> string \<Rightarrow> 'v \<Rightarrow> bool"
  assumes verdict: "gm_wf m \<Longrightarrow> is_ok (validate m) \<longleftrightarrow>
    globally (map_of m) \<and> (\<forall>k v. map_of m k = Some v \<longrightarrow> per_key (map_of m) k v)"
begin

lemma order_independent:
  assumes "gm_wf m" "gm_wf m'" "map_of m = map_of m'"
  shows "is_ok (validate m) = is_ok (validate m')"
  using assms by (simp add: verdict)

lemma bad_key_rejected:
  assumes "gm_wf m" "map_of m k = Some v" "\<not> per_key (map_of m) k v"
  shows "\<not> is_ok (validate m)"
  using assms by (auto simp: verdict)

lemma accepted_key:
  assumes "gm_wf m" "is_ok (validate m)" "map_of m k = Some v"
  shows "per_key (map_of m) k v"
  using assms by (auto simp: verdict)

end

section \<open>Machines driven by actions\<close>

text \<open>
  A component with interleaved steps is a partial function \<open>exec\<close> from an action and a state: \<open>None\<close>
  when the action is not enabled. A run is a list of actions.
\<close>

fun run_actions :: "('a \<Rightarrow> 's \<Rightarrow> 's option) \<Rightarrow> 'a list \<Rightarrow> 's \<Rightarrow> 's option" where
  "run_actions exec [] s = Some s"
| "run_actions exec (a # as) s =
     (case exec a s of None \<Rightarrow> None | Some t \<Rightarrow> run_actions exec as t)"

inductive reachable :: "('a \<Rightarrow> 's \<Rightarrow> 's option) \<Rightarrow> 's \<Rightarrow> 's \<Rightarrow> bool" for exec s where
  here: "reachable exec s s"
| there: "reachable exec s t \<Longrightarrow> exec a t = Some u \<Longrightarrow> reachable exec s u"

lemma reachable_trans: "reachable exec t u \<Longrightarrow> reachable exec s t \<Longrightarrow> reachable exec s u"
  by (induction rule: reachable.induct) (auto intro: reachable.intros)

lemma reachable_step: "exec a s = Some t \<Longrightarrow> reachable exec t u \<Longrightarrow> reachable exec s u"
  by (rule reachable_trans [OF _ reachable.there [OF reachable.here]])

lemma run_actions_reachable: "run_actions exec as s = Some t \<Longrightarrow> reachable exec s t"
  by (induction as arbitrary: s) (auto intro: reachable.here reachable_step split: option.splits)

text \<open>The interface of an invariant, and what it gives to every run.\<close>

locale machine_invariant =
  fixes exec :: "'a \<Rightarrow> 's \<Rightarrow> 's option" and inv :: "'s \<Rightarrow> bool"
  assumes step_inv: "inv s \<Longrightarrow> exec a s = Some t \<Longrightarrow> inv t"
begin

lemma reachable_inv: "reachable exec s t \<Longrightarrow> inv s \<Longrightarrow> inv t"
  by (induction rule: reachable.induct) (auto intro: step_inv)

lemma run_inv: "run_actions exec as s = Some t \<Longrightarrow> inv s \<Longrightarrow> inv t"
  by (rule reachable_inv [OF run_actions_reachable])

end

end
