(* ===== verification/GoStd.thy ===== *)
theory GoStd
  imports Prelude "HOL-Library.Char_ord" "HOL-Library.List_Lexorder"
begin

text \<open>
  The parts of Go's \<open>strings\<close>, \<open>strconv\<close> and \<open>unicode\<close> packages that the program calls.
  A Go string is a sequence of bytes, here a list of \<open>char\<close>. Case folding and white space are
  those of ASCII; every literal the program compares with is ASCII.
\<close>

section \<open>Characters\<close>

abbreviation code_of :: "char \<Rightarrow> nat" where "code_of c \<equiv> of_char c"

definition is_upper :: "char \<Rightarrow> bool" where
  "is_upper c \<longleftrightarrow> 65 \<le> code_of c \<and> code_of c \<le> 90"

definition is_lower :: "char \<Rightarrow> bool" where
  "is_lower c \<longleftrightarrow> 97 \<le> code_of c \<and> code_of c \<le> 122"

definition is_digit :: "char \<Rightarrow> bool" where
  "is_digit c \<longleftrightarrow> 48 \<le> code_of c \<and> code_of c \<le> 57"

definition is_space :: "char \<Rightarrow> bool" where
  "is_space c \<longleftrightarrow> code_of c \<in> {9, 10, 11, 12, 13, 32}"

definition to_lower :: "char \<Rightarrow> char" where
  "to_lower c = (if is_upper c then char_of (code_of c + 32) else c)"

definition to_upper :: "char \<Rightarrow> char" where
  "to_upper c = (if is_lower c then char_of (code_of c - 32) else c)"

text \<open>
  \<open>unicode.IsNumber(rune(b))\<close> for a byte \<open>b\<close>: the digits and the Latin-1 superscripts and
  fractions.
\<close>

definition is_number :: "char \<Rightarrow> bool" where
  "is_number c \<longleftrightarrow> is_digit c \<or> code_of c \<in> {178, 179, 185, 188, 189, 190}"

definition ToLower :: "string \<Rightarrow> string" where "ToLower s = map to_lower s"
definition ToUpper :: "string \<Rightarrow> string" where "ToUpper s = map to_upper s"

definition EqualFold :: "string \<Rightarrow> string \<Rightarrow> bool" where
  "EqualFold s t \<longleftrightarrow> ToLower s = ToLower t"

section \<open>Prefixes, suffixes, searching, splitting\<close>

definition HasPrefix :: "string \<Rightarrow> string \<Rightarrow> bool" where
  "HasPrefix s p \<longleftrightarrow> take (length p) s = p"

definition HasSuffix :: "string \<Rightarrow> string \<Rightarrow> bool" where
  "HasSuffix s p \<longleftrightarrow> length p \<le> length s \<and> drop (length s - length p) s = p"

definition TrimPrefix :: "string \<Rightarrow> string \<Rightarrow> string" where
  "TrimPrefix s p = (if HasPrefix s p then drop (length p) s else s)"

definition TrimSuffix :: "string \<Rightarrow> string \<Rightarrow> string" where
  "TrimSuffix s p = (if HasSuffix s p then take (length s - length p) s else s)"

fun Index :: "string \<Rightarrow> string \<Rightarrow> nat option" where
  "Index [] p = (if p = [] then Some 0 else None)"
| "Index (c # s) p = (if HasPrefix (c # s) p then Some 0 else map_option Suc (Index s p))"

definition Contains :: "string \<Rightarrow> string \<Rightarrow> bool" where
  "Contains s p \<longleftrightarrow> Index s p \<noteq> None"

text \<open>\<open>strings.Split\<close> and \<open>strings.SplitN(_, _, 2)\<close> for a one-byte separator.\<close>

fun Split :: "char \<Rightarrow> string \<Rightarrow> string list" where
  "Split c [] = [[]]"
| "Split c (x # xs) =
     (if x = c then [] # Split c xs
      else (case Split c xs of [] \<Rightarrow> [[x]] | y # ys \<Rightarrow> (x # y) # ys))"

definition SplitN2 :: "char \<Rightarrow> string \<Rightarrow> string list" where
  "SplitN2 c s =
     (if c \<in> set s then [takeWhile (\<lambda>x. x \<noteq> c) s, tl (dropWhile (\<lambda>x. x \<noteq> c) s)] else [s])"

fun Join :: "string \<Rightarrow> string list \<Rightarrow> string" where
  "Join sep [] = []"
| "Join sep [x] = x"
| "Join sep (x # y # ys) = x @ sep @ Join sep (y # ys)"

definition TrimSpace :: "string \<Rightarrow> string" where
  "TrimSpace s = rev (dropWhile is_space (rev (dropWhile is_space s)))"

fun fields_acc :: "string \<Rightarrow> string \<Rightarrow> string list" where
  "fields_acc acc [] = (if acc = [] then [] else [acc])"
| "fields_acc acc (c # s) =
     (if is_space c then (if acc = [] then fields_acc [] s else acc # fields_acc [] s)
      else fields_acc (acc @ [c]) s)"

definition Fields :: "string \<Rightarrow> string list" where
  "Fields s = fields_acc [] s"

text \<open>\<open>strings.Replace(s, old, new, -1)\<close> for a non-empty \<open>old\<close>.\<close>

function Replace :: "string \<Rightarrow> string \<Rightarrow> string \<Rightarrow> string" where
  "Replace s old new =
     (if s = [] \<or> old = [] then s
      else if HasPrefix s old then new @ Replace (drop (length old) s) old new
      else hd s # Replace (tl s) old new)"
  by pat_completeness auto
termination
  by (relation "measure (\<lambda>(s, old, new). length s)") auto

declare Replace.simps [simp del]

lemma HasPrefix_append [simp]: "HasPrefix (p @ s) p"
  by (simp add: HasPrefix_def)

lemma HasPrefix_iff: "HasPrefix s p \<longleftrightarrow> (\<exists>t. s = p @ t)"
  by (metis HasPrefix_def HasPrefix_append append_take_drop_id)

lemma HasPrefix_Nil [simp]: "HasPrefix s []"
  by (simp add: HasPrefix_def)

lemma HasSuffix_append [simp]: "HasSuffix (s @ p) p"
  by (simp add: HasSuffix_def)

lemma HasSuffix_iff: "HasSuffix s p \<longleftrightarrow> (\<exists>t. s = t @ p)"
  by (metis HasSuffix_def HasSuffix_append append_take_drop_id)

lemma TrimSuffix_append [simp]: "TrimSuffix (s @ p) p = s"
  by (simp add: TrimSuffix_def)

lemma TrimPrefix_append [simp]: "TrimPrefix (p @ s) p = s"
  by (simp add: TrimPrefix_def)

lemma Contains_iff: "Contains s p \<longleftrightarrow> (\<exists>a b. s = a @ p @ b)"
proof (induction s)
  case Nil
  then show ?case by (simp add: Contains_def)
next
  case (Cons c s)
  have "Contains (c # s) p \<longleftrightarrow> HasPrefix (c # s) p \<or> Contains s p"
    by (simp add: Contains_def)
  also have "\<dots> \<longleftrightarrow> (\<exists>a b. c # s = a @ p @ b)"
    unfolding Cons.IH HasPrefix_iff by (metis append_Cons append_Nil neq_Nil_conv list.inject)
  finally show ?case .
qed

lemma Contains_char [simp]: "Contains s [c] \<longleftrightarrow> c \<in> set s"
  unfolding Contains_iff by (metis append_Cons append_Nil in_set_conv_decomp)

lemma Split_not_Nil [simp]: "Split c s \<noteq> []"
  by (induction s) (auto split: list.splits)

lemma Split_no_sep: "c \<notin> set s \<Longrightarrow> Split c s = [s]"
  by (induction s) auto

lemma Split_sep: "c \<notin> set a \<Longrightarrow> Split c (a @ c # s) = a # Split c s"
  by (induction a) auto

lemma Split_fields_no_sep: "f \<in> set (Split c s) \<Longrightarrow> c \<notin> set f"
  by (induction s arbitrary: f) (auto split: list.splits if_splits)

lemma Join_Split: "Join [c] (Split c s) = s"
proof (induction s)
  case (Cons x xs)
  obtain y ys where "Split c xs = y # ys" by (cases "Split c xs") auto
  with Cons show ?case by (cases ys) auto
qed simp

lemma SplitN2_no_sep: "c \<notin> set s \<Longrightarrow> SplitN2 c s = [s]"
  by (simp add: SplitN2_def)

lemma SplitN2_sep: "c \<notin> set a \<Longrightarrow> SplitN2 c (a @ c # b) = [a, b]"
proof -
  assume "c \<notin> set a"
  then have "\<And>x. x \<in> set a \<Longrightarrow> x \<noteq> c" by auto
  then show ?thesis by (simp add: SplitN2_def takeWhile_append dropWhile_append)
qed

section \<open>Numbers\<close>

text \<open>
  \<open>strconv.ParseUint\<close> reads digits from the left and stops at the first byte that is not a
  digit of the base (\<open>ErrSyntax\<close>) or at the first prefix whose value exceeds the bit size
  (\<open>ErrRange\<close>).
\<close>

definition digit_val :: "nat \<Rightarrow> char \<Rightarrow> nat option" where
  "digit_val base c =
     (let v = (if is_digit c then Some (code_of c - 48)
               else if is_lower c then Some (code_of c - 97 + 10)
               else if is_upper c then Some (code_of c - 65 + 10)
               else None)
      in case v of None \<Rightarrow> None | Some d \<Rightarrow> (if d < base then Some d else None))"

fun uint_loop :: "nat \<Rightarrow> nat \<Rightarrow> nat \<Rightarrow> string \<Rightarrow> num_err + nat" where
  "uint_loop base mx n [] = Inr n"
| "uint_loop base mx n (c # cs) =
     (case digit_val base c of
        None \<Rightarrow> Inl ErrSyntax
      | Some d \<Rightarrow> if mx < n * base + d then Inl ErrRange else uint_loop base mx (n * base + d) cs)"

definition uint_of :: "nat \<Rightarrow> nat \<Rightarrow> string \<Rightarrow> num_err + nat" where
  "uint_of base bits s = (if s = [] then Inl ErrSyntax else uint_loop base (2 ^ bits - 1) 0 s)"

definition ParseUint :: "string \<Rightarrow> nat \<Rightarrow> nat \<Rightarrow> nat res" where
  "ParseUint s base bits =
     (case uint_of base bits s of Inl e \<Rightarrow> Inl (NumError ''ParseUint'' s e) | Inr n \<Rightarrow> Inr n)"

text \<open>
  \<open>strconv.ParseInt\<close>: an optional sign, then the digits as an unsigned number of the same
  size, then the bound of the signed type.
\<close>

definition int_of_str :: "nat \<Rightarrow> nat \<Rightarrow> string \<Rightarrow> num_err + int" where
  "int_of_str base bits s =
     (case s of
        [] \<Rightarrow> Inl ErrSyntax
      | c # cs \<Rightarrow>
          (let neg = (c = CHR ''-'');
               body = (if c = CHR ''-'' \<or> c = CHR ''+'' then cs else s);
               cutoff = (2::nat) ^ (bits - 1)
           in case uint_of base bits body of
                Inl e \<Rightarrow> Inl e
              | Inr n \<Rightarrow>
                  if \<not> neg \<and> cutoff \<le> n then Inl ErrRange
                  else if neg \<and> cutoff < n then Inl ErrRange
                  else Inr (if neg then - int n else int n)))"

definition ParseInt :: "string \<Rightarrow> nat \<Rightarrow> nat \<Rightarrow> int res" where
  "ParseInt s base bits =
     (case int_of_str base bits s of Inl e \<Rightarrow> Inl (NumError ''ParseInt'' s e) | Inr n \<Rightarrow> Inr n)"

definition Atoi :: "string \<Rightarrow> int res" where
  "Atoi s = (case int_of_str 10 64 s of Inl e \<Rightarrow> Inl (NumError ''Atoi'' s e) | Inr n \<Rightarrow> Inr n)"

text \<open>The decimal rendering of \<open>%d\<close>, \<open>strconv.Itoa\<close> and \<open>strconv.FormatUint\<close>.\<close>

definition digit_char :: "nat \<Rightarrow> char" where
  "digit_char d = char_of (48 + d)"

definition hex_digit :: "nat \<Rightarrow> char" where
  "hex_digit d = (if d < 10 then char_of (48 + d) else char_of (87 + d))"

fun show_nat :: "nat \<Rightarrow> string" where
  "show_nat n = (if n < 10 then [digit_char n] else show_nat (n div 10) @ [digit_char (n mod 10)])"

declare show_nat.simps [simp del]

definition show_int :: "int \<Rightarrow> string" where
  "show_int i = (if i < 0 then CHR ''-'' # show_nat (nat (- i)) else show_nat (nat i))"

lemma code_of_digit_char: "d < 10 \<Longrightarrow> code_of (digit_char d) = 48 + d"
  by (simp add: digit_char_def)

lemma digit_val_digit_char: "d < 10 \<Longrightarrow> digit_val 10 (digit_char d) = Some d"
  by (simp add: digit_val_def is_digit_def code_of_digit_char)

lemma is_digit_digit_char: "d < 10 \<Longrightarrow> is_digit (digit_char d)"
  by (simp add: is_digit_def code_of_digit_char)

lemma digit_char_eval:
  "digit_char 0 = CHR ''0''" "digit_char 1 = CHR ''1''" "digit_char 2 = CHR ''2''"
  "digit_char 3 = CHR ''3''" "digit_char 4 = CHR ''4''" "digit_char 5 = CHR ''5''"
  "digit_char 6 = CHR ''6''" "digit_char 7 = CHR ''7''" "digit_char 8 = CHR ''8''"
  "digit_char 9 = CHR ''9''" "digit_char (Suc 0) = CHR ''1''"
  by code_simp+

lemmas show_eval = show_int_def show_nat.simps digit_char_eval

lemma show_nat_digits: "c \<in> set (show_nat n) \<Longrightarrow> is_digit c"
proof (induction n rule: show_nat.induct)
  case (1 n)
  then show ?case
    by (cases "n < 10") (auto simp: show_nat.simps [of n] is_digit_digit_char)
qed

lemma show_nat_not_Nil [simp]: "show_nat n \<noteq> []"
  by (simp add: show_nat.simps [of n])

lemma uint_loop_append:
  "uint_loop b mx n s = Inr m \<Longrightarrow> uint_loop b mx n (s @ t) = uint_loop b mx m t"
  by (induction s arbitrary: n) (auto split: option.splits if_splits)

lemma uint_loop_show_nat: "n \<le> mx \<Longrightarrow> uint_loop 10 mx 0 (show_nat n) = Inr n"
proof (induction n rule: show_nat.induct)
  case (1 n)
  show ?case
  proof (cases "n < 10")
    case True
    with 1 show ?thesis by (simp add: show_nat.simps [of n] digit_val_digit_char)
  next
    case False
    have "n div 10 \<le> mx" using "1.prems" by linarith
    with False "1.IH" have "uint_loop 10 mx 0 (show_nat (n div 10)) = Inr (n div 10)" by simp
    from uint_loop_append [OF this, of "[digit_char (n mod 10)]"] False "1.prems" show ?thesis
      by (simp add: show_nat.simps [of n] digit_val_digit_char)
  qed
qed

lemma uint_loop_bound: "uint_loop b mx n s = Inr m \<Longrightarrow> n \<le> mx \<Longrightarrow> m \<le> mx"
  by (induction s arbitrary: n) (auto split: option.splits if_splits)

lemma ParseUint_show_nat: "n < 2 ^ bits \<Longrightarrow> ParseUint (show_nat n) 10 bits = Inr n"
  by (simp add: ParseUint_def uint_of_def uint_loop_show_nat)

lemma ParseUint_bound: "ParseUint s b bits = Inr n \<Longrightarrow> n < 2 ^ bits"
proof -
  assume "ParseUint s b bits = Inr n"
  then have "uint_loop b (2 ^ bits - 1) 0 s = Inr n"
    by (auto simp: ParseUint_def uint_of_def split: sum.splits if_splits)
  from uint_loop_bound [OF this] have "n \<le> 2 ^ bits - 1" by simp
  moreover have "(0::nat) < 2 ^ bits" by simp
  ultimately show ?thesis by linarith
qed

lemma is_digit_not_sign: "is_digit c \<Longrightarrow> c \<noteq> CHR ''-'' \<and> c \<noteq> CHR ''+''"
  by (auto simp: is_digit_def)

lemma int_of_str_show_int:
  assumes "in_i64 i"
  shows "int_of_str 10 64 (show_int i) = Inr i"
proof (cases "i < 0")
  case True
  with assms have "nat (- i) \<le> 2 ^ 64 - 1" "nat (- i) \<le> 2 ^ 63" by (simp_all add: in_i64_def)
  with True show ?thesis
    by (simp add: int_of_str_def show_int_def Let_def uint_of_def uint_loop_show_nat)
next
  case False
  obtain c cs where s: "show_nat (nat i) = c # cs" by (cases "show_nat (nat i)") auto
  then have "is_digit c" using show_nat_digits [of c "nat i"] by simp
  from is_digit_not_sign [OF this] have ne: "c \<noteq> CHR ''-''" "c \<noteq> CHR ''+''" by auto
  from False assms have b: "nat i \<le> 2 ^ 64 - 1" "nat i < 2 ^ 63"
    by (simp_all add: in_i64_def)
  with uint_loop_show_nat [OF b(1)] False ne show ?thesis
    by (simp add: int_of_str_def show_int_def Let_def uint_of_def s)
qed

lemma ParseInt_show_int: "in_i64 i \<Longrightarrow> ParseInt (show_int i) 10 64 = Inr i"
  by (simp add: ParseInt_def int_of_str_show_int)

lemma Atoi_show_int: "in_i64 i \<Longrightarrow> Atoi (show_int i) = Inr i"
  by (simp add: Atoi_def int_of_str_show_int)

lemma Atoi_show_nat: "n < 2 ^ 63 \<Longrightarrow> Atoi (show_nat n) = Inr (int n)"
  using Atoi_show_int [of "int n"] by (simp add: show_int_def in_i64_def)

lemma int_of_str_bound:
  assumes "int_of_str b 64 s = Inr i"
  shows "in_i64 i"
  using assms
  by (auto simp: int_of_str_def in_i64_def Let_def split: list.splits sum.splits if_splits)

lemma ParseInt_bound: "ParseInt s b 64 = Inr i \<Longrightarrow> in_i64 i"
  by (auto simp: ParseInt_def intro: int_of_str_bound split: sum.splits)

lemma Atoi_bound: "Atoi s = Inr i \<Longrightarrow> in_i64 i"
  by (auto simp: Atoi_def intro: int_of_str_bound split: sum.splits)

lemma show_int_inj: "in_i64 i \<Longrightarrow> in_i64 j \<Longrightarrow> show_int i = show_int j \<Longrightarrow> i = j"
  using Atoi_show_int by (metis sum.inject(2))

lemma show_nat_no_char: "\<not> is_digit c \<Longrightarrow> c \<notin> set (show_nat n)"
  using show_nat_digits by blast

end
