(* ===== verification/Idmap.thy ===== *)
theory Idmap
  imports GoStd
begin

text \<open>
  \<open>shared/idmapset_linux.go\<close>: uid/gid mappings of user namespaces. The entry and set types with
  their operations, the readers of \<open>/etc/subuid\<close> and \<open>/proc/self/uid_map\<close>, the default and current
  maps, and the shifting of a file tree. Ids are \<open>int64\<close>, so sums go through \<open>i64\<close>.
\<close>

section \<open>Entries\<close>

record id_range =
  r_isuid :: bool
  r_isgid :: bool
  r_startid :: int
  r_endid :: int

definition range_contains :: "id_range \<Rightarrow> int \<Rightarrow> bool" where
  "range_contains r x \<longleftrightarrow> r_startid r \<le> x \<and> x \<le> r_endid r"

record idmap_entry =
  e_isuid :: bool
  e_isgid :: bool
  e_hostid :: int
  e_nsid :: int
  e_maprange :: int

definition lxc_line :: "string \<Rightarrow> idmap_entry \<Rightarrow> string" where
  "lxc_line t e =
     t @ '' '' @ show_int (e_nsid e) @ '' '' @ show_int (e_hostid e) @ '' '' @ show_int (e_maprange e)"

definition entry_ToLxcString :: "idmap_entry \<Rightarrow> string list" where
  "entry_ToLxcString e =
     (if e_isuid e \<and> e_isgid e then [lxc_line ''u'' e, lxc_line ''g'' e]
      else if e_isuid e then [lxc_line ''u'' e]
      else [lxc_line ''g'' e])"

definition is_between :: "int \<Rightarrow> int \<Rightarrow> int \<Rightarrow> bool" where
  "is_between x low high \<longleftrightarrow> x \<ge> low \<and> x < high"

definition same_kind :: "idmap_entry \<Rightarrow> idmap_entry \<Rightarrow> bool" where
  "same_kind e i \<longleftrightarrow> (e_isuid e \<and> e_isuid i) \<or> (e_isgid e \<and> e_isgid i)"

definition entry_HostidsIntersect :: "idmap_entry \<Rightarrow> idmap_entry \<Rightarrow> bool" where
  "entry_HostidsIntersect e i \<longleftrightarrow> same_kind e i \<and>
     (is_between (e_hostid e) (e_hostid i) (add64 (e_hostid i) (e_maprange i)) \<or>
      is_between (e_hostid i) (e_hostid e) (add64 (e_hostid e) (e_maprange e)) \<or>
      is_between (add64 (e_hostid e) (e_maprange e)) (e_hostid i) (add64 (e_hostid i) (e_maprange i)) \<or>
      is_between (add64 (e_hostid i) (e_maprange i)) (e_hostid e) (add64 (e_hostid e) (e_maprange e)))"

text \<open>\<open>last\<close> is the code's \<open>start+Maprange-1\<close>.\<close>

definition last_of :: "int \<Rightarrow> int \<Rightarrow> int" where
  "last_of start n = sub64 (add64 start n) 1"

definition entry_Intersects :: "idmap_entry \<Rightarrow> idmap_entry \<Rightarrow> bool" where
  "entry_Intersects e i \<longleftrightarrow> same_kind e i \<and>
     (let eh = e_hostid e; ih = e_hostid i; en = e_nsid e; ins = e_nsid i;
          ehl = last_of eh (e_maprange e); ihl = last_of ih (e_maprange i);
          enl = last_of en (e_maprange e); inl = last_of ins (e_maprange i)
      in is_between eh ih ihl \<or> is_between ih eh ehl \<or> is_between ehl ih ihl \<or> is_between ihl eh ehl \<or>
         is_between en ins inl \<or> is_between ins en enl \<or> is_between enl ins inl \<or> is_between inl en enl)"

definition entry_parse :: "idmap_entry \<Rightarrow> string \<Rightarrow> idmap_entry res" where
  "entry_parse e s =
     (case Split (CHR '':'') s of
        [t, n, h, m] \<Rightarrow>
          ebind (if t = ''u'' then Inr (e\<lparr>e_isuid := True\<rparr>)
                 else if t = ''g'' then Inr (e\<lparr>e_isgid := True\<rparr>)
                 else if t = ''b'' then Inr (e\<lparr>e_isuid := True, e_isgid := True\<rparr>)
                 else Inl (Errorf ''Bad idmap type in %q'' [s])) (\<lambda>e.
          ebind (ParseUint n 10 32) (\<lambda>nsid.
          ebind (ParseUint h 10 32) (\<lambda>hostid.
          ebind (ParseUint m 10 32) (\<lambda>maprange.
            let e = e\<lparr>e_nsid := int nsid, e_hostid := int hostid, e_maprange := int maprange\<rparr>
            in if add64 (e_hostid e) (e_maprange e) < e_hostid e \<or> add64 (e_nsid e) (e_maprange e) < e_nsid e
               then Inl (Errorf ''Bad mapping: id wraparound'' [])
               else Inr e))))
      | _ \<Rightarrow> Inl (Errorf ''Bad idmap: %q'' [s]))"

definition shift_into_ns :: "idmap_entry \<Rightarrow> int \<Rightarrow> int res" where
  "shift_into_ns e x =
     (if x < e_nsid e \<or> x \<ge> add64 (e_nsid e) (e_maprange e)
      then Inl (Errorf ''ID mapping doesn't apply.'' [])
      else Inr (add64 (sub64 x (e_nsid e)) (e_hostid e)))"

definition shift_from_ns :: "idmap_entry \<Rightarrow> int \<Rightarrow> int res" where
  "shift_from_ns e x =
     (if x < e_hostid e \<or> x \<ge> add64 (e_hostid e) (e_maprange e)
      then Inl (Errorf ''ID mapping doesn't apply.'' [])
      else Inr (add64 (sub64 x (e_hostid e)) (e_nsid e)))"

section \<open>Sets\<close>

type_synonym idmap_set = "idmap_entry list"

definition set_less :: "idmap_entry \<Rightarrow> idmap_entry \<Rightarrow> bool" where
  "set_less a b =
     (if e_isuid a \<noteq> e_isuid b then e_isuid a
      else if e_isgid a \<noteq> e_isgid b then e_isgid a
      else e_nsid a < e_nsid b)"

definition set_Intersects :: "idmap_set \<Rightarrow> idmap_entry \<Rightarrow> bool" where
  "set_Intersects m i \<longleftrightarrow> (\<exists>e \<in> set m. entry_Intersects i e)"

definition set_HostidsIntersect :: "idmap_set \<Rightarrow> idmap_entry \<Rightarrow> bool" where
  "set_HostidsIntersect m i \<longleftrightarrow> (\<exists>e \<in> set m. entry_HostidsIntersect i e)"

text \<open>
  The body of the \<open>ValidRanges\<close> loop: the first range of the same kind that ends right before the
  entry is extended in place, otherwise a new range is appended.
\<close>

fun extend_range :: "id_range list \<Rightarrow> idmap_entry \<Rightarrow> id_range list option" where
  "extend_range [] e = None"
| "extend_range (r # rs) e =
     (if e_isuid e = r_isuid r \<and> e_isgid e = r_isgid r \<and> add64 (r_endid r) 1 = e_nsid e
      then Some (r\<lparr>r_endid := add64 (r_endid r) (e_maprange e)\<rparr> # rs)
      else map_option (Cons r) (extend_range rs e))"

definition new_range :: "idmap_entry \<Rightarrow> id_range" where
  "new_range e =
     \<lparr>r_isuid = e_isuid e, r_isgid = e_isgid e, r_startid = e_nsid e,
      r_endid = sub64 (add64 (e_nsid e) (e_maprange e)) 1\<rparr>"

definition add_range :: "id_range list \<Rightarrow> idmap_entry \<Rightarrow> id_range list" where
  "add_range ranges e =
     (case extend_range ranges e of Some rs \<Rightarrow> rs | None \<Rightarrow> ranges @ [new_range e])"

definition ValidRanges :: "(idmap_set \<Rightarrow> idmap_set) \<Rightarrow> idmap_set \<Rightarrow> id_range list" where
  "ValidRanges srt m = foldl add_range [] (srt m)"

text \<open>\<open>Usable\<close> is given the kernel's ranges: it reads them from the current map.\<close>

definition kind_usable :: "(id_range \<Rightarrow> bool) \<Rightarrow> id_range list \<Rightarrow> idmap_entry \<Rightarrow> bool" where
  "kind_usable kind ranges e \<longleftrightarrow>
     (\<exists>r \<in> set ranges. kind r \<and> range_contains r (e_hostid e) \<and>
        range_contains r (last_of (e_hostid e) (e_maprange e)))"

definition entry_Usable :: "id_range list res \<Rightarrow> idmap_entry \<Rightarrow> unit res" where
  "entry_Usable kern e =
     ebind kern (\<lambda>ranges.
       let bad = Inl (Errorf ''The '%s' map can't work in the current user namespace.'' (entry_ToLxcString e))
       in if e_isuid e \<and> \<not> kind_usable r_isuid ranges e then bad
          else if e_isgid e \<and> \<not> kind_usable r_isgid ranges e then bad
          else Inr ())"

fun set_Usable :: "id_range list res \<Rightarrow> idmap_set \<Rightarrow> unit res" where
  "set_Usable kern [] = Inr ()"
| "set_Usable kern (e # m) = ebind (entry_Usable kern e) (\<lambda>_. set_Usable kern m)"

text \<open>
  \<open>AddSafe\<close>: \<open>result\<close> and \<open>added\<close> are the loop's variables; an error leaves the set unchanged.
\<close>

definition lower_part :: "idmap_entry \<Rightarrow> idmap_entry \<Rightarrow> idmap_entry" where
  "lower_part e i = e\<lparr>e_maprange := sub64 (e_nsid i) (e_nsid e)\<rparr>"

definition upper_part :: "idmap_entry \<Rightarrow> idmap_entry \<Rightarrow> idmap_entry" where
  "upper_part e i =
     e\<lparr>e_hostid := add64 (add64 (e_hostid e) (e_maprange (lower_part e i))) (e_maprange i),
       e_nsid := add64 (e_nsid i) (e_maprange i),
       e_maprange := sub64 (sub64 (e_maprange e) (e_maprange i)) (e_maprange (lower_part e i))\<rparr>"

definition pieces :: "idmap_entry \<Rightarrow> idmap_entry \<Rightarrow> idmap_entry list" where
  "pieces e i =
     (if e_maprange (lower_part e i) > 0 then [lower_part e i] else []) @ [i] @
     (if e_maprange (upper_part e i) > 0 then [upper_part e i] else [])"

fun addsafe_loop :: "idmap_entry \<Rightarrow> idmap_entry list \<Rightarrow> bool \<Rightarrow> idmap_set \<Rightarrow> idmap_set res" where
  "addsafe_loop i result added [] = Inr (if \<not> added then result @ [i] else result)"
| "addsafe_loop i result added (e # m) =
     (if \<not> entry_Intersects e i then addsafe_loop i (result @ [e]) added m
      else if entry_HostidsIntersect e i then Inl (Errorf ''can't map the same host ID twice'' [])
      else addsafe_loop i (result @ pieces e i) True m)"

definition AddSafe :: "idmap_set \<Rightarrow> idmap_entry \<Rightarrow> idmap_set res" where
  "AddSafe m i = addsafe_loop i [] False m"

fun add_lines :: "string list \<Rightarrow> string list \<Rightarrow> string list" where
  "add_lines lines [] = lines"
| "add_lines lines (l # ls) =
     (if l @ [CHR 10] \<in> set lines then add_lines lines ls
      else add_lines (lines @ [l @ [CHR 10]]) ls)"

definition set_ToLxcString :: "idmap_set \<Rightarrow> string list" where
  "set_ToLxcString m = foldl (\<lambda>lines e. add_lines lines (entry_ToLxcString e)) [] m"

definition zero_entry :: idmap_entry where
  "zero_entry = \<lparr>e_isuid = False, e_isgid = False, e_hostid = 0, e_nsid = 0, e_maprange = 0\<rparr>"

definition Extend :: "idmap_set \<Rightarrow> idmap_entry \<Rightarrow> idmap_set" where
  "Extend slice e = slice @ [e]"

definition Append :: "idmap_set \<Rightarrow> string \<Rightarrow> idmap_set res" where
  "Append m s =
     ebind (entry_parse zero_entry s) (\<lambda>e.
       if set_Intersects m e then Inl (Errorf ''Conflicting id mapping'' [])
       else Inr (Extend m e))"

text \<open>
  \<open>doShiftIntoNs\<close>: the first entry of the right kind whose shift succeeds decides; \<open>-1\<close> when
  there is none. For a direction other than \<open>in\<close> and \<open>out\<close> no shift runs and \<open>err\<close> stays nil.
\<close>

definition shift_how :: "string \<Rightarrow> idmap_entry \<Rightarrow> int \<Rightarrow> int res" where
  "shift_how how e x =
     (if how = ''in'' then shift_into_ns e x
      else if how = ''out'' then shift_from_ns e x
      else Inr 0)"

definition shift_acc :: "bool \<Rightarrow> string \<Rightarrow> idmap_entry \<Rightarrow> int \<Rightarrow> int \<Rightarrow> int" where
  "shift_acc kind how e x acc =
     (if kind \<and> acc = -1 then (case shift_how how e x of Inl _ \<Rightarrow> acc | Inr y \<Rightarrow> y) else acc)"

fun shift_loop :: "string \<Rightarrow> int \<Rightarrow> int \<Rightarrow> int \<Rightarrow> int \<Rightarrow> idmap_set \<Rightarrow> int \<times> int" where
  "shift_loop how uid gid u g [] = (u, g)"
| "shift_loop how uid gid u g (e # m) =
     shift_loop how uid gid (shift_acc (e_isuid e) how e uid u) (shift_acc (e_isgid e) how e gid g) m"

definition doShiftIntoNs :: "idmap_set \<Rightarrow> int \<Rightarrow> int \<Rightarrow> string \<Rightarrow> int \<times> int" where
  "doShiftIntoNs m uid gid how = shift_loop how uid gid (-1) (-1) m"

definition ShiftIntoNs :: "idmap_set \<Rightarrow> int \<Rightarrow> int \<Rightarrow> int \<times> int" where
  "ShiftIntoNs m uid gid = doShiftIntoNs m uid gid ''in''"

definition ShiftFromNs :: "idmap_set \<Rightarrow> int \<Rightarrow> int \<Rightarrow> int \<times> int" where
  "ShiftFromNs m uid gid = doShiftIntoNs m uid gid ''out''"

section \<open>Shifting a file tree\<close>

text \<open>
  The tree is the list of its files in the order \<open>filepath.Walk\<close> visits them, each with its path,
  owner and group as \<open>lstat\<close> reports them. \<open>chown\<close> takes a C \<open>int\<close> that the kernel reads as an
  unsigned 32-bit id and leaves an id alone when it is \<open>(uid_t) -1\<close>. The outside world is a record:
  resolving the symbolic links above the directory, and whether the chown of a file and the
  rewriting of its access control list succeed.
\<close>

type_synonym file_tree = "(string \<times> int \<times> int) list"

record shift_io =
  io_resolve :: "string \<Rightarrow> string res"
  io_chown :: "string \<Rightarrow> unit res"
  io_acl :: "string \<Rightarrow> unit res"

definition chown_id :: "int \<Rightarrow> int \<Rightarrow> int" where
  "chown_id new old = (let n = new mod 2 ^ 32 in if n = 2 ^ 32 - 1 then old else n)"

definition convert_file ::
  "shift_io \<Rightarrow> idmap_set \<Rightarrow> bool \<Rightarrow> string \<Rightarrow> string \<times> int \<times> int \<Rightarrow> (string \<times> int \<times> int) \<times> unit res" where
  "convert_file io m testmode how f =
     (let (p, uid, gid) = f;
          (newuid, newgid) =
            (if how = ''in'' then ShiftIntoNs m uid gid
             else if how = ''out'' then ShiftFromNs m uid gid
             else (0, 0))
      in if testmode then (f, Inr ())
         else case io_chown io p of
                Inl e \<Rightarrow> (f, Inl e)
              | Inr _ \<Rightarrow> ((p, chown_id newuid uid, chown_id newgid gid), io_acl io p))"

text \<open>The walk stops at the first error; the files already converted stay converted.\<close>

fun walk_convert ::
  "shift_io \<Rightarrow> idmap_set \<Rightarrow> bool \<Rightarrow> string \<Rightarrow> file_tree \<Rightarrow> file_tree \<times> unit res" where
  "walk_convert io m testmode how [] = ([], Inr ())"
| "walk_convert io m testmode how (f # fs) =
     (case convert_file io m testmode how f of
        (f', Inl e) \<Rightarrow> (f' # fs, Inl e)
      | (f', Inr _) \<Rightarrow> (let (fs', r) = walk_convert io m testmode how fs in (f' # fs', r)))"

definition doUidshiftIntoContainer ::
  "shift_io \<Rightarrow> idmap_set \<Rightarrow> string \<Rightarrow> bool \<Rightarrow> string \<Rightarrow> file_tree \<Rightarrow> file_tree \<times> unit res" where
  "doUidshiftIntoContainer io m dir testmode how fs =
     (case io_resolve io dir of
        Inl e \<Rightarrow> (fs, Inl e)
      | Inr dir' \<Rightarrow>
          if fs = [] then (fs, Inl (Errorf ''No such file or directory: %q'' [dir']))
          else walk_convert io m testmode how fs)"

definition UidshiftIntoContainer ::
  "shift_io \<Rightarrow> idmap_set \<Rightarrow> string \<Rightarrow> bool \<Rightarrow> file_tree \<Rightarrow> file_tree \<times> unit res" where
  "UidshiftIntoContainer io m dir testmode fs = doUidshiftIntoContainer io m dir testmode ''in'' fs"

definition UidshiftFromContainer ::
  "shift_io \<Rightarrow> idmap_set \<Rightarrow> string \<Rightarrow> bool \<Rightarrow> file_tree \<Rightarrow> file_tree \<times> unit res" where
  "UidshiftFromContainer io m dir testmode fs = doUidshiftIntoContainer io m dir testmode ''out'' fs"

definition ShiftRootfs :: "shift_io \<Rightarrow> idmap_set \<Rightarrow> string \<Rightarrow> file_tree \<Rightarrow> file_tree \<times> unit res" where
  "ShiftRootfs io m p fs = doUidshiftIntoContainer io m p False ''in'' fs"

definition UnshiftRootfs :: "shift_io \<Rightarrow> idmap_set \<Rightarrow> string \<Rightarrow> file_tree \<Rightarrow> file_tree \<times> unit res" where
  "UnshiftRootfs io m p fs = doUidshiftIntoContainer io m p False ''out'' fs"

definition ShiftFile :: "shift_io \<Rightarrow> idmap_set \<Rightarrow> string \<Rightarrow> file_tree \<Rightarrow> file_tree \<times> unit res" where
  "ShiftFile io m p fs = ShiftRootfs io m p fs"

section \<open>Reading the host's allocations\<close>

text \<open>
  A file is missing, fails to open, or yields the lines \<open>bufio.Scanner\<close> returns for it.
\<close>

datatype host_file = NoFile | OpenFails string | FileLines "string list"

type_synonym host_fs = "string \<Rightarrow> host_file"

definition PathExists :: "host_fs \<Rightarrow> string \<Rightarrow> bool" where
  "PathExists fs p \<longleftrightarrow> fs p \<noteq> NoFile"

definition read_lines :: "host_fs \<Rightarrow> string \<Rightarrow> string list res" where
  "read_lines fs p =
     (case fs p of
        NoFile \<Rightarrow> Inl (OsError ''ENOENT'')
      | OpenFails e \<Rightarrow> Inl (OsError e)
      | FileLines ls \<Rightarrow> Inr ls)"

definition uncomment :: "string \<Rightarrow> string" where
  "uncomment l = hd (Split (CHR ''#'') l)"

fun shadow_lines :: "string \<Rightarrow> string \<Rightarrow> string list \<Rightarrow> (int \<times> int) list res" where
  "shadow_lines fname username [] = Inr []"
| "shadow_lines fname username (l # ls) =
     (if uncomment l = [] then shadow_lines fname username ls
      else let s = Split (CHR '':'') (uncomment l)
           in if length s < 3 then Inl (Errorf ''Unexpected values in %q: %q'' (fname # s))
              else ebind (shadow_lines fname username ls) (\<lambda>rest.
                if EqualFold (s ! 0) username then
                  (case ParseUint (s ! 1) 10 32 of
                     Inl _ \<Rightarrow> Inr rest
                   | Inr start \<Rightarrow>
                      (case ParseUint (s ! 2) 10 32 of
                         Inl _ \<Rightarrow> Inr rest
                       | Inr sz \<Rightarrow> Inr ((int start, int sz) # rest)))
                else Inr rest))"

definition getFromShadow :: "host_fs \<Rightarrow> string \<Rightarrow> string \<Rightarrow> (int \<times> int) list res" where
  "getFromShadow fs fname username =
     ebind (read_lines fs fname) (\<lambda>ls.
     ebind (shadow_lines fname username ls) (\<lambda>entries.
       if entries = [] then Inl (Errorf ''User %q has no %ss.'' [username, last (Split (CHR ''/'') fname)])
       else Inr entries))"

fun proc_lines :: "string \<Rightarrow> string list \<Rightarrow> (int \<times> int \<times> int) list res" where
  "proc_lines fname [] = Inr []"
| "proc_lines fname (l # ls) =
     (if uncomment l = [] then proc_lines fname ls
      else let s = Fields (uncomment l)
           in if length s < 3 then Inl (Errorf ''Unexpected values in %q: %q'' (fname # s))
              else ebind (proc_lines fname ls) (\<lambda>rest.
                (case ParseUint (s ! 0) 10 32 of
                   Inl _ \<Rightarrow> Inr rest
                 | Inr start \<Rightarrow>
                    (case ParseUint (s ! 1) 10 32 of
                       Inl _ \<Rightarrow> Inr rest
                     | Inr host \<Rightarrow>
                        (case ParseUint (s ! 2) 10 32 of
                           Inl _ \<Rightarrow> Inr rest
                         | Inr sz \<Rightarrow> Inr ((int start, int host, int sz) # rest))))))"

definition getFromProc :: "host_fs \<Rightarrow> string \<Rightarrow> (int \<times> int \<times> int) list res" where
  "getFromProc fs fname =
     ebind (read_lines fs fname) (\<lambda>ls.
     ebind (proc_lines fname ls) (\<lambda>entries.
       if entries = [] then Inl (Errorf ''Namespace doesn't have any map set'' [])
       else Inr entries))"

definition mk_entry :: "bool \<Rightarrow> bool \<Rightarrow> int \<Rightarrow> int \<Rightarrow> int \<Rightarrow> idmap_entry" where
  "mk_entry u g nsid hostid maprange =
     \<lparr>e_isuid = u, e_isgid = g, e_hostid = hostid, e_nsid = nsid, e_maprange = maprange\<rparr>"

definition current_half :: "host_fs \<Rightarrow> string \<Rightarrow> bool \<Rightarrow> bool \<Rightarrow> idmap_set res" where
  "current_half fs path u g =
     (if PathExists fs path
      then ebind (getFromProc fs path) (\<lambda>entries.
             Inr (map (\<lambda>(ns, host, n). mk_entry u g ns host n) entries))
      else Inr [mk_entry u g 0 0 0])"

definition CurrentIdmapSet :: "host_fs \<Rightarrow> idmap_set res" where
  "CurrentIdmapSet fs =
     ebind (current_half fs ''/proc/self/uid_map'' True False) (\<lambda>us.
     ebind (current_half fs ''/proc/self/gid_map'' False True) (\<lambda>gs.
       Inr (us @ gs)))"

definition fallback_map :: idmap_set where
  "fallback_map = [mk_entry True True 0 1000000 1000000000]"

definition fullKernelRanges :: "id_range list" where
  "fullKernelRanges =
     [\<lparr>r_isuid = True, r_isgid = False, r_startid = 0, r_endid = 4294967294\<rparr>,
      \<lparr>r_isuid = False, r_isgid = True, r_startid = 0, r_endid = 4294967294\<rparr>]"

text \<open>The first shadow entry that is large enough, as a one-element list.\<close>

fun shadow_pick :: "bool \<Rightarrow> bool \<Rightarrow> (int \<times> int) list \<Rightarrow> idmap_set" where
  "shadow_pick u g [] = []"
| "shadow_pick u g ((start, sz) # es) =
     (if sz < 65536 then shadow_pick u g es else [mk_entry u g 0 start sz])"

text \<open>
  The search through the kernel ranges. The loop variable is a pointer, so moving the start of a
  range up to 100000 is visible to the second search: the ranges are returned with the pick.
\<close>

definition raise_start :: "id_range \<Rightarrow> id_range" where
  "raise_start r = (if r_startid r < 100000 then r\<lparr>r_startid := 100000\<rparr> else r)"

fun kernel_pick :: "bool \<Rightarrow> id_range list \<Rightarrow> id_range list \<times> idmap_set" where
  "kernel_pick uid [] = ([], [])"
| "kernel_pick uid (r # rs) =
     (if \<not> (if uid then r_isuid r else r_isgid r) \<or> r_endid r < 100000
      then (let (rs', m) = kernel_pick uid rs in (r # rs', m))
      else let r' = raise_start r
           in if sub64 (r_endid r') (r_startid r') < 65536
              then (let (rs', m) = kernel_pick uid rs in (r' # rs', m))
              else (r' # rs, [mk_entry uid (\<not> uid) 0 (r_startid r')
                                (add64 (sub64 (r_endid r') (r_startid r')) 1)]))"

text \<open>\<open>tools\<close> says whether newuidmap and newgidmap are both installed.\<close>

definition DefaultIdmapSet :: "(idmap_set \<Rightarrow> idmap_set) \<Rightarrow> bool \<Rightarrow> host_fs \<Rightarrow> idmap_set res" where
  "DefaultIdmapSet srt tools fs =
     (if tools \<and> PathExists fs ''/etc/subuid'' \<and> PathExists fs ''/etc/subgid''
      then ebind (getFromShadow fs ''/etc/subuid'' ''root'') (\<lambda>us.
           ebind (getFromShadow fs ''/etc/subgid'' ''root'') (\<lambda>gs.
             Inr (shadow_pick True False us @ shadow_pick False True gs)))
      else case CurrentIdmapSet fs of
             Inl _ \<Rightarrow> Inr fallback_map
           | Inr kmap \<Rightarrow>
               (let ranges = ValidRanges srt kmap
                in if ranges = fullKernelRanges then Inr fallback_map
                   else let (ranges', us) = kernel_pick True ranges;
                            (_, gs) = kernel_pick False ranges'
                        in Inr (us @ gs)))"

definition kernelRanges :: "(idmap_set \<Rightarrow> idmap_set) \<Rightarrow> host_fs \<Rightarrow> id_range list res" where
  "kernelRanges srt fs = ebind (CurrentIdmapSet fs) (\<lambda>m. Inr (ValidRanges srt m))"

end
