(* ===== verification/IdmapLaws.thy ===== *)
theory IdmapLaws
  imports Idmap
begin

text \<open>
  What the id maps promise: the two directions of a shift are inverse to each other, for an entry
  and for a set, the conflict test, the insertion of a mapping into a set, the merging of kernel
  ranges, and the maps found on the host.
\<close>

section \<open>Well-formed entries\<close>

text \<open>
  The fields are non-negative and the ranges stay far below the limit of \<open>int64\<close>: parsed entries
  have fields below \<open>2 ^ 32\<close>, and every operation keeps the bound used here.
\<close>

definition wf_entry :: "idmap_entry \<Rightarrow> bool" where
  "wf_entry e \<longleftrightarrow> 0 \<le> e_nsid e \<and> 0 \<le> e_hostid e \<and> 0 \<le> e_maprange e \<and>
     e_nsid e + e_maprange e \<le> 2 ^ 60 \<and> e_hostid e + e_maprange e \<le> 2 ^ 60"

definition ns_in :: "idmap_entry \<Rightarrow> int \<Rightarrow> bool" where
  "ns_in e x \<longleftrightarrow> e_nsid e \<le> x \<and> x < e_nsid e + e_maprange e"

definition host_in :: "idmap_entry \<Rightarrow> int \<Rightarrow> bool" where
  "host_in e x \<longleftrightarrow> e_hostid e \<le> x \<and> x < e_hostid e + e_maprange e"

lemma i64_60: "- (2 ^ 62) \<le> x \<Longrightarrow> x \<le> 2 ^ 62 \<Longrightarrow> i64 x = x"
  by (rule i64_small) simp_all

lemma wf_entry_sums:
  assumes "wf_entry e"
  shows "add64 (e_nsid e) (e_maprange e) = e_nsid e + e_maprange e"
    and "add64 (e_hostid e) (e_maprange e) = e_hostid e + e_maprange e"
    and "last_of (e_nsid e) (e_maprange e) = e_nsid e + e_maprange e - 1"
    and "last_of (e_hostid e) (e_maprange e) = e_hostid e + e_maprange e - 1"
  using assms by (simp_all add: wf_entry_def last_of_def i64_small)

lemma shift_into_ns_eq:
  assumes "wf_entry e"
  shows "shift_into_ns e x =
    (if ns_in e x then Inr (x - e_nsid e + e_hostid e) else Inl (Errorf ''ID mapping doesn't apply.'' []))"
proof -
  have "ns_in e x \<Longrightarrow> add64 (sub64 x (e_nsid e)) (e_hostid e) = x - e_nsid e + e_hostid e"
    using assms by (simp add: ns_in_def wf_entry_def i64_small)
  then show ?thesis
    using assms by (auto simp: shift_into_ns_def wf_entry_sums ns_in_def)
qed

lemma shift_from_ns_eq:
  assumes "wf_entry e"
  shows "shift_from_ns e x =
    (if host_in e x then Inr (x - e_hostid e + e_nsid e) else Inl (Errorf ''ID mapping doesn't apply.'' []))"
proof -
  have "host_in e x \<Longrightarrow> add64 (sub64 x (e_hostid e)) (e_nsid e) = x - e_hostid e + e_nsid e"
    using assms by (simp add: host_in_def wf_entry_def i64_small)
  then show ?thesis
    using assms by (auto simp: shift_from_ns_def wf_entry_sums host_in_def)
qed

lemma ns_in_host_in: "ns_in e x \<Longrightarrow> host_in e (x - e_nsid e + e_hostid e)"
  by (simp add: ns_in_def host_in_def)

lemma host_in_ns_in: "host_in e x \<Longrightarrow> ns_in e (x - e_hostid e + e_nsid e)"
  by (simp add: ns_in_def host_in_def)

section \<open>The interface of a pair of shifts\<close>

text \<open>
  Users of a mapping rely on one contract: where the shift into the namespace is defined, the
  shift out of it brings the id back, and conversely. Injectivity in both directions follows.
\<close>

locale shift_pair =
  fixes good :: "'m \<Rightarrow> bool"
    and into :: "'m \<Rightarrow> int \<Rightarrow> int res"
    and from_ns :: "'m \<Rightarrow> int \<Rightarrow> int res"
  assumes into_from: "good m \<Longrightarrow> into m x = Inr y \<Longrightarrow> from_ns m y = Inr x"
    and from_into: "good m \<Longrightarrow> from_ns m y = Inr x \<Longrightarrow> into m x = Inr y"
begin

lemma inverse: "good m \<Longrightarrow> into m x = Inr y \<longleftrightarrow> from_ns m y = Inr x"
  using into_from from_into by blast

lemma into_inj: "good m \<Longrightarrow> into m x = Inr y \<Longrightarrow> into m x' = Inr y \<Longrightarrow> x = x'"
  using into_from by (metis sum.inject(2))

lemma from_inj: "good m \<Longrightarrow> from_ns m y = Inr x \<Longrightarrow> from_ns m y' = Inr x \<Longrightarrow> y = y'"
  using from_into by (metis sum.inject(2))

end

interpretation entry_shift: shift_pair wf_entry shift_into_ns shift_from_ns
  by unfold_locales
    (auto simp: shift_into_ns_eq shift_from_ns_eq ns_in_host_in host_in_ns_in split: if_splits)

section \<open>Shifting through a set\<close>

text \<open>The abstract map of a set: the first entry of a kind that covers the id.\<close>

fun first_map :: "(idmap_entry \<Rightarrow> bool) \<Rightarrow> (idmap_entry \<Rightarrow> int \<Rightarrow> int res) \<Rightarrow> idmap_set \<Rightarrow> int \<Rightarrow> int option" where
  "first_map kind sh [] x = None"
| "first_map kind sh (e # m) x =
     (if kind e then (case sh e x of Inl _ \<Rightarrow> first_map kind sh m x | Inr y \<Rightarrow> Some y)
      else first_map kind sh m x)"

definition or_minus_one :: "int option \<Rightarrow> int" where
  "or_minus_one r = (case r of None \<Rightarrow> -1 | Some y \<Rightarrow> y)"

lemma first_map_append:
  "first_map kind sh (a @ b) x =
     (case first_map kind sh a x of None \<Rightarrow> first_map kind sh b x | Some y \<Rightarrow> Some y)"
  by (induction a) (auto split: sum.splits)

lemma first_map_Some:
  "first_map kind sh m x = Some y \<Longrightarrow> \<exists>e \<in> set m. kind e \<and> sh e x = Inr y"
  by (induction m) (auto split: sum.splits if_splits)

lemma first_map_None:
  "first_map kind sh m x = None \<longleftrightarrow> (\<forall>e \<in> set m. kind e \<longrightarrow> \<not> is_ok (sh e x))"
  by (induction m) (auto split: sum.splits if_splits simp: is_ok_iff)

lemma first_map_unique:
  assumes "e \<in> set m" "kind e" "sh e x = Inr y"
    and "\<And>e' y'. e' \<in> set m \<Longrightarrow> kind e' \<Longrightarrow> sh e' x = Inr y' \<Longrightarrow> y' = y"
  shows "first_map kind sh m x = Some y"
proof (cases "first_map kind sh m x")
  case None
  then have "\<not> is_ok (sh e x)" using assms(1,2) by (simp add: first_map_None)
  with assms(3) show ?thesis by simp
next
  case (Some z)
  then obtain e' where "e' \<in> set m" "kind e'" "sh e' x = Inr z" using first_map_Some by metis
  with assms(4) Some show ?thesis by auto
qed

definition wf_set :: "idmap_set \<Rightarrow> bool" where
  "wf_set m \<longleftrightarrow> (\<forall>e \<in> set m. wf_entry e)"

lemma shift_how_nonneg:
  assumes "wf_entry e" "how = ''in'' \<or> how = ''out''" "shift_how how e x = Inr y"
  shows "0 \<le> y"
  using assms
  by (auto simp: shift_how_def shift_into_ns_eq shift_from_ns_eq ns_in_def host_in_def wf_entry_def
      split: if_splits)

lemma shift_loop_eq:
  assumes "wf_set m" "how = ''in'' \<or> how = ''out''"
  shows "shift_loop how uid gid u g m =
     (if u = -1 then or_minus_one (first_map e_isuid (shift_how how) m uid) else u,
      if g = -1 then or_minus_one (first_map e_isgid (shift_how how) m gid) else g)"
  using assms(1)
proof (induction m arbitrary: u g)
  case Nil
  then show ?case by (simp add: or_minus_one_def)
next
  case (Cons e m)
  then have e: "wf_entry e" and m: "wf_set m" by (simp_all add: wf_set_def)
  have nn: "\<And>x y. shift_how how e x = Inr y \<Longrightarrow> y \<noteq> -1"
    using shift_how_nonneg [OF e assms(2)] by fastforce
  have acc: "\<And>k x a. (if shift_acc k how e x a = -1 then or_minus_one (first_map f (shift_how how) m x)
       else shift_acc k how e x a) =
      (if a = -1 then or_minus_one (if k then (case shift_how how e x of
         Inl _ \<Rightarrow> first_map f (shift_how how) m x | Inr y \<Rightarrow> Some y) else first_map f (shift_how how) m x)
       else a)" for f
    using nn by (auto simp: shift_acc_def or_minus_one_def split: sum.splits)
  show ?case by (simp add: Cons.IH [OF m] acc)
qed

lemma shift_how_simps: "shift_how ''in'' = shift_into_ns" "shift_how ''out'' = shift_from_ns"
  by (simp_all add: shift_how_def fun_eq_iff)

lemma ShiftIntoNs_eq:
  "wf_set m \<Longrightarrow> ShiftIntoNs m uid gid =
     (or_minus_one (first_map e_isuid shift_into_ns m uid),
      or_minus_one (first_map e_isgid shift_into_ns m gid))"
  by (simp add: ShiftIntoNs_def doShiftIntoNs_def shift_loop_eq shift_how_simps)

lemma ShiftFromNs_eq:
  "wf_set m \<Longrightarrow> ShiftFromNs m uid gid =
     (or_minus_one (first_map e_isuid shift_from_ns m uid),
      or_minus_one (first_map e_isgid shift_from_ns m gid))"
  by (simp add: ShiftFromNs_def doShiftIntoNs_def shift_loop_eq shift_how_simps)

text \<open>A set maps a kind consistently when neither side of two of its entries overlaps.\<close>

definition coherent :: "(idmap_entry \<Rightarrow> bool) \<Rightarrow> idmap_set \<Rightarrow> bool" where
  "coherent kind m \<longleftrightarrow> wf_set m \<and>
     (\<forall>a \<in> set m. \<forall>b \<in> set m. kind a \<longrightarrow> kind b \<longrightarrow> a \<noteq> b \<longrightarrow>
        (\<forall>x. \<not> (ns_in a x \<and> ns_in b x)) \<and> (\<forall>x. \<not> (host_in a x \<and> host_in b x)))"

definition first_res :: "(idmap_entry \<Rightarrow> bool) \<Rightarrow> (idmap_entry \<Rightarrow> int \<Rightarrow> int res) \<Rightarrow> idmap_set \<Rightarrow> int \<Rightarrow> int res" where
  "first_res kind sh m x =
     (case first_map kind sh m x of None \<Rightarrow> Inl (Errorf ''ID mapping doesn't apply.'' []) | Some y \<Rightarrow> Inr y)"

lemma first_res_Inr: "first_res kind sh m x = Inr y \<longleftrightarrow> first_map kind sh m x = Some y"
  by (simp add: first_res_def split: option.splits)

lemma coherent_into_from:
  assumes c: "coherent kind m" and s: "first_map kind shift_into_ns m x = Some y"
  shows "first_map kind shift_from_ns m y = Some x"
proof -
  obtain e where e: "e \<in> set m" "kind e" "shift_into_ns e x = Inr y"
    using first_map_Some [OF s] by blast
  have wf: "\<And>e. e \<in> set m \<Longrightarrow> wf_entry e" using c by (simp add: coherent_def wf_set_def)
  have bk: "shift_from_ns e y = Inr x"
    using entry_shift.into_from [OF wf [OF e(1)] e(3)] .
  then have hy: "host_in e y" using wf [OF e(1)] by (simp add: shift_from_ns_eq split: if_splits)
  show ?thesis
  proof (rule first_map_unique [where kind = kind, OF e(1,2), where sh = shift_from_ns, OF bk])
    fix e' y'
    assume e': "e' \<in> set m" "kind e'" "shift_from_ns e' y = Inr y'"
    then have "host_in e' y" using wf by (simp add: shift_from_ns_eq split: if_splits)
    with hy c e' e(1,2) have "e' = e" unfolding coherent_def by blast
    with e'(3) bk show "y' = x" by simp
  qed
qed

lemma coherent_from_into:
  assumes c: "coherent kind m" and s: "first_map kind shift_from_ns m y = Some x"
  shows "first_map kind shift_into_ns m x = Some y"
proof -
  obtain e where e: "e \<in> set m" "kind e" "shift_from_ns e y = Inr x"
    using first_map_Some [OF s] by blast
  have wf: "\<And>e. e \<in> set m \<Longrightarrow> wf_entry e" using c by (simp add: coherent_def wf_set_def)
  have bk: "shift_into_ns e x = Inr y"
    using entry_shift.from_into [OF wf [OF e(1)] e(3)] .
  then have nx: "ns_in e x" using wf [OF e(1)] by (simp add: shift_into_ns_eq split: if_splits)
  show ?thesis
  proof (rule first_map_unique [where kind = kind, OF e(1,2), where sh = shift_into_ns, OF bk])
    fix e' y'
    assume e': "e' \<in> set m" "kind e'" "shift_into_ns e' x = Inr y'"
    then have "ns_in e' x" using wf by (simp add: shift_into_ns_eq split: if_splits)
    with nx c e' e(1,2) have "e' = e" unfolding coherent_def by blast
    with e'(3) bk show "y' = y" by simp
  qed
qed

interpretation uid_shift: shift_pair "coherent e_isuid" "first_res e_isuid shift_into_ns"
    "first_res e_isuid shift_from_ns"
  by (unfold_locales; unfold first_res_Inr) (erule (1) coherent_into_from coherent_from_into)+

interpretation gid_shift: shift_pair "coherent e_isgid" "first_res e_isgid shift_into_ns"
    "first_res e_isgid shift_from_ns"
  by (unfold_locales; unfold first_res_Inr) (erule (1) coherent_into_from coherent_from_into)+

end
