(* ===== verification/IdmapEdit.thy ===== *)
theory IdmapEdit
  imports IdmapLaws
begin

text \<open>
  Conflicts between mappings and the insertion of a mapping into a set: when \<open>Intersects\<close> is an
  overlap test, and \<open>AddSafe\<close> as an update of the map the set denotes.
\<close>

section \<open>The conflict test\<close>

definition thick :: "idmap_entry \<Rightarrow> bool" where
  "thick e \<longleftrightarrow> 2 \<le> e_maprange e"

definition ns_overlap :: "idmap_entry \<Rightarrow> idmap_entry \<Rightarrow> bool" where
  "ns_overlap e i \<longleftrightarrow> e_nsid e < e_nsid i + e_maprange i \<and> e_nsid i < e_nsid e + e_maprange e"

definition host_overlap :: "idmap_entry \<Rightarrow> idmap_entry \<Rightarrow> bool" where
  "host_overlap e i \<longleftrightarrow> e_hostid e < e_hostid i + e_maprange i \<and> e_hostid i < e_hostid e + e_maprange e"

lemma ns_overlapI: "ns_in e x \<Longrightarrow> ns_in i x \<Longrightarrow> ns_overlap e i"
  by (simp add: ns_in_def ns_overlap_def)

lemma entry_Intersects_thick:
  assumes "wf_entry e" "wf_entry i" "thick e" "thick i"
  shows "entry_Intersects e i \<longleftrightarrow> same_kind e i \<and> (host_overlap e i \<or> ns_overlap e i)"
  using assms(3,4)
  unfolding entry_Intersects_def Let_def wf_entry_sums [OF assms(1)] wf_entry_sums [OF assms(2)]
    is_between_def host_overlap_def ns_overlap_def thick_def
  by arith

lemma entry_Intersects_single:
  assumes "wf_entry e" "wf_entry i" "e_maprange e = 1" "e_maprange i = 1"
  shows "\<not> entry_Intersects e i"
  using assms(3,4)
  unfolding entry_Intersects_def Let_def wf_entry_sums [OF assms(1)] wf_entry_sums [OF assms(2)]
    is_between_def
  by arith

text \<open>\<open>HostidsIntersect\<close> compares the ranges with one id added at the end.\<close>

lemma entry_HostidsIntersect_eq:
  assumes "wf_entry e" "wf_entry i" "0 < e_maprange e" "0 < e_maprange i"
  shows "entry_HostidsIntersect e i \<longleftrightarrow> same_kind e i \<and>
    e_hostid e \<le> e_hostid i + e_maprange i \<and> e_hostid i \<le> e_hostid e + e_maprange e"
  using assms(3,4)
  unfolding entry_HostidsIntersect_def wf_entry_sums [OF assms(1)] wf_entry_sums [OF assms(2)]
    is_between_def
  by arith

lemma no_HostidsIntersect:
  assumes "wf_entry e" "wf_entry i" "same_kind e i" "\<not> entry_HostidsIntersect e i"
  shows "\<not> host_overlap e i"
  using assms(3,4)
  unfolding entry_HostidsIntersect_def wf_entry_sums [OF assms(1)] wf_entry_sums [OF assms(2)]
    is_between_def host_overlap_def
  by arith

section \<open>The loop of AddSafe\<close>

definition split_entry :: "idmap_entry \<Rightarrow> idmap_entry \<Rightarrow> idmap_entry list" where
  "split_entry i e = (if entry_Intersects e i then pieces e i else [e])"

lemma split_entry_simps [simp]:
  "entry_Intersects e i \<Longrightarrow> split_entry i e = pieces e i"
  "\<not> entry_Intersects e i \<Longrightarrow> split_entry i e = [e]"
  by (simp_all add: split_entry_def)

lemma addsafe_loop_eq:
  "addsafe_loop i result added m =
     (if \<exists>e \<in> set m. entry_Intersects e i \<and> entry_HostidsIntersect e i
      then Inl (Errorf ''can't map the same host ID twice'' [])
      else Inr (result @ concat (map (split_entry i) m) @
             (if added \<or> (\<exists>e \<in> set m. entry_Intersects e i) then [] else [i])))"
  by (induction i result added m rule: addsafe_loop.induct) auto

lemma AddSafe_eq:
  "AddSafe m i =
     (if \<exists>e \<in> set m. entry_Intersects e i \<and> entry_HostidsIntersect e i
      then Inl (Errorf ''can't map the same host ID twice'' [])
      else Inr (concat (map (split_entry i) m) @
             (if \<exists>e \<in> set m. entry_Intersects e i then [] else [i])))"
  by (simp add: AddSafe_def addsafe_loop_eq)

text \<open>The parts of a split entry keep its kind and its translation.\<close>

lemma lower_part_range: "wf_entry e \<Longrightarrow> wf_entry i \<Longrightarrow> e_maprange (lower_part e i) = e_nsid i - e_nsid e"
  by (simp add: lower_part_def wf_entry_def i64_small)

lemma upper_part_fields:
  assumes "wf_entry e" "wf_entry i"
  shows "e_hostid (upper_part e i) = e_hostid e + (e_nsid i - e_nsid e) + e_maprange i"
    and "e_nsid (upper_part e i) = e_nsid i + e_maprange i"
    and "e_maprange (upper_part e i) = e_nsid e + e_maprange e - (e_nsid i + e_maprange i)"
  using assms by (simp_all add: upper_part_def lower_part_range) (simp_all add: wf_entry_def i64_small)

lemma lower_part_other [simp]:
  "e_isuid (lower_part e i) = e_isuid e" "e_isgid (lower_part e i) = e_isgid e"
  "e_nsid (lower_part e i) = e_nsid e" "e_hostid (lower_part e i) = e_hostid e"
  by (simp_all add: lower_part_def)

lemma upper_part_other [simp]:
  "e_isuid (upper_part e i) = e_isuid e" "e_isgid (upper_part e i) = e_isgid e"
  by (simp_all add: upper_part_def)

lemma wf_lower_part:
  assumes "wf_entry e" "wf_entry i" "ns_overlap e i" "e_maprange (lower_part e i) > 0"
  shows "wf_entry (lower_part e i)"
  using assms by (simp add: wf_entry_def [of "lower_part e i"] lower_part_range)
    (simp add: wf_entry_def ns_overlap_def)

lemma wf_upper_part:
  assumes "wf_entry e" "wf_entry i" "ns_overlap e i" "e_maprange (upper_part e i) > 0"
  shows "wf_entry (upper_part e i)"
  using assms by (simp add: wf_entry_def [of "upper_part e i"] upper_part_fields)
    (simp add: wf_entry_def ns_overlap_def)

lemma wf_pieces:
  "wf_entry e \<Longrightarrow> wf_entry i \<Longrightarrow> ns_overlap e i \<Longrightarrow> wf_set (pieces e i)"
  by (auto simp: wf_set_def pieces_def wf_lower_part wf_upper_part)

lemma ns_in_lower_part:
  "wf_entry e \<Longrightarrow> wf_entry i \<Longrightarrow> ns_overlap e i \<Longrightarrow> ns_in (lower_part e i) x \<longleftrightarrow> ns_in e x \<and> x < e_nsid i"
  by (auto simp: ns_in_def lower_part_range ns_overlap_def)

lemma ns_in_upper_part:
  "wf_entry e \<Longrightarrow> wf_entry i \<Longrightarrow> ns_overlap e i \<Longrightarrow>
     ns_in (upper_part e i) x \<longleftrightarrow> ns_in e x \<and> e_nsid i + e_maprange i \<le> x"
  by (auto simp: ns_in_def upper_part_fields ns_overlap_def)

section \<open>AddSafe updates the denoted map\<close>

definition into_map :: "(idmap_entry \<Rightarrow> bool) \<Rightarrow> idmap_set \<Rightarrow> int \<Rightarrow> int option" where
  "into_map kind m x = first_map kind shift_into_ns m x"

lemma into_map_append:
  "into_map kind (a @ b) x = (case into_map kind a x of None \<Rightarrow> into_map kind b x | Some y \<Rightarrow> Some y)"
  unfolding into_map_def by (rule first_map_append)

lemma into_map_Nil [simp]: "into_map kind [] x = None"
  by (simp add: into_map_def)

lemma into_map_Cons:
  "wf_entry e \<Longrightarrow> into_map kind (e # m) x =
     (if kind e \<and> ns_in e x then Some (x - e_nsid e + e_hostid e) else into_map kind m x)"
  by (simp add: into_map_def shift_into_ns_eq)

text \<open>A choice of kind that reads the flags only, as \<open>e_isuid\<close> and \<open>e_isgid\<close> do.\<close>

definition flag_kind :: "(idmap_entry \<Rightarrow> bool) \<Rightarrow> bool" where
  "flag_kind kind \<longleftrightarrow> kind = e_isuid \<or> kind = e_isgid"

lemma flag_kind_parts:
  "flag_kind kind \<Longrightarrow> kind (lower_part e i) = kind e"
  "flag_kind kind \<Longrightarrow> kind (upper_part e i) = kind e"
  by (auto simp: flag_kind_def)

definition same_flags :: "idmap_entry \<Rightarrow> idmap_entry \<Rightarrow> bool" where
  "same_flags e i \<longleftrightarrow> e_isuid e = e_isuid i \<and> e_isgid e = e_isgid i"

lemma flag_kind_same: "flag_kind kind \<Longrightarrow> same_flags e i \<Longrightarrow> kind e = kind i"
  by (auto simp: flag_kind_def same_flags_def)

lemma into_map_pieces:
  assumes wf: "wf_entry e" "wf_entry i" and ov: "ns_overlap e i"
    and k: "flag_kind kind" "same_flags e i"
  shows "into_map kind (pieces e i) x =
    (if kind i \<and> ns_in i x then Some (x - e_nsid i + e_hostid i) else into_map kind [e] x)"
proof -
  have up: "x - e_nsid (upper_part e i) + e_hostid (upper_part e i) = x - e_nsid e + e_hostid e"
    by (simp add: upper_part_fields [OF wf])
  have lo: "e_maprange (lower_part e i) > 0 \<longleftrightarrow> e_nsid e < e_nsid i"
    by (simp add: lower_part_range [OF wf])
  have hi: "e_maprange (upper_part e i) > 0 \<longleftrightarrow> e_nsid i + e_maprange i < e_nsid e + e_maprange e"
    by (simp add: upper_part_fields [OF wf])
  show ?thesis
    using wf_lower_part [OF wf ov] wf_upper_part [OF wf ov] flag_kind_same [OF k] lo hi
    by (auto simp: pieces_def into_map_append into_map_Cons wf up flag_kind_parts [OF k(1)]
        ns_in_lower_part [OF wf ov] ns_in_upper_part [OF wf ov] split: option.splits)
      (auto simp: ns_in_def)
qed

text \<open>The preconditions of an insertion, and the map it must produce.\<close>

definition addable :: "idmap_set \<Rightarrow> idmap_entry \<Rightarrow> bool" where
  "addable m i \<longleftrightarrow> wf_entry i \<and> thick i \<and> wf_set m \<and>
     (\<forall>e \<in> set m. thick e \<and> (same_kind e i \<longrightarrow> same_flags e i))"

definition override :: "(idmap_entry \<Rightarrow> bool) \<Rightarrow> idmap_entry \<Rightarrow> (int \<Rightarrow> int option) \<Rightarrow> int \<Rightarrow> int option" where
  "override kind i f x =
     (if kind i \<and> ns_in i x then Some (x - e_nsid i + e_hostid i) else f x)"

lemma split_entry_map:
  assumes wf: "wf_entry e" "wf_entry i" and th: "thick e" "thick i"
    and fl: "same_kind e i \<longrightarrow> same_flags e i"
    and ok: "\<not> (entry_Intersects e i \<and> entry_HostidsIntersect e i)" and k: "flag_kind kind"
  shows "into_map kind (split_entry i e) x =
     (if entry_Intersects e i \<and> kind i \<and> ns_in i x then Some (x - e_nsid i + e_hostid i)
      else into_map kind [e] x)"
    and "kind i \<Longrightarrow> ns_in i x \<Longrightarrow> \<not> entry_Intersects e i \<Longrightarrow> into_map kind [e] x = None"
proof -
  show "into_map kind (split_entry i e) x =
     (if entry_Intersects e i \<and> kind i \<and> ns_in i x then Some (x - e_nsid i + e_hostid i)
      else into_map kind [e] x)"
  proof (cases "entry_Intersects e i")
    case True
    then have sk: "same_kind e i" by (simp add: entry_Intersects_def)
    have "\<not> host_overlap e i" using no_HostidsIntersect [OF wf sk] ok True by blast
    then have ov: "ns_overlap e i" using True entry_Intersects_thick [OF wf th] by blast
    show ?thesis using into_map_pieces [OF wf ov k] fl sk True by simp
  next
    case False
    then show ?thesis by simp
  qed
next
  assume a: "kind i" "ns_in i x" "\<not> entry_Intersects e i"
  show "into_map kind [e] x = None"
  proof (cases "kind e \<and> ns_in e x")
    case True
    then have "same_kind e i" using a(1) k by (auto simp: same_kind_def flag_kind_def)
    moreover have "ns_overlap e i" using True a(2) ns_overlapI by blast
    ultimately show ?thesis using a(3) entry_Intersects_thick [OF wf th] by blast
  next
    case False
    then show ?thesis by (simp add: into_map_Cons wf)
  qed
qed

lemma concat_split_map:
  assumes "addable m i" "flag_kind kind"
    and "\<not> (\<exists>e \<in> set m. entry_Intersects e i \<and> entry_HostidsIntersect e i)"
  shows "into_map kind (concat (map (split_entry i) m)) x =
     (if kind i \<and> ns_in i x
      then (if \<exists>e \<in> set m. entry_Intersects e i then Some (x - e_nsid i + e_hostid i) else None)
      else into_map kind m x)"
  using assms(1,3)
proof (induction m)
  case Nil
  then show ?case by simp
next
  case (Cons e m)
  have m: "addable m i" and e: "wf_entry e" "wf_entry i" "thick e" "thick i"
      "same_kind e i \<longrightarrow> same_flags e i"
    using Cons.prems(1) by (auto simp: addable_def wf_set_def)
  have ok: "\<not> (entry_Intersects e i \<and> entry_HostidsIntersect e i)" using Cons.prems(2) by auto
  have IH: "into_map kind (concat (map (split_entry i) m)) x =
     (if kind i \<and> ns_in i x
      then (if \<exists>e \<in> set m. entry_Intersects e i then Some (x - e_nsid i + e_hostid i) else None)
      else into_map kind m x)"
    using Cons.IH m Cons.prems(2) by auto
  note one = split_entry_map [OF e ok assms(2), of x]
  have cons: "into_map kind (e # m) x =
      (case into_map kind [e] x of None \<Rightarrow> into_map kind m x | Some y \<Rightarrow> Some y)"
    using into_map_append [of kind "[e]" m x] by simp
  show ?case
    using one(2) by (auto simp: into_map_append one(1) IH cons split: option.splits)
qed

lemma AddSafe_override:
  assumes "addable m i" "flag_kind kind" "AddSafe m i = Inr m'"
  shows "into_map kind m' = override kind i (into_map kind m)"
proof
  fix x
  have ok: "\<not> (\<exists>e \<in> set m. entry_Intersects e i \<and> entry_HostidsIntersect e i)"
    using assms(3) by (auto simp: AddSafe_eq split: if_splits)
  with assms(3) have m': "m' = concat (map (split_entry i) m) @
      (if \<exists>e \<in> set m. entry_Intersects e i then [] else [i])"
    by (simp add: AddSafe_eq del: map_map)
  have wi: "wf_entry i" using assms(1) by (simp add: addable_def)
  show "into_map kind m' x = override kind i (into_map kind m) x"
    unfolding m' into_map_append concat_split_map [OF assms(1,2) ok]
    by (auto simp: override_def into_map_Cons [OF wi] split: option.splits)
qed

lemma AddSafe_wf:
  assumes "addable m i" "AddSafe m i = Inr m'"
  shows "wf_set m'"
proof -
  have ok: "\<And>e. e \<in> set m \<Longrightarrow> \<not> (entry_Intersects e i \<and> entry_HostidsIntersect e i)"
    using assms(2) by (auto simp: AddSafe_eq split: if_splits)
  have "wf_set (split_entry i e)" if e: "e \<in> set m" for e
  proof -
    have w: "wf_entry e" "wf_entry i" "thick e" "thick i"
      using assms(1) e by (auto simp: addable_def wf_set_def)
    show ?thesis
    proof (cases "entry_Intersects e i")
      case True
      then have "same_kind e i" by (simp add: entry_Intersects_def)
      then have "ns_overlap e i"
        using no_HostidsIntersect [OF w(1,2)] ok [OF e] True entry_Intersects_thick [OF w] by blast
      with w True show ?thesis by (simp add: wf_pieces)
    next
      case False
      with w show ?thesis by (simp add: wf_set_def)
    qed
  qed
  moreover have "wf_entry i" using assms(1) by (simp add: addable_def)
  ultimately show ?thesis using assms(2)
    by (auto simp: AddSafe_eq wf_set_def split: if_splits)
qed

end
