(* ===== verification/IdmapHost.thy ===== *)
theory IdmapHost
  imports IdmapEdit
begin

text \<open>
  Parsing of mappings, the ranges the kernel allows, the maps found on the host and the shift of a
  file tree.
\<close>

section \<open>Parsing\<close>

definition parsed_bounds :: "idmap_entry \<Rightarrow> bool" where
  "parsed_bounds e \<longleftrightarrow> 0 \<le> e_nsid e \<and> e_nsid e < 2 ^ 32 \<and> 0 \<le> e_hostid e \<and> e_hostid e < 2 ^ 32 \<and>
     0 \<le> e_maprange e \<and> e_maprange e < 2 ^ 32"

lemma parsed_wf: "parsed_bounds e \<Longrightarrow> wf_entry e"
  by (simp add: parsed_bounds_def wf_entry_def)

lemma ParseUint_32: "ParseUint s 10 32 = Inr n \<Longrightarrow> int n < 4294967296"
  using ParseUint_bound [of s 10 32 n] by simp

lemma ParseUint_not_Errorf [simp]: "ParseUint s b n \<noteq> Inl (Errorf f a)"
  by (simp add: ParseUint_def split: sum.splits)

lemma no_wraparound:
  assumes "n < (4294967296::int)" "h < 4294967296" "m < 4294967296" "0 \<le> n" "0 \<le> h" "0 \<le> m"
  shows "\<not> (add64 h m < h \<or> add64 n m < n)"
  using assms by (simp add: i64_small)

lemma entry_parse_cases:
  "entry_parse e s = Inr e' \<Longrightarrow>
     \<exists>t n h m. Split (CHR '':'') s = [t, n, h, m] \<and> t \<in> {''u'', ''g'', ''b''} \<and>
       ParseUint n 10 32 = Inr (nat (e_nsid e')) \<and> ParseUint h 10 32 = Inr (nat (e_hostid e')) \<and>
       ParseUint m 10 32 = Inr (nat (e_maprange e')) \<and>
       e_isuid e' = (e_isuid e \<or> t = ''u'' \<or> t = ''b'') \<and> e_isgid e' = (e_isgid e \<or> t = ''g'' \<or> t = ''b'') \<and>
       parsed_bounds e'"
  unfolding entry_parse_def
  by (auto simp: ebind_eq_Inr Let_def parsed_bounds_def dest: ParseUint_32 split: list.splits if_splits)

lemma entry_parse_no_wrap:
  "entry_parse e s \<noteq> Inl (Errorf ''Bad mapping: id wraparound'' [])"
proof
  assume a: "entry_parse e s = Inl (Errorf ''Bad mapping: id wraparound'' [])"
  then show False
    unfolding entry_parse_def
    by (auto simp: ebind_eq_Inl Let_def i64_small dest!: ParseUint_32 split: list.splits if_splits)
qed

definition render_entry :: "string \<Rightarrow> idmap_entry \<Rightarrow> string" where
  "render_entry t e =
     t @ '':'' @ show_int (e_nsid e) @ '':'' @ show_int (e_hostid e) @ '':'' @ show_int (e_maprange e)"

lemma colon_not_digit: "CHR '':'' \<notin> set (show_nat n)"
  by (rule show_nat_no_char) (simp add: is_digit_def)

lemma Split_render:
  assumes "parsed_bounds e" "CHR '':'' \<notin> set t"
  shows "Split (CHR '':'') (render_entry t e) =
    [t, show_nat (nat (e_nsid e)), show_nat (nat (e_hostid e)), show_nat (nat (e_maprange e))]"
  using assms
  by (simp add: render_entry_def show_int_def parsed_bounds_def Split_sep Split_no_sep colon_not_digit)

lemma entry_parse_render:
  assumes "parsed_bounds e" "e_isuid e \<or> e_isgid e"
  shows "entry_parse zero_entry
     (render_entry (if e_isuid e \<and> e_isgid e then ''b'' else if e_isuid e then ''u'' else ''g'') e) = Inr e"
proof -
  let ?t = "if e_isuid e \<and> e_isgid e then ''b'' else if e_isuid e then ''u'' else ''g''"
  have t: "CHR '':'' \<notin> set ?t" by simp
  have p: "ParseUint (show_nat (nat x)) 10 32 = Inr (nat x)" if "0 \<le> x" "x < 2 ^ 32" for x :: int
    using ParseUint_show_nat [of "nat x" 32] that by (simp add: nat_less_iff)
  have b: "0 \<le> e_nsid e" "e_nsid e < 2 ^ 32" "0 \<le> e_hostid e" "e_hostid e < 2 ^ 32"
      "0 \<le> e_maprange e" "e_maprange e < 2 ^ 32"
    using assms(1) by (simp_all add: parsed_bounds_def)
  have w: "\<not> (add64 (e_hostid e) (e_maprange e) < e_hostid e \<or> add64 (e_nsid e) (e_maprange e) < e_nsid e)"
    by (rule no_wraparound) (use b in simp_all)
  show ?thesis
    unfolding entry_parse_def Split_render [OF assms(1) t]
    using assms(2) b w by (cases e) (auto simp: p Let_def zero_entry_def)
qed

section \<open>The ranges a map covers\<close>

definition kind_of :: "idmap_entry \<Rightarrow> bool \<times> bool" where
  "kind_of e = (e_isuid e, e_isgid e)"

definition range_kind :: "id_range \<Rightarrow> bool \<times> bool" where
  "range_kind r = (r_isuid r, r_isgid r)"

definition covered :: "id_range list \<Rightarrow> bool \<times> bool \<Rightarrow> int \<Rightarrow> bool" where
  "covered rs k x \<longleftrightarrow> (\<exists>r \<in> set rs. range_kind r = k \<and> range_contains r x)"

definition wf_range :: "id_range \<Rightarrow> bool" where
  "wf_range r \<longleftrightarrow> 0 \<le> r_startid r \<and> r_startid r \<le> r_endid r + 1 \<and> r_endid r \<le> 2 ^ 60"

lemma range_contains_new:
  "wf_entry e \<Longrightarrow> range_contains (new_range e) x \<longleftrightarrow> ns_in e x"
  by (auto simp: range_contains_def new_range_def ns_in_def wf_entry_def i64_small)

lemma wf_new_range: "wf_entry e \<Longrightarrow> wf_range (new_range e)"
  by (simp add: wf_range_def new_range_def wf_entry_def i64_small)

lemma wf_range_succ: "wf_range r \<Longrightarrow> add64 (r_endid r) 1 = r_endid r + 1"
  by (simp add: wf_range_def i64_small)

lemma wf_range_grow:
  "wf_range r \<Longrightarrow> wf_entry e \<Longrightarrow> r_endid r + 1 = e_nsid e \<Longrightarrow>
     add64 (r_endid r) (e_maprange e) = r_endid r + e_maprange e"
  by (simp add: wf_range_def wf_entry_def i64_small)

lemma extend_range_Some:
  assumes "extend_range rs e = Some rs'" "wf_entry e" "\<forall>r \<in> set rs. wf_range r"
  shows "(\<forall>r \<in> set rs'. wf_range r) \<and>
    (\<forall>k x. covered rs' k x \<longleftrightarrow> covered rs k x \<or> (kind_of e = k \<and> ns_in e x))"
  using assms(1,3)
proof (induction rs arbitrary: rs')
  case Nil
  then show ?case by simp
next
  case (Cons r rs)
  have r: "wf_range r" using Cons.prems(2) by simp
  show ?case
  proof (cases "e_isuid e = r_isuid r \<and> e_isgid e = r_isgid r \<and> add64 (r_endid r) 1 = e_nsid e")
    case True
    let ?r = "r\<lparr>r_endid := add64 (r_endid r) (e_maprange e)\<rparr>"
    have rs': "rs' = ?r # rs" using Cons.prems(1) True by simp
    have en: "r_endid r + 1 = e_nsid e" using True wf_range_succ [OF r] by simp
    note g = wf_range_grow [OF r assms(2) en]
    have "wf_range ?r" using r assms(2) en by (simp add: g) (simp add: wf_range_def wf_entry_def)
    moreover have "range_contains ?r x \<longleftrightarrow> range_contains r x \<or> ns_in e x" for x
      using r assms(2) en by (auto simp: range_contains_def g ns_in_def wf_range_def wf_entry_def)
    moreover have "range_kind ?r = range_kind r" "kind_of e = range_kind r"
      using True by (simp_all add: range_kind_def kind_of_def)
    ultimately show ?thesis using Cons.prems(2) by (auto simp: rs' covered_def)
  next
    case False
    then obtain rs2 where r2: "extend_range rs e = Some rs2" "rs' = r # rs2"
      using Cons.prems(1) by auto
    from Cons.IH [OF r2(1)] Cons.prems(2) show ?thesis by (auto simp: r2(2) covered_def)
  qed
qed

lemma add_range_spec:
  assumes "wf_entry e" "\<forall>r \<in> set rs. wf_range r"
  shows "\<forall>r \<in> set (add_range rs e). wf_range r"
    and "covered (add_range rs e) k x \<longleftrightarrow> covered rs k x \<or> (kind_of e = k \<and> ns_in e x)"
proof -
  have nk: "range_kind (new_range e) = kind_of e"
    by (simp add: range_kind_def kind_of_def new_range_def)
  have "(\<forall>r \<in> set (add_range rs e). wf_range r) \<and>
    (covered (add_range rs e) k x \<longleftrightarrow> covered rs k x \<or> (kind_of e = k \<and> ns_in e x))"
  proof (cases "extend_range rs e")
    case None
    then show ?thesis
      using assms(2) wf_new_range [OF assms(1)] range_contains_new [OF assms(1)] nk
      by (auto simp: add_range_def covered_def)
  next
    case (Some rs')
    with extend_range_Some [OF Some assms] show ?thesis by (cases k) (simp add: add_range_def)
  qed
  then show "\<forall>r \<in> set (add_range rs e). wf_range r"
    "covered (add_range rs e) k x \<longleftrightarrow> covered rs k x \<or> (kind_of e = k \<and> ns_in e x)"
    by blast+
qed

lemma foldl_add_range:
  assumes "wf_set m" "\<forall>r \<in> set rs. wf_range r"
  shows "(\<forall>r \<in> set (foldl add_range rs m). wf_range r) \<and>
    (covered (foldl add_range rs m) k x \<longleftrightarrow>
       covered rs k x \<or> (\<exists>e \<in> set m. kind_of e = k \<and> ns_in e x))"
  using assms
proof (induction m arbitrary: rs)
  case (Cons e m)
  then have e: "wf_entry e" and m: "wf_set m" by (simp_all add: wf_set_def)
  note s = add_range_spec [OF e Cons.prems(2)]
  show ?case using Cons.IH [OF m s(1)] s(2) by auto
qed simp

definition sort_promise :: "(idmap_set \<Rightarrow> idmap_set) \<Rightarrow> bool" where
  "sort_promise srt \<longleftrightarrow> go_sort set_less srt"

lemma strict_weak_set_less: "strict_weak set_less"
  by (auto simp: strict_weak_def set_less_def split: if_splits)

interpretation idmap_sort: go_sort set_less "insertion_sort set_less"
  by (rule go_sort_insertion_sort) (rule strict_weak_set_less)

lemma sort_promise_insertion: "sort_promise (insertion_sort set_less)"
  by (simp add: sort_promise_def idmap_sort.go_sort_axioms)

lemma ValidRanges_covered:
  assumes "sort_promise srt" "wf_set m"
  shows "covered (ValidRanges srt m) k x \<longleftrightarrow> (\<exists>e \<in> set m. kind_of e = k \<and> ns_in e x)"
    and "r \<in> set (ValidRanges srt m) \<Longrightarrow> wf_range r"
proof -
  have st: "set (srt m) = set m"
    using assms(1) go_sort.srt_set unfolding sort_promise_def by blast
  have "wf_set (srt m)" using assms(2) by (simp add: wf_set_def st)
  from foldl_add_range [OF this, of "[]"] st
  show "covered (ValidRanges srt m) k x \<longleftrightarrow> (\<exists>e \<in> set m. kind_of e = k \<and> ns_in e x)"
    and "r \<in> set (ValidRanges srt m) \<Longrightarrow> wf_range r"
    by (auto simp: ValidRanges_def covered_def)
qed

section \<open>The maps found on the host\<close>

lemma proc_lines_bounds:
  "proc_lines fname ls = Inr es \<Longrightarrow> (a, b, c) \<in> set es \<Longrightarrow>
     0 \<le> a \<and> a < 2 ^ 32 \<and> 0 \<le> b \<and> b < 2 ^ 32 \<and> 0 \<le> c \<and> c < 2 ^ 32"
proof (induction fname ls arbitrary: es rule: proc_lines.induct)
  case (2 fname l ls)
  show ?case
  proof (cases "uncomment l = []")
    case True
    with 2 show ?thesis by simp
  next
    case False
    with "2.prems"(1) obtain rest where r: "proc_lines fname ls = Inr rest"
      by (auto simp: Let_def ebind_eq_Inr split: if_splits)
    have IH: "(a, b, c) \<in> set rest \<Longrightarrow>
        0 \<le> a \<and> a < 2 ^ 32 \<and> 0 \<le> b \<and> b < 2 ^ 32 \<and> 0 \<le> c \<and> c < 2 ^ 32"
      using "2.IH"(2) [OF False] r "2.prems"(1) False
      by (auto simp: Let_def split: if_splits)
    show ?thesis using "2.prems" False r IH
      by (auto simp: Let_def dest: ParseUint_32 split: if_splits sum.splits)
  qed
qed simp

lemma current_half_bounds:
  assumes "current_half fs path u g = Inr m" "e \<in> set m"
  shows "parsed_bounds e \<and> kind_of e = (u, g)"
proof (cases "PathExists fs path")
  case True
  with assms(1) obtain ls es where "read_lines fs path = Inr ls" and
    es: "proc_lines path ls = Inr es" and m: "m = map (\<lambda>(ns, host, n). mk_entry u g ns host n) es"
    by (auto simp: current_half_def getFromProc_def ebind_eq_Inr split: if_splits)
  from assms(2) m obtain a b c where e: "e = mk_entry u g a b c" "(a, b, c) \<in> set es" by auto
  from proc_lines_bounds [OF es e(2)] show ?thesis
    by (simp add: e(1) parsed_bounds_def kind_of_def mk_entry_def)
next
  case False
  with assms show ?thesis
    by (auto simp: current_half_def parsed_bounds_def kind_of_def mk_entry_def)
qed

lemma CurrentIdmapSet_bounds:
  assumes "CurrentIdmapSet fs = Inr m" "e \<in> set m"
  shows "parsed_bounds e \<and> (kind_of e = (True, False) \<or> kind_of e = (False, True))"
  using assms current_half_bounds by (auto simp: CurrentIdmapSet_def ebind_eq_Inr)

lemma CurrentIdmapSet_wf: "CurrentIdmapSet fs = Inr m \<Longrightarrow> wf_set m"
  using CurrentIdmapSet_bounds parsed_wf by (auto simp: wf_set_def)

text \<open>Moving the start of a range up keeps it inside the range it came from.\<close>

definition narrows :: "id_range \<Rightarrow> id_range \<Rightarrow> bool" where
  "narrows r' r \<longleftrightarrow> range_kind r' = range_kind r \<and> r_startid r \<le> r_startid r' \<and> r_endid r' = r_endid r"

definition picked_from :: "bool \<Rightarrow> id_range list \<Rightarrow> idmap_entry \<Rightarrow> bool" where
  "picked_from uid rs e \<longleftrightarrow> kind_of e = (uid, \<not> uid) \<and> e_nsid e = 0 \<and> 100000 \<le> e_hostid e \<and>
     65536 < e_maprange e \<and>
     (\<exists>r \<in> set rs. (if uid then r_isuid r else r_isgid r) \<and> r_startid r \<le> e_hostid e \<and>
        e_hostid e + e_maprange e - 1 = r_endid r)"

lemma kernel_pick_spec:
  assumes "kernel_pick uid rs = (rs', m)" "\<forall>r \<in> set rs. wf_range r"
  shows "(\<forall>r' \<in> set rs'. wf_range r' \<and> (\<exists>r \<in> set rs. narrows r' r)) \<and>
    length m \<le> 1 \<and> (\<forall>e \<in> set m. picked_from uid rs e)"
  using assms
proof (induction uid rs arbitrary: rs' m rule: kernel_pick.induct)
  case (1 uid)
  then show ?case by simp
next
  case (2 uid r rs)
  have r: "wf_range r" and rs: "\<forall>r \<in> set rs. wf_range r" using "2.prems"(2) by auto
  let ?skip = "\<not> (if uid then r_isuid r else r_isgid r) \<or> r_endid r < 100000"
  let ?r = "raise_start r"
  obtain rs2 m2 where p: "kernel_pick uid rs = (rs2, m2)" by fastforce
  have self: "narrows r r" by (simp add: narrows_def)
  show ?case
  proof (cases ?skip)
    case True
    with p "2.prems"(1) have "rs' = r # rs2" "m = m2" by (auto split: if_splits)
    with "2.IH"(1) [OF True p rs] r self show ?thesis by (auto simp: picked_from_def)
  next
    case False
    have w: "wf_range ?r" and nr: "narrows ?r r"
      using r False by (auto simp: wf_range_def narrows_def range_kind_def raise_start_def)
    have d: "sub64 (r_endid ?r) (r_startid ?r) = r_endid ?r - r_startid ?r"
      using w by (simp add: wf_range_def i64_small)
    show ?thesis
    proof (cases "r_endid ?r - r_startid ?r < 65536")
      case True
      have small: "sub64 (r_endid ?r) (r_startid ?r) < 65536" using True d by simp
      have "rs' = ?r # rs2 \<and> m = m2"
        using "2.prems"(1) p small unfolding kernel_pick.simps(2) if_not_P [OF False]
        by (simp add: Let_def)
      with "2.IH"(2) [OF False refl small p rs] w nr show ?thesis by (auto simp: picked_from_def)
    next
      case big: False
      let ?e = "mk_entry uid (\<not> uid) 0 (r_startid ?r) (r_endid ?r - r_startid ?r + 1)"
      have "add64 (sub64 (r_endid ?r) (r_startid ?r)) 1 = r_endid ?r - r_startid ?r + 1"
        unfolding d using w by (simp add: wf_range_def i64_small)
      with big d "2.prems"(1) have eq: "rs' = ?r # rs" "m = [?e]"
        unfolding kernel_pick.simps(2) if_not_P [OF False] by (simp_all add: Let_def)
      have "picked_from uid (r # rs) ?e"
        using False big nr
        by (auto simp: picked_from_def kind_of_def mk_entry_def narrows_def raise_start_def)
      with eq w nr rs show ?thesis by (auto simp: narrows_def)
    qed
  qed
qed

lemma picked_usable:
  assumes "picked_from uid rs e" "\<forall>r \<in> set rs. wf_range r"
  shows "kind_usable (if uid then r_isuid else r_isgid) rs e"
proof -
  obtain r where r: "r \<in> set rs" "if uid then r_isuid r else r_isgid r" "r_startid r \<le> e_hostid e"
      "e_hostid e + e_maprange e - 1 = r_endid r"
    using assms(1) unfolding picked_from_def by blast
  have h: "0 \<le> e_hostid e" "0 < e_maprange e" using assms(1) by (simp_all add: picked_from_def)
  have "r_endid r \<le> 2 ^ 60" using r(1) assms(2) by (simp add: wf_range_def)
  then have "last_of (e_hostid e) (e_maprange e) = r_endid r"
    using r(4) h by (simp add: last_of_def i64_small)
  with r h show ?thesis by (auto simp: kind_usable_def range_contains_def)
qed

lemma picked_from_narrow:
  assumes "picked_from uid rs' e" "\<forall>r' \<in> set rs'. \<exists>r \<in> set rs. narrows r' r"
  shows "picked_from uid rs e"
proof -
  obtain r' where r': "r' \<in> set rs'" "if uid then r_isuid r' else r_isgid r'"
      "r_startid r' \<le> e_hostid e" "e_hostid e + e_maprange e - 1 = r_endid r'"
    using assms(1) unfolding picked_from_def by blast
  then obtain r where r: "r \<in> set rs" "narrows r' r" using assms(2) by blast
  then have "(if uid then r_isuid r else r_isgid r) \<and> r_startid r \<le> e_hostid e \<and>
      e_hostid e + e_maprange e - 1 = r_endid r"
    using r' by (auto simp: narrows_def range_kind_def split: if_splits)
  with r(1) assms(1) show ?thesis unfolding picked_from_def by blast
qed

lemma set_Usable_Inr:
  "set_Usable (Inr ranges) m = Inr () \<longleftrightarrow>
     (\<forall>e \<in> set m. (e_isuid e \<longrightarrow> kind_usable r_isuid ranges e) \<and>
                     (e_isgid e \<longrightarrow> kind_usable r_isgid ranges e))"
  by (induction m) (auto simp: ebind_eq_Inr entry_Usable_def Let_def split: if_splits)

lemma fallback_usable: "set_Usable (Inr fullKernelRanges) fallback_map = Inr ()"
  unfolding set_Usable_Inr
  by (simp add: fallback_map_def fullKernelRanges_def kind_usable_def mk_entry_def
      range_contains_def last_of_def i64_small)

lemma kernel_picks_usable:
  assumes "\<forall>r \<in> set rs. wf_range r" "kernel_pick True rs = (rs', us)" "kernel_pick False rs' = (rs'', gs)"
  shows "set_Usable (Inr rs) (us @ gs) = Inr ()"
    and "\<forall>e \<in> set (us @ gs). e_nsid e = 0 \<and> 65536 < e_maprange e \<and> 100000 \<le> e_hostid e"
proof -
  note u = kernel_pick_spec [OF assms(2,1)]
  have w: "\<forall>r \<in> set rs'. wf_range r" using u by blast
  note g = kernel_pick_spec [OF assms(3) w]
  have gs: "\<forall>e \<in> set gs. picked_from False rs e" using g picked_from_narrow u by blast
  show "set_Usable (Inr rs) (us @ gs) = Inr ()"
    using u gs picked_usable [OF _ assms(1)]
    by (fastforce simp: set_Usable_Inr picked_from_def kind_of_def)
  show "\<forall>e \<in> set (us @ gs). e_nsid e = 0 \<and> 65536 < e_maprange e \<and> 100000 \<le> e_hostid e"
    using u gs by (auto simp: picked_from_def)
qed

end
