(* ===== verification/IdmapProps.thy ===== *)
theory IdmapProps
  imports IdmapHost
begin

text \<open>
  The properties of the id maps, each followed by a witness at a concrete mapping.
\<close>

section \<open>Concrete maps for the witnesses\<close>

definition uid_full :: idmap_entry where
  "uid_full = mk_entry True False 0 100000 65536"

definition gid_full :: idmap_entry where
  "gid_full = mk_entry False True 0 100000 65536"

definition uid_hole :: idmap_entry where
  "uid_hole = mk_entry True False 1000 500 10"

definition sample_fs :: host_fs where
  "sample_fs p =
     (if p = ''/proc/self/uid_map'' then FileLines [''0 1000000 300000'']
      else if p = ''/proc/self/gid_map'' then FileLines [''0 1000000 300000'']
      else NoFile)"

lemmas sample_defs = uid_full_def gid_full_def uid_hole_def mk_entry_def

lemma sample_wf: "wf_entry uid_full" "wf_entry gid_full" "wf_entry uid_hole"
  by (simp_all add: sample_defs wf_entry_def)

section \<open>Shifting\<close>


lemma sample_coherent: "coherent e_isuid [uid_full, gid_full]" "coherent e_isgid [uid_full, gid_full]"
  using sample_wf by (auto simp: coherent_def wf_set_def sample_defs)


text \<open>C22: Distinct uids never share a host id: shifting into the namespace is injective on the
  ids a coherent set maps.\<close>
theorem shift_injective:
  assumes "coherent e_isuid m" "fst (ShiftIntoNs m x g) = y" "fst (ShiftIntoNs m x' g') = y" "y \<noteq> -1"
  shows "x = x'"
proof -
  have wf: "wf_set m" using assms(1) by (simp add: coherent_def)
  have "first_res e_isuid shift_into_ns m x = Inr y" "first_res e_isuid shift_into_ns m x' = Inr y"
    using assms(2-4) by (auto simp: ShiftIntoNs_eq [OF wf] or_minus_one_def first_res_Inr split: option.splits)
  then show ?thesis using uid_shift.into_inj [OF assms(1)] by blast
qed

theorem shift_injective_witness:
  "\<exists>y. fst (ShiftIntoNs [uid_full, gid_full] 7 0) = y \<and> y \<noteq> -1 \<and>
    (\<forall>x'. fst (ShiftIntoNs [uid_full, gid_full] x' 0) = y \<longrightarrow> 7 = x')"
proof (intro exI conjI allI impI)
  show s: "fst (ShiftIntoNs [uid_full, gid_full] 7 0) = 100007"
    by (simp add: ShiftIntoNs_def doShiftIntoNs_def shift_acc_def shift_how_def shift_into_ns_def
        sample_defs i64_small)
  show "(100007::int) \<noteq> -1" by simp
  fix x' assume "fst (ShiftIntoNs [uid_full, gid_full] x' 0) = 100007"
  from shift_injective [OF sample_coherent(1) s this] show "7 = x'" by simp
qed

section \<open>Editing a set\<close>


lemma sample_addable: "addable [uid_full, gid_full] uid_hole"
  using sample_wf by (auto simp: addable_def wf_set_def thick_def same_kind_def same_flags_def sample_defs)

lemma sample_added:
  "AddSafe [uid_full, gid_full] uid_hole =
     Inr [mk_entry True False 0 100000 1000, uid_hole, mk_entry True False 1010 101010 64526, gid_full]"
  by (simp add: AddSafe_def entry_Intersects_def entry_HostidsIntersect_def same_kind_def is_between_def
      last_of_def pieces_def lower_part_def upper_part_def sample_defs Let_def i64_small)


text \<open>For mappings of at least two ids, \<open>Intersects\<close> is exactly the overlap of the host
  ranges or of the namespace ranges of two mappings of the same kind.\<close>
theorem Intersects_is_overlap:
  assumes "wf_entry e" "wf_entry i" "2 \<le> e_maprange e" "2 \<le> e_maprange i"
  shows "entry_Intersects e i \<longleftrightarrow> same_kind e i \<and>
    ((\<exists>x. host_in e x \<and> host_in i x) \<or> (\<exists>x. ns_in e x \<and> ns_in i x))"
proof -
  have h: "host_overlap e i \<longleftrightarrow> (\<exists>x. host_in e x \<and> host_in i x)"
  proof
    assume "host_overlap e i"
    then have "host_in e (max (e_hostid e) (e_hostid i)) \<and> host_in i (max (e_hostid e) (e_hostid i))"
      using assms(3,4) by (auto simp: host_overlap_def host_in_def)
    then show "\<exists>x. host_in e x \<and> host_in i x" by blast
  qed (auto simp: host_overlap_def host_in_def)
  have n: "ns_overlap e i \<longleftrightarrow> (\<exists>x. ns_in e x \<and> ns_in i x)"
  proof
    assume "ns_overlap e i"
    then have "ns_in e (max (e_nsid e) (e_nsid i)) \<and> ns_in i (max (e_nsid e) (e_nsid i))"
      using assms(3,4) by (auto simp: ns_overlap_def ns_in_def)
    then show "\<exists>x. ns_in e x \<and> ns_in i x" by blast
  qed (auto simp: ns_overlapI)
  show ?thesis using entry_Intersects_thick assms by (simp add: thick_def h n)
qed

theorem Intersects_is_overlap_witness: "entry_Intersects uid_full uid_hole"
proof -
  have t: "2 \<le> e_maprange uid_full" "2 \<le> e_maprange uid_hole" by (simp_all add: sample_defs)
  have "ns_in uid_full 1000 \<and> ns_in uid_hole 1000" "same_kind uid_full uid_hole"
    by (simp_all add: sample_defs ns_in_def same_kind_def)
  then show ?thesis using Intersects_is_overlap [OF sample_wf(1,3) t] by blast
qed

text \<open>Mappings of one id are never in conflict for \<open>Intersects\<close>, so \<open>Append\<close> accepts the
  same one-id mapping twice.\<close>
theorem single_id_conflict_missed:
  assumes "wf_entry e" "e_maprange e = 1"
  shows "\<not> entry_Intersects e e \<and> Append [mk_entry True False 5 1000 1] ''u:5:1000:1'' =
         Inr [mk_entry True False 5 1000 1, mk_entry True False 5 1000 1]"
proof (rule conjI)
  show "\<not> entry_Intersects e e" by (rule entry_Intersects_single) (use assms in auto)
  let ?e = "mk_entry True False 5 1000 1"
  have "parsed_bounds ?e" "wf_entry ?e" by (simp_all add: mk_entry_def parsed_bounds_def wf_entry_def)
  then have p: "entry_parse zero_entry (render_entry ''u'' ?e) = Inr ?e"
    using entry_parse_render [of ?e] by (simp add: mk_entry_def)
  have r: "render_entry ''u'' ?e = ''u:5:1000:1''" by code_simp
  have "\<not> entry_Intersects ?e ?e"
    by (rule entry_Intersects_single) (simp_all add: mk_entry_def wf_entry_def)
  with p r show "Append [?e] ''u:5:1000:1'' = Inr [?e, ?e]"
    by (simp add: Append_def set_Intersects_def Extend_def)
qed

theorem single_id_conflict_missed_witness:
  "\<not> entry_Intersects (mk_entry True True 0 0 1) (mk_entry True True 0 0 1)"
  by (rule single_id_conflict_missed [THEN conjunct1]) (simp_all add: mk_entry_def wf_entry_def)

text \<open>\<open>parse\<close> reads back every mapping with 32-bit fields that is written in the
  \<open>type:nsid:hostid:range\<close> form, and whatever it accepts has 32-bit fields and a kind.\<close>
theorem parse_round_trip:
  shows "(parsed_bounds e \<and> (e_isuid e \<or> e_isgid e) \<longrightarrow> entry_parse zero_entry
       (render_entry (if e_isuid e \<and> e_isgid e then ''b'' else if e_isuid e then ''u'' else ''g'') e) = Inr e) \<and>
     (entry_parse zero_entry s = Inr e' \<longrightarrow> parsed_bounds e' \<and> (e_isuid e' \<or> e_isgid e'))"
  using entry_parse_render [of e] entry_parse_cases [of zero_entry s e'] by auto

theorem parse_round_trip_witness:
  "entry_parse zero_entry (render_entry ''u'' uid_full) = Inr uid_full \<and> parsed_bounds uid_full"
proof -
  have "parsed_bounds uid_full" "e_isuid uid_full \<or> e_isgid uid_full"
    by (simp_all add: sample_defs parsed_bounds_def)
  with parse_round_trip [of uid_full "render_entry ''u'' uid_full" uid_full]
  show ?thesis by (simp add: sample_defs)
qed

text \<open>The check for a wrap-around in \<open>parse\<close> never fires: the fields are 32-bit numbers and
  their sums are computed in 64 bits.\<close>
theorem wraparound_check_dead:
  "entry_parse e s \<noteq> Inl (Errorf ''Bad mapping: id wraparound'' [])"
  by (rule entry_parse_no_wrap)

section \<open>Ranges of the kernel and maps of the host\<close>

text \<open>C23: \<open>ValidRanges\<close> merges ranges without losing or inventing ids: an id lies in one of the
  returned ranges of a kind exactly when some mapping of that kind contains it.\<close>
theorem ValidRanges_exact:
  assumes "sort_promise srt" "wf_set m"
  shows "(\<exists>r \<in> set (ValidRanges srt m). r_isuid r = u \<and> r_isgid r = g \<and> range_contains r x) \<longleftrightarrow>
         (\<exists>e \<in> set m. e_isuid e = u \<and> e_isgid e = g \<and> ns_in e x)"
  using ValidRanges_covered(1) [OF assms, of "(u, g)" x]
  by (simp add: covered_def range_kind_def kind_of_def conj_assoc)

theorem ValidRanges_exact_witness:
  "\<exists>r \<in> set (ValidRanges (insertion_sort set_less) [uid_full, gid_full]).
     r_isuid r = True \<and> r_isgid r = False \<and> range_contains r 4"
proof -
  have "wf_set [uid_full, gid_full]" using sample_wf by (simp add: wf_set_def)
  note v = ValidRanges_exact [OF sort_promise_insertion this, of True False 4]
  have "\<exists>e \<in> set [uid_full, gid_full]. e_isuid e = True \<and> e_isgid e = False \<and> ns_in e 4"
    by (simp add: sample_defs ns_in_def)
  with v show ?thesis by blast
qed

text \<open>Without the shadow tools, the default map is usable in the current user namespace: every
  entry that \<open>DefaultIdmapSet\<close> picks passes \<open>Usable\<close> for the same host, starts at id 0 of the
  container and maps more than 65536 ids.\<close>
theorem default_map_usable:
  assumes "sort_promise srt" "\<not> (tools \<and> PathExists fs ''/etc/subuid'' \<and> PathExists fs ''/etc/subgid'')"
    and "CurrentIdmapSet fs = Inr kmap" "DefaultIdmapSet srt tools fs = Inr m"
  shows "set_Usable (kernelRanges srt fs) m = Inr () \<and>
    (\<forall>e \<in> set m. e_nsid e = 0 \<and> 65536 < e_maprange e \<and> 100000 \<le> e_hostid e)"
proof -
  let ?rs = "ValidRanges srt kmap"
  have k: "kernelRanges srt fs = Inr ?rs" using assms(3) by (simp add: kernelRanges_def)
  have w: "\<forall>r \<in> set ?rs. wf_range r"
    using ValidRanges_covered(2) [OF assms(1) CurrentIdmapSet_wf [OF assms(3)]] by blast
  obtain rs1 us where p1: "kernel_pick True ?rs = (rs1, us)" by fastforce
  obtain rs2 gs where p2: "kernel_pick False rs1 = (rs2, gs)" by fastforce
  have m: "m = (if ?rs = fullKernelRanges then fallback_map else us @ gs)"
    using assms(2-4) p1 p2 by (auto simp: DefaultIdmapSet_def Let_def split: if_splits)
  have "set_Usable (kernelRanges srt fs) m = Inr ()"
    using m k fallback_usable kernel_picks_usable(1) [OF w p1 p2] by simp
  moreover have "\<forall>e \<in> set m. e_nsid e = 0 \<and> 65536 < e_maprange e \<and> 100000 \<le> e_hostid e"
    using m kernel_picks_usable(2) [OF w p1 p2] by (auto simp: fallback_map_def mk_entry_def)
  ultimately show ?thesis by blast
qed

lemma sample_current:
  "CurrentIdmapSet sample_fs = Inr [mk_entry True False 0 1000000 300000, mk_entry False True 0 1000000 300000]"
  by (simp add: CurrentIdmapSet_def current_half_def PathExists_def getFromProc_def read_lines_def
      sample_fs_def uncomment_def Fields_def is_space_def ParseUint_def uint_of_def digit_val_def is_digit_def)

lemma sample_default:
  "DefaultIdmapSet (insertion_sort set_less) False sample_fs =
     Inr [mk_entry True False 0 100000 200000, mk_entry False True 0 100000 200000]"
  by (simp add: DefaultIdmapSet_def sample_current ValidRanges_def add_range_def new_range_def mk_entry_def
      set_less_def fullKernelRanges_def raise_start_def i64_small)

theorem default_map_usable_witness:
  "set_Usable (kernelRanges (insertion_sort set_less) sample_fs)
     [mk_entry True False 0 100000 200000, mk_entry False True 0 100000 200000] = Inr ()"
  by (rule default_map_usable [OF sort_promise_insertion _ sample_current sample_default, THEN conjunct1]) simp

section \<open>File trees\<close>

definition io_good :: "shift_io \<Rightarrow> bool" where
  "io_good io \<longleftrightarrow> (\<forall>p. is_ok (io_resolve io p) \<and> is_ok (io_chown io p) \<and> is_ok (io_acl io p))"

text \<open>Ids of the map stay below the reserved 32-bit value -1.\<close>

definition ids_32bit :: "idmap_set \<Rightarrow> bool" where
  "ids_32bit m \<longleftrightarrow> (\<forall>e \<in> set m. e_hostid e + e_maprange e < 2 ^ 32 \<and> e_nsid e + e_maprange e < 2 ^ 32)"

definition owner_mapped :: "idmap_set \<Rightarrow> string \<times> int \<times> int \<Rightarrow> bool" where
  "owner_mapped m f \<longleftrightarrow>
     into_map e_isuid m (fst (snd f)) \<noteq> None \<and> into_map e_isgid m (snd (snd f)) \<noteq> None"

lemma io_good_simps:
  assumes "io_good io"
  shows "io_chown io p = Inr ()" "io_acl io p = Inr ()" "\<exists>d. io_resolve io p = Inr d"
  using assms is_ok_unit [of "io_chown io p"] is_ok_unit [of "io_acl io p"] is_ok_iff [of "io_resolve io p"]
  by (auto simp: io_good_def)

lemma chown_id_32: "0 \<le> y \<Longrightarrow> y < 4294967295 \<Longrightarrow> chown_id y z = y"
  by (simp add: chown_id_def)

lemma first_map_32bit:
  assumes "wf_set m" "ids_32bit m" "first_map k shift_into_ns m x = Some y"
  shows "0 \<le> y \<and> y < 4294967295 \<and> 0 \<le> x \<and> x < 4294967295"
proof -
  obtain e where e: "e \<in> set m" "shift_into_ns e x = Inr y" using first_map_Some [OF assms(3)] by blast
  have "wf_entry e" using assms(1) e(1) by (simp add: wf_set_def)
  then have "ns_in e x" "y = x - e_nsid e + e_hostid e" "0 \<le> e_nsid e" "0 \<le> e_hostid e"
    using e(2) by (simp_all add: shift_into_ns_eq wf_entry_def split: if_splits)
  moreover have "e_hostid e + e_maprange e < 2 ^ 32 \<and> e_nsid e + e_maprange e < 2 ^ 32"
    using assms(2) e(1) by (simp add: ids_32bit_def)
  ultimately show ?thesis by (simp add: ns_in_def)
qed

lemma convert_in_out:
  assumes io: "io_good io" "io_good io'"
    and c: "coherent e_isuid m" "coherent e_isgid m" "ids_32bit m" and mapped: "owner_mapped m f"
  shows "\<exists>f'. convert_file io m False ''in'' f = (f', Inr ()) \<and>
     convert_file io' m False ''out'' f' = (f, Inr ())"
proof -
  have wf: "wf_set m" using c(1) by (simp add: coherent_def)
  obtain p uid gid where f: "f = (p, uid, gid)" by (cases f)
  obtain u g where u: "first_map e_isuid shift_into_ns m uid = Some u"
      and g: "first_map e_isgid shift_into_ns m gid = Some g"
    using mapped by (auto simp: owner_mapped_def into_map_def f)
  note su = first_map_32bit [OF wf c(3) u] and sg = first_map_32bit [OF wf c(3) g]
  have "convert_file io m False ''in'' f = ((p, u, g), Inr ())"
    using su sg
    by (simp add: convert_file_def f ShiftIntoNs_eq [OF wf] u g or_minus_one_def io_good_simps [OF io(1)]
        chown_id_32)
  moreover have "convert_file io' m False ''out'' (p, u, g) = (f, Inr ())"
    using su sg coherent_into_from [OF c(1) u] coherent_into_from [OF c(2) g]
    by (simp add: convert_file_def f ShiftFromNs_eq [OF wf] or_minus_one_def io_good_simps [OF io(2)]
        chown_id_32)
  ultimately show ?thesis by blast
qed

lemma walk_in_out:
  assumes io: "io_good io" "io_good io'"
    and c: "coherent e_isuid m" "coherent e_isgid m" "ids_32bit m" and mapped: "\<forall>f \<in> set fs. owner_mapped m f"
  shows "\<exists>fs'. walk_convert io m False ''in'' fs = (fs', Inr ()) \<and> length fs' = length fs \<and>
     walk_convert io' m False ''out'' fs' = (fs, Inr ())"
  using mapped
proof (induction fs)
  case (Cons f fs)
  obtain fs' where "walk_convert io m False ''in'' fs = (fs', Inr ())" "length fs' = length fs"
      "walk_convert io' m False ''out'' fs' = (fs, Inr ())" using Cons by auto
  moreover obtain f' where "convert_file io m False ''in'' f = (f', Inr ())"
      "convert_file io' m False ''out'' f' = (f, Inr ())"
    using convert_in_out [OF io c, of f] Cons.prems by auto
  ultimately show ?case by (intro exI [of _ "f' # fs'"]) simp
qed simp

text \<open>C24: Shifting a container's root file system and shifting it back restores the owner and
  group of every file, when every file's ids are mapped and no system call fails.\<close>
theorem unshift_rootfs_restores:
  assumes "io_good io" "io_good io'" "coherent e_isuid m" "coherent e_isgid m" "ids_32bit m"
    and "\<forall>f \<in> set fs. owner_mapped m f" "fs \<noteq> []"
  shows "UnshiftRootfs io' m dir (fst (ShiftRootfs io m dir fs)) = (fs, Inr ())"
proof -
  obtain fs' where w: "walk_convert io m False ''in'' fs = (fs', Inr ())" "length fs' = length fs"
      "walk_convert io' m False ''out'' fs' = (fs, Inr ())"
    using walk_in_out [OF assms(1-6)] by blast
  then have "fs' \<noteq> []" using assms(7) by auto
  moreover obtain d d' where "io_resolve io dir = Inr d" "io_resolve io' dir = Inr d'"
    using io_good_simps(3) assms(1,2) by metis
  ultimately show ?thesis
    using w assms(7) by (simp add: UnshiftRootfs_def ShiftRootfs_def doUidshiftIntoContainer_def)
qed

definition quiet_io :: shift_io where
  "quiet_io = \<lparr>io_resolve = Inr, io_chown = (\<lambda>_. Inr ()), io_acl = (\<lambda>_. Inr ())\<rparr>"

theorem unshift_rootfs_restores_witness:
  "UnshiftRootfs quiet_io [uid_full, gid_full] ''/r''
     (fst (ShiftRootfs quiet_io [uid_full, gid_full] ''/r'' [(''/r/a'', 0, 0), (''/r/b'', 1000, 33)]))
   = ([(''/r/a'', 0, 0), (''/r/b'', 1000, 33)], Inr ())"
proof (rule unshift_rootfs_restores [OF _ _ sample_coherent])
  show "io_good quiet_io" "io_good quiet_io" by (simp_all add: io_good_def quiet_io_def)
  show "ids_32bit [uid_full, gid_full]" by (simp add: ids_32bit_def sample_defs)
  show "\<forall>f \<in> set [(''/r/a'', 0, 0), (''/r/b'', 1000, 33)]. owner_mapped [uid_full, gid_full] f"
    using sample_wf by (simp add: owner_mapped_def into_map_Cons ns_in_def) (simp add: sample_defs)
qed simp

end
