(* ===== verification/Util.thy ===== *)
theory Util
  imports GoStd
begin

text \<open>
  \<open>shared/util.go\<close>: list membership, boolean strings, host names, sizes with units, snapshot names,
  duplicate separators, file headers, metadata, chunked reading and retried commands.
\<close>

section \<open>Membership and booleans\<close>

fun StringInSlice :: "string \<Rightarrow> string list \<Rightarrow> bool" where
  "StringInSlice key [] = False"
| "StringInSlice key (e # es) = (if e = key then True else StringInSlice key es)"

fun IntInSlice :: "int \<Rightarrow> int list \<Rightarrow> bool" where
  "IntInSlice key [] = False"
| "IntInSlice key (e # es) = (if e = key then True else IntInSlice key es)"

fun Int64InSlice :: "int \<Rightarrow> int list \<Rightarrow> bool" where
  "Int64InSlice key [] = False"
| "Int64InSlice key (e # es) = (if e = key then True else Int64InSlice key es)"

lemma StringInSlice_iff [simp]: "StringInSlice k es \<longleftrightarrow> k \<in> set es"
  by (induction es) auto

lemma IntInSlice_iff [simp]: "IntInSlice k es \<longleftrightarrow> k \<in> set es"
  by (induction es) auto

lemma Int64InSlice_iff [simp]: "Int64InSlice k es \<longleftrightarrow> k \<in> set es"
  by (induction es) auto

definition IsTrue :: "string \<Rightarrow> bool" where
  "IsTrue v = StringInSlice (ToLower v) [''true'', ''1'', ''yes'', ''on'']"

section \<open>Paths, snapshots, host names\<close>

definition AddSlash :: "string \<Rightarrow> string res" where
  "AddSlash p =
     (if p = [] then Inl (Panic ''index out of range'')
      else Inr (if last p \<noteq> CHR ''/'' then p @ ''/'' else p))"

definition SnapshotDelimiter :: char where "SnapshotDelimiter = CHR ''/''"

definition IsSnapshot :: "string \<Rightarrow> bool" where
  "IsSnapshot name = Contains name [SnapshotDelimiter]"

definition ExtractSnapshotName :: "string \<Rightarrow> string res" where
  "ExtractSnapshotName name =
     (case SplitN2 SnapshotDelimiter name of
        [_, snap] \<Rightarrow> Inr snap
      | _ \<Rightarrow> Inl (Panic ''index out of range''))"

definition AtoiEmptyDefault :: "string \<Rightarrow> int \<Rightarrow> int res" where
  "AtoiEmptyDefault s def = (if s = [] then Inr def else Atoi s)"

definition host_char :: "char \<Rightarrow> bool" where
  "host_char c \<longleftrightarrow> c = CHR ''-'' \<or> is_lower c \<or> is_upper c \<or> is_digit c"

definition ValidHostname :: "string \<Rightarrow> bool" where
  "ValidHostname name =
     (if length name < 1 \<or> length name > 63 then False
      else if HasPrefix name ''-'' then False
      else if is_ok (Atoi [hd name]) then False
      else if HasSuffix name ''-'' then False
      else if \<not> list_all host_char name then False
      else True)"

section \<open>Sizes\<close>

definition byte_suffix_len :: "string \<Rightarrow> nat option" where
  "byte_suffix_len s =
     (if is_number (last s) then Some 0
      else if length s \<ge> 2 \<and> last s = CHR ''B'' \<and> is_number (s ! (length s - 2)) then Some 1
      else if HasSuffix s '' bytes'' then Some 6
      else if length s < 3 then None
      else Some 2)"

definition byte_units :: "(string \<times> int) list" where
  "byte_units =
     [(''kB'', 1024), (''MB'', 1024 ^ 2), (''GB'', 1024 ^ 3), (''TB'', 1024 ^ 4), (''PB'', 1024 ^ 5),
      (''EB'', 1024 ^ 6)]"

definition ParseByteSizeString :: "string \<Rightarrow> int res" where
  "ParseByteSizeString s =
     (if s = [] then Inr 0
      else case byte_suffix_len s of
             None \<Rightarrow> Inl (Errorf ''Invalid value: %s'' [s])
           | Some n \<Rightarrow>
              (let suffix = drop (length s - n) s; v = take (length s - n) s
               in case ParseInt v 10 64 of
                    Inl _ \<Rightarrow> Inl (Errorf ''Invalid integer: %s'' [s])
                  | Inr i \<Rightarrow>
                      if i < 0 then Inl (Errorf ''Invalid value: %d'' [show_int i])
                      else if n \<noteq> 2 then Inr i
                      else case map_of byte_units suffix of
                             None \<Rightarrow> Inl (Errorf ''Unsupported suffix: %s'' [suffix])
                           | Some k \<Rightarrow> Inr (mul64 i k)))"

definition bit_units :: "(string \<times> int) list" where
  "bit_units =
     [(''kbit'', 1000), (''Mbit'', 1000 ^ 2), (''Gbit'', 1000 ^ 3), (''Tbit'', 1000 ^ 4),
      (''Pbit'', 1000 ^ 5), (''Ebit'', 1000 ^ 6)]"

definition ParseBitSizeString :: "string \<Rightarrow> int res" where
  "ParseBitSizeString s =
     (if s = [] then Inr 0
      else if length s < 5 then Inl (Errorf ''Invalid value: %s'' [s])
      else let suffix = drop (length s - 4) s; v = take (length s - 4) s
           in case ParseInt v 10 64 of
                Inl _ \<Rightarrow> Inl (Errorf ''Invalid integer: %s'' [s])
              | Inr i \<Rightarrow>
                  if i < 0 then Inl (Errorf ''Invalid value: %d'' [show_int i])
                  else case map_of bit_units suffix of
                         None \<Rightarrow> Inl (Errorf ''Unsupported suffix: %s'' [suffix])
                       | Some k \<Rightarrow> Inr (mul64 i k))"

section \<open>Removing duplicate separators\<close>

text \<open>
  The loop \<open>for s = Replace(s); Contains(s, dup); s = Replace(s)\<close>; it does not return when the
  separator is empty, hence the option.
\<close>

partial_function (option) dedup_loop :: "string \<Rightarrow> string \<Rightarrow> string \<Rightarrow> string option" where
  "dedup_loop dup sep s =
     (if Contains s dup then dedup_loop dup sep (Replace s dup sep) else Some s)"

definition RemoveDuplicatesFromString :: "string \<Rightarrow> string \<Rightarrow> string option" where
  "RemoveDuplicatesFromString s sep = dedup_loop (sep @ sep) sep (Replace s (sep @ sep) sep)"

section \<open>File headers\<close>

text \<open>
  \<open>strconv.ParseInt(s, 0, 0)\<close>: the prefix chooses base 16, 8 or 10 (its input here has already
  been accepted by \<open>Atoi\<close>, so it is a sign and decimal digits).
\<close>

definition base0_body :: "string \<Rightarrow> num_err + nat" where
  "base0_body s =
     (case s of
        [] \<Rightarrow> Inl ErrSyntax
      | c # cs \<Rightarrow>
          if c = CHR ''0'' then
            (case cs of
               [] \<Rightarrow> Inr 0
             | x # ds \<Rightarrow>
                 if x = CHR ''x'' \<or> x = CHR ''X'' then uint_of 16 64 ds
                 else uint_loop 8 (2 ^ 64 - 1) 0 cs)
          else uint_of 10 64 s)"

definition ParseInt0 :: "string \<Rightarrow> num_err + int" where
  "ParseInt0 s =
     (case s of
        [] \<Rightarrow> Inl ErrSyntax
      | c # cs \<Rightarrow>
          (let neg = (c = CHR ''-'');
               body = (if c = CHR ''-'' \<or> c = CHR ''+'' then cs else s)
           in case base0_body body of
                Inl e \<Rightarrow> Inl e
              | Inr n \<Rightarrow>
                  if \<not> neg \<and> 2 ^ 63 \<le> n then Inl ErrRange
                  else if neg \<and> 2 ^ 63 < n then Inl ErrRange
                  else Inr (if neg then - int n else int n)))"

record file_headers =
  fh_uid :: int
  fh_gid :: int
  fh_mode :: int
  fh_type :: string
  fh_write :: string

text \<open>\<open>os.FileMode(raw) & os.ModePerm\<close> keeps the nine permission bits.\<close>

definition ParseFileHeaders :: "string gomap \<Rightarrow> file_headers" where
  "ParseFileHeaders h =
     \<lparr>fh_uid = (case ParseInt (gm_str h ''X-APOLLO-uid'') 10 64 of Inl _ \<Rightarrow> -1 | Inr i \<Rightarrow> i),
      fh_gid = (case ParseInt (gm_str h ''X-APOLLO-gid'') 10 64 of Inl _ \<Rightarrow> -1 | Inr i \<Rightarrow> i),
      fh_mode = (case Atoi (gm_str h ''X-APOLLO-mode'') of
                   Inl _ \<Rightarrow> -1
                 | Inr m \<Rightarrow> (case ParseInt0 (gm_str h ''X-APOLLO-mode'') of
                               Inl _ \<Rightarrow> m
                             | Inr raw \<Rightarrow> raw mod 512)),
      fh_type = (let t = gm_str h ''X-APOLLO-type'' in if t = [] then ''file'' else t),
      fh_write = (let w = gm_str h ''X-APOLLO-write'' in if w = [] then ''overwrite'' else w)\<rparr>"

section \<open>Metadata\<close>

text \<open>
  What reflection tells about the value: nothing, a map with its keys (a string or not), a nil
  pointer, or something else. The values stay opaque.
\<close>

datatype 'j map_key = StringKey string | OtherKey 'j

datatype 'j go_value =
    InvalidValue
  | MapValue "('j map_key \<times> 'j) list"
  | NilPointer
  | OtherValue 'j

fun metadata_keys :: "('j map_key \<times> 'j) list \<Rightarrow> (string \<times> 'j) list \<Rightarrow> (string \<times> 'j) list res" where
  "metadata_keys [] acc = Inr acc"
| "metadata_keys ((OtherKey _, _) # kvs) acc =
     Inl (Errorf ''Invalid metadata provided (key isn't a string).'' [])"
| "metadata_keys ((StringKey k, v) # kvs) acc = metadata_keys kvs (gm_set acc k v)"

fun ParseMetadata :: "'j go_value \<Rightarrow> (string \<times> 'j) list option res" where
  "ParseMetadata InvalidValue = Inr None"
| "ParseMetadata (MapValue kvs) = ebind (metadata_keys kvs []) (\<lambda>m. Inr (Some m))"
| "ParseMetadata NilPointer = Inr None"
| "ParseMetadata (OtherValue _) = Inl (Errorf ''Invalid metadata provided (type isn't a map).'' [])"

section \<open>Reading into a channel\<close>

text \<open>
  One element of the input is one call of \<open>Read\<close>: the bytes it returned and whether it returned an
  error (end of file included). The result is the chunks sent, whether the channel was closed,
  and \<open>Panic\<close> when a slice of the buffer would be out of range.
\<close>

definition readSize :: nat where "readSize = 128 * 1024"

definition chunk_buffer :: "int \<Rightarrow> nat" where
  "chunk_buffer bufferSize = (if bufferSize \<le> int readSize then readSize else nat bufferSize)"

fun chunk_loop :: "nat \<Rightarrow> 'b list \<Rightarrow> ('b list \<times> bool) list \<Rightarrow> ('b list list \<times> bool) res" where
  "chunk_loop bs buf [] = Inr ([], False)"
| "chunk_loop bs buf ((bytes, err) # rs) =
     (if bs < length buf + readSize then Inl (Panic ''slice bounds out of range'')
      else let buf' = buf @ bytes;
               flush = (length buf' > 0 \<and> (length buf' + readSize \<ge> bs \<or> err))
           in if err then Inr (if flush then [buf'] else [], True)
              else ebind (chunk_loop bs (if flush then [] else buf') rs) (\<lambda>(cs, closed).
                     Inr ((if flush then [buf'] else []) @ cs, closed)))"

definition ReaderToChannel :: "('b list \<times> bool) list \<Rightarrow> int \<Rightarrow> ('b list list \<times> bool) res" where
  "ReaderToChannel reads bufferSize = chunk_loop (chunk_buffer bufferSize) [] reads"

section \<open>Retried commands\<close>

text \<open>
  \<open>run i\<close> is the outcome of attempt \<open>i\<close>: its output and its error. The result also says how many
  attempts were made.
\<close>

fun try_loop :: "nat \<Rightarrow> nat \<Rightarrow> string \<times> go_error option \<Rightarrow> (nat \<Rightarrow> string \<times> go_error option)
    \<Rightarrow> (string \<times> go_error option) \<times> nat" where
  "try_loop 0 i last_out run = (last_out, i)"
| "try_loop (Suc n) i last_out run =
     (case run i of
        (output, None) \<Rightarrow> ((output, None), Suc i)
      | (output, Some e) \<Rightarrow> try_loop n (Suc i) (output, Some e) run)"

definition TryRunCommand :: "(nat \<Rightarrow> string \<times> go_error option) \<Rightarrow> (string \<times> go_error option) \<times> nat" where
  "TryRunCommand run = try_loop 20 0 ([], None) run"

definition TimeIsSet :: "int \<Rightarrow> bool" where
  "TimeIsSet unix = (if unix \<le> 0 then False else True)"

end
