(* ===== verification/IdmapAlloc.thy ===== *)
theory IdmapAlloc
  imports IdmapHost Util
begin

text \<open>
  The id map of a new container, \<open>parseRawIdmap\<close>, \<open>idmapSize\<close> and \<open>findIdmap\<close> of
  \<open>apollo/container_mercury.go\<close>: raw maps, the shared map of the daemon, and the search for a free
  range of host ids for an isolated container.
\<close>

section \<open>Raw maps\<close>

definition getRange :: "string \<Rightarrow> (int \<times> int) res" where
  "getRange r =
     (let entries = Split (CHR ''-'') r
      in if length entries > 2 then Inl (Errorf ''invalid raw.idmap range %s'' [r])
         else ebind (ParseInt (entries ! 0) 10 64) (\<lambda>base.
              if length entries > 1
              then ebind (ParseInt (entries ! 1) 10 64) (\<lambda>high. Inr (base, add64 (sub64 high base) 1))
              else Inr (base, 1)))"

definition raw_entry :: "bool \<Rightarrow> bool \<Rightarrow> int \<Rightarrow> int \<Rightarrow> int \<Rightarrow> idmap_entry" where
  "raw_entry isuid isgid outside inside n =
     \<lparr>e_isuid = isuid, e_isgid = isgid, e_hostid = outside, e_nsid = inside, e_maprange = n\<rparr>"

definition parse_raw_line :: "idmap_set \<Rightarrow> string \<Rightarrow> idmap_set res" where
  "parse_raw_line ret line =
     (case Split (CHR '' '') line of
        [t, outside, inside] \<Rightarrow>
          ebind (getRange outside) (\<lambda>(outsideBase, outsideSize).
          ebind (getRange inside) (\<lambda>(insideBase, insideSize).
            if insideSize \<noteq> outsideSize
            then Inl (Errorf ''idmap ranges of different sizes %s'' [line])
            else if t = ''both'' then AddSafe ret (raw_entry True True outsideBase insideBase insideSize)
            else if t = ''uid'' then AddSafe ret (raw_entry True False outsideBase insideBase insideSize)
            else if t = ''gid'' then AddSafe ret (raw_entry False True outsideBase insideBase insideSize)
            else Inl (Errorf ''invalid raw.idmap type %s'' [line])))
      | _ \<Rightarrow> Inl (Errorf ''invalid raw.idmap line %s'' [line]))"

fun parse_raw_lines :: "idmap_set \<Rightarrow> string list \<Rightarrow> idmap_set res" where
  "parse_raw_lines ret [] = Inr ret"
| "parse_raw_lines ret (l # ls) =
     (if l = [] then parse_raw_lines ret ls
      else ebind (parse_raw_line ret l) (\<lambda>ret'. parse_raw_lines ret' ls))"

definition parseRawIdmap :: "string \<Rightarrow> idmap_set res" where
  "parseRawIdmap v = parse_raw_lines [] (Split (CHR 10) v)"

section \<open>The size of a map\<close>

text \<open>
  The daemon's map is a pointer that may be nil (\<open>None\<close>), and its first entry is read without a
  length check in \<open>findIdmap\<close>.
\<close>

definition idmapSize :: "idmap_set option \<Rightarrow> string \<Rightarrow> string \<Rightarrow> int res" where
  "idmapSize dm isolatedStr configSize =
     (if configSize = [] \<or> configSize = ''auto'' then
        (if IsTrue isolatedStr then Inr 65536
         else case dm of
                None \<Rightarrow> Inl (Panic ''nil pointer dereference'')
              | Some [e, _] \<Rightarrow> Inr (e_maprange e)
              | Some _ \<Rightarrow> Inl (Errorf ''bad initial idmap: %v'' []))
      else ParseInt configSize 10 64)"

definition first_entry :: "idmap_set option \<Rightarrow> idmap_entry res" where
  "first_entry dm =
     (case dm of
        None \<Rightarrow> Inl (Panic ''nil pointer dereference'')
      | Some [] \<Rightarrow> Inl (Panic ''index out of range'')
      | Some (e # _) \<Rightarrow> Inr e)"

section \<open>The search for a free range\<close>

text \<open>The raw maps are laid over a set; the error of \<open>AddSafe\<close> is dropped.\<close>

definition lay_over :: "idmap_set \<Rightarrow> idmap_entry \<Rightarrow> idmap_set" where
  "lay_over s ent = (case AddSafe s ent of Inl _ \<Rightarrow> s | Inr s' \<Rightarrow> s')"

definition mkIdmap :: "idmap_set \<Rightarrow> int \<Rightarrow> int \<Rightarrow> idmap_set" where
  "mkIdmap rawMaps offset sz =
     foldl lay_over [raw_entry True False offset 0 sz, raw_entry False True offset 0 sz] rawMaps"

text \<open>
  The ranges of the other isolated containers. A container is its name and its expanded
  configuration, or the error of loading it. A missing \<open>volatile.idmap.base\<close> counts as zero.
\<close>

definition host_range :: "int \<Rightarrow> int \<Rightarrow> idmap_entry" where
  "host_range base sz = zero_entry\<lparr>e_hostid := base, e_maprange := sz\<rparr>"

definition container_range :: "idmap_set option \<Rightarrow> string gomap \<Rightarrow> idmap_entry option res" where
  "container_range dm conf =
     (if IsTrue (gm_str conf ''security.privileged'') then Inr None
      else if \<not> IsTrue (gm_str conf ''security.idmap.isolated'') then Inr None
      else ebind (if gm_str conf ''volatile.idmap.base'' \<noteq> []
                  then ParseInt (gm_str conf ''volatile.idmap.base'') 10 64 else Inr 0) (\<lambda>cBase.
           ebind (idmapSize dm (gm_str conf ''security.idmap.isolated'') (gm_str conf ''security.idmap.size''))
             (\<lambda>cSize. Inr (Some (host_range cBase cSize)))))"

fun other_ranges ::
  "idmap_set option \<Rightarrow> string \<Rightarrow> (string \<times> string gomap res) list \<Rightarrow> idmap_entry list res" where
  "other_ranges dm cName [] = Inr []"
| "other_ranges dm cName ((name, c) # cs) =
     (if name = cName then other_ranges dm cName cs
      else ebind c (\<lambda>conf. ebind (container_range dm conf) (\<lambda>r.
           ebind (other_ranges dm cName cs) (\<lambda>rs.
             Inr (case r of None \<Rightarrow> rs | Some e \<Rightarrow> e # rs)))))"

definition host_end :: "idmap_entry \<Rightarrow> int" where
  "host_end e = add64 (e_hostid e) (e_maprange e)"

text \<open>
  The loop over the sorted ranges, with the range before the current one: whether it returns an
  offset, and the offset.
\<close>

fun slot_loop :: "int \<Rightarrow> idmap_entry option \<Rightarrow> int \<Rightarrow> idmap_entry list \<Rightarrow> bool \<times> int" where
  "slot_loop sz prev offset [] = (False, offset)"
| "slot_loop sz None offset (e # es) =
     (if e_hostid e < add64 offset sz then slot_loop sz (Some e) (host_end e) es
      else (True, offset))"
| "slot_loop sz (Some p) offset (e # es) =
     (if host_end p > offset then slot_loop sz (Some e) (host_end p) es
      else if add64 (host_end p) sz < e_hostid e then (True, host_end p)
      else slot_loop sz (Some e) (host_end e) es)"

definition find_slot :: "(idmap_set \<Rightarrow> idmap_set) \<Rightarrow> idmap_entry \<Rightarrow> int \<Rightarrow> idmap_entry list \<Rightarrow> int res" where
  "find_slot srt first sz rs =
     (let (found, offset) = slot_loop sz None (add64 (e_hostid first) 65536) (srt rs)
      in if found \<or> add64 offset sz < host_end first then Inr offset
         else Inl (Errorf ''Not enough uid/gid available for the container.'' []))"

definition findIdmap ::
  "(idmap_set \<Rightarrow> idmap_set) \<Rightarrow> idmap_set option \<Rightarrow> (string \<times> string gomap res) list res \<Rightarrow>
   string \<Rightarrow> string \<Rightarrow> string \<Rightarrow> string \<Rightarrow> string \<Rightarrow> (idmap_set \<times> int) res" where
  "findIdmap srt dm ctns cName isolatedStr configBase configSize rawIdmap =
     ebind (parseRawIdmap rawIdmap) (\<lambda>rawMaps.
       if \<not> IsTrue isolatedStr then
         (case dm of
            None \<Rightarrow> Inl (Panic ''nil pointer dereference'')
          | Some m \<Rightarrow> Inr (foldl lay_over m rawMaps, 0))
       else
         ebind (idmapSize dm isolatedStr configSize) (\<lambda>sz.
           if configBase \<noteq> [] then
             ebind (ParseInt configBase 10 64) (\<lambda>offset. Inr (mkIdmap rawMaps offset sz, offset))
           else
             ebind ctns (\<lambda>cs.
             ebind (first_entry dm) (\<lambda>first.
             ebind (other_ranges dm cName cs) (\<lambda>rs.
             ebind (find_slot srt first sz rs) (\<lambda>offset.
               Inr (mkIdmap rawMaps offset sz, offset)))))))"

end
