(* ===== verification/IdmapAllocProps.thy ===== *)
theory IdmapAllocProps
  imports IdmapAlloc
begin

text \<open>
  The allocation of host ids to isolated containers: the search for a free range, the machine of
  containers that come and go, and the two ways in which a free or a foreign range is misjudged.
\<close>

section \<open>Ranges that keep apart\<close>

definition small_range :: "idmap_entry \<Rightarrow> bool" where
  "small_range e \<longleftrightarrow> 0 \<le> e_hostid e \<and> 0 < e_maprange e \<and> e_hostid e + e_maprange e < 2 ^ 62"

definition before :: "idmap_entry \<Rightarrow> idmap_entry \<Rightarrow> bool" where
  "before a b \<longleftrightarrow> e_hostid a + e_maprange a \<le> e_hostid b"

definition apart :: "idmap_set \<Rightarrow> bool" where
  "apart rs \<longleftrightarrow> (\<forall>a b. {#a, b#} \<subseteq># mset rs \<longrightarrow> before a b \<or> before b a)"

definition host_less :: "idmap_entry \<Rightarrow> idmap_entry \<Rightarrow> bool" where
  "host_less a b \<longleftrightarrow> e_hostid a < e_hostid b"

lemma host_end_small: "small_range e \<Longrightarrow> host_end e = e_hostid e + e_maprange e"
  by (simp add: host_end_def small_range_def i64_small)

lemma sorted_wrt_pairs:
  assumes "sorted_wrt Q xs" "\<And>x y. {#x, y#} \<subseteq># mset xs \<Longrightarrow> Q x y \<Longrightarrow> P x y"
  shows "sorted_wrt P xs"
  using assms
proof (induction xs)
  case (Cons x xs)
  have "P x y" if "y \<in> set xs" for y
  proof (rule Cons.prems(2))
    show "{#x, y#} \<subseteq># mset (x # xs)" using that by simp
    show "Q x y" using Cons.prems(1) that by simp
  qed
  moreover have "sorted_wrt P xs"
  proof (rule Cons.IH)
    show "sorted_wrt Q xs" using Cons.prems(1) by simp
    show "P a b" if "{#a, b#} \<subseteq># mset xs" "Q a b" for a b
      using Cons.prems(2) [OF _ that(2)] that(1) subset_mset.order_trans [of _ "mset xs" "mset (x # xs)"]
      by simp
  qed
  ultimately show ?case by simp
qed simp

lemma apart_sorted:
  assumes "go_sort host_less srt" "apart rs" "\<forall>e \<in> set rs. small_range e"
  shows "sorted_wrt before (srt rs)"
proof (rule sorted_wrt_pairs [OF go_sort.srt_sorted [OF assms(1)]])
  fix a b assume ab: "{#a, b#} \<subseteq># mset (srt rs)" "\<not> host_less b a"
  then have p: "{#a, b#} \<subseteq># mset rs" by (simp only: go_sort.srt_mset [OF assms(1)])
  then have "a \<in># mset rs" "b \<in># mset rs"
    using mset_subset_eqD [OF p] by simp_all
  then have "small_range a" "small_range b" using assms(3) by simp_all
  then show "before a b"
    using assms(2) p ab(2) unfolding apart_def by (fastforce simp: before_def host_less_def small_range_def)
qed

section \<open>The search\<close>

definition clear_of :: "int \<Rightarrow> int \<Rightarrow> idmap_entry \<Rightarrow> bool" where
  "clear_of offset sz e \<longleftrightarrow> offset + sz \<le> e_hostid e \<or> e_hostid e + e_maprange e \<le> offset"

lemma slot_loop_some:
  assumes "slot_loop sz (Some p) (host_end p) es = (found, offset)"
    and "sorted_wrt before (p # es)" "\<forall>e \<in> set (p # es). small_range e" "0 < sz" "sz < 2 ^ 62"
  shows "host_end p \<le> offset \<and> (\<forall>e \<in> set (p # es). clear_of offset sz e) \<and>
    (if found then \<exists>e \<in> set es. offset + sz < e_hostid e
     else \<forall>e \<in> set (p # es). e_hostid e + e_maprange e \<le> offset) \<and> offset < 2 ^ 62"
  using assms
proof (induction es arbitrary: p)
  case Nil
  then show ?case by (simp add: clear_of_def host_end_small small_range_def)
next
  case (Cons e es)
  have sm: "small_range p" "small_range e" using Cons.prems(3) by simp_all
  have pe: "before p e" using Cons.prems(2) by simp
  have he: "host_end p = e_hostid p + e_maprange p" "host_end e = e_hostid e + e_maprange e"
    using sm by (simp_all add: host_end_small)
  have ad: "add64 (host_end p) sz = host_end p + sz"
    using sm Cons.prems(4,5) unfolding he by (simp add: small_range_def i64_small)
  show ?case
  proof (cases "host_end p + sz < e_hostid e")
    case True
    then have o: "found" "offset = host_end p" using Cons.prems(1) ad by simp_all
    have "clear_of (host_end p) sz x" if "x \<in> set (e # es)" for x
    proof -
      have "e_hostid e \<le> e_hostid x" using that Cons.prems(2) sm(2)
        by (auto simp: before_def small_range_def)
      then show ?thesis using True by (simp add: clear_of_def)
    qed
    then show ?thesis using o True sm(1) by (auto simp: he clear_of_def small_range_def)
  next
    case False
    then have s: "slot_loop sz (Some e) (host_end e) es = (found, offset)"
      using Cons.prems(1) ad by simp
    have ih: "host_end e \<le> offset \<and> (\<forall>x \<in> set (e # es). clear_of offset sz x) \<and>
      (if found then \<exists>x \<in> set es. offset + sz < e_hostid x
       else \<forall>x \<in> set (e # es). e_hostid x + e_maprange x \<le> offset) \<and> offset < 2 ^ 62"
      using Cons.IH [OF s] Cons.prems(2-5) by simp
    have "e_hostid p + e_maprange p \<le> offset"
      using ih pe sm by (auto simp: he before_def small_range_def)
    then show ?thesis using ih by (auto simp: he clear_of_def)
  qed
qed

definition within :: "idmap_entry \<Rightarrow> idmap_entry \<Rightarrow> bool" where
  "within first e \<longleftrightarrow> e_hostid first + 65536 \<le> e_hostid e \<and>
     e_hostid e + e_maprange e \<le> e_hostid first + e_maprange first"

lemma find_slot_free:
  assumes "go_sort host_less srt" "small_range first" "apart rs"
    and "\<forall>e \<in> set rs. small_range e \<and> within first e" "0 < sz" "sz < 2 ^ 61"
    and "find_slot srt first sz rs = Inr offset"
  shows "e_hostid first + 65536 \<le> offset \<and> offset + sz \<le> e_hostid first + e_maprange first \<and>
    (\<forall>e \<in> set rs. clear_of offset sz e)"
proof -
  have srt: "sorted_wrt before (srt rs)" using apart_sorted assms(1,3,4) by blast
  have set: "set (srt rs) = set rs" by (rule go_sort.srt_set [OF assms(1)])
  have base: "add64 (e_hostid first) 65536 = e_hostid first + 65536"
    and hend: "host_end first = e_hostid first + e_maprange first"
    using assms(2) by (simp_all add: host_end_def small_range_def i64_small)
  obtain found off where sl: "slot_loop sz None (add64 (e_hostid first) 65536) (srt rs) = (found, off)"
    by (cases "slot_loop sz None (add64 (e_hostid first) 65536) (srt rs)")
  have off: "offset = off" "found \<or> add64 offset sz < host_end first"
    using assms(7) by (simp_all add: find_slot_def sl split: if_splits)
  show ?thesis
  proof (cases "srt rs")
    case Nil
    then have "off = e_hostid first + 65536" "\<not> found" using sl base by simp_all
    moreover have "add64 offset sz = offset + sz"
      using calculation off assms(2,5,6) by (simp add: small_range_def i64_small)
    ultimately show ?thesis using off hend Nil set by auto
  next
    case (Cons e es)
    have sm: "\<forall>x \<in> set (e # es). small_range x \<and> within first x" using assms(4) set Cons by simp
    have ad: "add64 (e_hostid first + 65536) sz = e_hostid first + 65536 + sz"
      using assms(2,5,6) by (simp add: small_range_def i64_small)
    show ?thesis
    proof (cases "e_hostid e < e_hostid first + 65536 + sz")
      case True
      then have "slot_loop sz (Some e) (host_end e) es = (found, off)"
        using sl by (simp add: Cons base ad)
      from slot_loop_some [OF this] srt sm assms(5,6)
      have r: "host_end e \<le> off \<and> (\<forall>x \<in> set (e # es). clear_of off sz x) \<and>
          (if found then \<exists>x \<in> set es. off + sz < e_hostid x
           else \<forall>x \<in> set (e # es). e_hostid x + e_maprange x \<le> off) \<and> off < 2 ^ 62"
        by (simp add: Cons)
      have lo: "e_hostid first + 65536 \<le> off"
        using r sm by (auto simp: host_end_small small_range_def within_def)
      have "off + sz \<le> e_hostid first + e_maprange first"
      proof (cases found)
        case True
        then obtain x where "x \<in> set es" "off + sz < e_hostid x" using r by auto
        then show ?thesis using sm by (force simp: within_def small_range_def)
      next
        case False
        have "add64 off sz = off + sz"
          using r lo assms(2,5,6) by (simp add: small_range_def i64_small)
        then show ?thesis using False off hend by simp
      qed
      then show ?thesis using r lo off(1) set Cons by auto
    next
      case False
      then have o: "off = e_hostid first + 65536" using sl by (simp add: Cons base ad)
      have "clear_of off sz x" if "x \<in> set (e # es)" for x
      proof -
        have "e_hostid e \<le> e_hostid x" using that srt sm Cons
          by (auto simp: before_def small_range_def)
        then show ?thesis using False o by (simp add: clear_of_def)
      qed
      moreover have "off + sz \<le> e_hostid first + e_maprange first"
        using False o sm by (auto simp: within_def small_range_def)
      ultimately show ?thesis using o off(1) set [symmetric] Cons by auto
    qed
  qed
qed

section \<open>Containers that come and go\<close>

text \<open>
  A daemon that creates isolated containers without a fixed base, and deletes them: a container is
  its name, its size and the base recorded in \<open>volatile.idmap.base\<close>.
\<close>

type_synonym isolated = "string \<times> int \<times> int"

datatype alloc_action = Create string int | Remove string

definition iso_conf :: "int \<Rightarrow> int \<Rightarrow> string gomap" where
  "iso_conf sz base =
     [(''security.idmap.isolated'', ''true''), (''security.idmap.size'', show_int sz),
      (''volatile.idmap.base'', show_int base)]"

definition configs :: "isolated list \<Rightarrow> (string \<times> string gomap res) list" where
  "configs st = map (\<lambda>(n, sz, base). (n, Inr (iso_conf sz base))) st"

definition iso_ranges :: "isolated list \<Rightarrow> idmap_set" where
  "iso_ranges st = map (\<lambda>(n, sz, base). host_range base sz) st"

fun alloc_exec ::
  "(idmap_set \<Rightarrow> idmap_set) \<Rightarrow> idmap_set \<Rightarrow> alloc_action \<Rightarrow> isolated list \<Rightarrow> isolated list option" where
  "alloc_exec srt dm (Create n sz) st =
     (if n \<in> fst ` set st \<or> \<not> (0 < sz \<and> sz < 2 ^ 32) then None
      else case findIdmap srt (Some dm) (Inr (configs st)) n ''true'' [] (show_int sz) [] of
             Inl _ \<Rightarrow> Some st
           | Inr (_, base) \<Rightarrow> Some ((n, sz, base) # st))"
| "alloc_exec srt dm (Remove n) st = Some (filter (\<lambda>(n', _, _). n' \<noteq> n) st)"

definition alloc_inv :: "idmap_entry \<Rightarrow> isolated list \<Rightarrow> bool" where
  "alloc_inv first st \<longleftrightarrow> apart (iso_ranges st) \<and>
     (\<forall>(n, sz, base) \<in> set st. 0 < sz \<and> sz < 2 ^ 32 \<and> small_range (host_range base sz) \<and>
        within first (host_range base sz))"

lemma host_range_simps [simp]:
  "e_hostid (host_range base sz) = base" "e_maprange (host_range base sz) = sz"
  by (simp_all add: host_range_def)

lemma true_is_true: "IsTrue ''true''" "\<not> IsTrue []"
  by (simp_all add: IsTrue_def) code_simp+

lemma show_int_not_special:
  assumes "0 < sz" shows "show_int sz \<noteq> []" "show_int sz \<noteq> ''auto''"
proof -
  have "is_digit (hd (show_int sz))"
    using assms show_nat_digits [of "hd (show_nat (nat sz))" "nat sz"] by (simp add: show_int_def)
  moreover have "\<not> is_digit (hd ''auto'')" by (simp add: is_digit_def)
  ultimately show "show_int sz \<noteq> []" "show_int sz \<noteq> ''auto''"
    using assms by (auto simp: show_int_def)
qed

lemma idmapSize_show:
  "0 < sz \<Longrightarrow> sz < 2 ^ 32 \<Longrightarrow> idmapSize dm s (show_int sz) = Inr sz"
  by (simp add: idmapSize_def show_int_not_special ParseInt_show_int in_i64_def)

lemma other_ranges_configs:
  assumes "\<forall>(n, sz, base) \<in> set st. 0 < sz \<and> sz < 2 ^ 32 \<and> 0 < base \<and> base < 2 ^ 62"
    and "c \<notin> fst ` set st"
  shows "other_ranges dm c (configs st) = Inr (iso_ranges st)"
  using assms
proof (induction st)
  case (Cons x st)
  obtain n sz base where x: "x = (n, sz, base)" by (cases x) auto
  have b: "0 < sz" "sz < 2 ^ 32" "0 < base" "base < 2 ^ 62" using Cons.prems(1) by (simp_all add: x)
  have "container_range dm (iso_conf sz base) = Inr (Some (host_range base sz))"
    using b by (simp add: container_range_def iso_conf_def gm_str_def true_is_true idmapSize_show
        show_int_not_special ParseInt_show_int in_i64_def)
  then show ?case using Cons by (auto simp: configs_def iso_ranges_def x)
qed (simp add: configs_def iso_ranges_def)

lemma apart_Nil [simp]: "apart []"
  by (simp add: apart_def)

lemma apart_Cons:
  assumes "apart rs" "\<forall>e \<in> set rs. clear_of (e_hostid x) (e_maprange x) e"
  shows "apart (x # rs)"
  unfolding apart_def
proof (intro allI impI)
  fix a b assume ab: "{#a, b#} \<subseteq># mset (x # rs)"
  show "before a b \<or> before b a"
  proof (cases "{#a, b#} \<subseteq># mset rs")
    case True
    then show ?thesis using assms(1) by (simp add: apart_def)
  next
    case False
    have "x \<in># {#a, b#}"
    proof (rule ccontr)
      assume n: "x \<notin># {#a, b#}"
      have "{#a, b#} \<subseteq># mset rs"
      proof (rule mset_subset_eqI)
        fix c show "count {#a, b#} c \<le> count (mset rs) c"
          using mset_subset_eq_count [OF ab, of c] n by (cases "c = x") auto
      qed
      with False show False ..
    qed
    then have "a = x \<and> b \<in># mset rs \<or> b = x \<and> a \<in># mset rs"
      using ab by (auto simp: add_mset_commute [of a])
    then show ?thesis using assms(2) by (auto simp: clear_of_def before_def)
  qed
qed

lemma apart_filter: "apart rs \<Longrightarrow> mset qs \<subseteq># mset rs \<Longrightarrow> apart qs"
  unfolding apart_def using subset_mset.order_trans by blast

lemma iso_ranges_filter: "mset (iso_ranges (filter P st)) \<subseteq># mset (iso_ranges st)"
  unfolding iso_ranges_def mset_map mset_filter
  by (rule image_mset_subseteq_mono) (rule multiset_filter_subset)

lemma findIdmap_isolated:
  assumes "0 < sz" "sz < 2 ^ 32" "other_ranges (Some (first # rest)) n cs = Inr rs"
    and "findIdmap srt (Some (first # rest)) (Inr cs) n ''true'' [] (show_int sz) [] = Inr (m, base)"
  shows "find_slot srt first sz rs = Inr base"
  using assms
  by (auto simp: findIdmap_def parseRawIdmap_def true_is_true idmapSize_show first_entry_def ebind_eq_Inr)

lemma alloc_step:
  assumes "go_sort host_less srt" "small_range first"
    and "alloc_inv first st" "alloc_exec srt (first # rest) a st = Some st'"
  shows "alloc_inv first st'"
proof (cases a)
  case (Remove n)
  then show ?thesis
    using assms(3,4) apart_filter [OF _ iso_ranges_filter] by (auto simp: alloc_inv_def)
next
  case (Create n sz)
  have n: "n \<notin> fst ` set st" and sz: "0 < sz" "sz < 2 ^ 32"
    using assms(4) Create by (auto split: if_splits)
  show ?thesis
  proof (cases "findIdmap srt (Some (first # rest)) (Inr (configs st)) n ''true'' [] (show_int sz) []")
    case (Inl e)
    then show ?thesis using assms(3,4) Create n sz by simp
  next
    case (Inr mb)
    obtain m base where mb: "mb = (m, base)" by (cases mb)
    have st': "st' = (n, sz, base) # st" using assms(4) Create n sz Inr mb by simp
    have sm: "\<forall>e \<in> set (iso_ranges st). small_range e \<and> within first e"
      using assms(3) by (auto simp: alloc_inv_def iso_ranges_def)
    have b: "\<forall>(n, sz, base) \<in> set st. 0 < sz \<and> sz < 2 ^ 32 \<and> 0 < base \<and> base < 2 ^ 62"
      using assms(2,3) by (fastforce simp: alloc_inv_def within_def small_range_def)
    have "find_slot srt first sz (iso_ranges st) = Inr base"
      using findIdmap_isolated [OF sz other_ranges_configs [OF b n]] Inr mb by simp
    from find_slot_free [OF assms(1,2) _ sm sz(1) _ this] assms(3) sz(2)
    have f: "e_hostid first + 65536 \<le> base" "base + sz \<le> e_hostid first + e_maprange first"
      "\<forall>e \<in> set (iso_ranges st). clear_of base sz e" by (simp_all add: alloc_inv_def)
    have "apart (host_range base sz # iso_ranges st)"
      using apart_Cons [of "iso_ranges st" "host_range base sz"] f(3) assms(3) by (simp add: alloc_inv_def)
    then show ?thesis using f sz assms(2,3)
      by (auto simp: alloc_inv_def st' iso_ranges_def within_def small_range_def)
  qed
qed

lemma alloc_machine:
  "go_sort host_less srt \<Longrightarrow> small_range first \<Longrightarrow>
   machine_invariant (alloc_exec srt (first # rest)) (alloc_inv first)"
  by unfold_locales (rule alloc_step)


interpretation host_sort: go_sort host_less "insertion_sort host_less"
  by (rule go_sort_insertion_sort) (auto simp: strict_weak_def host_less_def)

definition daemon_map :: idmap_set where
  "daemon_map = [raw_entry True False 100000 0 1000000, raw_entry False True 100000 0 1000000]"

lemma alloc_create:
  assumes "n \<notin> fst ` set st" "0 < sz" "sz < 2 ^ 32"
    and "\<forall>(n, sz, base) \<in> set st. 0 < sz \<and> sz < 2 ^ 32 \<and> 0 < base \<and> base < 2 ^ 62"
    and "find_slot srt first sz (iso_ranges st) = Inr base"
  shows "alloc_exec srt (first # rest) (Create n sz) st = Some ((n, sz, base) # st)"
  using assms
  by (simp add: findIdmap_def parseRawIdmap_def true_is_true idmapSize_show first_entry_def other_ranges_configs)

lemma find_slot_first:
  "find_slot (insertion_sort host_less) (raw_entry True False 100000 0 1000000) 65536 [] = Inr 165536"
  "find_slot (insertion_sort host_less) (raw_entry True False 100000 0 1000000) 65536
     [host_range 165536 65536] = Inr 231072"
  by (simp_all add: find_slot_def raw_entry_def host_end_def i64_small)


section \<open>Where the search misjudges\<close>

text \<open>A gap of exactly the wanted size is never used: with the daemon's range full but for
  such a gap, the search reports that no ids are left.\<close>
theorem exact_gap_missed:
  "let st = [(''a'', 65536, 165536), (''c'', 803392, 296608)]
   in alloc_inv (hd daemon_map) st \<and> alloc_inv (hd daemon_map) ((''b'', 65536, 231072) # st) \<and>
      findIdmap (insertion_sort host_less) (Some daemon_map) (Inr (configs st)) ''b'' ''true'' [] (show_int 65536) [] =
        Inl (Errorf ''Not enough uid/gid available for the container.'' [])"
proof -
  let ?st = "[(''a'', 65536, 165536), (''c'', 803392, 296608)] :: isolated list"
  have ap: "apart (iso_ranges ?st)" "apart (iso_ranges ((''b'', 65536, 231072) # ?st))"
    by (auto simp: iso_ranges_def clear_of_def intro!: apart_Cons apart_Nil)
  have o: "other_ranges (Some daemon_map) ''b'' (configs ?st) = Inr (iso_ranges ?st)"
    by (rule other_ranges_configs) simp_all
  have f: "find_slot (insertion_sort host_less) (raw_entry True False 100000 0 1000000) 65536 (iso_ranges ?st) =
      Inl (Errorf ''Not enough uid/gid available for the container.'' [])"
    by (simp add: find_slot_def raw_entry_def host_end_def i64_small iso_ranges_def host_less_def)
  have "findIdmap (insertion_sort host_less) (Some daemon_map) (Inr (configs ?st)) ''b'' ''true'' []
      (show_int 65536) [] = Inl (Errorf ''Not enough uid/gid available for the container.'' [])"
    using o f by (simp add: findIdmap_def parseRawIdmap_def true_is_true idmapSize_show first_entry_def daemon_map_def)
  moreover have "alloc_inv (hd daemon_map) ?st" "alloc_inv (hd daemon_map) ((''b'', 65536, 231072) # ?st)"
    using ap by (simp_all add: alloc_inv_def daemon_map_def raw_entry_def small_range_def within_def)
  ultimately show ?thesis by (simp add: Let_def)
qed

text \<open>An isolated container whose base is not recorded yet, or is recorded as zero, counts as
  the range that starts at host id 0: the next container is then given ids from 65536 on, outside
  the daemon's range.\<close>
theorem unrecorded_base_escapes:
  "ebind (findIdmap (insertion_sort host_less) (Some daemon_map)
      (Inr [(''a'', Inr [(''security.idmap.isolated'', ''true'')])]) ''b'' ''true'' [] [] [])
      (\<lambda>(_, base). Inr (base, e_hostid (hd daemon_map))) = Inr (65536, 100000)"
proof -
  have "find_slot (insertion_sort host_less) (raw_entry True False 100000 0 1000000) 65536 [host_range 0 65536] =
      Inr 65536"
    by (simp add: find_slot_def raw_entry_def host_end_def i64_small)
  then show ?thesis
    by (simp add: findIdmap_def parseRawIdmap_def true_is_true idmapSize_def first_entry_def daemon_map_def
        container_range_def gm_str_def) (simp add: raw_entry_def)
qed

end
