(* ===== verification/UtilProps.thy ===== *)
theory UtilProps
  imports Util
begin

text \<open>
  Laws of the helpers in \<open>shared/util.go\<close>: sizes with units, separators, host names, chunked reads.
\<close>

section \<open>Sizes: the interface of a unit parser\<close>

text \<open>
  Callers rely on one law: a decimal number followed by a known unit is the number times the
  multiplier, in 64-bit arithmetic. What follows for values that fit, and for units that are
  multiples of each other, holds for bytes and for bits.
\<close>

locale unit_parser =
  fixes parse :: "string \<Rightarrow> int res" and units :: "(string \<times> int) list"
  assumes parse_unit: "n < 2 ^ 63 \<Longrightarrow> (u, k) \<in> set units \<Longrightarrow> parse (show_nat n @ u) = Inr (mul64 (int n) k)"
    and unit_pos: "(u, k) \<in> set units \<Longrightarrow> 0 < k"
begin

lemma parse_exact:
  assumes "(u, k) \<in> set units" "int n * k < 2 ^ 63"
  shows "parse (show_nat n @ u) = Inr (int n * k)"
proof -
  have k: "0 < k" using unit_pos assms(1) by blast
  then have "int n * 1 \<le> int n * k" by (intro mult_left_mono) auto
  then have "n < 2 ^ 63" using assms(2) by simp
  then have "parse (show_nat n @ u) = Inr (mul64 (int n) k)" using parse_unit assms(1) by blast
  moreover have "0 \<le> int n * k" using k by simp
  ultimately show ?thesis using assms(2) by (simp add: i64_small)
qed

lemma parse_rescale:
  assumes "(u, k) \<in> set units" "(w, c * k) \<in> set units" "0 \<le> c" "n * nat c < 2 ^ 63" "n < 2 ^ 63"
  shows "parse (show_nat (n * nat c) @ u) = parse (show_nat n @ w)"
  using parse_unit [OF assms(4,1)] parse_unit [OF assms(5,2)] assms(3)
  by (simp add: mult.assoc)

end

lemma show_nat_suffix:
  "length (show_nat n @ u) - length u = length (show_nat n)"
  "take (length (show_nat n)) (show_nat n @ u) = show_nat n"
  "drop (length (show_nat n)) (show_nat n @ u) = u"
  by simp_all

lemma show_int_nat: "show_int (int n) = show_nat n"
  by (simp add: show_int_def)

lemma ParseInt_show_nat: "n < 2 ^ 63 \<Longrightarrow> ParseInt (show_nat n) 10 64 = Inr (int n)"
  using ParseInt_show_int [of "int n"] by (simp add: show_int_nat in_i64_def)

lemma byte_units_shape:
  assumes "(u, k) \<in> set byte_units"
  shows "u = [hd u, CHR ''B''] \<and> \<not> is_number (hd u) \<and> 0 < k \<and> map_of byte_units u = Some k"
proof -
  have "list_all (\<lambda>(u, k). u = [hd u, CHR ''B''] \<and> \<not> is_number (hd u) \<and> 0 < k \<and>
      map_of byte_units u = Some k) byte_units"
    by code_simp
  then show ?thesis using assms by (auto simp: list_all_iff)
qed

lemma last_byte_suffix:
  assumes "u = [c, CHR ''B'']" "\<not> is_number c"
  shows "byte_suffix_len (show_nat n @ u) = Some 2"
proof -
  have l: "last (show_nat n @ u) = CHR ''B''" "length (show_nat n @ u) = length (show_nat n) + 2"
    using assms(1) by simp_all
  have "\<not> HasSuffix (show_nat n @ u) '' bytes''"
  proof
    assume "HasSuffix (show_nat n @ u) '' bytes''"
    then obtain t where "show_nat n @ u = t @ '' bytes''" by (auto simp: HasSuffix_iff)
    then have "last (show_nat n @ u) = CHR ''s''" by simp
    with l show False by simp
  qed
  moreover have "(show_nat n @ u) ! (length (show_nat n @ u) - 2) = c"
    using assms(1) by (simp add: nth_append)
  moreover have "\<not> is_number (CHR ''B'')" by (simp add: is_number_def is_digit_def)
  moreover have "0 < length (show_nat n)" by simp
  ultimately show ?thesis using l assms(2) by (simp add: byte_suffix_len_def)
qed

lemma byte_parse_unit:
  assumes "n < 2 ^ 63" "(u, k) \<in> set byte_units"
  shows "ParseByteSizeString (show_nat n @ u) = Inr (mul64 (int n) k)"
proof -
  obtain c where u: "u = [c, CHR ''B'']" "\<not> is_number c" "map_of byte_units u = Some k"
    using byte_units_shape [OF assms(2)] by blast
  have "length (show_nat n @ u) - 2 = length (show_nat n)" using u(1) by simp
  then show ?thesis
    using ParseInt_show_nat [OF assms(1)] u(3)
    by (simp add: ParseByteSizeString_def last_byte_suffix [OF u(1,2)] Let_def)
qed

interpretation byte_parser: unit_parser ParseByteSizeString byte_units
  by unfold_locales (auto simp: byte_parse_unit dest: byte_units_shape)

lemma bit_units_shape:
  assumes "(u, k) \<in> set bit_units"
  shows "length u = 4 \<and> 0 < k \<and> map_of bit_units u = Some k"
proof -
  have "list_all (\<lambda>(u, k). length u = 4 \<and> 0 < k \<and> map_of bit_units u = Some k) bit_units"
    by code_simp
  then show ?thesis using assms by (auto simp: list_all_iff)
qed

lemma bit_parse_unit:
  assumes "n < 2 ^ 63" "(u, k) \<in> set bit_units"
  shows "ParseBitSizeString (show_nat n @ u) = Inr (mul64 (int n) k)"
proof -
  note u = bit_units_shape [OF assms(2)]
  have "0 < length (show_nat n)" by simp
  then have l: "\<not> length (show_nat n @ u) < 5" "length (show_nat n @ u) - 4 = length (show_nat n)"
    using u by simp_all
  then show ?thesis
    using ParseInt_show_nat [OF assms(1)] u by (simp add: ParseBitSizeString_def Let_def)
qed

interpretation bit_parser: unit_parser ParseBitSizeString bit_units
  by unfold_locales (auto simp: bit_parse_unit dest: bit_units_shape)

lemma ParseByteSizeString_plain:
  assumes "n < 2 ^ 63"
  shows "ParseByteSizeString (show_nat n) = Inr (int n)"
proof -
  have "is_digit (last (show_nat n))" using show_nat_digits [of "last (show_nat n)" n] by simp
  then have "byte_suffix_len (show_nat n) = Some 0" by (simp add: byte_suffix_len_def is_number_def)
  then show ?thesis using ParseInt_show_nat [OF assms] by (simp add: ParseByteSizeString_def)
qed

lemma ParseByteSizeString_range: "ParseByteSizeString s = Inr i \<Longrightarrow> in_i64 i"
  by (auto simp: ParseByteSizeString_def Let_def in_i64_def [of 0] dest: ParseInt_bound
      split: if_splits option.splits sum.splits)

text \<open>A size written as a number and a unit parses to the number times the multiplier of the
  unit whenever the product is an int64, for byte units and for bit units.\<close>
theorem size_parsers_exact:
  assumes "int n * k < 2 ^ 63"
  shows "((u, k) \<in> set byte_units \<longrightarrow> ParseByteSizeString (show_nat n @ u) = Inr (int n * k)) \<and>
         ((u, k) \<in> set bit_units \<longrightarrow> ParseBitSizeString (show_nat n @ u) = Inr (int n * k))"
  using byte_parser.parse_exact bit_parser.parse_exact assms by blast

theorem size_parsers_exact_witness: "ParseByteSizeString ''512MB'' = Inr 536870912"
proof -
  have "show_nat 512 = ''512''" by code_simp
  then show ?thesis using size_parsers_exact [of 512 "1024 ^ 2" "''MB''"]
    by (simp add: byte_units_def)
qed

text \<open>The multiplication of \<open>ParseByteSizeString\<close> is not checked for overflow: 8EB is accepted
  as a negative size and 16EB as zero.\<close>
theorem size_overflow_accepted:
  "ParseByteSizeString ''8EB'' = Inr (- (2 ^ 63)) \<and> ParseByteSizeString ''16EB'' = Inr 0"
proof -
  have s: "show_nat 8 = ''8''" "show_nat 16 = ''16''" by code_simp+
  have u: "(''EB'', 1024 ^ 6) \<in> set byte_units" by (simp add: byte_units_def)
  show ?thesis
    using byte_parser.parse_unit [OF _ u, of 8] byte_parser.parse_unit [OF _ u, of 16]
    by (simp add: s i64_def)
qed

section \<open>Duplicate separators\<close>

lemma Replace_length:
  "length new \<le> length old \<Longrightarrow> length (Replace s old new) \<le> length s"
proof (induction s old new rule: Replace.induct)
  case (1 s old new)
  show ?case
  proof (cases "s = [] \<or> old = []")
    case True
    then show ?thesis by (simp add: Replace.simps [of s])
  next
    case False
    then have l: "0 < length s" "0 < length old" by auto
    show ?thesis
    proof (cases "HasPrefix s old")
      case True
      then have "length old \<le> length s" by (auto simp: HasPrefix_iff)
      moreover have "length (Replace (drop (length old) s) old new) \<le> length s - length old"
        using "1.IH"(1) [OF False True "1.prems"] by simp
      ultimately show ?thesis using False True "1.prems" by (simp add: Replace.simps [of s])
    next
      case no: False
      have "length (Replace (tl s) old new) \<le> length (tl s)"
        using "1.IH"(2) [OF False no "1.prems"] .
      moreover have "length (Replace s old new) = Suc (length (Replace (tl s) old new))"
        using False no by (subst Replace.simps) simp
      moreover have "length s = Suc (length (tl s))" using False by (cases s) auto
      ultimately show ?thesis by linarith
    qed
  qed
qed

lemma Replace_shorter:
  "length new < length old \<Longrightarrow> Contains s old \<Longrightarrow> length (Replace s old new) < length s"
proof (induction s old new rule: Replace.induct)
  case (1 s old new)
  have ne: "\<not> (s = [] \<or> old = [])" using "1.prems" by (auto simp: Contains_iff)
  show ?case
  proof (cases "HasPrefix s old")
    case True
    then have "length old \<le> length s" by (auto simp: HasPrefix_iff)
    moreover have "length (Replace (drop (length old) s) old new) \<le> length (drop (length old) s)"
      using Replace_length [of new old "drop (length old) s"] "1.prems"(1) by simp
    ultimately show ?thesis using ne True "1.prems"(1) by (simp add: Replace.simps [of s])
  next
    case False
    have "Contains (tl s) old"
      using "1.prems"(2) False ne by (cases s) (auto simp: Contains_def split: if_splits)
    then have "length (Replace (tl s) old new) < length (tl s)"
      using "1.IH"(2) [OF ne False "1.prems"(1)] by blast
    then show ?thesis using ne False by (simp add: Replace.simps [of s])
  qed
qed

lemma Replace_filter:
  assumes "old = [c, c]" "new = [c]"
  shows "filter (\<lambda>x. x \<noteq> c) (Replace s old new) = filter (\<lambda>x. x \<noteq> c) s"
  using assms
proof (induction s old new rule: Replace.induct)
  case (1 s old new)
  show ?case
  proof (cases "s = [] \<or> old = []")
    case True
    then show ?thesis by (simp add: Replace.simps [of s])
  next
    case ne: False
    show ?thesis
    proof (cases "HasPrefix s old")
      case True
      then obtain t where s: "s = c # c # t" using "1.prems" by (auto simp: HasPrefix_iff)
      with "1.IH"(1) [OF ne True "1.prems"] show ?thesis
        by (simp add: "1.prems" Replace.simps [of "c # c # t"] HasPrefix_def)
    next
      case False
      have "Replace s old new = hd s # Replace (tl s) old new" using ne False by (subst Replace.simps) simp
      moreover obtain a t where "s = a # t" using ne by (cases s) auto
      ultimately show ?thesis using "1.IH"(2) [OF ne False "1.prems"] by simp
    qed
  qed
qed

lemma dedup_loop_ok:
  assumes "sep \<noteq> []"
  shows "\<exists>r. dedup_loop (sep @ sep) sep s = Some r \<and> \<not> Contains r (sep @ sep) \<and>
    (\<forall>c. sep = [c] \<longrightarrow> filter (\<lambda>x. x \<noteq> c) r = filter (\<lambda>x. x \<noteq> c) s)"
proof (induction s rule: length_induct)
  case (1 s)
  show ?case
  proof (cases "Contains s (sep @ sep)")
    case True
    let ?s = "Replace s (sep @ sep) sep"
    have "length ?s < length s" using Replace_shorter True assms by simp
    then obtain r where "dedup_loop (sep @ sep) sep ?s = Some r" "\<not> Contains r (sep @ sep)"
      "\<forall>c. sep = [c] \<longrightarrow> filter (\<lambda>x. x \<noteq> c) r = filter (\<lambda>x. x \<noteq> c) ?s"
      using 1 by blast
    then show ?thesis using True by (auto simp: dedup_loop.simps [of _ _ s] Replace_filter)
  next
    case False
    then show ?thesis by (simp add: dedup_loop.simps [of _ _ s])
  qed
qed

text \<open>C25: \<open>RemoveDuplicatesFromString\<close> returns for every non-empty separator, its result contains
  no doubled separator, and for a one-byte separator no other byte is touched.\<close>
theorem remove_duplicates_terminates:
  assumes "sep \<noteq> []"
  shows "\<exists>r. RemoveDuplicatesFromString s sep = Some r \<and> \<not> Contains r (sep @ sep) \<and>
    (\<forall>c. sep = [c] \<longrightarrow> filter (\<lambda>x. x \<noteq> c) r = filter (\<lambda>x. x \<noteq> c) s)"
proof -
  obtain r where r: "dedup_loop (sep @ sep) sep (Replace s (sep @ sep) sep) = Some r"
    "\<not> Contains r (sep @ sep)"
    "\<forall>c. sep = [c] \<longrightarrow> filter (\<lambda>x. x \<noteq> c) r = filter (\<lambda>x. x \<noteq> c) (Replace s (sep @ sep) sep)"
    using dedup_loop_ok [OF assms] by blast
  then show ?thesis by (auto simp: RemoveDuplicatesFromString_def Replace_filter)
qed

theorem remove_duplicates_terminates_witness:
  "\<exists>r. RemoveDuplicatesFromString ''a///b//c'' ''/'' = Some r \<and> \<not> Contains r ''//''"
  using remove_duplicates_terminates [of "''/''" "''a///b//c''"] by auto

section \<open>Host names\<close>

lemma Atoi_single:
  "is_ok (Atoi [c]) \<longleftrightarrow> is_digit c"
proof -
  have "is_digit c \<Longrightarrow> code_of c - 48 < 10" by (auto simp: is_digit_def)
  moreover have "is_digit c \<Longrightarrow> c \<noteq> CHR ''-'' \<and> c \<noteq> CHR ''+''" by (rule is_digit_not_sign)
  moreover have "digit_val 10 c = None" if "\<not> is_digit c"
    using that by (auto simp: digit_val_def Let_def)
  ultimately show ?thesis
    by (cases "is_digit c") (auto simp: Atoi_def int_of_str_def uint_of_def digit_val_def Let_def)
qed

lemma ValidHostname_iff:
  "ValidHostname s \<longleftrightarrow> s \<noteq> [] \<and> length s \<le> 63 \<and> list_all host_char s \<and>
     (is_lower (hd s) \<or> is_upper (hd s)) \<and> last s \<noteq> CHR ''-''"
proof (cases s rule: rev_cases)
  case Nil
  then show ?thesis by (simp add: ValidHostname_def)
next
  case (snoc t z)
  have pre: "HasPrefix s ''-'' \<longleftrightarrow> hd s = CHR ''-''" by (cases s) (use snoc in \<open>auto simp: HasPrefix_def\<close>)
  have suf: "HasSuffix s ''-'' \<longleftrightarrow> last s = CHR ''-''" using snoc by (auto simp: HasSuffix_iff)
  have hd: "list_all host_char s \<Longrightarrow> host_char (hd s)" using snoc hd_in_set [of s] by (auto simp: list_all_iff)
  have dash: "\<not> is_lower (CHR ''-'')" "\<not> is_upper (CHR ''-'')" by (simp_all add: is_lower_def is_upper_def)
  have ex: "is_lower c \<or> is_upper c \<Longrightarrow> \<not> is_digit c" for c
    by (auto simp: is_lower_def is_upper_def is_digit_def)
  have "s \<noteq> []" using snoc by simp
  then show ?thesis
    using hd dash ex by (auto simp: ValidHostname_def pre suf Atoi_single host_char_def Suc_le_eq)
qed

section \<open>Chunked reading\<close>

text \<open>The reads up to and including the first that reports an error.\<close>

fun until_err :: "('b list \<times> bool) list \<Rightarrow> ('b list \<times> bool) list" where
  "until_err [] = []"
| "until_err ((bytes, err) # rs) = (if err then [(bytes, err)] else (bytes, err) # until_err rs)"

lemma chunk_loop_spec:
  assumes "length buf + readSize \<le> bs" "\<forall>(b, e) \<in> set reads. length b \<le> readSize"
    "\<exists>b. (b, True) \<in> set reads"
  shows "\<exists>cs. chunk_loop bs buf reads = Inr (cs, True) \<and>
    concat cs = buf @ concat (map fst (until_err reads)) \<and> (\<forall>c \<in> set cs. c \<noteq> [] \<and> length c \<le> bs)"
  using assms
proof (induction bs buf reads rule: chunk_loop.induct)
  case (1 bs buf)
  then show ?case by simp
next
  case (2 bs buf bytes err rs)
  let ?b = "buf @ bytes"
  let ?flush = "length ?b > 0 \<and> (length ?b + readSize \<ge> bs \<or> err)"
  have lb: "length ?b \<le> bs" using "2.prems"(1,2) by auto
  have ok: "\<not> bs < length buf + readSize" using "2.prems"(1) by simp
  show ?case
  proof (cases err)
    case True
    with ok lb show ?thesis by (cases "?b = []") (auto simp: Let_def)
  next
    case False
    let ?next = "if ?flush then [] else ?b"
    have n: "length ?next + readSize \<le> bs" using "2.prems"(1) False by auto
    have "\<exists>b. (b, True) \<in> set rs" "\<forall>(b, e) \<in> set rs. length b \<le> readSize"
      using "2.prems"(2,3) False by auto
    then obtain cs where cs: "chunk_loop bs ?next rs = Inr (cs, True)"
      "concat cs = ?next @ concat (map fst (until_err rs))" "\<forall>c \<in> set cs. c \<noteq> [] \<and> length c \<le> bs"
      using "2.IH" [OF ok refl refl False n] by blast
    then show ?thesis using ok False lb by (auto simp: Let_def)
  qed
qed

text \<open>\<open>ReaderToChannel\<close> sends exactly the bytes it reads, in order, in non-empty chunks no
  longer than the buffer, closes the channel when the reader ends, and never slices out of range.\<close>
theorem reader_to_channel_complete:
  assumes "\<forall>(b, e) \<in> set reads. length b \<le> readSize" "\<exists>b. (b, True) \<in> set reads"
  shows "\<exists>cs. ReaderToChannel reads n = Inr (cs, True) \<and> concat cs = concat (map fst (until_err reads)) \<and>
    (\<forall>c \<in> set cs. c \<noteq> [] \<and> length c \<le> max readSize (nat n))"
proof -
  have b: "length [] + readSize \<le> chunk_buffer n" by (simp add: chunk_buffer_def, linarith)
  have m: "chunk_buffer n \<le> max readSize (nat n)" by (auto simp: chunk_buffer_def)
  from chunk_loop_spec [OF b assms] show ?thesis
    unfolding ReaderToChannel_def using m by fastforce
qed

theorem reader_to_channel_complete_witness:
  "\<exists>cs. ReaderToChannel [(''ab'', False), (''c'', True)] 0 = Inr (cs, True) \<and> concat cs = ''abc''"
  using reader_to_channel_complete [of "[(''ab'', False), (''c'', True)]" 0] by (auto simp: readSize_def)

end
