(* ===== verification/Operations.thy ===== *)
theory Operations
  imports Util
begin

text \<open>
  \<open>apollo/operations.go\<close> with \<open>shared/api/status_code.go\<close> and \<open>shared/cancel/canceler.go\<close>: the
  background operations of the daemon, their registry and API, and the interleaving of the
  goroutines that run and cancel one operation.
\<close>

section \<open>Status codes\<close>

datatype status_code =
    OperationCreated | Started | Stopped | Running | Cancelling | Pending | Starting | Stopping
  | Aborting | Freezing | Frozen | Thawed | StError | Success | Failure | Cancelled

fun status_num :: "status_code \<Rightarrow> int" where
  "status_num OperationCreated = 100"
| "status_num Started = 101"
| "status_num Stopped = 102"
| "status_num Running = 103"
| "status_num Cancelling = 104"
| "status_num Pending = 105"
| "status_num Starting = 106"
| "status_num Stopping = 107"
| "status_num Aborting = 108"
| "status_num Freezing = 109"
| "status_num Frozen = 110"
| "status_num Thawed = 111"
| "status_num StError = 112"
| "status_num Success = 200"
| "status_num Failure = 400"
| "status_num Cancelled = 401"

fun status_String :: "status_code \<Rightarrow> string" where
  "status_String OperationCreated = ''Operation created''"
| "status_String Started = ''Started''"
| "status_String Stopped = ''Stopped''"
| "status_String Running = ''Running''"
| "status_String Cancelling = ''Cancelling''"
| "status_String Pending = ''Pending''"
| "status_String Success = ''Success''"
| "status_String Failure = ''Failure''"
| "status_String Cancelled = ''Cancelled''"
| "status_String Starting = ''Starting''"
| "status_String Stopping = ''Stopping''"
| "status_String Aborting = ''Aborting''"
| "status_String Freezing = ''Freezing''"
| "status_String Frozen = ''Frozen''"
| "status_String Thawed = ''Thawed''"
| "status_String StError = ''Error''"

definition IsFinal :: "status_code \<Rightarrow> bool" where
  "IsFinal s \<longleftrightarrow> status_num s \<ge> 200"

lemma status_num_inj: "status_num a = status_num b \<Longrightarrow> a = b"
  by (cases a; cases b) simp_all

instantiation status_code :: linorder
begin

definition less_eq_status_code :: "status_code \<Rightarrow> status_code \<Rightarrow> bool" where
  "less_eq_status_code a b \<longleftrightarrow> status_num a \<le> status_num b"

definition less_status_code :: "status_code \<Rightarrow> status_code \<Rightarrow> bool" where
  "less_status_code a b \<longleftrightarrow> status_num a < status_num b"

instance
  by standard (auto simp: less_eq_status_code_def less_status_code_def status_num_inj)

end

section \<open>Operations\<close>

datatype op_class = ClassTask | ClassWebsocket | ClassToken

fun class_String :: "op_class \<Rightarrow> string" where
  "class_String ClassTask = ''task''"
| "class_String ClassWebsocket = ''websocket''"
| "class_String ClassToken = ''token''"

text \<open>
  Hooks are callbacks of the daemon: the record keeps whether each is set. \<open>op_canceler\<close> is
  \<open>None\<close> for a nil pointer, otherwise whether its channel is non-nil. \<open>op_done_closed\<close> says that
  \<open>chanDone\<close> has been closed. Metadata values are opaque.
\<close>

type_synonym json = string

record operation =
  op_id :: string
  op_class :: op_class
  op_createdAt :: int
  op_updatedAt :: int
  op_status :: status_code
  op_url :: string
  op_resources :: "(string \<times> string list) list option"
  op_metadata :: "(string \<times> json) list option"
  op_err :: string
  op_readonly :: bool
  op_canceler :: "bool option"
  op_onRun :: bool
  op_onCancel :: bool
  op_onConnect :: bool
  op_done_closed :: bool

definition Cancelable :: "bool \<Rightarrow> bool" where
  "Cancelable ch = ch"

definition Canceler_Cancel :: "bool \<Rightarrow> bool res" where
  "Canceler_Cancel ch =
     (if \<not> ch then Inl (Errorf ''This operation cannot be canceled at this time'' []) else Inr False)"

definition mayCancel :: "operation \<Rightarrow> bool" where
  "mayCancel op =
     (if op_class op = ClassToken then True
      else if op_onCancel op then True
      else case op_canceler op of Some ch \<Rightarrow> Cancelable ch | None \<Rightarrow> False)"

record api_operation =
  api_id :: string
  api_class :: string
  api_createdAt :: int
  api_updatedAt :: int
  api_status :: string
  api_statuscode :: status_code
  api_resources :: "(string \<times> string list) list option"
  api_metadata :: "(string \<times> json) list option"
  api_maycancel :: bool
  api_err :: string

definition APIVersion :: string where "APIVersion = ''1.0''"

definition resource_url :: "string \<Rightarrow> string \<Rightarrow> string" where
  "resource_url key c = ''/'' @ APIVersion @ ''/'' @ key @ ''/'' @ c"

definition op_Render :: "operation \<Rightarrow> string \<times> api_operation" where
  "op_Render op =
     (op_url op,
      \<lparr>api_id = op_id op, api_class = class_String (op_class op), api_createdAt = op_createdAt op,
       api_updatedAt = op_updatedAt op, api_status = status_String (op_status op),
       api_statuscode = op_status op,
       api_resources = map_option (map (\<lambda>(key, value). (key, map (resource_url key) value))) (op_resources op),
       api_metadata = op_metadata op, api_maycancel = mayCancel op, api_err = op_err op\<rparr>)"

text \<open>
  \<open>WaitFinal\<close> seen at one moment: \<open>None\<close> while it blocks on \<open>chanDone\<close>. With a positive timeout
  both branches of its \<open>select\<close> return false; \<open>expired\<close> says that the timer has fired.
\<close>

definition WaitFinal :: "operation \<Rightarrow> int \<Rightarrow> bool \<Rightarrow> bool option" where
  "WaitFinal op timeout expired =
     (if IsFinal (op_status op) then Some True
      else if timeout = -1 then (if op_done_closed op then Some True else None)
      else if timeout > 0 then (if op_done_closed op \<or> expired then Some False else None)
      else Some False)"

definition UpdateResources :: "operation \<Rightarrow> int \<Rightarrow> (string \<times> string list) list option \<Rightarrow> operation res" where
  "UpdateResources op now res =
     (if op_status op \<noteq> Pending \<and> op_status op \<noteq> Running
      then Inl (Errorf ''Only pending or running operations can be updated'' [])
      else if op_readonly op then Inl (Errorf ''Read-only operations can't be updated'' [])
      else Inr (op\<lparr>op_updatedAt := now, op_resources := res\<rparr>))"

definition UpdateMetadata :: "operation \<Rightarrow> int \<Rightarrow> json go_value \<Rightarrow> operation res" where
  "UpdateMetadata op now md =
     (if op_status op \<noteq> Pending \<and> op_status op \<noteq> Running
      then Inl (Errorf ''Only pending or running operations can be updated'' [])
      else if op_readonly op then Inl (Errorf ''Read-only operations can't be updated'' [])
      else ebind (ParseMetadata md) (\<lambda>newMetadata.
             Inr (op\<lparr>op_updatedAt := now, op_metadata := newMetadata\<rparr>)))"

section \<open>The registry and its API\<close>

type_synonym registry = "(string \<times> operation) list"

text \<open>The hooks given to \<open>operationCreate\<close>: run, cancel, connect.\<close>

definition operationCreate ::
  "registry \<Rightarrow> string \<Rightarrow> int \<Rightarrow> op_class \<Rightarrow> (string \<times> string list) list option \<Rightarrow> json go_value \<Rightarrow>
   bool \<Rightarrow> bool \<Rightarrow> bool \<Rightarrow> (registry \<times> operation) res" where
  "operationCreate reg uuid now cls resources md onRun onCancel onConnect =
     ebind (ParseMetadata md) (\<lambda>newMetadata.
       let op = \<lparr>op_id = uuid, op_class = cls, op_createdAt = now, op_updatedAt = now,
                 op_status = Pending, op_url = ''/'' @ APIVersion @ ''/operations/'' @ uuid,
                 op_resources = resources, op_metadata = newMetadata, op_err = [],
                 op_readonly = False, op_canceler = None, op_onRun = onRun, op_onCancel = onCancel,
                 op_onConnect = onConnect, op_done_closed = False\<rparr>
       in if op_class op \<noteq> ClassWebsocket \<and> op_onConnect op
          then Inl (Errorf ''Only websocket operations can have a Connect hook'' [])
          else if op_class op = ClassWebsocket \<and> \<not> op_onConnect op
          then Inl (Errorf ''Websocket operations must have a Connect hook'' [])
          else if op_class op = ClassToken \<and> op_onRun op
          then Inl (Errorf ''Token operations can't have a Run hook'' [])
          else if op_class op = ClassToken \<and> op_onCancel op
          then Inl (Errorf ''Token operations can't have a Cancel hook'' [])
          else Inr (gm_set reg uuid op, op))"

definition operationGet :: "registry \<Rightarrow> string \<Rightarrow> operation res" where
  "operationGet reg uuid =
     (case map_of reg uuid of
        None \<Rightarrow> Inl (Errorf ''Operation '%s' doesn't exist'' [uuid])
      | Some op \<Rightarrow> Inr op)"

text \<open>The timer of \<open>done\<close>: five seconds after completion the operation leaves the registry.\<close>

definition operationExpire :: "registry \<Rightarrow> string \<Rightarrow> registry" where
  "operationExpire reg uuid = (case map_of reg uuid of None \<Rightarrow> reg | Some _ \<Rightarrow> gm_del reg uuid)"

datatype 'b response =
    SyncResponse 'b
  | NotFound
  | BadRequest go_error
  | InternalError go_error
  | WebsocketResponse operation
  | Blocked

definition operationAPIGet :: "registry \<Rightarrow> string \<Rightarrow> api_operation response" where
  "operationAPIGet reg uuid =
     (case operationGet reg uuid of
        Inl _ \<Rightarrow> NotFound
      | Inr op \<Rightarrow> SyncResponse (snd (op_Render op)))"

definition operationAPIWaitGet :: "registry \<Rightarrow> string \<Rightarrow> string \<Rightarrow> bool \<Rightarrow> api_operation response" where
  "operationAPIWaitGet reg timeout_arg uuid expired =
     (case AtoiEmptyDefault timeout_arg (-1) of
        Inl e \<Rightarrow> InternalError e
      | Inr timeout \<Rightarrow>
         (case operationGet reg uuid of
            Inl _ \<Rightarrow> NotFound
          | Inr op \<Rightarrow>
             (case WaitFinal op timeout expired of
                None \<Rightarrow> Blocked
              | Some _ \<Rightarrow> SyncResponse (snd (op_Render op)))))"

definition operationAPIWebsocketGet :: "registry \<Rightarrow> string \<Rightarrow> api_operation response" where
  "operationAPIWebsocketGet reg uuid =
     (case operationGet reg uuid of
        Inl _ \<Rightarrow> NotFound
      | Inr op \<Rightarrow> WebsocketResponse op)"

text \<open>
  \<open>operationsAPIGet\<close>: the operations grouped by their lower-case status, as URLs or rendered.
\<close>

fun group_ops :: "(operation \<Rightarrow> 'b) \<Rightarrow> registry \<Rightarrow> (string \<times> 'b list) list \<Rightarrow> (string \<times> 'b list) list" where
  "group_ops show_op [] md = md"
| "group_ops show_op ((_, v) # ops) md =
     (let status = ToLower (status_String (op_status v));
          old = (case map_of md status of None \<Rightarrow> [] | Some l \<Rightarrow> l)
      in group_ops show_op ops (gm_set md status (old @ [show_op v])))"

definition operationsAPIGet ::
  "registry \<Rightarrow> bool \<Rightarrow> ((string \<times> string list) list + (string \<times> api_operation list) list) response" where
  "operationsAPIGet reg recursion =
     (if recursion then SyncResponse (Inr (group_ops (\<lambda>v. snd (op_Render v)) reg []))
      else SyncResponse (Inl (group_ops op_url reg [])))"

section \<open>Interleaved goroutines of one operation\<close>

text \<open>
  Each thread is at one point of \<open>Run\<close>, \<open>Cancel\<close>, \<open>Connect\<close> or of a goroutine they start. A step is
  the code between two points: an unlocked test, or one section under \<open>op.lock\<close>. \<open>done\<close> is two
  steps, since it tests \<open>readonly\<close> before it takes the lock. \<open>c\<close> numbers the \<open>chanCancel\<close> that a
  \<open>Cancel\<close> call made; it has room for one value and \<open>operationAPIDelete\<close> never receives from it.
\<close>

datatype pc =
    RunCall | RunLock | RunStart | RunHook | RunDone | RunDoneLock
  | CancelCall | CancelLock | CancelSpawn status_code nat | CancelCanceler nat | CancelFinal nat
  | CancelMark nat | CancelDone nat | CancelDoneLock nat | CancelSend nat
  | GoCancel status_code nat | GoCancelHook status_code nat | GoCancelDone nat | GoCancelDoneLock nat
  | GoCancelSend nat
  | ConnectCall | ConnectStart | ConnectHook
  | Finished "go_error option"

record op_sys =
  s_op :: operation
  s_threads :: "pc list"
  s_chans :: "bool list"
  s_panic :: bool

text \<open>The section of \<open>done\<close> under the lock; closing a closed channel panics.\<close>

definition close_done :: "op_sys \<Rightarrow> op_sys" where
  "close_done s =
     (if op_done_closed (s_op s) then s\<lparr>s_panic := True\<rparr>
      else s\<lparr>s_op := (s_op s)\<lparr>op_readonly := True, op_onRun := False, op_onCancel := False,
                              op_onConnect := False, op_done_closed := True\<rparr>\<rparr>)"

definition set_status :: "status_code \<Rightarrow> op_sys \<Rightarrow> op_sys" where
  "set_status st s = s\<lparr>s_op := (s_op s)\<lparr>op_status := st\<rparr>\<rparr>"

definition goto :: "nat \<Rightarrow> pc \<Rightarrow> op_sys \<Rightarrow> op_sys" where
  "goto i p s = s\<lparr>s_threads := (s_threads s)[i := p]\<rparr>"

definition spawn :: "pc \<Rightarrow> op_sys \<Rightarrow> op_sys" where
  "spawn p s = s\<lparr>s_threads := s_threads s @ [p]\<rparr>"

definition send :: "nat \<Rightarrow> op_sys \<Rightarrow> op_sys option" where
  "send c s = (if s_chans s ! c then None else Some (s\<lparr>s_chans := (s_chans s)[c := True]\<rparr>))"

definition panic :: "op_sys \<Rightarrow> op_sys" where
  "panic s = s\<lparr>s_panic := True\<rparr>"

text \<open>\<open>h\<close> is what a hook that returns in this step returns.\<close>

fun step_pc :: "nat \<Rightarrow> string option \<Rightarrow> pc \<Rightarrow> op_sys \<Rightarrow> op_sys option" where
  "step_pc i h RunCall s =
     Some (if op_status (s_op s) \<noteq> Pending
           then goto i (Finished (Some (Errorf ''Only pending operations can be started'' []))) s
           else goto i RunLock s)"
| "step_pc i h RunLock s =
     Some (let s' = goto i (Finished None) (set_status Running s)
           in if op_onRun (s_op s) then spawn RunStart s' else s')"
| "step_pc i h RunStart s =
     Some (if op_onRun (s_op s) then goto i RunHook s else panic s)"
| "step_pc i h RunHook s =
     Some (goto i RunDone
       (case h of
          Some e \<Rightarrow> s\<lparr>s_op := (s_op s)\<lparr>op_status := Failure, op_err := e\<rparr>\<rparr>
        | None \<Rightarrow> set_status Success s))"
| "step_pc i h RunDone s =
     Some (if op_readonly (s_op s) then goto i (Finished None) s else goto i RunDoneLock s)"
| "step_pc i h RunDoneLock s = Some (goto i (Finished None) (close_done s))"
| "step_pc i h CancelCall s =
     Some (if op_status (s_op s) \<noteq> Running
           then goto i (Finished (Some (Errorf ''Only running operations can be cancelled'' []))) s
           else if \<not> mayCancel (s_op s)
           then goto i (Finished (Some (Errorf ''This operation can't be cancelled'' []))) s
           else goto i CancelLock s)"
| "step_pc i h CancelLock s =
     Some (goto i (CancelSpawn (op_status (s_op s)) (length (s_chans s)))
            (set_status Cancelling (s\<lparr>s_chans := s_chans s @ [False]\<rparr>)))"
| "step_pc i h (CancelSpawn old c) s =
     Some (let s' = goto i (CancelCanceler c) s
           in if op_onCancel (s_op s) then spawn (GoCancel old c) s' else s')"
| "step_pc i h (CancelCanceler c) s =
     Some (case op_canceler (s_op s) of
             None \<Rightarrow> goto i (CancelFinal c) s
           | Some ch \<Rightarrow>
              (case Canceler_Cancel ch of
                 Inl e \<Rightarrow> goto i (Finished (Some e)) s
               | Inr ch' \<Rightarrow> goto i (CancelFinal c) (s\<lparr>s_op := (s_op s)\<lparr>op_canceler := Some ch'\<rparr>\<rparr>)))"
| "step_pc i h (CancelFinal c) s =
     Some (if op_onCancel (s_op s) then goto i (Finished None) s else goto i (CancelMark c) s)"
| "step_pc i h (CancelMark c) s = Some (goto i (CancelDone c) (set_status Cancelled s))"
| "step_pc i h (CancelDone c) s =
     Some (if op_readonly (s_op s) then goto i (CancelSend c) s else goto i (CancelDoneLock c) s)"
| "step_pc i h (CancelDoneLock c) s = Some (goto i (CancelSend c) (close_done s))"
| "step_pc i h (CancelSend c) s = map_option (goto i (Finished None)) (send c s)"
| "step_pc i h (GoCancel old c) s =
     Some (if op_onCancel (s_op s) then goto i (GoCancelHook old c) s else panic s)"
| "step_pc i h (GoCancelHook old c) s =
     Some (case h of
             Some e \<Rightarrow> goto i (GoCancelSend c) (set_status old s)
           | None \<Rightarrow> goto i (GoCancelDone c) (set_status Cancelled s))"
| "step_pc i h (GoCancelDone c) s =
     Some (if op_readonly (s_op s) then goto i (GoCancelSend c) s else goto i (GoCancelDoneLock c) s)"
| "step_pc i h (GoCancelDoneLock c) s = Some (goto i (GoCancelSend c) (close_done s))"
| "step_pc i h (GoCancelSend c) s = map_option (goto i (Finished None)) (send c s)"
| "step_pc i h ConnectCall s =
     Some (if op_class (s_op s) \<noteq> ClassWebsocket
           then goto i (Finished (Some (Errorf ''Only websocket operations can be connected'' []))) s
           else if op_status (s_op s) \<noteq> Running
           then goto i (Finished (Some (Errorf ''Only running operations can be connected'' []))) s
           else spawn ConnectStart (goto i (Finished None) s))"
| "step_pc i h ConnectStart s =
     Some (if op_onConnect (s_op s) then goto i ConnectHook s else panic s)"
| "step_pc i h ConnectHook s = Some (goto i (Finished (map_option OsError h)) s)"
| "step_pc i h (Finished e) s = None"

datatype action = CallRun | CallCancel | CallConnect | Advance nat "string option"

fun op_exec :: "action \<Rightarrow> op_sys \<Rightarrow> op_sys option" where
  "op_exec CallRun s = (if s_panic s then None else Some (spawn RunCall s))"
| "op_exec CallCancel s = (if s_panic s then None else Some (spawn CancelCall s))"
| "op_exec CallConnect s = (if s_panic s then None else Some (spawn ConnectCall s))"
| "op_exec (Advance i h) s =
     (if s_panic s \<or> length (s_threads s) \<le> i then None else step_pc i h (s_threads s ! i) s)"

definition start_sys :: "operation \<Rightarrow> op_sys" where
  "start_sys op = \<lparr>s_op = op, s_threads = [], s_chans = [], s_panic = False\<rparr>"

end
