(* ===== verification/OperationProps.thy ===== *)
theory OperationProps
  imports Operations
begin

text \<open>
  What the operations promise under every interleaving of their goroutines, what they do not, and
  the behaviour of the registry and its API.
\<close>

section \<open>Invariants of every interleaving\<close>

definition op_ok :: "operation \<Rightarrow> bool" where
  "op_ok op \<longleftrightarrow> op_done_closed op = op_readonly op \<and>
     (op_readonly op \<longrightarrow> \<not> op_onRun op \<and> \<not> op_onCancel op \<and> \<not> op_onConnect op) \<and>
     (op_class op = ClassToken \<longrightarrow> \<not> op_onRun op \<and> \<not> op_onCancel op) \<and>
     (op_onConnect op \<longrightarrow> op_class op = ClassWebsocket)"

lemmas sys_defs = close_done_def set_status_def goto_def spawn_def send_def panic_def Let_def

lemma s_op_simps [simp]:
  "s_op (goto i p s) = s_op s" "s_op (spawn p s) = s_op s" "s_op (panic s) = s_op s"
  "s_op (set_status st s) = (s_op s)\<lparr>op_status := st\<rparr>"
  by (simp_all add: sys_defs)

lemma s_op_send: "send c s = Some t \<Longrightarrow> s_op t = s_op s"
  by (auto simp: send_def split: if_splits)

lemma op_ok_close_done: "op_ok (s_op s) \<Longrightarrow> op_ok (s_op (close_done s))"
  by (simp add: close_done_def op_ok_def)

lemma op_ok_update [simp]:
  "op_ok (op\<lparr>op_status := st\<rparr>) = op_ok op" "op_ok (op\<lparr>op_status := st, op_err := e\<rparr>) = op_ok op"
  "op_ok (op\<lparr>op_canceler := ch\<rparr>) = op_ok op"
  by (simp_all add: op_ok_def)

lemma step_pc_op_ok:
  "op_ok (s_op s) \<Longrightarrow> step_pc i h p s = Some t \<Longrightarrow> op_ok (s_op t)"
  by (cases p) (auto simp: Let_def op_ok_close_done s_op_send split: if_splits option.splits sum.splits)

lemma op_exec_op_ok: "op_ok (s_op s) \<Longrightarrow> op_exec a s = Some t \<Longrightarrow> op_ok (s_op t)"
  by (cases a) (auto simp: spawn_def split: if_splits intro: step_pc_op_ok)

interpretation ok_machine: machine_invariant op_exec "\<lambda>s. op_ok (s_op s)"
  by unfold_locales (rule op_exec_op_ok)

definition same_identity :: "operation \<Rightarrow> operation \<Rightarrow> bool" where
  "same_identity a b \<longleftrightarrow> op_id a = op_id b \<and> op_class a = op_class b \<and> op_url a = op_url b \<and>
     op_createdAt a = op_createdAt b \<and> op_resources a = op_resources b \<and> op_metadata a = op_metadata b"

lemma identity_updates [simp]:
  "same_identity o0 (op\<lparr>op_status := st\<rparr>) = same_identity o0 op"
  "same_identity o0 (op\<lparr>op_status := st, op_err := e\<rparr>) = same_identity o0 op"
  "same_identity o0 (op\<lparr>op_canceler := ch\<rparr>) = same_identity o0 op"
  "same_identity o0 (s_op (close_done s)) = same_identity o0 (s_op s)"
  by (simp_all add: same_identity_def close_done_def)

lemma step_pc_identity:
  "same_identity o0 (s_op s) \<Longrightarrow> step_pc i h p s = Some t \<Longrightarrow> same_identity o0 (s_op t)"
  by (cases p) (auto simp: Let_def s_op_send split: if_splits option.splits sum.splits)

interpretation identity_machine: machine_invariant op_exec "\<lambda>s. same_identity o0 (s_op s)"
  for o0 :: operation
proof (unfold_locales)
  fix s a t
  assume "same_identity o0 (s_op s)" "op_exec a s = Some t"
  then show "same_identity o0 (s_op t)"
    by (cases a) (auto simp: spawn_def split: if_splits intro: step_pc_identity)
qed

text \<open>What \<open>operationCreate\<close> establishes.\<close>

lemma operationCreate_cases:
  assumes "operationCreate reg uuid now cls res md r c k = Inr (reg', op)"
  shows "op_ok op \<and> op_status op = Pending \<and> \<not> op_readonly op \<and> op_id op = uuid \<and> op_class op = cls \<and>
    op_onRun op = r \<and> op_onCancel op = c \<and> op_onConnect op = k \<and> op_canceler op = None \<and>
    reg' = gm_set reg uuid op"
  using assms
  by (auto simp: operationCreate_def ebind_eq_Inr Let_def op_ok_def split: if_splits)

text \<open>C6: In every interleaving of the goroutines of a created operation, \<open>chanDone\<close> is closed
  exactly when the operation is read-only, a read-only operation has no hooks left, and the
  identity of the operation never changes.\<close>
theorem operation_invariant:
  assumes "operationCreate reg uuid now cls res md r c k = Inr (reg', op)"
    and "reachable op_exec (start_sys op) s"
  shows "op_done_closed (s_op s) = op_readonly (s_op s) \<and>
    (op_readonly (s_op s) \<longrightarrow> \<not> op_onRun (s_op s) \<and> \<not> op_onCancel (s_op s) \<and> \<not> op_onConnect (s_op s)) \<and>
    op_id (s_op s) = uuid \<and> op_class (s_op s) = cls"
proof -
  note c = operationCreate_cases [OF assms(1)]
  have "op_ok (s_op s)"
    by (rule ok_machine.reachable_inv [OF assms(2)]) (use c in \<open>simp add: start_sys_def\<close>)
  moreover have "same_identity op (s_op s)"
    by (rule identity_machine.reachable_inv [OF assms(2)]) (simp add: start_sys_def same_identity_def)
  ultimately show ?thesis using c by (simp add: op_ok_def same_identity_def)
qed

definition sample_op :: operation where
  "sample_op =
     \<lparr>op_id = ''a1'', op_class = ClassTask, op_createdAt = 1, op_updatedAt = 1, op_status = Pending,
      op_url = ''/1.0/operations/a1'', op_resources = None, op_metadata = None, op_err = [],
      op_readonly = False, op_canceler = None, op_onRun = True, op_onCancel = True,
      op_onConnect = False, op_done_closed = False\<rparr>"

lemma sample_created:
  "operationCreate [] ''a1'' 1 ClassTask None InvalidValue True True False = Inr ([(''a1'', sample_op)], sample_op)"
  by (simp add: operationCreate_def Let_def sample_op_def APIVersion_def)

text \<open>The schedule of an undisturbed run whose hook returns \<open>h\<close>.\<close>

definition run_schedule :: "string option \<Rightarrow> action list" where
  "run_schedule h =
     [CallRun, Advance 0 None, Advance 0 None, Advance 1 None, Advance 1 h, Advance 1 None, Advance 1 None]"

lemmas exec_defs = start_sys_def sys_defs

lemma run_schedule_result:
  assumes "op_status op = Pending" "op_onRun op" "\<not> op_readonly op" "\<not> op_done_closed op"
  shows "run_actions op_exec (run_schedule h) (start_sys op) =
    Some \<lparr>s_op = op\<lparr>op_status := (if h = None then Success else Failure),
                    op_err := (case h of None \<Rightarrow> op_err op | Some e \<Rightarrow> e), op_readonly := True,
                    op_onRun := False, op_onCancel := False, op_onConnect := False,
                    op_done_closed := True\<rparr>,
          s_threads = [Finished None, Finished None], s_chans = [], s_panic = False\<rparr>"
  using assms by (cases h) (simp_all add: run_schedule_def exec_defs)

theorem operation_invariant_witness:
  "\<exists>s. reachable op_exec (start_sys sample_op) s \<and> op_readonly (s_op s) \<and> op_done_closed (s_op s)"
proof -
  obtain s where s: "run_actions op_exec (run_schedule None) (start_sys sample_op) = Some s"
      and r: "op_readonly (s_op s)"
    using run_schedule_result [of sample_op None] by (simp add: sample_op_def)
  note reach = run_actions_reachable [OF s]
  from operation_invariant [OF sample_created reach] r reach show ?thesis by blast
qed

section \<open>The undisturbed run\<close>

text \<open>The states of one \<open>Run\<close> call and its goroutine when nobody cancels.\<close>

definition run_phase :: "pc list \<Rightarrow> status_code set \<Rightarrow> bool \<Rightarrow> op_sys \<Rightarrow> bool" where
  "run_phase ps sts closed s \<longleftrightarrow> s_threads s = ps \<and> op_status (s_op s) \<in> sts \<and>
     op_readonly (s_op s) = closed \<and> op_done_closed (s_op s) = closed \<and>
     (\<not> closed \<longrightarrow> op_onRun (s_op s)) \<and> \<not> s_panic s"

definition run_state :: "op_sys \<Rightarrow> bool" where
  "run_state s \<longleftrightarrow>
     run_phase [RunCall] {Pending} False s \<or> run_phase [RunLock] {Pending} False s \<or>
     run_phase [Finished None, RunStart] {Running} False s \<or>
     run_phase [Finished None, RunHook] {Running} False s \<or>
     run_phase [Finished None, RunDone] {Success, Failure} False s \<or>
     run_phase [Finished None, RunDoneLock] {Success, Failure} False s \<or>
     run_phase [Finished None, Finished None] {Success, Failure} True s"

fun advance_exec :: "nat \<times> string option \<Rightarrow> op_sys \<Rightarrow> op_sys option" where
  "advance_exec (i, h) s = op_exec (Advance i h) s"

text \<open>Each phase has one successor, or two for the two outcomes of the hook.\<close>

lemma advance_one: "advance_exec a s = Some t \<Longrightarrow> s_threads s = [p] \<Longrightarrow> \<exists>h. step_pc 0 h p s = Some t \<and> s_threads s = [p]"
  by (cases a) (auto simp: not_le less_Suc_eq split: if_splits)

lemma advance_two:
  "advance_exec a s = Some t \<Longrightarrow> s_threads s = [Finished None, p] \<Longrightarrow> \<exists>h. step_pc 1 h p s = Some t \<and> s_threads s = [Finished None, p]"
proof -
  assume a: "advance_exec a s = Some t" "s_threads s = [Finished None, p]"
  obtain i h where "a = (i, h)" by (cases a)
  with a have "i < Suc (Suc 0)" "step_pc i h ([Finished None, p] ! i) s = Some t"
    by (auto split: if_splits)
  then show ?thesis using a(2) by (cases i) auto
qed

lemma phase_steps:
  assumes "advance_exec a s = Some t"
  shows "run_phase [RunCall] {Pending} False s \<Longrightarrow> run_phase [RunLock] {Pending} False t"
    and "run_phase [RunLock] {Pending} False s \<Longrightarrow> run_phase [Finished None, RunStart] {Running} False t"
    and "run_phase [Finished None, RunStart] {Running} False s \<Longrightarrow>
           run_phase [Finished None, RunHook] {Running} False t"
    and "run_phase [Finished None, RunHook] {Running} False s \<Longrightarrow>
           run_phase [Finished None, RunDone] {Success, Failure} False t"
    and "run_phase [Finished None, RunDone] {Success, Failure} False s \<Longrightarrow>
           run_phase [Finished None, RunDoneLock] {Success, Failure} False t \<and> op_status (s_op t) = op_status (s_op s)"
    and "run_phase [Finished None, RunDoneLock] {Success, Failure} False s \<Longrightarrow>
           run_phase [Finished None, Finished None] {Success, Failure} True t \<and> op_status (s_op t) = op_status (s_op s)"
    and "\<not> run_phase [Finished None, Finished None] {Success, Failure} True s"
proof -
  show "run_phase [RunCall] {Pending} False s \<Longrightarrow> run_phase [RunLock] {Pending} False t"
    using advance_one [OF assms, of RunCall] unfolding run_phase_def
    by (elim conjE) (auto simp: sys_defs split: if_splits option.splits)
  show "run_phase [RunLock] {Pending} False s \<Longrightarrow> run_phase [Finished None, RunStart] {Running} False t"
    using advance_one [OF assms, of RunLock] unfolding run_phase_def
    by (elim conjE) (auto simp: sys_defs split: if_splits option.splits)
  show "run_phase [Finished None, RunStart] {Running} False s \<Longrightarrow>
           run_phase [Finished None, RunHook] {Running} False t"
    using advance_two [OF assms, of RunStart] unfolding run_phase_def
    by (elim conjE) (auto simp: sys_defs split: if_splits option.splits)
  show "run_phase [Finished None, RunHook] {Running} False s \<Longrightarrow>
           run_phase [Finished None, RunDone] {Success, Failure} False t"
    using advance_two [OF assms, of RunHook] unfolding run_phase_def
    by (elim conjE) (auto simp: sys_defs split: if_splits option.splits)
  show "run_phase [Finished None, RunDone] {Success, Failure} False s \<Longrightarrow>
           run_phase [Finished None, RunDoneLock] {Success, Failure} False t \<and> op_status (s_op t) = op_status (s_op s)"
    using advance_two [OF assms, of RunDone] unfolding run_phase_def
    by (elim conjE) (auto simp: sys_defs split: if_splits option.splits)
  show "run_phase [Finished None, RunDoneLock] {Success, Failure} False s \<Longrightarrow>
           run_phase [Finished None, Finished None] {Success, Failure} True t \<and> op_status (s_op t) = op_status (s_op s)"
    using advance_two [OF assms, of RunDoneLock] unfolding run_phase_def
    by (elim conjE) (auto simp: sys_defs split: if_splits option.splits)
  show "\<not> run_phase [Finished None, Finished None] {Success, Failure} True s"
    using advance_two [OF assms, of "Finished None"] by (auto simp: run_phase_def)
qed

lemma run_state_step: "run_state s \<Longrightarrow> advance_exec a s = Some t \<Longrightarrow> run_state t"
  unfolding run_state_def using phase_steps [of a s t] by blast

interpretation run_machine: machine_invariant advance_exec run_state
  by unfold_locales (rule run_state_step)

lemma run_state_final_stable:
  assumes "run_state s" "IsFinal (op_status (s_op s))" "advance_exec a s = Some t"
  shows "op_status (s_op t) = op_status (s_op s)"
proof -
  have "\<not> run_phase ps {Pending} False s" "\<not> run_phase ps {Running} False s" for ps
    using assms(2) by (auto simp: run_phase_def IsFinal_def)
  then show ?thesis using assms(1) phase_steps [OF assms(3)] unfolding run_state_def by blast
qed

lemma run_state_safe: "run_state s \<Longrightarrow> \<not> s_panic s"
  unfolding run_state_def run_phase_def by blast

lemma run_state_ended:
  assumes "run_state s" "\<forall>p \<in> set (s_threads s). \<exists>e. p = Finished e"
  shows "run_phase [Finished None, Finished None] {Success, Failure} True s"
  using assms
  unfolding run_state_def by (elim disjE) (simp_all add: run_phase_def)

lemma reachable_final_stable:
  "reachable advance_exec s t \<Longrightarrow> run_state s \<Longrightarrow> IsFinal (op_status (s_op s)) \<Longrightarrow>
     op_status (s_op t) = op_status (s_op s)"
proof (induction rule: reachable.induct)
  case (there t a u)
  then show ?case
    using run_machine.reachable_inv [OF there.hyps(1)] run_state_final_stable [of t a u] by simp
qed simp

lemma run_state_start:
  assumes "op_status op = Pending" "op_onRun op" "op_ok op" "\<not> op_readonly op"
  shows "run_state (spawn RunCall (start_sys op))"
  using assms by (simp add: run_state_def run_phase_def start_sys_def spawn_def op_ok_def)


definition run_steps :: "string option \<Rightarrow> (nat \<times> string option) list" where
  "run_steps h = [(0, None), (0, None), (1, None), (1, h), (1, None), (1, None)]"


text \<open>The undisturbed schedule reaches the outcome of the hook: a nil error gives Success, an
  error gives Failure with its message, and either way the operation ends read-only with its
  waiters released.\<close>
theorem run_outcome:
  assumes "operationCreate reg uuid now cls res md True c k = Inr (reg', op)"
  shows "\<exists>s. run_actions op_exec (run_schedule h) (start_sys op) = Some s \<and>
    op_status (s_op s) = (if h = None then Success else Failure) \<and>
    (\<forall>e. h = Some e \<longrightarrow> op_err (s_op s) = e) \<and> op_readonly (s_op s) \<and>
    WaitFinal (s_op s) (-1) False = Some True \<and> \<not> s_panic s"
proof -
  have "op_status op = Pending" "op_onRun op" "\<not> op_readonly op" "\<not> op_done_closed op"
    using operationCreate_cases [OF assms] by (auto simp: op_ok_def)
  from run_schedule_result [OF this, of h] show ?thesis
    by (cases h) (simp_all add: WaitFinal_def IsFinal_def)
qed

theorem run_outcome_witness:
  "\<exists>s. run_actions op_exec (run_schedule (Some ''boom'')) (start_sys sample_op) = Some s \<and>
    op_status (s_op s) = Failure \<and> op_err (s_op s) = ''boom''"
  using run_outcome [OF sample_created, of "Some ''boom''"] by auto

section \<open>Races between running and cancelling\<close>

text \<open>An operation whose \<open>Run\<close> goroutine is in its hook and whose cancel goroutine is in its hook.\<close>

definition both_hooks :: "action list" where
  "both_hooks =
     [CallRun, Advance 0 None, Advance 0 None, Advance 1 None,
      CallCancel, Advance 2 None, Advance 2 None, Advance 2 None, Advance 3 None]"

text \<open>Two goroutines can both pass the unlocked \<open>readonly\<close> test of \<open>done\<close>, and the second one
  then closes \<open>chanDone\<close> again: a run ends in a panic.\<close>
theorem done_closes_twice:
  "\<exists>s. run_actions op_exec
     (both_hooks @ [Advance 1 None, Advance 3 None, Advance 1 None, Advance 3 None, Advance 1 None, Advance 3 None])
     (start_sys sample_op) = Some s \<and> s_panic s"
  by (simp add: both_hooks_def exec_defs sample_op_def mayCancel_def)

text \<open>A final status is not stable under cancellation: an operation that has succeeded, with
  its waiters released, goes back to Running when the cancel hook then fails.\<close>
theorem final_status_reverts:
  "\<exists>s t. run_actions op_exec (both_hooks @ [Advance 1 None, Advance 1 None, Advance 1 None])
        (start_sys sample_op) = Some s \<and>
     op_status (s_op s) = Success \<and> op_done_closed (s_op s) \<and>
     op_exec (Advance 3 (Some ''no'')) s = Some t \<and> op_status (s_op t) = Running \<and> op_readonly (s_op t)"
  by (simp add: both_hooks_def exec_defs sample_op_def mayCancel_def)

text \<open>A \<open>Cancel\<close> call that sends on a channel that is full.\<close>

definition stuck_sender :: "nat \<Rightarrow> nat \<Rightarrow> op_sys \<Rightarrow> bool" where
  "stuck_sender i c s \<longleftrightarrow> i < length (s_threads s) \<and> s_threads s ! i = CancelSend c \<and>
     c < length (s_chans s) \<and> s_chans s ! c"

lemma nth_update_True: "xs ! c \<Longrightarrow> c < length xs \<Longrightarrow> xs[k := True] ! c"
  by (cases "k = c") auto

lemma step_pc_frame:
  assumes "step_pc j h p s = Some t"
  shows "length (s_threads s) \<le> length (s_threads t) \<and> length (s_chans s) \<le> length (s_chans t) \<and>
    (\<forall>i < length (s_threads s). i \<noteq> j \<longrightarrow> s_threads t ! i = s_threads s ! i) \<and>
    (\<forall>c < length (s_chans s). s_chans s ! c \<longrightarrow> s_chans t ! c)"
  using assms
  by (cases p)
    (auto simp: sys_defs nth_append nth_list_update nth_update_True split: if_splits option.splits sum.splits)

lemma stuck_sender_step:
  assumes "stuck_sender i c s" "op_exec a s = Some t"
  shows "stuck_sender i c t"
proof (cases a)
  case (Advance j h)
  with assms(2) have st: "step_pc j h (s_threads s ! j) s = Some t" by (simp split: if_splits)
  have "j \<noteq> i" using st assms(1) by (auto simp: stuck_sender_def send_def)
  with step_pc_frame [OF st] assms(1) show ?thesis unfolding stuck_sender_def by auto
qed (use assms in \<open>auto simp: stuck_sender_def spawn_def nth_append split: if_splits\<close>)

interpretation stuck_machine: machine_invariant op_exec "stuck_sender i c" for i c :: nat
  by unfold_locales (rule stuck_sender_step)

text \<open>A cancel hook that finishes early makes the DELETE handler hang: its goroutine has filled
  \<open>chanCancel\<close> and cleared the hooks, so \<open>Cancel\<close> sends a second value that nobody receives, and
  no continuation ever lets that call return.\<close>
theorem cancel_caller_hangs:
  "\<exists>s. run_actions op_exec
     ([CallRun, Advance 0 None, Advance 0 None, CallCancel, Advance 2 None, Advance 2 None, Advance 2 None] @
      [Advance 3 None, Advance 3 None, Advance 3 None, Advance 3 None, Advance 3 None] @
      [Advance 2 None, Advance 2 None, Advance 2 None, Advance 2 None]) (start_sys sample_op) = Some s \<and>
     (\<forall>t. reachable op_exec s t \<longrightarrow> s_threads t ! 2 = CancelSend 0)"
proof -
  obtain s where s: "run_actions op_exec
     ([CallRun, Advance 0 None, Advance 0 None, CallCancel, Advance 2 None, Advance 2 None, Advance 2 None] @
      [Advance 3 None, Advance 3 None, Advance 3 None, Advance 3 None, Advance 3 None] @
      [Advance 2 None, Advance 2 None, Advance 2 None, Advance 2 None]) (start_sys sample_op) = Some s"
      and stuck: "stuck_sender 2 0 s"
    by (simp add: exec_defs sample_op_def mayCancel_def stuck_sender_def)
  have "s_threads t ! 2 = CancelSend 0" if "reachable op_exec s t" for t
    using stuck_machine.reachable_inv [OF that stuck] by (simp add: stuck_sender_def)
  with s show ?thesis by blast
qed

theorem cancel_caller_hangs_witness:
  "\<exists>s. run_actions op_exec
     ([CallRun, Advance 0 None, Advance 0 None, CallCancel, Advance 2 None, Advance 2 None, Advance 2 None] @
      [Advance 3 None, Advance 3 None, Advance 3 None, Advance 3 None, Advance 3 None] @
      [Advance 2 None, Advance 2 None, Advance 2 None, Advance 2 None]) (start_sys sample_op) = Some s \<and>
     s_threads s ! 2 = CancelSend 0"
proof -
  note r = reachable.here [of op_exec]
  show ?thesis using cancel_caller_hangs r by blast
qed

section \<open>The registry and the API\<close>

text \<open>\<open>operationCreate\<close> accepts exactly the hook combinations that fit the class, provided the
  metadata is a map with string keys or absent; the operation is then pending, found by
  \<open>operationGet\<close> until it expires, and nothing else in the registry changes.\<close>
theorem operation_registered:
  "(is_ok (operationCreate reg uuid now cls res md r c k) \<longleftrightarrow>
      is_ok (ParseMetadata md) \<and> (k \<longleftrightarrow> cls = ClassWebsocket) \<and> (cls = ClassToken \<longrightarrow> \<not> r \<and> \<not> c)) \<and>
   (\<forall>reg' op. operationCreate reg uuid now cls res md r c k = Inr (reg', op) \<longrightarrow>
      op_status op = Pending \<and> operationGet reg' uuid = Inr op \<and>
      operationGet (operationExpire reg' uuid) uuid = Inl (Errorf ''Operation '%s' doesn't exist'' [uuid]) \<and>
      (\<forall>other. other \<noteq> uuid \<longrightarrow> operationGet (operationExpire reg' uuid) other = operationGet reg other \<and>
                                 operationGet reg' other = operationGet reg other))"
proof (intro conjI allI impI)
  show "is_ok (operationCreate reg uuid now cls res md r c k) \<longleftrightarrow>
      is_ok (ParseMetadata md) \<and> (k \<longleftrightarrow> cls = ClassWebsocket) \<and> (cls = ClassToken \<longrightarrow> \<not> r \<and> \<not> c)"
    by (cases "ParseMetadata md") (auto simp: operationCreate_def Let_def)
  fix reg' op assume a: "operationCreate reg uuid now cls res md r c k = Inr (reg', op)"
  note c = operationCreate_cases [OF a]
  show "op_status op = Pending" using c by simp
  show "operationGet reg' uuid = Inr op" using c by (simp add: operationGet_def)
  show "operationGet (operationExpire reg' uuid) uuid = Inl (Errorf ''Operation '%s' doesn't exist'' [uuid])"
    using c by (simp add: operationGet_def operationExpire_def)
  fix other assume "other \<noteq> uuid"
  then show "operationGet (operationExpire reg' uuid) other = operationGet reg other"
    and "operationGet reg' other = operationGet reg other"
    using c by (simp_all add: operationGet_def operationExpire_def)
qed

theorem operation_registered_witness:
  "operationGet [(''a1'', sample_op)] ''a1'' = Inr sample_op"
  using operation_registered [of "[]" "''a1''" 1 ClassTask None InvalidValue True True False] sample_created
  by simp

text \<open>The lower-case status names tell the statuses apart.\<close>

definition status_key :: "operation \<Rightarrow> string" where
  "status_key op = ToLower (status_String (op_status op))"

lemma group_ops_spec:
  "map_of (group_ops f reg md) st =
     (let found = map f (filter (\<lambda>op. status_key op = st) (map snd reg))
      in case map_of md st of None \<Rightarrow> (if found = [] then None else Some found) | Some l \<Rightarrow> Some (l @ found))"
  by (induction f reg md rule: group_ops.induct)
    (auto simp: Let_def status_key_def split: option.splits)

text \<open>The operations list groups every operation of the registry under its lower-case status,
  each exactly once and in registry order, whether rendered or as URLs; a status without
  operations has no entry.\<close>
theorem operations_grouped:
  "\<exists>urls ops. operationsAPIGet reg False = SyncResponse (Inl urls) \<and>
     operationsAPIGet reg True = SyncResponse (Inr ops) \<and>
     (\<forall>st. (case map_of urls st of None \<Rightarrow> [] | Some l \<Rightarrow> l) =
             map op_url (filter (\<lambda>op. status_key op = st) (map snd reg)) \<and>
           (case map_of ops st of None \<Rightarrow> [] | Some l \<Rightarrow> l) =
             map (\<lambda>op. snd (op_Render op)) (filter (\<lambda>op. status_key op = st) (map snd reg)) \<and>
           (map_of urls st = None \<longleftrightarrow> (\<forall>op \<in> set (map snd reg). status_key op \<noteq> st)))"
  by (simp add: operationsAPIGet_def group_ops_spec Let_def filter_empty_conv)

theorem operations_grouped_witness:
  "\<exists>urls. operationsAPIGet [(''a1'', sample_op)] False = SyncResponse (Inl urls) \<and>
     map_of urls ''pending'' = Some [''/1.0/operations/a1'']"
proof -
  have k: "status_key sample_op = ''pending''" by code_simp
  obtain urls where u: "operationsAPIGet [(''a1'', sample_op)] False = SyncResponse (Inl urls)"
      "\<forall>st. (case map_of urls st of None \<Rightarrow> [] | Some l \<Rightarrow> l) =
         map op_url (filter (\<lambda>op. status_key op = st) (map snd [(''a1'', sample_op)]))"
    using operations_grouped [of "[(''a1'', sample_op)]"] by blast
  from u(2) have "(case map_of urls ''pending'' of None \<Rightarrow> [] | Some l \<Rightarrow> l) = [''/1.0/operations/a1'']"
    by (simp add: k) (simp add: sample_op_def)
  with u(1) show ?thesis by (auto split: option.splits)
qed

end
