(* ===== verification/ContainerOps.thy ===== *)
theory ContainerOps
  imports GoStd
begin

text \<open>
  The per-container operation lock of \<open>apollo/container_mercury.go\<close>: \<open>mercuryContainerOperation\<close>,
  \<open>createOperation\<close>, \<open>getOperation\<close> and \<open>waitOperation\<close>, with the table of running operations and
  the timeout goroutine of each operation.
\<close>

section \<open>State\<close>

text \<open>
  Operations are pointers: \<open>c_heap\<close> holds the objects, a reference is an index, and the table maps a
  container id to a reference. \<open>cop_closed\<close> counts how often \<open>chanDone\<close> has been closed; a second
  close would panic. \<open>cop_timer\<close> says whether the timeout goroutine still runs.
\<close>

record container_op =
  cop_id :: int
  cop_action :: string
  cop_reusable :: bool
  cop_err :: "go_error option"
  cop_closed :: nat
  cop_timer :: bool

record op_table =
  c_table :: "(int \<times> nat) list"
  c_heap :: "container_op list"

definition no_ops :: op_table where
  "no_ops = \<lparr>c_table = [], c_heap = []\<rparr>"

section \<open>Operations\<close>

text \<open>\<open>Create\<close>: a fresh object with open channels and a timeout goroutine.\<close>

definition cop_Create :: "int \<Rightarrow> string \<Rightarrow> bool \<Rightarrow> container_op" where
  "cop_Create cid action reusable =
     \<lparr>cop_id = cid, cop_action = action, cop_reusable = reusable, cop_err = None, cop_closed = 0,
      cop_timer = True\<rparr>"

text \<open>
  \<open>Reset\<close> hands a message to the timeout goroutine: \<open>None\<close> when that goroutine has ended and the
  send blocks for ever.
\<close>

definition cop_Reset :: "container_op \<Rightarrow> unit res option" where
  "cop_Reset p =
     (if \<not> cop_reusable p then Some (Inl (Errorf ''Can't reset a non-reusable operation'' []))
      else if \<not> cop_timer p then None
      else Some (Inr ()))"

text \<open>\<open>Wait\<close> returns once the channel is closed: \<open>None\<close> while it blocks.\<close>

definition cop_Wait :: "op_table \<Rightarrow> nat \<Rightarrow> go_error option option" where
  "cop_Wait st r = (if cop_closed (c_heap st ! r) = 0 then None else Some (cop_err (c_heap st ! r)))"

definition upd_op :: "nat \<Rightarrow> (container_op \<Rightarrow> container_op) \<Rightarrow> op_table \<Rightarrow> op_table" where
  "upd_op r f st = st\<lparr>c_heap := (c_heap st)[r := f (c_heap st ! r)]\<rparr>"

definition cop_Done :: "nat \<Rightarrow> go_error option \<Rightarrow> op_table \<Rightarrow> op_table" where
  "cop_Done r err st =
     (if map_of (c_table st) (cop_id (c_heap st ! r)) \<noteq> Some r then st
      else let st' = upd_op r (\<lambda>p. p\<lparr>cop_err := err, cop_closed := cop_closed p + 1\<rparr>) st
           in st'\<lparr>c_table := gm_del (c_table st') (cop_id (c_heap st ! r))\<rparr>)"

text \<open>The goroutine after 30 seconds without a reset.\<close>

definition timeout_error :: "string \<Rightarrow> go_error" where
  "timeout_error action = Errorf ''Container %s operation timed out after 30 seconds'' [action]"

definition cop_timeout :: "nat \<Rightarrow> op_table \<Rightarrow> op_table" where
  "cop_timeout r st =
     upd_op r (\<lambda>p. p\<lparr>cop_timer := False\<rparr>) (cop_Done r (Some (timeout_error (cop_action (c_heap st ! r)))) st)"

definition getOperation :: "int \<Rightarrow> string \<Rightarrow> op_table \<Rightarrow> nat res" where
  "getOperation cid action st =
     (case map_of (c_table st) cid of
        None \<Rightarrow> Inl (Errorf ''No running %s container operation'' [action])
      | Some r \<Rightarrow>
          if action \<noteq> [] \<and> cop_action (c_heap st ! r) \<noteq> action
          then Inl (Errorf ''Container is running a %s operation, not a %s operation''
                      [cop_action (c_heap st ! r), action])
          else Inr r)"

text \<open>\<open>waitOperation\<close>: \<open>None\<close> while it blocks.\<close>

definition waitOperation :: "int \<Rightarrow> op_table \<Rightarrow> unit res option" where
  "waitOperation cid st =
     (case getOperation cid [] st of
        Inl _ \<Rightarrow> Some (Inr ())
      | Inr r \<Rightarrow> map_option (\<lambda>e. case e of None \<Rightarrow> Inr () | Some err \<Rightarrow> Inl err) (cop_Wait st r))"

text \<open>
  \<open>createOperation\<close> looks for a running operation in one critical section and inserts its own in
  another. \<open>create_check\<close> is the first part: the result when it returns there, \<open>NotBusy\<close> when it
  goes on, \<open>Hangs\<close> when the reset blocks.
\<close>

datatype check_result = Reuse nat | Busy go_error | NotBusy | Hangs

definition create_check :: "int \<Rightarrow> bool \<Rightarrow> op_table \<Rightarrow> check_result" where
  "create_check cid reuse st =
     (case getOperation cid [] st of
        Inl _ \<Rightarrow> NotBusy
      | Inr r \<Rightarrow>
          if reuse \<and> cop_reusable (c_heap st ! r)
          then (case cop_Reset (c_heap st ! r) of None \<Rightarrow> Hangs | Some _ \<Rightarrow> Reuse r)
          else Busy (Errorf ''Container is busy running a %s operation'' [cop_action (c_heap st ! r)]))"

definition create_insert :: "int \<Rightarrow> string \<Rightarrow> bool \<Rightarrow> op_table \<Rightarrow> op_table \<times> nat" where
  "create_insert cid action reusable st =
     (let r = length (c_heap st)
      in (st\<lparr>c_heap := c_heap st @ [cop_Create cid action reusable], c_table := gm_set (c_table st) cid r\<rparr>, r))"

text \<open>The whole function when nothing comes between its two parts.\<close>

definition createOperation :: "int \<Rightarrow> string \<Rightarrow> bool \<Rightarrow> bool \<Rightarrow> op_table \<Rightarrow> (op_table \<times> nat res) option" where
  "createOperation cid action reusable reuse st =
     (case create_check cid reuse st of
        Reuse r \<Rightarrow> Some (st, Inr r)
      | Busy e \<Rightarrow> Some (st, Inl e)
      | Hangs \<Rightarrow> None
      | NotBusy \<Rightarrow> (let (st', r) = create_insert cid action reusable st in Some (st', Inr r)))"

section \<open>Interleavings\<close>

text \<open>
  \<open>OpCheck t\<close> and \<open>OpInsert t\<close> are the two parts of a call in thread \<open>t\<close>; the arguments of a call
  that has passed its check wait in \<open>t_pending\<close>.
\<close>

record op_threads =
  t_ops :: op_table
  t_pending :: "(nat \<times> int \<times> string \<times> bool) list"

datatype op_action =
    OpCheck nat int string bool bool
  | OpInsert nat
  | OpDone nat "go_error option"
  | OpTimeout nat

fun op_step :: "op_action \<Rightarrow> op_threads \<Rightarrow> op_threads option" where
  "op_step (OpCheck t cid action reusable reuse) s =
     (case create_check cid reuse (t_ops s) of
        NotBusy \<Rightarrow> Some (s\<lparr>t_pending := gm_set (t_pending s) t (cid, action, reusable)\<rparr>)
      | Hangs \<Rightarrow> None
      | _ \<Rightarrow> Some s)"
| "op_step (OpInsert t) s =
     (case map_of (t_pending s) t of
        None \<Rightarrow> None
      | Some (cid, action, reusable) \<Rightarrow>
          Some (s\<lparr>t_ops := fst (create_insert cid action reusable (t_ops s)),
                  t_pending := gm_del (t_pending s) t\<rparr>))"
| "op_step (OpDone r err) s =
     (if r < length (c_heap (t_ops s)) then Some (s\<lparr>t_ops := cop_Done r err (t_ops s)\<rparr>) else None)"
| "op_step (OpTimeout r) s =
     (if r < length (c_heap (t_ops s)) \<and> cop_timer (c_heap (t_ops s) ! r)
      then Some (s\<lparr>t_ops := cop_timeout r (t_ops s)\<rparr>) else None)"

definition op_start :: op_threads where
  "op_start = \<lparr>t_ops = no_ops, t_pending = []\<rparr>"

text \<open>Calls that are not interrupted: \<open>createOperation\<close> as one step.\<close>

datatype seq_action = SeqCreate int string bool bool | SeqDone nat "go_error option" | SeqTimeout nat

fun seq_step :: "seq_action \<Rightarrow> op_table \<Rightarrow> op_table option" where
  "seq_step (SeqCreate cid action reusable reuse) st =
     map_option fst (createOperation cid action reusable reuse st)"
| "seq_step (SeqDone r err) st = (if r < length (c_heap st) then Some (cop_Done r err st) else None)"
| "seq_step (SeqTimeout r) st =
     (if r < length (c_heap st) \<and> cop_timer (c_heap st ! r) then Some (cop_timeout r st) else None)"

end
