(* ===== verification/ContainerOpsProps.thy ===== *)
theory ContainerOpsProps
  imports ContainerOps
begin

text \<open>
  The operation lock: its channels are closed at most once in every interleaving, uninterrupted
  calls keep at most one operation per container and let every operation end, and interleaved
  calls can orphan one.
\<close>

section \<open>The table\<close>

text \<open>Every entry of the table is an open operation of its container.\<close>

definition table_ok :: "op_table \<Rightarrow> bool" where
  "table_ok st \<longleftrightarrow> gm_wf (c_table st) \<and>
     (\<forall>cid r. map_of (c_table st) cid = Some r \<longrightarrow>
        r < length (c_heap st) \<and> cop_id (c_heap st ! r) = cid \<and> cop_closed (c_heap st ! r) = 0) \<and>
     (\<forall>r < length (c_heap st). cop_closed (c_heap st ! r) \<le> 1)"

text \<open>Every open operation is in the table, and its goroutine runs.\<close>

definition all_listed :: "op_table \<Rightarrow> bool" where
  "all_listed st \<longleftrightarrow> (\<forall>r < length (c_heap st). cop_closed (c_heap st ! r) = 0 \<longrightarrow>
     map_of (c_table st) (cop_id (c_heap st ! r)) = Some r \<and> cop_timer (c_heap st ! r))"

lemma table_ok_upd_timer: "table_ok st \<Longrightarrow> r < length (c_heap st) \<Longrightarrow> table_ok (upd_op r (\<lambda>p. p\<lparr>cop_timer := False\<rparr>) st)"
  unfolding table_ok_def upd_op_def
  by (auto simp: nth_list_update)

lemma table_ok_insert: "table_ok st \<Longrightarrow> table_ok (fst (create_insert cid action reusable st))"
  by (auto simp: table_ok_def create_insert_def cop_Create_def nth_append Let_def less_Suc_eq)

lemma cop_Done_cases:
  obtains "cop_Done r err st = st" "map_of (c_table st) (cop_id (c_heap st ! r)) \<noteq> Some r"
  | "map_of (c_table st) (cop_id (c_heap st ! r)) = Some r"
    "c_table (cop_Done r err st) = gm_del (c_table st) (cop_id (c_heap st ! r))"
    "c_heap (cop_Done r err st) =
      (c_heap st)[r := (c_heap st ! r)\<lparr>cop_err := err, cop_closed := cop_closed (c_heap st ! r) + 1\<rparr>]"
  by (cases "map_of (c_table st) (cop_id (c_heap st ! r)) = Some r") (auto simp: cop_Done_def upd_op_def Let_def)

lemma table_ok_done:
  assumes "table_ok st" "r < length (c_heap st)"
  shows "table_ok (cop_Done r err st)"
proof (cases rule: cop_Done_cases [of r err st])
  case 1
  then show ?thesis using assms by simp
next
  case 2
  have "cop_closed (c_heap st ! r) = 0" using assms(1) 2(1) by (auto simp: table_ok_def)
  then show ?thesis using assms unfolding table_ok_def 2(2,3)
    by (auto simp: nth_list_update split: if_splits)
qed

lemma length_done [simp]: "length (c_heap (cop_Done r err st)) = length (c_heap st)"
  by (simp add: cop_Done_def upd_op_def Let_def)

lemma table_ok_timeout: "table_ok st \<Longrightarrow> r < length (c_heap st) \<Longrightarrow> table_ok (cop_timeout r st)"
  by (simp add: cop_timeout_def table_ok_upd_timer table_ok_done)

lemma op_step_ok: "table_ok (t_ops s) \<Longrightarrow> op_step a s = Some s' \<Longrightarrow> table_ok (t_ops s')"
  by (cases a) (auto simp: table_ok_insert table_ok_done table_ok_timeout
      split: check_result.splits option.splits if_splits prod.splits)

interpretation op_machine: machine_invariant op_step "\<lambda>s. table_ok (t_ops s)"
  by unfold_locales (rule op_step_ok)

lemma no_ops_ok: "table_ok no_ops" "all_listed no_ops"
  by (simp_all add: table_ok_def all_listed_def no_ops_def)

text \<open>C8: The channel of an operation is closed at most once, however calls of several threads,
  completions and timeouts interleave: no interleaving panics on a closed channel.\<close>
theorem op_closed_once:
  assumes "reachable op_step op_start s" "r < length (c_heap (t_ops s))"
  shows "cop_closed (c_heap (t_ops s) ! r) \<le> 1"
proof -
  have "table_ok (t_ops op_start)" by (simp add: op_start_def no_ops_ok)
  then show ?thesis using op_machine.reachable_inv [OF assms(1)] assms(2) by (simp add: table_ok_def)
qed

definition done_twice :: "op_action list" where
  "done_twice = [OpCheck 1 7 ''stop'' False False, OpInsert 1, OpDone 0 None, OpDone 0 None, OpTimeout 0]"

lemma done_twice_run:
  "run_actions op_step done_twice op_start = Some \<lparr>t_ops = \<lparr>c_table = [], c_heap = [\<lparr>cop_id = 7,
     cop_action = ''stop'', cop_reusable = False, cop_err = None, cop_closed = 1, cop_timer = False\<rparr>]\<rparr>,
     t_pending = []\<rparr>"
  by (simp add: done_twice_def op_start_def no_ops_def create_check_def getOperation_def create_insert_def
      cop_Create_def cop_Done_def cop_timeout_def upd_op_def gm_del_def)

theorem op_closed_once_witness:
  "\<exists>s. run_actions op_step done_twice op_start = Some s \<and> cop_closed (c_heap (t_ops s) ! 0) \<le> 1"
  using op_closed_once [OF run_actions_reachable [OF done_twice_run], of 0] done_twice_run by simp

section \<open>Uninterrupted calls\<close>

lemma all_listed_done:
  assumes "all_listed st" "r < length (c_heap st)"
  shows "all_listed (cop_Done r err st)"
proof (cases rule: cop_Done_cases [of r err st])
  case 1
  then show ?thesis using assms by simp
next
  case 2
  then show ?thesis using assms unfolding all_listed_def 2(2,3)
    by (auto simp: nth_list_update)
qed

lemma done_closes:
  assumes "all_listed st" "r < length (c_heap st)"
  shows "cop_closed (c_heap (cop_Done r err st) ! r) \<noteq> 0"
  using assms by (cases rule: cop_Done_cases [of r err st]) (auto simp: all_listed_def)

lemma all_listed_stop_timer:
  assumes "all_listed st" "cop_closed (c_heap st ! r) \<noteq> 0"
  shows "all_listed (upd_op r (\<lambda>p. p\<lparr>cop_timer := False\<rparr>) st)"
  using assms by (cases "r < length (c_heap st)") (auto simp: all_listed_def upd_op_def nth_list_update)

lemma all_listed_timeout:
  assumes "all_listed st" "r < length (c_heap st)"
  shows "all_listed (cop_timeout r st)"
  unfolding cop_timeout_def
  by (rule all_listed_stop_timer [OF all_listed_done [OF assms] done_closes [OF assms]])

lemma all_listed_create:
  assumes "all_listed st" "createOperation cid action reusable reuse st = Some (st', res)"
  shows "all_listed st'"
proof (cases "map_of (c_table st) cid")
  case None
  then show ?thesis using assms
    by (auto simp: createOperation_def create_check_def getOperation_def create_insert_def cop_Create_def
        all_listed_def nth_append less_Suc_eq Let_def)
next
  case (Some r)
  then show ?thesis using assms
    by (auto simp: createOperation_def create_check_def getOperation_def split: if_splits option.splits)
qed

lemma create_ok: "table_ok st \<Longrightarrow> createOperation cid action reusable reuse st = Some (st', res) \<Longrightarrow> table_ok st'"
  using table_ok_insert [of st cid action reusable]
  by (auto simp: createOperation_def split: check_result.splits prod.splits)

lemma seq_step_ok:
  "table_ok st \<and> all_listed st \<Longrightarrow> seq_step a st = Some st' \<Longrightarrow> table_ok st' \<and> all_listed st'"
  by (cases a) (auto simp: table_ok_done table_ok_timeout all_listed_done all_listed_timeout
      dest: create_ok all_listed_create split: if_splits)

interpretation seq_machine: machine_invariant seq_step "\<lambda>st. table_ok st \<and> all_listed st"
  by unfold_locales (rule seq_step_ok)

text \<open>C14: When calls are not interrupted in the middle, a container has at most one open operation,
  the table finds it, and its timeout is still due: every waiter is released at the latest by the
  timeout.\<close>
theorem open_operation_ends:
  assumes "reachable seq_step no_ops st" "r < length (c_heap st)" "cop_Wait st r = None"
  shows "getOperation (cop_id (c_heap st ! r)) [] st = Inr r \<and>
    (\<exists>st'. seq_step (SeqTimeout r) st = Some st' \<and> cop_Wait st' r \<noteq> None) \<and>
    (\<forall>r' < length (c_heap st). cop_id (c_heap st ! r') = cop_id (c_heap st ! r) \<and> cop_Wait st r' = None
       \<longrightarrow> r' = r)"
proof -
  have inv: "all_listed st"
    using seq_machine.reachable_inv [OF assms(1)] no_ops_ok by blast
  have o: "cop_closed (c_heap st ! r) = 0" using assms(3) by (simp add: cop_Wait_def split: if_splits)
  have l: "map_of (c_table st) (cop_id (c_heap st ! r)) = Some r" "cop_timer (c_heap st ! r)"
    using inv assms(2) o by (simp_all add: all_listed_def)
  have "cop_Wait (cop_timeout r st) r \<noteq> None"
    using l(1) assms(2) by (simp add: cop_Wait_def cop_timeout_def cop_Done_def upd_op_def Let_def)
  moreover have "r' = r" if "r' < length (c_heap st)" "cop_id (c_heap st ! r') = cop_id (c_heap st ! r)"
      "cop_Wait st r' = None" for r'
  proof -
    have "map_of (c_table st) (cop_id (c_heap st ! r')) = Some r'"
      using inv that(1,3) by (simp add: all_listed_def cop_Wait_def split: if_splits)
    then show ?thesis using that(2) l(1) by simp
  qed
  ultimately show ?thesis using l assms(2) by (simp add: getOperation_def)
qed

lemma seq_start_run: "seq_step (SeqCreate 7 ''stop'' False False) no_ops = Some \<lparr>c_table = [(7, 0)],
    c_heap = [cop_Create 7 ''stop'' False]\<rparr>"
  by (simp add: createOperation_def create_check_def getOperation_def create_insert_def no_ops_def)

theorem open_operation_ends_witness:
  "\<exists>st st'. seq_step (SeqCreate 7 ''stop'' False False) no_ops = Some st \<and>
     seq_step (SeqTimeout 0) st = Some st' \<and> cop_Wait st' 0 \<noteq> None"
proof -
  let ?st = "\<lparr>c_table = [(7, 0)], c_heap = [cop_Create 7 ''stop'' False]\<rparr>"
  have r: "reachable seq_step no_ops ?st"
    by (rule reachable.there [where exec = seq_step, OF reachable.here seq_start_run])
  have "0 < length (c_heap ?st)" "cop_Wait ?st 0 = None" by (simp_all add: cop_Wait_def cop_Create_def)
  from open_operation_ends [OF r this] seq_start_run show ?thesis by blast
qed

section \<open>Interleaved calls\<close>

definition orphan :: "nat \<Rightarrow> op_threads \<Rightarrow> bool" where
  "orphan r s \<longleftrightarrow> r < length (c_heap (t_ops s)) \<and> cop_closed (c_heap (t_ops s) ! r) = 0 \<and>
     (\<forall>cid. map_of (c_table (t_ops s)) cid \<noteq> Some r)"

lemma orphan_done:
  assumes "orphan r s"
  shows "orphan r (s\<lparr>t_ops := cop_Done r' err (t_ops s)\<rparr>)"
proof (cases rule: cop_Done_cases [of r' err "t_ops s"])
  case 1
  then show ?thesis using assms by (simp add: orphan_def)
next
  case 2
  have "r' \<noteq> r" using assms 2(1) by (auto simp: orphan_def)
  then show ?thesis using assms by (simp add: orphan_def 2(2,3))
qed

lemma orphan_step: "orphan r s \<Longrightarrow> op_step a s = Some s' \<Longrightarrow> orphan r s'"
proof (cases a)
  case (OpDone r' err)
  then show "orphan r s \<Longrightarrow> op_step a s = Some s' \<Longrightarrow> orphan r s'"
    using orphan_done by (auto split: if_splits)
next
  case (OpTimeout r')
  assume "orphan r s" "op_step a s = Some s'"
  then show "orphan r s'"
    using orphan_done [of r s r' "Some (timeout_error (cop_action (c_heap (t_ops s) ! r')))"] OpTimeout
    by (auto simp: orphan_def cop_timeout_def upd_op_def nth_list_update split: if_splits)
qed (auto simp: orphan_def create_insert_def Let_def nth_append split: check_result.splits option.splits if_splits)

interpretation orphan_machine: machine_invariant op_step "orphan r" for r
  by unfold_locales (rule orphan_step)

definition racing_creates :: "op_action list" where
  "racing_creates = [OpCheck 1 7 ''start'' False False, OpCheck 2 7 ''stop'' False False, OpInsert 1, OpInsert 2]"

text \<open>C26: The check and the insertion of \<open>createOperation\<close> are two critical sections. Two threads
  that both pass the check replace one operation by the other: from then on nothing, neither a
  completion nor the timeout, ever releases those who wait for the first.\<close>
theorem racing_create_orphans:
  "\<exists>s. run_actions op_step racing_creates op_start = Some s \<and>
     (\<forall>s'. reachable op_step s s' \<longrightarrow> cop_Wait (t_ops s') 0 = None)"
proof -
  obtain s where s: "run_actions op_step racing_creates op_start = Some s" "orphan 0 s"
    by (simp add: racing_creates_def op_start_def no_ops_def create_check_def getOperation_def
        create_insert_def cop_Create_def orphan_def gm_del_def)
  have "cop_Wait (t_ops s') 0 = None" if "reachable op_step s s'" for s'
    using orphan_machine.reachable_inv [OF that s(2)] by (simp add: orphan_def cop_Wait_def)
  then show ?thesis using s(1) by blast
qed

theorem racing_create_orphans_witness:
  "\<exists>s. run_actions op_step racing_creates op_start = Some s \<and> cop_Wait (t_ops s) 0 = None"
proof -
  note r = reachable.here [of op_step]
  show ?thesis using racing_create_orphans r by blast
qed

end
