(* ===== verification/Devices.thy ===== *)
theory Devices
  imports Util
begin

text \<open>
  \<open>apollo/types/devices.go\<close>: the device lists of containers and profiles, their comparison, the
  difference of two lists, and the order in which devices are set up. A device is the map of its
  properties (never a nil map), a list of devices maps names to them.
\<close>

type_synonym device = "string gomap"
type_synonym devices = "device gomap"

definition ContainsName :: "devices \<Rightarrow> string \<Rightarrow> bool" where
  "ContainsName ds k \<longleftrightarrow> map_of ds k \<noteq> None"

definition device_get :: "device \<Rightarrow> string \<Rightarrow> string" where
  "device_get d key = gm_str d key"

text \<open>A missing property reads as the empty string on both sides.\<close>

definition deviceEquals :: "device \<Rightarrow> device \<Rightarrow> bool" where
  "deviceEquals old d \<longleftrightarrow>
     (\<forall>k \<in> fst ` set d. gm_str d k = gm_str old k) \<and> (\<forall>k \<in> fst ` set old. gm_str d k = gm_str old k)"

definition Contains_dev :: "devices \<Rightarrow> string \<Rightarrow> device \<Rightarrow> bool" where
  "Contains_dev ds k d = (case map_of ds k of None \<Rightarrow> False | Some old \<Rightarrow> deviceEquals old d)"

section \<open>The difference of two lists\<close>

definition live_keys :: "string list" where
  "live_keys =
     [''limits.max'', ''limits.read'', ''limits.write'', ''limits.egress'', ''limits.ingress'',
      ''ipv4.address'', ''ipv6.address'']"

definition strip_live :: "device \<Rightarrow> device" where
  "strip_live d = foldl gm_del d live_keys"

text \<open>
  The third loop of \<open>Update\<close>, over the keys of \<open>addlist\<close>; it deletes from the map it ranges over,
  but only the key it visits. \<open>rmlist[key]\<close> of a missing key is an empty device.
\<close>

definition device_or_empty :: "devices \<Rightarrow> string \<Rightarrow> device" where
  "device_or_empty ds k = (case map_of ds k of None \<Rightarrow> [] | Some d \<Rightarrow> d)"

fun update_loop ::
  "devices \<Rightarrow> devices \<Rightarrow> devices \<times> devices \<times> devices \<Rightarrow> devices \<times> devices \<times> devices" where
  "update_loop newlist [] (rm, add, upd) = (rm, add, upd)"
| "update_loop newlist ((key, d) # todo) (rm, add, upd) =
     (let oldDevice = strip_live (device_or_empty rm key);
          newDevice = strip_live (device_or_empty newlist key)
      in if deviceEquals oldDevice newDevice
         then update_loop newlist todo (gm_del rm key, gm_del add key, gm_set upd key d)
         else update_loop newlist todo (rm, add, upd))"

definition devices_Update :: "devices \<Rightarrow> devices \<Rightarrow> devices \<times> devices \<times> devices" where
  "devices_Update old newlist =
     (let rmlist = filter (\<lambda>(key, d). \<not> Contains_dev newlist key d) old;
          addlist = filter (\<lambda>(key, d). \<not> Contains_dev old key d) newlist
      in update_loop newlist addlist (rmlist, addlist, []))"

text \<open>\<open>newBaseDevices\<close> is updated in place.\<close>

fun ExtendFromProfile :: "devices \<Rightarrow> devices \<Rightarrow> devices \<Rightarrow> devices" where
  "ExtendFromProfile newBase currentFull [] = newBase"
| "ExtendFromProfile newBase currentFull ((name, newDev) # prof) =
     ExtendFromProfile
       (gm_set newBase name (case map_of currentFull name of Some curDev \<Rightarrow> curDev | None \<Rightarrow> newDev))
       currentFull prof"

section \<open>Sorting\<close>

definition sortable_less :: "string \<times> device \<Rightarrow> string \<times> device \<Rightarrow> bool" where
  "sortable_less a b =
     (if gm_str (snd a) ''type'' = ''disk'' \<and> gm_str (snd b) ''type'' = ''disk''
      then (if gm_str (snd a) ''path'' = gm_str (snd b) ''path'' then fst a < fst b
            else gm_str (snd a) ''path'' < gm_str (snd b) ''path'')
      else fst a < fst b)"

definition DeviceNames :: "(devices \<Rightarrow> devices) \<Rightarrow> devices \<Rightarrow> string list" where
  "DeviceNames srt ds = map fst (srt ds)"

section \<open>Laws\<close>

text \<open>Two devices are equal for the code when they read the same.\<close>

lemma gm_str_missing: "k \<notin> fst ` set d \<Longrightarrow> gm_str d k = []"
  by (auto simp: gm_str_def map_of_eq_None_iff [THEN iffD2])

lemma deviceEquals_iff: "deviceEquals a b \<longleftrightarrow> (\<forall>k. gm_str a k = gm_str b k)"
proof
  assume e: "deviceEquals a b"
  show "\<forall>k. gm_str a k = gm_str b k"
  proof
    fix k show "gm_str a k = gm_str b k"
      using e gm_str_missing [of k a] gm_str_missing [of k b] unfolding deviceEquals_def
      by (cases "k \<in> fst ` set a \<or> k \<in> fst ` set b") auto
  qed
qed (simp add: deviceEquals_def)

lemma gm_str_del: "gm_str (gm_del d k) k' = (if k' = k then [] else gm_str d k')"
  by (simp add: gm_str_def)

lemma gm_str_foldl_del: "gm_str (foldl gm_del d ks) k = (if k \<in> set ks then [] else gm_str d k)"
  by (induction ks arbitrary: d) (auto simp: gm_str_del)

lemma gm_str_strip_live: "gm_str (strip_live d) k = (if k \<in> set live_keys then [] else gm_str d k)"
  by (simp add: strip_live_def gm_str_foldl_del)

definition same_but_live :: "device \<Rightarrow> device \<Rightarrow> bool" where
  "same_but_live a b \<longleftrightarrow> (\<forall>k. k \<notin> set live_keys \<longrightarrow> gm_str a k = gm_str b k)"

lemma strip_live_equal: "deviceEquals (strip_live a) (strip_live b) \<longleftrightarrow> same_but_live a b"
  by (auto simp: deviceEquals_iff gm_str_strip_live same_but_live_def)

lemma map_of_filter_key:
  "gm_wf m \<Longrightarrow> map_of (filter (\<lambda>(k, d). P k d) m) k =
     (case map_of m k of None \<Rightarrow> None | Some d \<Rightarrow> if P k d then Some d else None)"
proof (induction m)
  case (Cons kv m)
  then show ?case by (cases kv) (force simp: gm_wf_def split: option.splits dest: map_of_SomeD)
qed simp

definition hit :: "devices \<Rightarrow> devices \<Rightarrow> devices \<Rightarrow> string \<Rightarrow> bool" where
  "hit newlist todo rm k \<longleftrightarrow> map_of todo k \<noteq> None \<and>
     same_but_live (device_or_empty rm k) (device_or_empty newlist k)"

lemma update_loop_spec:
  assumes "gm_wf todo"
  shows "case update_loop newlist todo (rm, add, upd) of (rm', add', upd') \<Rightarrow>
     map_of rm' k = (if hit newlist todo rm k then None else map_of rm k) \<and>
     map_of add' k = (if hit newlist todo rm k then None else map_of add k) \<and>
     map_of upd' k = (if hit newlist todo rm k then map_of todo k else map_of upd k)"
  using assms
proof (induction todo arbitrary: rm add upd)
  case Nil
  then show ?case by (simp add: hit_def)
next
  case (Cons kd todo)
  obtain key d where kd: "kd = (key, d)" by (cases kd)
  have k: "map_of todo key = None" and w: "gm_wf todo"
    using Cons.prems by (auto simp: gm_wf_def map_of_eq_None_iff kd)
  have hit_key: "\<not> hit newlist todo rm0 key" for rm0 using k by (simp add: hit_def)
  have hit_other: "k \<noteq> key \<Longrightarrow> hit newlist todo (gm_del rm key) k = hit newlist todo rm k"
    by (simp add: hit_def device_or_empty_def)
  have hit_cons: "hit newlist ((key, d) # todo) rm k =
      (if k = key then same_but_live (device_or_empty rm key) (device_or_empty newlist key)
       else hit newlist todo rm k)"
    by (auto simp: hit_def)
  show ?case
  proof (cases "same_but_live (device_or_empty rm key) (device_or_empty newlist key)")
    case True
    then show ?thesis
      using Cons.IH [OF w, of "gm_del rm key" "gm_del add key" "gm_set upd key d"] hit_key hit_other
      by (auto simp: kd strip_live_equal Let_def hit_cons split: prod.splits)
  next
    case False
    then show ?thesis
      using Cons.IH [OF w, of rm add upd] hit_key
      by (auto simp: kd strip_live_equal Let_def hit_cons split: prod.splits)
  qed
qed

text \<open>
  What \<open>Update\<close> decides for one name: absent in both or unchanged, removed, added, changed in live
  properties only, or changed otherwise.
\<close>

definition changed :: "devices \<Rightarrow> devices \<Rightarrow> string \<Rightarrow> bool" where
  "changed old new k \<longleftrightarrow> \<not> (\<exists>a b. map_of old k = Some a \<and> map_of new k = Some b \<and> deviceEquals a b)"

definition live_change :: "devices \<Rightarrow> devices \<Rightarrow> string \<Rightarrow> bool" where
  "live_change old new k \<longleftrightarrow> changed old new k \<and> map_of new k \<noteq> None \<and>
     same_but_live (device_or_empty old k) (device_or_empty new k)"

lemma deviceEquals_sym: "deviceEquals a b = deviceEquals b a"
  by (auto simp: deviceEquals_iff)

lemma devices_Update_spec:
  assumes "gm_wf old" "gm_wf new"
  shows "case devices_Update old new of (rm, add, upd) \<Rightarrow>
    map_of rm k = (if changed old new k \<and> \<not> live_change old new k then map_of old k else None) \<and>
    map_of add k = (if changed old new k \<and> \<not> live_change old new k then map_of new k else None) \<and>
    map_of upd k = (if live_change old new k then map_of new k else None)"
proof -
  let ?rm = "filter (\<lambda>(key, d). \<not> Contains_dev new key d) old"
  let ?add = "filter (\<lambda>(key, d). \<not> Contains_dev old key d) new"
  have rm: "map_of ?rm k = (if changed old new k then map_of old k else None)"
    unfolding map_of_filter_key [OF assms(1)]
    by (auto simp: Contains_dev_def changed_def deviceEquals_sym split: option.splits)
  have add: "map_of ?add k = (if changed old new k then map_of new k else None)"
    unfolding map_of_filter_key [OF assms(2)]
    by (auto simp: Contains_dev_def changed_def deviceEquals_sym split: option.splits)
  have "gm_wf ?add" using assms(2) by (simp add: gm_wf_def distinct_map_filter)
  note spec = update_loop_spec [OF this, where newlist = new and rm = ?rm and add = ?add and upd = "[]" and k = k]
  have h: "hit new ?add ?rm k = live_change old new k"
    by (auto simp: hit_def live_change_def add rm device_or_empty_def split: if_splits)
  show ?thesis using spec by (auto simp: devices_Update_def Let_def h rm add live_change_def split: prod.splits)
qed

section \<open>Properties\<close>

text \<open>Carrying out a difference: stop what is removed, start what is added, retune the rest.\<close>

definition apply_update :: "devices \<times> devices \<times> devices \<Rightarrow> devices \<Rightarrow> string \<Rightarrow> device option" where
  "apply_update u old k =
     (case u of (rm, add, upd) \<Rightarrow>
        if map_of upd k \<noteq> None then map_of upd k
        else if map_of add k \<noteq> None then map_of add k
        else if map_of rm k \<noteq> None then None
        else map_of old k)"

text \<open>The difference computed by \<open>Update\<close> is complete: carrying it out on the old list gives,
  for every name, a device that reads like the one of the new list, and no device where the new
  list has none. Removed and added names are disjoint from the names updated in place.\<close>
theorem devices_update_complete:
  assumes "gm_wf old" "gm_wf new" "devices_Update old new = (rm, add, upd)"
  shows "rel_option (\<lambda>a b. deviceEquals a b) (apply_update (rm, add, upd) old k) (map_of new k) \<and>
    (map_of upd k \<noteq> None \<longrightarrow> map_of rm k = None \<and> map_of add k = None)"
proof -
  have refl: "deviceEquals a a" for a by (simp add: deviceEquals_iff)
  have "map_of rm k = (if changed old new k \<and> \<not> live_change old new k then map_of old k else None)"
    "map_of add k = (if changed old new k \<and> \<not> live_change old new k then map_of new k else None)"
    "map_of upd k = (if live_change old new k then map_of new k else None)"
    using devices_Update_spec [OF assms(1,2), of k] assms(3) by simp_all
  then show ?thesis
    by (auto simp: apply_update_def refl changed_def live_change_def rel_option_iff split: option.splits)
qed

definition nic_old :: device where
  "nic_old = [(''type'', ''nic''), (''nictype'', ''bridged''), (''limits.max'', ''1Mbit'')]"

definition nic_new :: device where
  "nic_new = [(''type'', ''nic''), (''nictype'', ''bridged''), (''limits.max'', ''2Mbit'')]"

definition root_disk :: device where
  "root_disk = [(''type'', ''disk''), (''path'', ''/''), (''pool'', ''default'')]"

lemma sample_update:
  "devices_Update [(''eth0'', nic_old), (''root'', root_disk)] [(''eth0'', nic_new), (''data'', root_disk)] =
     ([(''root'', root_disk)], [(''data'', root_disk)], [(''eth0'', nic_new)])"
  by code_simp

theorem devices_update_complete_witness:
  "rel_option (\<lambda>a b. deviceEquals a b)
     (apply_update ([(''root'', root_disk)], [(''data'', root_disk)], [(''eth0'', nic_new)])
        [(''eth0'', nic_old), (''root'', root_disk)] ''root'')
     (map_of [(''eth0'', nic_new), (''data'', root_disk)] ''root'')"
  using devices_update_complete [OF _ _ sample_update, of "''root''"] by (simp add: gm_wf_def)

text \<open>\<open>Update\<close> restarts a device only when a property outside the live limits and addresses
  differs: a name of both lists whose devices agree elsewhere is neither removed nor added, and it
  is listed for an in-place update exactly when it changed.\<close>
theorem live_properties_updated_in_place:
  assumes "gm_wf old" "gm_wf new" "devices_Update old new = (rm, add, upd)"
    and "map_of old k = Some a" "map_of new k = Some b" "\<forall>p. p \<notin> set live_keys \<longrightarrow> gm_str a p = gm_str b p"
  shows "map_of rm k = None \<and> map_of add k = None \<and>
    map_of upd k = (if \<forall>p. gm_str a p = gm_str b p then None else Some b)"
proof -
  have "same_but_live (device_or_empty old k) (device_or_empty new k)"
    using assms(4-6) by (simp add: same_but_live_def device_or_empty_def)
  then have "live_change old new k \<longleftrightarrow> changed old new k" using assms(5) by (simp add: live_change_def)
  moreover have "changed old new k \<longleftrightarrow> \<not> (\<forall>p. gm_str a p = gm_str b p)"
    using assms(4,5) by (simp add: changed_def deviceEquals_iff)
  ultimately show ?thesis
    using devices_Update_spec [OF assms(1,2), of k] assms(3,5) by auto
qed

theorem live_properties_updated_in_place_witness:
  "map_of [(''eth0'', nic_new)] ''eth0'' = Some nic_new \<and> map_of [(''root'', root_disk)] ''eth0'' = None"
proof -
  have "\<forall>p. p \<notin> set live_keys \<longrightarrow> gm_str nic_old p = gm_str nic_new p"
    by (auto simp: live_keys_def gm_str_def nic_old_def nic_new_def)
  moreover have "\<not> (\<forall>p. gm_str nic_old p = gm_str nic_new p)"
  proof
    assume "\<forall>p. gm_str nic_old p = gm_str nic_new p"
    then have "gm_str nic_old ''limits.max'' = gm_str nic_new ''limits.max''" by blast
    then show False by (simp add: gm_str_def nic_old_def nic_new_def)
  qed
  ultimately show ?thesis
    using live_properties_updated_in_place [OF _ _ sample_update, of "''eth0''" nic_old nic_new]
    by (auto simp: gm_wf_def)
qed

text \<open>The order of \<open>DeviceNames\<close> is not an order: \<open>Less\<close> compares two disks by path and any other
  pair by name, which is cyclic, so no arrangement of these three devices is sorted for it.\<close>
theorem device_order_cyclic:
  "\<nexists>xs. set xs = {(''a'', [(''type'', ''disk''), (''path'', ''/z'')]), (''m'', [(''type'', ''nic'')]),
                     (''z'', [(''type'', ''disk''), (''path'', ''/a'')])} \<and>
     sorted_wrt (\<lambda>a b. \<not> sortable_less b a) xs"
proof
  let ?a = "(''a'', [(''type'', ''disk''), (''path'', ''/z'')])"
  let ?m = "(''m'', [(''type'', ''nic'')])"
  let ?z = "(''z'', [(''type'', ''disk''), (''path'', ''/a'')])"
  assume "\<exists>xs. set xs = {?a, ?m, ?z} \<and> sorted_wrt (\<lambda>a b. \<not> sortable_less b a) xs"
  then obtain xs where xs: "set xs = {?a, ?m, ?z}" "sorted_wrt (\<lambda>a b. \<not> sortable_less b a) xs" by blast
  have l: "sortable_less ?a ?m" "sortable_less ?m ?z" "sortable_less ?z ?a"
    by (simp_all add: sortable_less_def gm_str_def)
  show False
  proof (cases xs)
    case Nil
    with xs(1) show False by simp
  next
    case (Cons x ys)
    have nl: "y \<in> set ys \<Longrightarrow> \<not> sortable_less y x" for y using xs(2) Cons by simp
    have sub: "set ys \<supseteq> {?a, ?m, ?z} - {x}" using xs(1) Cons by auto
    have x: "x = ?a \<or> x = ?m \<or> x = ?z" using xs(1) Cons by auto
    then show False
    proof (elim disjE)
      assume e: "x = ?a"
      then have "?z \<in> set ys" using sub by auto
      with nl [OF this] l e show False by simp
    next
      assume e: "x = ?m"
      then have "?a \<in> set ys" using sub by auto
      with nl [OF this] l e show False by simp
    next
      assume e: "x = ?z"
      then have "?m \<in> set ys" using sub by auto
      with nl [OF this] l e show False by simp
    qed
  qed
qed

end
