(* ===== verification/DeviceSched.thy ===== *)
theory DeviceSched
  imports Devices
begin

text \<open>
  \<open>apollo/devices.go\<close>: hot-plugged USB devices and their kernel events, CPU sets, the balancing of
  containers over CPUs, and the parsing of CPU, memory and disk limits.
\<close>

section \<open>USB devices\<close>

record usb_device =
  usb_action :: string
  usb_vendor :: string
  usb_product :: string
  usb_path :: string
  usb_major :: int
  usb_minor :: int

text \<open>\<open>%03d\<close>: at least three characters, padded with zeros after the sign.\<close>

definition zeros :: "nat \<Rightarrow> string" where
  "zeros n = replicate n (CHR ''0'')"

definition format_03d :: "int \<Rightarrow> string" where
  "format_03d i =
     (if i < 0 then ''-'' @ zeros (2 - length (show_nat (nat (- i)))) @ show_nat (nat (- i))
      else zeros (3 - length (show_nat (nat i))) @ show_nat (nat i))"

definition createUSBDevice ::
  "string \<Rightarrow> string \<Rightarrow> string \<Rightarrow> string \<Rightarrow> string \<Rightarrow> string \<Rightarrow> string \<Rightarrow> string \<Rightarrow> usb_device res" where
  "createUSBDevice action vendor product major minor busnum devnum devname =
     ebind (Atoi major) (\<lambda>majorInt.
     ebind (Atoi minor) (\<lambda>minorInt.
     ebind (if devname = [] then
              ebind (Atoi busnum) (\<lambda>busnumInt.
              ebind (Atoi devnum) (\<lambda>devnumInt.
                Inr (''/dev/bus/usb/'' @ format_03d busnumInt @ ''/'' @ format_03d devnumInt)))
            else if \<not> HasPrefix devname ''/'' then Inr (''/dev/'' @ devname)
            else Inr devname) (\<lambda>path.
       Inr \<lparr>usb_action = action, usb_vendor = vendor, usb_product = product, usb_path = path,
            usb_major = majorInt, usb_minor = minorInt\<rparr>)))"

text \<open>\<open>strings.Repeat\<close> panics on a negative count.\<close>

definition zeroPad :: "string \<Rightarrow> nat \<Rightarrow> string res" where
  "zeroPad s l =
     (if l < length s then Inl (Panic ''strings: negative Repeat count'')
      else Inr (zeros (l - length s) @ s))"

section \<open>Kernel events\<close>

text \<open>
  A read stores the datagram at the start of a buffer that is reused, and its length is ignored:
  what follows the datagram is what earlier reads left there.
\<close>

definition netlink_read :: "string \<Rightarrow> string \<Rightarrow> string" where
  "netlink_read b msg = msg @ drop (length msg) b"

text \<open>
  The loop over the bytes: at each NUL at index \<open>i\<close>, the message is \<open>b[last+1:i]\<close>. The slice is out
  of range when the buffer starts with a NUL.
\<close>

definition store_prop :: "string gomap \<Rightarrow> string \<Rightarrow> string gomap" where
  "store_prop props msg =
     (if msg = [] \<or> msg = [CHR 0x00] then props
      else case SplitN2 (CHR ''='') msg of
             [k, v] \<Rightarrow> gm_set props k v
           | _ \<Rightarrow> props)"

fun props_loop :: "string \<Rightarrow> nat \<Rightarrow> nat \<Rightarrow> string \<Rightarrow> string gomap \<Rightarrow> string gomap res" where
  "props_loop b lst i [] props = Inr props"
| "props_loop b lst i (e # rest) props =
     (if e = CHR 0x00 then
        (if i < lst + 1 then Inl (Panic ''slice bounds out of range'')
         else props_loop b i (Suc i) rest (store_prop props (take (i - (lst + 1)) (drop (lst + 1) b))))
      else props_loop b lst (Suc i) rest props)"

definition netlink_props :: "string \<Rightarrow> string gomap res" where
  "netlink_props b = props_loop b 0 0 b []"

datatype dev_event =
    EvCPU string string
  | EvNetwork string string
  | EvUSB usb_device

text \<open>
  One event may concern a CPU, then a network interface, then a USB device; each block ends the
  iteration when its subsystem matches and a test fails. \<open>exists_path\<close> is \<open>shared.PathExists\<close>.
\<close>

definition base_name :: "string \<Rightarrow> string" where
  "base_name p = last (Split (CHR ''/'') p)"

definition usb_event :: "string gomap \<Rightarrow> dev_event option res" where
  "usb_event props =
     (if gm_str props ''ACTION'' \<noteq> ''add'' \<and> gm_str props ''ACTION'' \<noteq> ''remove'' then Inr None
      else let parts = Split (CHR ''/'') (gm_str props ''PRODUCT'')
           in if length parts < 2 then Inr None
              else if \<not> gm_has props ''MAJOR'' then Inr None
              else if \<not> gm_has props ''MINOR'' then Inr None
              else if \<not> gm_has props ''BUSNUM'' then Inr None
              else if \<not> gm_has props ''DEVNUM'' then Inr None
              else ebind (zeroPad (parts ! 0) 4) (\<lambda>vendor.
                   ebind (zeroPad (parts ! 1) 4) (\<lambda>product.
                     case createUSBDevice (gm_str props ''ACTION'') vendor product
                            (gm_str props ''MAJOR'') (gm_str props ''MINOR'') (gm_str props ''BUSNUM'')
                            (gm_str props ''DEVNUM'') (gm_str props ''DEVNAME'') of
                       Inl _ \<Rightarrow> Inr None
                     | Inr usb \<Rightarrow> Inr (Some (EvUSB usb)))))"

definition netlink_event :: "(string \<Rightarrow> bool) \<Rightarrow> string gomap \<Rightarrow> dev_event option res" where
  "netlink_event exists_path props =
     (if gm_str props ''SUBSYSTEM'' = ''cpu'' then
        (if gm_str props ''DRIVER'' \<noteq> ''processor'' then Inr None
         else if gm_str props ''ACTION'' \<noteq> ''offline'' \<and> gm_str props ''ACTION'' \<noteq> ''online'' then Inr None
         else Inr (Some (EvCPU (base_name (gm_str props ''DEVPATH'')) (gm_str props ''ACTION''))))
      else if gm_str props ''SUBSYSTEM'' = ''net'' then
        (if gm_str props ''ACTION'' \<noteq> ''add'' \<and> gm_str props ''ACTION'' \<noteq> ''removed'' then Inr None
         else if \<not> exists_path (''/sys/class/net/'' @ gm_str props ''INTERFACE'') then Inr None
         else Inr (Some (EvNetwork (gm_str props ''INTERFACE'') (gm_str props ''ACTION''))))
      else if gm_str props ''SUBSYSTEM'' = ''usb'' then usb_event props
      else Inr None)"

section \<open>Reacting to a USB event\<close>

datatype usb_effect = InsertUnix string device int int string | RemoveUnix string device int int string

definition usb_matches :: "device \<Rightarrow> usb_device \<Rightarrow> bool" where
  "usb_matches m usb \<longleftrightarrow> gm_str m ''type'' = ''usb'' \<and>
     \<not> (gm_str m ''vendorid'' \<noteq> usb_vendor usb \<or>
        (gm_str m ''productid'' \<noteq> [] \<and> gm_str m ''productid'' \<noteq> usb_product usb))"

definition usb_effect_of :: "string \<Rightarrow> device \<Rightarrow> usb_device \<Rightarrow> usb_effect option" where
  "usb_effect_of c m usb =
     (if usb_action usb = ''add'' then Some (InsertUnix c m (usb_major usb) (usb_minor usb) (usb_path usb))
      else if usb_action usb = ''remove'' then Some (RemoveUnix c m (usb_major usb) (usb_minor usb) (usb_path usb))
      else None)"

text \<open>
  A container is its name, whether it is running, and its expanded devices in the order of
  \<open>DeviceNames\<close>. \<open>io\<close> says whether an effect succeeds; the first failure ends the handler. The
  result is the effects tried, in order, and whether the handler was cut short.
\<close>

fun usb_devices_loop ::
  "(usb_effect \<Rightarrow> bool) \<Rightarrow> usb_device \<Rightarrow> string \<Rightarrow> devices \<Rightarrow> usb_effect list \<times> bool" where
  "usb_devices_loop io usb c [] = ([], False)"
| "usb_devices_loop io usb c ((_, m) # ds) =
     (if \<not> usb_matches m usb then usb_devices_loop io usb c ds
      else case usb_effect_of c m usb of
             None \<Rightarrow> usb_devices_loop io usb c ds
           | Some eff \<Rightarrow>
               if \<not> io eff then ([eff], True)
               else let (effs, stop) = usb_devices_loop io usb c ds in (eff # effs, stop))"

fun deviceUSBEvent ::
  "(usb_effect \<Rightarrow> bool) \<Rightarrow> (devices \<Rightarrow> devices) \<Rightarrow> (string \<times> bool \<times> devices) list \<Rightarrow> usb_device \<Rightarrow> usb_effect list" where
  "deviceUSBEvent io srt [] usb = []"
| "deviceUSBEvent io srt ((c, running, ds) # cs) usb =
     (if \<not> running then deviceUSBEvent io srt cs usb
      else let (effs, stop) = usb_devices_loop io usb c (srt ds)
           in if stop then effs else effs @ deviceUSBEvent io srt cs usb)"

section \<open>CPU sets\<close>

text \<open>
  \<open>for i := low; i <= high; i++\<close> never ends when \<open>high\<close> is the largest int64, and the list it
  builds exhausts the memory.
\<close>

definition cpu_chunk :: "string \<Rightarrow> string \<Rightarrow> int list res" where
  "cpu_chunk cpu chunk =
     (if Contains chunk ''-'' then
        (case SplitN2 (CHR ''-'') chunk of
           [a, b] \<Rightarrow>
             (case Atoi a of
                Inl _ \<Rightarrow> Inl (Errorf ''Invalid cpuset value: %s'' [cpu])
              | Inr low \<Rightarrow>
                 (case Atoi b of
                    Inl _ \<Rightarrow> Inl (Errorf ''Invalid cpuset value: %s'' [cpu])
                  | Inr high \<Rightarrow>
                      if low \<le> high \<and> high = 2 ^ 63 - 1 then Inl (Panic ''out of memory'')
                      else Inr [low..high]))
         | _ \<Rightarrow> Inl (Errorf ''Invalid cpuset value: %s'' [cpu]))
      else case Atoi chunk of
             Inl _ \<Rightarrow> Inl (Errorf ''Invalid cpuset value: %s'' [cpu])
           | Inr nr \<Rightarrow> Inr [nr])"

fun cpu_chunks :: "string \<Rightarrow> string list \<Rightarrow> int list res" where
  "cpu_chunks cpu [] = Inr []"
| "cpu_chunks cpu (c # cs) =
     ebind (cpu_chunk cpu c) (\<lambda>xs. ebind (cpu_chunks cpu cs) (\<lambda>ys. Inr (xs @ ys)))"

definition parseCpuset :: "string \<Rightarrow> int list res" where
  "parseCpuset cpu = cpu_chunks cpu (Split (CHR '','') cpu)"

section \<open>Balancing containers over CPUs\<close>

text \<open>
  What \<open>deviceTaskBalance\<close> reads: whether the cpuset controller exists, \<open>cpuset.effective_cpus\<close> and
  \<open>cpuset.cpus\<close> of the host, the isolated CPUs (\<open>None\<close> without the file), and the containers with
  their \<open>limits.cpu\<close> and whether they run before and after the computation.
\<close>

record balance_input =
  b_controller :: bool
  b_effective :: "string res"
  b_cpus :: "string res"
  b_isolated :: "string res option"
  b_containers :: "(string \<times> string option \<times> bool) list res"
  b_still_running :: "string \<Rightarrow> bool"

definition host_cpus :: "balance_input \<Rightarrow> int list res" where
  "host_cpus inp =
     ebind (case b_effective inp of Inr s \<Rightarrow> Inr s | Inl _ \<Rightarrow> b_cpus inp) (\<lambda>effective.
     ebind (parseCpuset effective) (\<lambda>effectiveInt.
     ebind (case b_isolated inp of
              None \<Rightarrow> Inr []
            | Some buf \<Rightarrow> ebind buf (\<lambda>s. if TrimSpace s = [] then Inr [] else parseCpuset (TrimSpace s)))
       (\<lambda>isolatedInt. Inr (filter (\<lambda>x. \<not> IntInSlice x isolatedInt) effectiveInt))))"

text \<open>
  \<open>fixed\<close> lists the containers pinned to each CPU; \<open>balanced\<close> gives the number of CPUs a container
  is to be spread over. A container with an unreadable CPU set ends the whole computation.
\<close>

definition pin_cpu :: "string \<Rightarrow> int list \<Rightarrow> (int \<times> string list) list \<Rightarrow> int \<Rightarrow> (int \<times> string list) list" where
  "pin_cpu c cpus fixed nr =
     (if \<not> IntInSlice nr cpus then fixed
      else gm_set fixed nr ((case map_of fixed nr of None \<Rightarrow> [] | Some cs \<Rightarrow> cs) @ [c]))"

fun sort_containers ::
  "string \<Rightarrow> int list \<Rightarrow> (string \<times> string option \<times> bool) list \<Rightarrow> (int \<times> string list) list \<Rightarrow>
   (string \<times> int) list \<Rightarrow> ((int \<times> string list) list \<times> (string \<times> int) list) res" where
  "sort_containers all cpus [] fixed balanced = Inr (fixed, balanced)"
| "sort_containers all cpus ((c, limit, running) # cs) fixed balanced =
     (let cpulimit = (case limit of None \<Rightarrow> all | Some [] \<Rightarrow> all | Some l \<Rightarrow> l)
      in if \<not> running then sort_containers all cpus cs fixed balanced
         else case Atoi cpulimit of
                Inr nr \<Rightarrow>
                  sort_containers all cpus cs fixed (gm_set balanced c (min nr (int (length cpus))))
              | Inl _ \<Rightarrow>
                  ebind (parseCpuset cpulimit) (\<lambda>containerCpus.
                    sort_containers all cpus cs (foldl (pin_cpu c cpus) fixed containerCpus) balanced))"

type_synonym usage = "(int \<times> int) list"
type_synonym pinning = "(string \<times> string list) list"

definition add_pin :: "pinning \<Rightarrow> string \<Rightarrow> int \<Rightarrow> pinning" where
  "add_pin pins c cpu =
     gm_set pins c ((case map_of pins c of None \<Rightarrow> [] | Some l \<Rightarrow> l) @ [show_int cpu])"

definition bump :: "usage \<Rightarrow> int \<Rightarrow> usage" where
  "bump u cpu = map (\<lambda>(x, n). if x = cpu then (x, n + 1) else (x, n)) u"

fun pin_ctns :: "int \<Rightarrow> string list \<Rightarrow> usage \<times> pinning \<Rightarrow> usage \<times> pinning" where
  "pin_ctns cpu [] st = st"
| "pin_ctns cpu (c # cs) (u, pins) = pin_ctns cpu cs (bump u cpu, add_pin pins c cpu)"

fun pin_fixed :: "(int \<times> string list) list \<Rightarrow> usage \<times> pinning \<Rightarrow> usage \<times> pinning" where
  "pin_fixed [] st = st"
| "pin_fixed ((cpu, ctns) # fixed) (u, pins) =
     (if map_of u cpu = None then pin_fixed fixed (u, pins)
      else pin_fixed fixed (pin_ctns cpu ctns (u, pins)))"

text \<open>One container takes the first \<open>count\<close> CPUs of the sorted usage; a negative count takes all.\<close>

fun take_cpus :: "string \<Rightarrow> int \<Rightarrow> usage \<Rightarrow> usage \<times> pinning \<Rightarrow> usage \<times> pinning" where
  "take_cpus c k [] st = st"
| "take_cpus c k ((cpu, n) # rest) (u, pins) =
     (if k = 0 then (u, pins)
      else take_cpus c (k - 1) rest (bump u cpu, add_pin pins c cpu))"

fun balance_loop :: "(usage \<Rightarrow> usage) \<Rightarrow> (string \<times> int) list \<Rightarrow> usage \<times> pinning \<Rightarrow> usage \<times> pinning" where
  "balance_loop srt [] st = st"
| "balance_loop srt ((c, k) # rest) (u, pins) =
     (let sorted_u = srt u in balance_loop srt rest (take_cpus c k sorted_u (sorted_u, pins)))"

definition usage_less :: "int \<times> int \<Rightarrow> int \<times> int \<Rightarrow> bool" where
  "usage_less a b \<longleftrightarrow> snd a < snd b"

text \<open>
  The visiting orders of the three maps are the arguments \<open>ord_usage\<close>, \<open>ord_fixed\<close> and
  \<open>ord_balanced\<close>; a run also visits the pinnings. The computation \<open>balance_pins\<close> gives the CPUs of
  each container; \<open>deviceTaskBalance\<close> is the list of writes to \<open>cpuset.cpus\<close>, each a cgroup and its
  value, and how the task ended.
\<close>

record map_orders =
  ord_usage :: "usage \<Rightarrow> usage"
  ord_fixed :: "(int \<times> string list) list \<Rightarrow> (int \<times> string list) list"
  ord_balanced :: "(string \<times> int) list \<Rightarrow> (string \<times> int) list"

definition initial_usage :: "int list \<Rightarrow> usage" where
  "initial_usage cpus = map (\<lambda>x. (x, 0)) (remdups cpus)"

definition balance_pins ::
  "(usage \<Rightarrow> usage) \<Rightarrow> map_orders \<Rightarrow> int list \<Rightarrow> (int \<times> string list) list \<Rightarrow> (string \<times> int) list \<Rightarrow>
   usage \<times> pinning" where
  "balance_pins srt ord cpus fixed balanced =
     (let (u, pins) = pin_fixed (ord_fixed ord fixed) (initial_usage cpus, [])
      in balance_loop srt (ord_balanced ord balanced) (ord_usage ord u, pins))"

definition container_writes ::
  "(usage \<Rightarrow> usage) \<Rightarrow> map_orders \<Rightarrow> balance_input \<Rightarrow> string \<Rightarrow> (string \<times> string) list res" where
  "container_writes srt ord inp effective =
     ebind (parseCpuset effective) (\<lambda>cpus.
     ebind (b_containers inp) (\<lambda>ctns.
     ebind (sort_containers effective cpus ctns [] []) (\<lambda>(fixed, balanced).
       Inr (map (\<lambda>(c, set_cpus). (c, Join '','' (sort set_cpus)))
              (filter (\<lambda>(c, _). b_still_running inp c) (snd (balance_pins srt ord cpus fixed balanced)))))))"

definition deviceTaskBalance ::
  "(usage \<Rightarrow> usage) \<Rightarrow> map_orders \<Rightarrow> balance_input \<Rightarrow> (string \<times> string) list \<times> unit res" where
  "deviceTaskBalance srt ord inp =
     (if \<not> b_controller inp then ([], Inr ())
      else case host_cpus inp of
             Inl e \<Rightarrow> ([], Inl e)
           | Inr host \<Rightarrow>
               let effective = Join '','' (map show_int host);
                   root_write = (''/mercury'', effective)
               in case container_writes srt ord inp effective of
                    Inl e \<Rightarrow> ([root_write], Inl e)
                  | Inr ws \<Rightarrow> (root_write # ws, Inr ()))"

section \<open>Limits\<close>

definition deviceModeOct :: "string \<Rightarrow> int res" where
  "deviceModeOct strmode =
     (if strmode = [] then Inr 384
      else case ParseInt strmode 8 32 of
             Inl _ \<Rightarrow> Inl (Errorf ''Bad device mode: %s'' [strmode])
           | Inr i \<Rightarrow> Inr i)"

definition deviceParseCPU :: "string \<Rightarrow> string \<Rightarrow> (string \<times> string \<times> string) res" where
  "deviceParseCPU cpuAllowance cpuPriority =
     ebind (if cpuPriority \<noteq> [] then Atoi cpuPriority else Inr 10) (\<lambda>cpuPriorityInt.
       let shares0 = sub64 0 (sub64 10 cpuPriorityInt)
       in ebind
            (if cpuAllowance \<noteq> [] then
               (if HasSuffix cpuAllowance ''%'' then
                  ebind (Atoi (TrimSuffix cpuAllowance ''%'')) (\<lambda>percent.
                    Inr (add64 shares0 (add64 (mul64 10 percent) 24), ''-1'', ''100000''))
                else
                  (case SplitN2 (CHR ''/'') cpuAllowance of
                     [a, b] \<Rightarrow>
                       ebind (Atoi (TrimSuffix a ''ms'')) (\<lambda>quota.
                       ebind (Atoi (TrimSuffix b ''ms'')) (\<lambda>period.
                         Inr (add64 shares0 1024, show_int (mul64 quota 1000), show_int (mul64 period 1000))))
                   | _ \<Rightarrow> Inl (Errorf ''Invalid allowance: %s'' [cpuAllowance])))
             else Inr (add64 shares0 1024, ''-1'', ''100000''))
            (\<lambda>(shares, quota, period).
              Inr (show_int (if shares < 0 then 0 else shares), quota, period)))"

text \<open>
  \<open>/proc/meminfo\<close> line by line; the last two fields are read without a length check.
\<close>

fun deviceTotalMemory :: "string list \<Rightarrow> int res" where
  "deviceTotalMemory [] = Inl (Errorf ''Couldn't find MemTotal'' [])"
| "deviceTotalMemory (line # ls) =
     (if \<not> HasPrefix line ''MemTotal:'' then deviceTotalMemory ls
      else let fields = Split (CHR '' '') line
           in if length fields < 2 then Inl (Panic ''index out of range'')
              else ParseByteSizeString (fields ! (length fields - 2) @ fields ! (length fields - 1)))"

text \<open>
  The inner \<open>parseValue\<close> closure of \<open>deviceParseDiskLimit\<close>: its test for an unset limit looks at
  \<open>readSpeed\<close>, not at its own argument.
\<close>

definition parseValue :: "string \<Rightarrow> string \<Rightarrow> (int \<times> int) res" where
  "parseValue readSpeed v =
     (if readSpeed = [] then Inr (0, 0)
      else if HasSuffix v ''iops'' then
        ebind (ParseInt (TrimSuffix v ''iops'') 10 64) (\<lambda>iops. Inr (0, iops))
      else ebind (ParseByteSizeString v) (\<lambda>bps. Inr (bps, 0)))"

definition deviceParseDiskLimit :: "string \<Rightarrow> string \<Rightarrow> (int \<times> int \<times> int \<times> int) res" where
  "deviceParseDiskLimit readSpeed writeSpeed =
     ebind (parseValue readSpeed readSpeed) (\<lambda>(readBps, readIops).
     ebind (parseValue readSpeed writeSpeed) (\<lambda>(writeBps, writeIops).
       Inr (readBps, readIops, writeBps, writeIops)))"

text \<open>\<open>net_prio.ifpriomap\<close> for a new interface, for each container with a readable priority.\<close>

definition deviceNetworkPriority :: "bool \<Rightarrow> (string \<times> string gomap) list \<Rightarrow> string \<Rightarrow> (string \<times> string) list" where
  "deviceNetworkPriority controller ctns netif =
     (if \<not> controller then []
      else concat (map (\<lambda>(c, conf).
             if gm_str conf ''limits.network.priority'' = [] then []
             else case Atoi (gm_str conf ''limits.network.priority'') of
                    Inl _ \<Rightarrow> []
                  | Inr n \<Rightarrow> [(c, netif @ '' '' @ show_int n)]) ctns))"

text \<open>The random digits are an argument; each is printed in hexadecimal.\<close>

fun fill_pattern :: "string \<Rightarrow> nat list \<Rightarrow> string" where
  "fill_pattern [] ds = []"
| "fill_pattern (c # cs) ds =
     (if c = CHR ''x'' then (case ds of [] \<Rightarrow> [] | d # ds' \<Rightarrow> hex_digit (d mod 16) # fill_pattern cs ds')
      else c # fill_pattern cs ds)"

definition deviceNextInterfaceHWAddr :: "nat list \<Rightarrow> string" where
  "deviceNextInterfaceHWAddr digits = fill_pattern ''00:16:3e:xx:xx:xx'' digits"

end
