(* ===== verification/BalanceLaws.thy ===== *)
theory BalanceLaws
  imports DeviceSched
begin

text \<open>
  Laws of the CPU balancing of \<open>deviceTaskBalance\<close>: what one container takes, how far apart the CPUs'
  loads may drift, and that the loads are those of the pinnings. Sorting enters through the
  interface \<open>balancer\<close>.
\<close>

section \<open>What one container takes\<close>

definition taken :: "int \<Rightarrow> usage \<Rightarrow> int list" where
  "taken k xs = map fst (if k < 0 then xs else take (nat k) xs)"

definition pin_all :: "string \<Rightarrow> int list \<Rightarrow> pinning \<Rightarrow> pinning" where
  "pin_all c ids pins = foldl (\<lambda>p x. add_pin p c x) pins ids"

lemma taken_Nil [simp]: "taken k [] = []"
  by (simp add: taken_def)

lemma taken_Cons: "taken k ((x, n) # xs) = (if k = 0 then [] else x # taken (k - 1) xs)"
proof (cases "0 < k")
  case True
  then have "nat k = Suc (nat (k - 1))" by simp
  with True show ?thesis by (simp add: taken_def)
qed (simp add: taken_def)

lemma take_cpus_eq:
  "take_cpus c k xs (u, pins) = (foldl bump u (taken k xs), pin_all c (taken k xs) pins)"
  by (induction xs arbitrary: k u pins) (auto simp: taken_Cons pin_all_def)

lemma foldl_bump:
  "distinct ys \<Longrightarrow> foldl bump u ys = map (\<lambda>(x, n). if x \<in> set ys then (x, n + 1) else (x, n)) u"
proof (induction ys arbitrary: u)
  case Nil
  then show ?case by (simp add: case_prod_unfold)
next
  case (Cons y ys)
  then show ?case by (auto simp: bump_def)
qed

lemma fst_bump [simp]: "map fst (bump u x) = map fst u"
  by (auto simp: bump_def)

lemma fst_foldl_bump [simp]: "map fst (foldl bump u ys) = map fst u"
  by (induction ys arbitrary: u) auto

lemma distinct_taken: "distinct (map fst xs) \<Longrightarrow> distinct (taken k xs)"
  by (simp add: taken_def take_map [symmetric])

lemma set_taken: "set (taken k xs) \<subseteq> fst ` set xs"
  by (auto simp: taken_def dest: in_set_takeD)

lemma length_taken:
  "0 \<le> k \<Longrightarrow> k \<le> int (length xs) \<Longrightarrow> length (taken k xs) = nat k"
  by (auto simp: taken_def)

section \<open>The pinnings\<close>

lemma pin_all_other: "c \<noteq> c' \<Longrightarrow> map_of (pin_all c' ids pins) c = map_of pins c"
  unfolding pin_all_def by (induction ids arbitrary: pins) (auto simp: add_pin_def)

lemma pin_all_some:
  "map_of pins c = Some l \<Longrightarrow> map_of (pin_all c ids pins) c = Some (l @ map show_int ids)"
  unfolding pin_all_def by (induction ids arbitrary: pins l) (auto simp: add_pin_def)

lemma pin_all_own:
  assumes "map_of pins c = None"
  shows "map_of (pin_all c ids pins) c = (if ids = [] then None else Some (map show_int ids))"
proof (cases ids)
  case (Cons x xs)
  have "map_of (add_pin pins c x) c = Some [show_int x]" using assms by (simp add: add_pin_def)
  from pin_all_some [OF this, of xs] Cons show ?thesis by (simp add: pin_all_def)
qed (use assms in \<open>simp add: pin_all_def\<close>)

section \<open>The spread of the loads\<close>

definition spread :: "int \<Rightarrow> usage \<Rightarrow> bool" where
  "spread d u \<longleftrightarrow> (\<forall>(x, n) \<in> set u. \<forall>(y, m) \<in> set u. n \<le> m + d)"

lemma spread_mset: "mset u = mset v \<Longrightarrow> spread d u = spread d v"
  using mset_eq_setD [of u v] by (simp add: spread_def)

lemma spread_split:
  assumes "distinct (map fst (ys @ zs))" "spread d (ys @ zs)" "1 \<le> d"
    and "\<forall>(x, n) \<in> set ys. \<forall>(y, m) \<in> set zs. n \<le> m"
  shows "spread d (map (\<lambda>(x, n). if x \<in> fst ` set ys then (x, n + 1) else (x, n)) (ys @ zs))"
proof -
  have ys: "map (\<lambda>(x, n). if x \<in> fst ` set ys then (x, n + 1) else (x, n)) ys = map (\<lambda>(x, n). (x, n + 1)) ys"
    by (force simp: image_iff)
  have zs: "map (\<lambda>(x, n). if x \<in> fst ` set ys then (x, n + 1) else (x, n)) zs = zs"
    using assms(1) by (intro map_idI) (auto, force)
  have a: "n \<le> m + d" if "(x, n) \<in> set (ys @ zs)" "(y, m) \<in> set (ys @ zs)" for x n y m
    using assms(2) that by (fastforce simp: spread_def)
  have b: "n \<le> m" if "(x, n) \<in> set ys" "(y, m) \<in> set zs" for x n y m
    using assms(4) that by fastforce
  show ?thesis unfolding map_append ys zs spread_def
    using a b assms(3) by (fastforce simp: case_prod_unfold)
qed

text \<open>The interface of a balancer: a sort by load. Its laws are proved for every such sort.\<close>

locale balancer = go_sort usage_less srt for srt :: "usage \<Rightarrow> usage"
begin

lemma fst_srt: "mset (map fst (srt u)) = mset (map fst u)"
  using srt_mset [of u] by (metis mset_map)

lemma distinct_srt: "distinct (map fst (srt u)) = distinct (map fst u)"
  by (rule mset_eq_imp_distinct_iff [OF fst_srt])

lemma taken_least:
  assumes "(x, n) \<in> set (take j (srt u))" "(y, m) \<in> set (drop j (srt u))"
  shows "n \<le> m"
  using srt_take_least [OF assms] by (simp add: usage_less_def)

lemma spread_take:
  assumes "distinct (map fst u)" "spread d u" "1 \<le> d"
  shows "spread d (foldl bump (srt u) (taken k (srt u)))"
proof -
  define j where "j = (if k < 0 then length (srt u) else nat k)"
  have t: "taken k (srt u) = map fst (take j (srt u))" by (simp add: taken_def j_def)
  have e: "srt u = take j (srt u) @ drop j (srt u)" by simp
  have d: "distinct (map fst (take j (srt u) @ drop j (srt u)))"
    using assms(1) by (simp only: append_take_drop_id distinct_srt)
  have s: "spread d (take j (srt u) @ drop j (srt u))"
    using assms(2) by (simp only: append_take_drop_id spread_mset [OF srt_mset])
  have l: "\<forall>(x, n) \<in> set (take j (srt u)). \<forall>(y, m) \<in> set (drop j (srt u)). n \<le> m"
    using taken_least by blast
  have "foldl bump (srt u) (taken k (srt u)) =
      map (\<lambda>(x, n). if x \<in> fst ` set (take j (srt u)) then (x, n + 1) else (x, n))
        (take j (srt u) @ drop j (srt u))"
    using distinct_taken [of "srt u" k] assms(1) unfolding distinct_srt
    by (simp only: foldl_bump t set_map append_take_drop_id)
  then show ?thesis using spread_split [OF d s assms(3) l] by simp
qed

lemma loop_spread:
  assumes "distinct (map fst u)" "spread d u" "1 \<le> d"
  shows "spread d (fst (balance_loop srt bs (u, pins)))"
  using assms
proof (induction bs arbitrary: u pins)
  case (Cons b bs)
  then show ?case
    using spread_take [OF Cons.prems, of "snd b"] distinct_srt [of u]
    by (cases b) (simp add: take_cpus_eq Let_def)
qed simp

lemma loop_keys: "mset (map fst (fst (balance_loop srt bs (u, pins)))) = mset (map fst u)"
proof (induction bs arbitrary: u pins)
  case (Cons b bs)
  then show ?case using fst_srt [of u] by (cases b) (simp add: take_cpus_eq Let_def del: mset_map)
qed simp

lemma loop_other_pins:
  "c \<notin> fst ` set bs \<Longrightarrow> map_of (snd (balance_loop srt bs (u, pins))) c = map_of pins c"
  by (induction bs arbitrary: u pins) (auto simp: take_cpus_eq Let_def pin_all_other)

lemma loop_own_pins:
  assumes "distinct (map fst bs)" "(c, k) \<in> set bs" "map_of pins c = None" "distinct (map fst u)"
  shows "\<exists>ids. distinct ids \<and> set ids \<subseteq> fst ` set u \<and>
    (0 \<le> k \<and> k \<le> int (length u) \<longrightarrow> length ids = nat k) \<and>
    map_of (snd (balance_loop srt bs (u, pins))) c = (if ids = [] then None else Some (map show_int ids))"
  using assms
proof (induction bs arbitrary: u pins)
  case (Cons b bs)
  obtain c' k' where b: "b = (c', k')" by (cases b)
  define ids where "ids = taken k' (srt u)"
  have len: "length (srt u) = length u" by (rule srt_length)
  have sset: "set (srt u) = set u" by (rule srt_set)
  have step: "balance_loop srt (b # bs) (u, pins) =
      balance_loop srt bs (foldl bump (srt u) ids, pin_all c' ids pins)"
    by (simp add: b take_cpus_eq ids_def Let_def)
  show ?case
  proof (cases "c' = c")
    case True
    have nin: "c \<notin> fst ` set bs" using Cons.prems(1) b True by auto
    have k: "k' = k" using Cons.prems(1,2) b True nin by force
    have "map_of (snd (balance_loop srt (b # bs) (u, pins))) c =
        (if ids = [] then None else Some (map show_int ids))"
      unfolding step using loop_other_pins [OF nin] pin_all_own [OF Cons.prems(3)] True by simp
    moreover have "distinct ids" "set ids \<subseteq> fst ` set u"
      using distinct_taken [of "srt u" k'] Cons.prems(4) set_taken [of k' "srt u"]
      by (simp_all add: ids_def distinct_srt sset)
    moreover have "0 \<le> k \<and> k \<le> int (length u) \<longrightarrow> length ids = nat k"
      using length_taken [of k "srt u"] by (simp add: ids_def k len)
    ultimately show ?thesis by blast
  next
    case False
    have p: "map_of (pin_all c' ids pins) c = None"
      using Cons.prems(3) False by (simp add: pin_all_other)
    have u: "fst ` set (foldl bump (srt u) ids) = fst ` set u" "length (foldl bump (srt u) ids) = length u"
      using fst_foldl_bump [of "srt u" ids] sset len by (metis list.set_map, metis length_map)
    have d: "distinct (map fst bs)" "(c, k) \<in> set bs" "distinct (map fst (foldl bump (srt u) ids))"
      using Cons.prems(1,2,4) b False by (auto simp: distinct_srt)
    show ?thesis using Cons.IH [OF d(1,2) p d(3)] unfolding step u .
  qed
qed simp

end

section \<open>Loads and pinnings agree\<close>

definition pins_at :: "pinning \<Rightarrow> int \<Rightarrow> int" where
  "pins_at pins x = (\<Sum>(c, l) \<leftarrow> pins. int (count_list l (show_int x)))"

definition booked :: "usage \<Rightarrow> pinning \<Rightarrow> bool" where
  "booked u pins \<longleftrightarrow> (\<forall>(x, n) \<in> set u. in_i64 x \<and> n = pins_at pins x)"

lemma pins_at_set:
  "pins_at (gm_set pins c v) x =
     pins_at pins x + int (count_list v (show_int x)) -
     (case map_of pins c of None \<Rightarrow> 0 | Some l \<Rightarrow> int (count_list l (show_int x)))"
  by (induction pins c v rule: gm_set.induct) (auto simp: pins_at_def)

lemma count_list_snoc: "count_list (l @ [y]) x = count_list l x + (if y = x then 1 else 0)"
  by (induction l) auto

lemma pins_at_add:
  "pins_at (add_pin pins c y) x = pins_at pins x + (if show_int y = show_int x then 1 else 0)"
  by (cases "map_of pins c") (auto simp: add_pin_def pins_at_set count_list_snoc)

lemma booked_bump:
  assumes "booked u pins" "in_i64 cpu"
  shows "booked (bump u cpu) (add_pin pins c cpu)"
  unfolding booked_def
proof (rule ballI)
  fix xn assume "xn \<in> set (bump u cpu)"
  then obtain x m where x: "(x, m) \<in> set u" "xn = (if x = cpu then (x, m + 1) else (x, m))"
    by (auto simp: bump_def)
  then have i: "in_i64 x" "m = pins_at pins x" using assms(1) by (auto simp: booked_def)
  then have "show_int cpu = show_int x \<longleftrightarrow> x = cpu" using show_int_inj [OF assms(2)] by blast
  then show "case xn of (x, n) \<Rightarrow> in_i64 x \<and> n = pins_at (add_pin pins c cpu) x"
    using x(2) i assms(2) by (simp add: pins_at_add)
qed

lemma booked_in_i64: "booked u pins \<Longrightarrow> x \<in> fst ` set u \<Longrightarrow> in_i64 x"
  by (auto simp: booked_def)

lemma booked_set: "set u = set v \<Longrightarrow> booked u pins = booked v pins"
  by (simp add: booked_def)

lemma booked_ctns:
  assumes "booked u pins" "in_i64 cpu" "pin_ctns cpu cs (u, pins) = (u', pins')"
  shows "booked u' pins' \<and> map fst u' = map fst u"
  using assms
proof (induction cs arbitrary: u pins)
  case (Cons c cs)
  show ?case using Cons.IH [OF booked_bump [OF Cons.prems(1,2)]] Cons.prems by simp
qed simp

lemma booked_fixed:
  assumes "booked u pins" "pin_fixed fixed (u, pins) = (u', pins')"
  shows "booked u' pins' \<and> map fst u' = map fst u"
  using assms
proof (induction fixed arbitrary: u pins)
  case (Cons f fixed)
  obtain cpu ctns where f: "f = (cpu, ctns)" by (cases f)
  obtain v q where vq: "pin_ctns cpu ctns (u, pins) = (v, q)" by (cases "pin_ctns cpu ctns (u, pins)")
  show ?case
  proof (cases "map_of u cpu = None")
    case True
    then show ?thesis using Cons f by simp
  next
    case False
    then have "cpu \<in> fst ` set u" by (metis map_of_eq_None_iff)
    then have "booked v q \<and> map fst v = map fst u"
      using booked_ctns [OF Cons.prems(1) _ vq] booked_in_i64 [OF Cons.prems(1)] by blast
    then show ?thesis using Cons.IH [of v q] Cons.prems(2) False by (simp add: f vq)
  qed
qed simp

lemma booked_all:
  assumes "booked u pins" "set ids \<subseteq> fst ` set u"
  shows "booked (foldl bump u ids) (pin_all c ids pins)"
  using assms
proof (induction ids arbitrary: u pins)
  case (Cons x ids)
  have "fst ` set (bump u x) = fst ` set u" using fst_bump [of u x] by (metis list.set_map)
  then have "booked (foldl bump (bump u x) ids) (pin_all c ids (add_pin pins c x))"
    using Cons booked_bump [OF Cons.prems(1)] booked_in_i64 [OF Cons.prems(1), of x] by simp
  then show ?case by (simp add: pin_all_def)
qed (simp add: pin_all_def)

context balancer
begin

lemma loop_booked:
  assumes "booked u pins" "balance_loop srt bs (u, pins) = (u', pins')"
  shows "booked u' pins'"
  using assms
proof (induction bs arbitrary: u pins)
  case (Cons b bs)
  obtain c k where b: "b = (c, k)" by (cases b)
  have "booked (srt u) pins" using Cons.prems(1) booked_set [OF srt_set] by blast
  then have "booked (foldl bump (srt u) (taken k (srt u))) (pin_all c (taken k (srt u)) pins)"
    by (rule booked_all [OF _ set_taken])
  then show ?case using Cons.IH Cons.prems(2) by (simp add: b take_cpus_eq Let_def)
qed simp

end

interpretation usage_sort: balancer "insertion_sort usage_less"
  unfolding balancer_def
  by (rule go_sort_insertion_sort) (auto simp: strict_weak_def usage_less_def)

end
