(* ===== verification/DeviceSchedProps.thy ===== *)
theory DeviceSchedProps
  imports BalanceLaws UtilProps
begin

text \<open>
  Properties of the device and resource code of \<open>apollo/devices.go\<close>: the balancing of containers
  over CPUs, CPU sets, limits, kernel events and the reaction to USB devices.
\<close>

section \<open>Balancing\<close>

lemma fst_initial_usage [simp]: "map fst (initial_usage cpus) = remdups cpus"
  by (simp add: initial_usage_def comp_def)

lemma spread_unpinned: "spread d (initial_usage cpus) \<longleftrightarrow> cpus = [] \<or> 0 \<le> d"
  by (cases cpus) (auto simp: spread_def initial_usage_def)

lemma fst_pin_ctns: "map fst (fst (pin_ctns cpu cs st)) = map fst (fst st)"
  by (induction cpu cs st rule: pin_ctns.induct) auto

lemma fst_pin_fixed: "map fst (fst (pin_fixed fixed st)) = map fst (fst st)"
proof (induction fixed st rule: pin_fixed.induct)
  case (2 cpu ctns fixed u pins)
  then show ?case using fst_pin_ctns [of cpu ctns "(u, pins)"] by simp
qed simp

lemma pin_ctns_other:
  "c \<notin> set cs \<Longrightarrow> map_of (snd (pin_ctns cpu cs st)) c = map_of (snd st) c"
  by (induction cpu cs st rule: pin_ctns.induct) (auto simp: add_pin_def)

lemma pin_fixed_other:
  "\<forall>(x, cs) \<in> set fixed. c \<notin> set cs \<Longrightarrow> map_of (snd (pin_fixed fixed st)) c = map_of (snd st) c"
proof (induction fixed st rule: pin_fixed.induct)
  case (2 cpu ctns fixed u pins)
  then show ?case using pin_ctns_other [of c ctns cpu "(u, pins)"] by auto
qed simp

text \<open>C19: Balancing never drives the loads of the CPUs further apart than the pinned containers
  left them, or than one container: for every sort by load and every order in which the maps are
  visited.\<close>
theorem balance_spread:
  assumes "go_sort usage_less srt" "\<And>u. mset (ord_usage ord u) = mset u" "1 \<le> d"
    and "spread d (fst (pin_fixed (ord_fixed ord fixed) (initial_usage cpus, [])))"
  shows "spread d (fst (balance_pins srt ord cpus fixed balanced))"
proof -
  have b: "balancer srt" using assms(1) by (simp add: balancer_def)
  obtain u pins where f: "pin_fixed (ord_fixed ord fixed) (initial_usage cpus, []) = (u, pins)"
    by (cases "pin_fixed (ord_fixed ord fixed) (initial_usage cpus, [])")
  have "map fst u = remdups cpus"
    using fst_pin_fixed [of "ord_fixed ord fixed" "(initial_usage cpus, [])"] f by simp
  then have "distinct (map fst u)" by simp
  then have "distinct (map fst (ord_usage ord u))"
    using mset_eq_imp_distinct_iff assms(2) by (metis mset_map)
  moreover have "spread d (ord_usage ord u)"
    using assms(4) f spread_mset [OF assms(2)] by simp
  ultimately show ?thesis
    using balancer.loop_spread [OF b _ _ assms(3)] by (simp add: balance_pins_def f)
qed

definition id_orders :: map_orders where
  "id_orders = \<lparr>ord_usage = (\<lambda>u. u), ord_fixed = (\<lambda>f. f), ord_balanced = (\<lambda>b. b)\<rparr>"

lemma usage_sorter: "go_sort usage_less (insertion_sort usage_less)"
  using usage_sort.balancer_axioms by (simp add: balancer_def)

theorem balance_spread_witness:
  "spread 1 (fst (balance_pins (insertion_sort usage_less) id_orders [0, 1, 2] [] [(''a'', 2), (''b'', 2)]))"
  by (rule balance_spread [OF usage_sorter]) (simp_all add: id_orders_def spread_unpinned)

text \<open>C20: A running container with a CPU count gets exactly that many distinct host CPUs, whatever
  else is balanced or pinned: its pinning lists them once each, and with a count of zero it gets no
  pinning at all.\<close>
theorem balanced_container_cpus:
  assumes "go_sort usage_less srt" "\<And>u. mset (ord_usage ord u) = mset u"
    and "mset (ord_balanced ord balanced) = mset balanced" "distinct (map fst balanced)"
    and "(c, k) \<in> set balanced" "0 \<le> k" "k \<le> int (length (remdups cpus))"
    and "\<forall>(x, cs) \<in> set (ord_fixed ord fixed). c \<notin> set cs"
  shows "\<exists>ids. distinct ids \<and> set ids \<subseteq> set cpus \<and> length ids = nat k \<and>
    map_of (snd (balance_pins srt ord cpus fixed balanced)) c =
      (if k = 0 then None else Some (map show_int ids))"
proof -
  have b: "balancer srt" using assms(1) by (simp add: balancer_def)
  obtain u pins where f: "pin_fixed (ord_fixed ord fixed) (initial_usage cpus, []) = (u, pins)"
    by (cases "pin_fixed (ord_fixed ord fixed) (initial_usage cpus, [])")
  have u: "map fst u = remdups cpus"
    using fst_pin_fixed [of "ord_fixed ord fixed" "(initial_usage cpus, [])"] f by simp
  have o: "mset (map fst (ord_usage ord u)) = mset (remdups cpus)"
    using assms(2) u by (metis mset_map)
  have d: "distinct (map fst (ord_usage ord u))"
    using mset_eq_imp_distinct_iff [OF o] by simp
  have s: "fst ` set (ord_usage ord u) = set cpus"
    using mset_eq_setD [OF o] by simp
  have l: "length (ord_usage ord u) = length (remdups cpus)"
    using mset_eq_length [OF o] by simp
  have p: "map_of pins c = None"
    using pin_fixed_other [OF assms(8), of "(initial_usage cpus, [])"] f by simp
  have bs: "distinct (map fst (ord_balanced ord balanced))" "(c, k) \<in> set (ord_balanced ord balanced)"
    using mset_eq_imp_distinct_iff assms(3-5) mset_eq_setD [OF assms(3)] by (metis mset_map, simp)
  obtain ids where "distinct ids" "set ids \<subseteq> set cpus" "length ids = nat k"
    "map_of (snd (balance_loop srt (ord_balanced ord balanced) (ord_usage ord u, pins))) c =
      (if ids = [] then None else Some (map show_int ids))"
    using balancer.loop_own_pins [OF b bs p d] assms(6,7) unfolding s l by blast
  then show ?thesis using assms(6) by (intro exI [of _ ids]) (auto simp: balance_pins_def f)
qed

theorem balanced_container_cpus_witness:
  "\<exists>ids. distinct ids \<and> set ids \<subseteq> set [4, 5, 6] \<and> length ids = nat 2 \<and>
    map_of (snd (balance_pins (insertion_sort usage_less) id_orders [4, 5, 6] [(5, [''p''])]
      [(''a'', 2), (''b'', 3)])) ''a'' = (if (2::int) = 0 then None else Some (map show_int ids))"
  by (rule balanced_container_cpus [OF usage_sorter]) (simp_all add: id_orders_def)

text \<open>The load the balancing keeps for each CPU is the number of containers it has pinned to
  that CPU, so the decisions are taken on the real loads.\<close>
theorem balance_booked:
  assumes "go_sort usage_less srt" "\<And>u. set (ord_usage ord u) = set u" "\<forall>x \<in> set cpus. in_i64 x"
    and "balance_pins srt ord cpus fixed balanced = (u, pins)"
  shows "\<forall>(x, n) \<in> set u. n = (\<Sum>(c, l) \<leftarrow> pins. int (count_list l (show_int x)))"
proof -
  have b: "balancer srt" using assms(1) by (simp add: balancer_def)
  obtain v q where f: "pin_fixed (ord_fixed ord fixed) (initial_usage cpus, []) = (v, q)"
    by (cases "pin_fixed (ord_fixed ord fixed) (initial_usage cpus, [])")
  have "booked (initial_usage cpus) []"
    using assms(3) by (auto simp: booked_def initial_usage_def pins_at_def)
  then have "booked v q" using booked_fixed [OF _ f] by blast
  then have "booked (ord_usage ord v) q" using booked_set [OF assms(2)] by blast
  then have "booked u pins"
    using balancer.loop_booked [OF b] assms(4) by (simp add: balance_pins_def f)
  then show ?thesis by (auto simp: booked_def pins_at_def)
qed

theorem balance_booked_witness:
  "let (u, pins) = balance_pins (insertion_sort usage_less) id_orders [0, 1] [(1, [''p''])] [(''a'', 1)]
   in list_all (\<lambda>(x, n). n = (\<Sum>(c, l) \<leftarrow> pins. int (count_list l (show_int x)))) u"
proof -
  obtain u pins where b: "balance_pins (insertion_sort usage_less) id_orders [0, 1] [(1, [''p''])] [(''a'', 1)] =
      (u, pins)"
    by (cases "balance_pins (insertion_sort usage_less) id_orders [0, 1] [(1, [''p''])] [(''a'', 1)]")
  have "\<forall>(x, n) \<in> set u. n = (\<Sum>(c, l) \<leftarrow> pins. int (count_list l (show_int x)))"
    by (rule balance_booked [OF usage_sorter _ _ b]) (simp_all add: id_orders_def in_i64_def)
  then show ?thesis unfolding b Let_def by (simp add: list_all_iff)
qed

section \<open>CPU sets\<close>

definition render_range :: "int \<times> int \<Rightarrow> string" where
  "render_range r = (if fst r = snd r then show_int (fst r) else show_int (fst r) @ ''-'' @ show_int (snd r))"

lemma Split_Join:
  "fs \<noteq> [] \<Longrightarrow> \<forall>f \<in> set fs. c \<notin> set f \<Longrightarrow> Split c (Join [c] fs) = fs"
proof (induction "[c]" fs rule: Join.induct)
  case (3 x y ys)
  then show ?case using Split_sep [of c x "Join [c] (y # ys)"] by simp
qed (simp_all add: Split_no_sep)

lemma show_int_nonneg: "0 \<le> i \<Longrightarrow> show_int i = show_nat (nat i)"
  by (simp add: show_int_def)

lemma show_int_no_char: "0 \<le> i \<Longrightarrow> \<not> is_digit c \<Longrightarrow> c \<notin> set (show_int i)"
  using show_nat_no_char [of c "nat i"] by (simp add: show_int_nonneg)

lemma sep_not_digit [simp]: "\<not> is_digit (CHR ''-'')" "\<not> is_digit (CHR '','')"
  by (simp_all add: is_digit_def)

lemma cpu_chunk_range:
  assumes "0 \<le> lo" "lo \<le> hi" "hi < 2 ^ 63 - 1"
  shows "cpu_chunk cpu (render_range (lo, hi)) = Inr [lo..hi]"
proof (cases "lo = hi")
  case True
  have "Atoi (show_int hi) = Inr hi" using assms by (intro Atoi_show_int) (simp add: in_i64_def)
  then show ?thesis using True assms show_int_no_char [of lo "CHR ''-''"]
    by (simp add: cpu_chunk_def render_range_def upto_rec1)
next
  case False
  have a: "Atoi (show_int lo) = Inr lo" "Atoi (show_int hi) = Inr hi"
    using assms by (auto intro!: Atoi_show_int simp: in_i64_def)
  have "SplitN2 (CHR ''-'') (render_range (lo, hi)) = [show_int lo, show_int hi]"
    using SplitN2_sep [OF show_int_no_char, OF assms(1) sep_not_digit(1)] False
    by (simp add: render_range_def)
  moreover have "Contains (render_range (lo, hi)) ''-''" using False by (simp add: render_range_def)
  ultimately show ?thesis using a assms by (simp add: cpu_chunk_def)
qed

lemma cpu_chunks_ranges:
  assumes "\<forall>(lo, hi) \<in> set rs. 0 \<le> lo \<and> lo \<le> hi \<and> hi < 2 ^ 63 - 1"
  shows "cpu_chunks cpu (map render_range rs) = Inr (concat (map (\<lambda>(lo, hi). [lo..hi]) rs))"
  using assms by (induction rs) (auto simp: cpu_chunk_range)

text \<open>The kernel's list format of a CPU set is parsed exactly: for ranges of non-negative ids
  written as numbers or as \<open>low-high\<close> and separated by commas, the parser returns the ids of the
  ranges in order.\<close>
theorem parseCpuset_ranges:
  assumes "rs \<noteq> []" "\<forall>(lo, hi) \<in> set rs. 0 \<le> lo \<and> lo \<le> hi \<and> hi < 2 ^ 63 - 1"
  shows "parseCpuset (Join '','' (map render_range rs)) = Inr (concat (map (\<lambda>(lo, hi). [lo..hi]) rs))"
proof -
  have "\<forall>f \<in> set (map render_range rs). CHR '','' \<notin> set f"
    using assms(2) show_int_no_char [of _ "CHR '',''"] by (fastforce simp: render_range_def)
  then have "Split (CHR '','') (Join '','' (map render_range rs)) = map render_range rs"
    using Split_Join assms(1) by simp
  then show ?thesis using cpu_chunks_ranges [OF assms(2)] by (simp add: parseCpuset_def)
qed

theorem parseCpuset_ranges_witness: "parseCpuset ''0-2,7'' = Inr [0, 1, 2, 7]"
proof -
  have "Join '','' (map render_range [(0, 2), (7, 7)]) = ''0-2,7''" by code_simp
  moreover have "[0..2] = [0, 1, 2 :: int]" "[7..7] = [7 :: int]" by code_simp+
  ultimately show ?thesis using parseCpuset_ranges [of "[(0, 2), (7, 7)]"] by simp
qed

section \<open>Limits\<close>

lemma unit_not_iops: "HasSuffix (s @ [c, CHR ''B'']) ''iops'' = False"
  using arg_cong [of "s @ [c, CHR ''B'']" _ last] by (auto simp: HasSuffix_iff)

lemma parseValue_unit:
  assumes "r \<noteq> []" "(u, k) \<in> set byte_units" "int n * k < 2 ^ 63"
  shows "parseValue r (show_nat n @ u) = Inr (int n * k, 0)"
proof -
  obtain c where u: "u = [c, CHR ''B'']" using byte_units_shape [OF assms(2)] by blast
  show ?thesis using byte_parser.parse_exact [OF assms(2,3)] assms(1) unit_not_iops [of "show_nat n" c]
    by (simp add: parseValue_def u)
qed

lemma parseValue_iops:
  assumes "r \<noteq> []" "n < 2 ^ 63"
  shows "parseValue r (show_nat n @ ''iops'') = Inr (0, int n)"
  using assms ParseInt_show_int [of "int n"] by (simp add: parseValue_def show_int_def in_i64_def)

text \<open>A disk limit with a read and a write part is parsed part by part, in bytes or in I/O
  operations per second; a write limit alone is dropped, and reported as no limit at all.\<close>
theorem disk_limit_parts:
  assumes "(u, k) \<in> set byte_units" "int n * k < 2 ^ 63" "m < 2 ^ 63"
  shows "deviceParseDiskLimit (show_nat n @ u) (show_nat m @ ''iops'') = Inr (int n * k, 0, 0, int m) \<and>
    deviceParseDiskLimit (show_nat m @ ''iops'') (show_nat n @ u) = Inr (0, int m, int n * k, 0) \<and>
    deviceParseDiskLimit [] (show_nat n @ u) = Inr (0, 0, 0, 0)"
  using parseValue_unit [OF _ assms(1,2)] parseValue_iops [OF _ assms(3)]
  by (simp add: deviceParseDiskLimit_def) (simp add: parseValue_def)

theorem disk_limit_parts_witness:
  "deviceParseDiskLimit ''30MB'' ''500iops'' = Inr (31457280, 0, 0, 500) \<and>
   deviceParseDiskLimit [] ''30MB'' = Inr (0, 0, 0, 0)"
proof -
  have "show_nat 30 = ''30''" "show_nat 500 = ''500''" by code_simp+
  then show ?thesis using disk_limit_parts [of "''MB''" "1024 ^ 2" 30 500]
    by (simp add: byte_units_def)
qed



text \<open>C31: CPU limits: an allowance of \<open>p%\<close> with priority \<open>q\<close> gives \<open>10p + 24 - (10 - q)\<close>
  shares, never fewer than zero, and no quota; an allowance of \<open>a\<close> ms per \<open>b\<close> ms gives the quota
  and the period in microseconds, and 1024 shares less the priority's deduction.\<close>
theorem cpu_limits_exact:
  assumes "p < 2 ^ 32" "q < 2 ^ 32" "a < 2 ^ 32" "b < 2 ^ 32"
  shows "deviceParseCPU (show_nat p @ ''%'') (show_nat q) =
      Inr (show_int (max 0 (10 * int p + 24 - (10 - int q))), ''-1'', ''100000'') \<and>
    deviceParseCPU (show_nat a @ ''ms/'' @ show_nat b @ ''ms'') (show_nat q) =
      Inr (show_int (1024 - (10 - int q)), show_int (int a * 1000), show_int (int b * 1000))"
proof
  have at: "Atoi (show_nat p) = Inr (int p)" "Atoi (show_nat q) = Inr (int q)"
    "Atoi (show_nat a) = Inr (int a)" "Atoi (show_nat b) = Inr (int b)"
    using assms by (auto intro!: Atoi_show_nat)
  have sh: "sub64 0 (sub64 10 (int q)) = int q - 10"
    using assms(2) by (simp add: i64_small)
  have pc: "add64 (int q - 10) (add64 (mul64 10 (int p)) 24) = 10 * int p + 24 - (10 - int q)"
    using assms(1,2) by (simp add: i64_small)
  have mx: "(if x < 0 then 0 else x) = max 0 x" for x :: int by simp
  show "deviceParseCPU (show_nat p @ ''%'') (show_nat q) =
      Inr (show_int (max 0 (10 * int p + 24 - (10 - int q))), ''-1'', ''100000'')"
    by (simp only: deviceParseCPU_def at sh pc mx HasSuffix_append TrimSuffix_append Let_def ebind.simps
        if_True split_conv show_nat_not_Nil append_is_Nil_conv simp_thms)
  have "HasSuffix (show_nat a @ ''ms/'' @ show_nat b @ ''ms'') ''%'' = False"
    using arg_cong [of "show_nat a @ ''ms/'' @ show_nat b @ ''ms''" _ last] by (auto simp: HasSuffix_iff)
  moreover have "SplitN2 (CHR ''/'') (show_nat a @ ''ms/'' @ show_nat b @ ''ms'') =
      [show_nat a @ ''ms'', show_nat b @ ''ms'']"
    using SplitN2_sep [of "CHR ''/''" "show_nat a @ ''ms''" "show_nat b @ ''ms''"]
      show_nat_no_char [of "CHR ''/''" a] by (simp add: is_digit_def)
  moreover have ml: "mul64 (int a) 1000 = int a * 1000" "mul64 (int b) 1000 = int b * 1000"
    using assms(3,4) by (simp_all add: i64_small)
  moreover have ps: "add64 (int q - 10) 1024 = 1024 - (10 - int q)"
    using assms(2) by (simp add: i64_small)
  moreover have ts: "TrimSuffix (show_nat a @ ''ms'') ''ms'' = show_nat a"
    "TrimSuffix (show_nat b @ ''ms'') ''ms'' = show_nat b" by simp_all
  moreover have neg: "(1024 - (10 - int q) < 0) = False" by simp
  ultimately show "deviceParseCPU (show_nat a @ ''ms/'' @ show_nat b @ ''ms'') (show_nat q) =
      Inr (show_int (1024 - (10 - int q)), show_int (int a * 1000), show_int (int b * 1000))"
    by (simp only: deviceParseCPU_def at sh ml ps ts neg Let_def ebind.simps if_True if_False split_conv
        show_nat_not_Nil append_is_Nil_conv simp_thms list.case)
qed

theorem cpu_limits_exact_witness:
  "deviceParseCPU ''50%'' ''5'' = Inr (''519'', ''-1'', ''100000'') \<and>
   deviceParseCPU ''25ms/100ms'' ''5'' = Inr (''1019'', ''25000'', ''100000'')"
proof -
  have "show_nat 50 = ''50''" "show_nat 5 = ''5''" "show_nat 25 = ''25''" "show_nat 100 = ''100''"
    "show_int 519 = ''519''" "show_int 1019 = ''1019''" "show_int 25000 = ''25000''"
    "show_int 100000 = ''100000''"
    by (simp_all add: show_eval)
  then show ?thesis using cpu_limits_exact [of 50 5 25 100] by simp
qed

section \<open>Kernel events\<close>

abbreviation NUL :: char where "NUL \<equiv> CHR 0x00"

definition render_props :: "(string \<times> string) list \<Rightarrow> string" where
  "render_props kvs = concat (map (\<lambda>(k, v). k @ ''='' @ v @ [NUL]) kvs)"

definition prop_ok :: "string \<times> string \<Rightarrow> bool" where
  "prop_ok kv \<longleftrightarrow> NUL \<notin> set (fst kv) \<and> CHR ''='' \<notin> set (fst kv) \<and> NUL \<notin> set (snd kv)"

lemma props_loop_skip:
  "NUL \<notin> set seg \<Longrightarrow> props_loop b lst i (seg @ rest) props = props_loop b lst (i + length seg) rest props"
  by (induction seg arbitrary: i) auto

lemma props_loop_segment:
  assumes "b = pre @ seg @ NUL # rest" "NUL \<notin> set seg" "length pre = lst + 1"
  shows "props_loop b lst (lst + 1) (seg @ NUL # rest) props =
    props_loop b (lst + 1 + length seg) (Suc (lst + 1 + length seg)) rest (store_prop props seg)"
  using assms by (simp add: props_loop_skip)

lemma store_prop_pair:
  assumes "prop_ok (k, v)"
  shows "store_prop props (k @ ''='' @ v) = gm_set props k v"
proof -
  have "SplitN2 (CHR ''='') (k @ ''='' @ v) = [k, v]"
    using SplitN2_sep [of "CHR ''=''" k v] assms by (simp add: prop_ok_def)
  moreover have "k @ ''='' @ v \<noteq> [NUL]" by (cases k) auto
  ultimately show ?thesis by (simp add: store_prop_def)
qed

lemma props_loop_zeros:
  "b = pre @ replicate n NUL \<Longrightarrow> length pre = lst + 1 \<Longrightarrow>
   props_loop b lst (lst + 1) (replicate n NUL) props = Inr props"
proof (induction n arbitrary: pre lst)
  case (Suc n)
  have "b = (pre @ [NUL]) @ replicate n NUL" using Suc.prems(1) by simp
  from Suc.IH [OF this, of "lst + 1"] Suc.prems show ?case by (simp add: store_prop_def)
qed simp

lemma props_loop_props:
  assumes "b = pre @ render_props kvs @ replicate n NUL" "length pre = lst + 1" "\<forall>kv \<in> set kvs. prop_ok kv"
  shows "props_loop b lst (lst + 1) (render_props kvs @ replicate n NUL) props =
    Inr (foldl (\<lambda>m (k, v). gm_set m k v) props kvs)"
  using assms
proof (induction kvs arbitrary: pre lst props)
  case Nil
  then show ?case using props_loop_zeros [of b pre n] by (simp add: render_props_def)
next
  case (Cons kv kvs)
  obtain k v where kv: "kv = (k, v)" by (cases kv)
  let ?seg = "k @ ''='' @ v" and ?rest = "render_props kvs @ replicate n NUL"
  have ok: "prop_ok (k, v)" using Cons.prems(3) kv by simp
  have e: "render_props (kv # kvs) @ replicate n NUL = ?seg @ NUL # ?rest"
    by (simp add: render_props_def kv)
  have seg: "NUL \<notin> set ?seg" using ok by (simp add: prop_ok_def)
  have b: "b = pre @ ?seg @ NUL # ?rest" using Cons.prems(1) unfolding e .
  have b': "b = (pre @ ?seg @ [NUL]) @ ?rest" using b by simp
  have l: "length (pre @ ?seg @ [NUL]) = (lst + 1 + length ?seg) + 1" using Cons.prems(2) by simp
  have "props_loop b lst (lst + 1) (?seg @ NUL # ?rest) props =
      props_loop b (lst + 1 + length ?seg) (Suc (lst + 1 + length ?seg)) ?rest (gm_set props k v)"
    using props_loop_segment [OF b seg Cons.prems(2)] store_prop_pair [OF ok] by simp
  then show ?case unfolding e
    using Cons.IH [OF b' l] Cons.prems(3) by (simp add: kv)
qed

text \<open>A kernel event read into a clear buffer is parsed exactly: after the header, the
  properties are those of the datagram, a later one replacing an earlier one of the same name.\<close>
theorem netlink_props_exact:
  assumes "h \<noteq> []" "NUL \<notin> set h" "CHR ''='' \<notin> set (tl h)" "\<forall>kv \<in> set kvs. prop_ok kv"
  shows "netlink_props (h @ [NUL] @ render_props kvs @ replicate n NUL) =
    Inr (foldl (\<lambda>m (k, v). gm_set m k v) [] kvs)"
proof -
  obtain c seg where h: "h = c # seg" using assms(1) by (cases h) auto
  let ?rest = "render_props kvs @ replicate n NUL"
  let ?b = "h @ [NUL] @ ?rest"
  have s: "store_prop [] seg = []"
    using assms(3) by (auto simp: h store_prop_def SplitN2_no_sep)
  have "netlink_props ?b = props_loop ?b 0 1 (seg @ NUL # ?rest) []"
    using assms(2) by (auto simp: netlink_props_def h)
  also have "\<dots> = props_loop ?b (1 + length seg) (Suc (1 + length seg)) ?rest []"
    using props_loop_segment [of ?b "[c]" seg ?rest 0 "[]"] assms(2) s by (simp add: h)
  also have "\<dots> = Inr (foldl (\<lambda>m (k, v). gm_set m k v) [] kvs)"
    using props_loop_props [of ?b "h @ [NUL]" kvs n "1 + length seg" "[]"] assms(4) by (simp add: h)
  finally show ?thesis .
qed

theorem netlink_props_exact_witness:
  "netlink_props (''a@/x'' @ [NUL] @ render_props [(''ACTION'', ''add''), (''SUBSYSTEM'', ''net'')] @
     replicate 4 NUL) = Inr [(''ACTION'', ''add''), (''SUBSYSTEM'', ''net'')]"
  using netlink_props_exact [of "''a@/x''" "[(''ACTION'', ''add''), (''SUBSYSTEM'', ''net'')]" 4]
  by (simp add: prop_ok_def)

text \<open>The length of a datagram is ignored, so an event read after a longer one inherits the
  properties the longer one left in the buffer: here an event without a subsystem is taken for a
  CPU coming online, as the event before it was.\<close>
theorem netlink_stale_properties:
  "let cpu_on = ''online@/devices/system/cpu/c0'' @ [NUL] @ render_props [(''ACTION'', ''online''),
         (''DEVPATH'', ''/devices/system/cpu/c0''), (''SUBSYSTEM'', ''cpu''), (''DRIVER'', ''processor'')];
       other = ''online@/x'' @ [NUL] @ render_props [(''ACTION'', ''online''), (''DEVPATH'', ''/x'')];
       buffer = netlink_read (replicate 120 NUL) cpu_on
   in map_of (projr (netlink_props (netlink_read (replicate 120 NUL) other))) ''SUBSYSTEM'' = None \<and>
      ebind (netlink_props (netlink_read buffer other)) (netlink_event (\<lambda>_. False)) =
        Inr (Some (EvCPU ''c0'' ''online''))"
  by code_simp

section \<open>USB devices\<close>

definition usb_wanted :: "(devices \<Rightarrow> devices) \<Rightarrow> (string \<times> bool \<times> devices) list \<Rightarrow> usb_device \<Rightarrow> usb_effect list" where
  "usb_wanted srt cs usb =
     concat (map (\<lambda>(c, running, ds).
       if running then List.map_filter (\<lambda>(_, m). if usb_matches m usb then usb_effect_of c m usb else None) (srt ds)
       else []) cs)"

text \<open>The effects tried are an initial part of the wanted ones, cut after the first failure.\<close>

definition cut_at_failure :: "('e \<Rightarrow> bool) \<Rightarrow> 'e list \<Rightarrow> 'e list \<Rightarrow> bool" where
  "cut_at_failure io tried wanted \<longleftrightarrow>
     (\<exists>rest. wanted = tried @ rest \<and> (\<forall>e \<in> set (butlast tried). io e) \<and>
       (if tried = [] then rest = [] else io (last tried) \<longrightarrow> rest = []))"

lemma usb_devices_loop_cut:
  assumes "usb_devices_loop io usb c ds = (effs, stop)"
  shows "\<exists>rest. List.map_filter (\<lambda>(_, m). if usb_matches m usb then usb_effect_of c m usb else None) ds =
      effs @ rest \<and> (if stop then effs \<noteq> [] \<and> (\<forall>e \<in> set (butlast effs). io e) \<and> \<not> io (last effs)
        else rest = [] \<and> (\<forall>e \<in> set effs. io e))"
  using assms
proof (induction ds arbitrary: effs stop)
  case (Cons d ds)
  obtain n m where d: "d = (n, m)" by (cases d)
  obtain effs' stop' where r: "usb_devices_loop io usb c ds = (effs', stop')"
    by (cases "usb_devices_loop io usb c ds")
  show ?case
    using Cons.prems Cons.IH [OF r]
    by (auto simp: d r map_filter_simps split: if_splits option.splits)
qed (simp add: map_filter_simps)

lemma cut_append:
  assumes "\<forall>e \<in> set effs. io e" "cut_at_failure io tried wanted"
  shows "cut_at_failure io (effs @ tried) (effs @ wanted)"
  using assms by (cases "tried = []") (auto simp: cut_at_failure_def butlast_append dest: in_set_butlastD)

text \<open>A USB event is handed to every running container, and there to every USB device that
  matches it, in the order of the device names, with an insertion for \<open>add\<close> and a removal for
  \<open>remove\<close>; the first operation that fails ends the handling of the event.\<close>
theorem usb_event_reaches:
  "\<exists>rest. usb_wanted srt cs usb = deviceUSBEvent io srt cs usb @ rest \<and>
     (\<forall>e \<in> set (butlast (deviceUSBEvent io srt cs usb)). io e) \<and>
     (if deviceUSBEvent io srt cs usb = [] then rest = []
      else io (last (deviceUSBEvent io srt cs usb)) \<longrightarrow> rest = [])"
proof -
  have "cut_at_failure io (deviceUSBEvent io srt cs usb) (usb_wanted srt cs usb)"
  proof (induction cs)
    case (Cons x cs)
    obtain c running ds where x: "x = (c, running, ds)" by (cases x) auto
    obtain effs stop where r: "usb_devices_loop io usb c (srt ds) = (effs, stop)"
      by (cases "usb_devices_loop io usb c (srt ds)")
    show ?case
    proof (cases "running \<and> stop")
      case True
      then show ?thesis using usb_devices_loop_cut [OF r]
        by (auto simp: cut_at_failure_def usb_wanted_def x r)
    next
      case False
      have w: "usb_wanted srt (x # cs) usb = (if running then effs else []) @ usb_wanted srt cs usb"
        using usb_devices_loop_cut [OF r] False by (auto simp: usb_wanted_def x)
      have "\<forall>e \<in> set (if running then effs else []). io e"
        using usb_devices_loop_cut [OF r] False by auto
      from cut_append [OF this Cons.IH] show ?thesis using False w by (cases running) (auto simp: x r)
    qed
  qed (simp add: cut_at_failure_def usb_wanted_def)
  then show ?thesis by (simp add: cut_at_failure_def)
qed

theorem usb_event_reaches_witness:
  "let m = [(''type'', ''usb''), (''vendorid'', ''1d6b'')];
       usb = \<lparr>usb_action = ''add'', usb_vendor = ''1d6b'', usb_product = ''0002'',
         usb_path = ''/dev/bus/usb/001/002'', usb_major = 189, usb_minor = 1\<rparr>
   in \<exists>rest. [InsertUnix ''c1'' m 189 1 ''/dev/bus/usb/001/002''] =
        deviceUSBEvent (\<lambda>_. False) (\<lambda>ds. ds) [(''c0'', False, [(''a'', m)]), (''c1'', True, [(''b'', m)])] usb @ rest"
proof -
  let ?m = "[(''type'', ''usb''), (''vendorid'', ''1d6b'')]"
  let ?usb = "\<lparr>usb_action = ''add'', usb_vendor = ''1d6b'', usb_product = ''0002'',
         usb_path = ''/dev/bus/usb/001/002'', usb_major = 189, usb_minor = 1\<rparr>"
  have "usb_wanted (\<lambda>ds. ds) [(''c0'', False, [(''a'', ?m)]), (''c1'', True, [(''b'', ?m)])] ?usb =
      [InsertUnix ''c1'' ?m 189 1 ''/dev/bus/usb/001/002'']"
    by (simp add: usb_wanted_def usb_matches_def usb_effect_of_def gm_str_def map_filter_simps)
  then show ?thesis
    using usb_event_reaches [of "\<lambda>ds. ds" "[(''c0'', False, [(''a'', ?m)]), (''c1'', True, [(''b'', ?m)])]"
        ?usb "\<lambda>_. False"] unfolding Let_def by metis
qed

end
