(* ===== verification/ConfigKeys.thy ===== *)
theory ConfigKeys
  imports Util
begin

text \<open>
  \<open>shared/container.go\<close>: the value checkers and the table of the container configuration keys.
\<close>

section \<open>Value checkers\<close>

type_synonym checker = "string \<Rightarrow> unit res"

definition IsInt64 :: checker where
  "IsInt64 v =
     (if v = [] then Inr ()
      else case ParseInt v 10 64 of
             Inl _ \<Rightarrow> Inl (Errorf ''Invalid value for an integer: %s'' [v]) | Inr _ \<Rightarrow> Inr ())"

definition IsUint32 :: checker where
  "IsUint32 v =
     (if v = [] then Inr ()
      else case ParseUint v 10 32 of
             Inl _ \<Rightarrow> Inl (Errorf ''Invalid value for uint32: %s: %v'' [v]) | Inr _ \<Rightarrow> Inr ())"

definition IsPriority :: checker where
  "IsPriority v =
     (if v = [] then Inr ()
      else case ParseInt v 10 64 of
             Inl _ \<Rightarrow> Inl (Errorf ''Invalid value for an integer: %s'' [v])
           | Inr i \<Rightarrow>
               if i < 0 \<or> i > 10
               then Inl (Errorf ''Invalid value for a limit '%s'. Must be between 0 and 10.'' [v])
               else Inr ())"

definition IsBool :: checker where
  "IsBool v =
     (if v = [] then Inr ()
      else if \<not> StringInSlice (ToLower v)
                [''true'', ''false'', ''yes'', ''no'', ''1'', ''0'', ''on'', ''off'']
      then Inl (Errorf ''Invalid value for a boolean: %s'' [v])
      else Inr ())"

definition IsOneOf :: "string \<Rightarrow> string list \<Rightarrow> unit res" where
  "IsOneOf v valid =
     (if v = [] then Inr ()
      else if \<not> StringInSlice v valid then Inl (Errorf ''Invalid value: %s (not one of %s)'' (v # valid))
      else Inr ())"

definition IsAny :: checker where
  "IsAny v = Inr ()"

definition cpu_allowance_checker :: checker where
  "cpu_allowance_checker v =
     (if v = [] then Inr ()
      else if HasSuffix v ''%'' then ebind (Atoi (TrimSuffix v ''%'')) (\<lambda>_. Inr ())
      else case SplitN2 (CHR ''/'') v of
             [a, b] \<Rightarrow>
               ebind (Atoi (TrimSuffix a ''ms'')) (\<lambda>_.
               ebind (Atoi (TrimSuffix b ''ms'')) (\<lambda>_. Inr ()))
           | _ \<Rightarrow> Inl (Errorf ''Invalid allowance: %s'' [v]))"

definition memory_checker :: checker where
  "memory_checker v =
     (if v = [] then Inr ()
      else if HasSuffix v ''%'' then ebind (ParseInt (TrimSuffix v ''%'') 10 64) (\<lambda>_. Inr ())
      else ebind (ParseByteSizeString v) (\<lambda>_. Inr ()))"

definition enforce_checker :: checker where
  "enforce_checker v = IsOneOf v [''soft'', ''hard'']"

section \<open>The table of keys\<close>

definition KnownContainerConfigKeys :: "(string \<times> checker) list" where
  "KnownContainerConfigKeys =
     [(''boot.autostart'', IsBool),
      (''boot.autostart.delay'', IsInt64),
      (''boot.autostart.priority'', IsInt64),
      (''boot.host_shutdown_timeout'', IsInt64),
      (''limits.cpu'', IsAny),
      (''limits.cpu.allowance'', cpu_allowance_checker),
      (''limits.cpu.priority'', IsPriority),
      (''limits.disk.priority'', IsPriority),
      (''limits.memory'', memory_checker),
      (''limits.memory.enforce'', enforce_checker),
      (''limits.memory.swap'', IsBool),
      (''limits.memory.swap.priority'', IsPriority),
      (''limits.network.priority'', IsPriority),
      (''limits.processes'', IsInt64),
      (''linux.kernel_modules'', IsAny),
      (''security.nesting'', IsBool),
      (''security.privileged'', IsBool),
      (''security.idmap.base'', IsUint32),
      (''security.idmap.isolated'', IsBool),
      (''security.idmap.size'', IsUint32),
      (''security.syscalls.blacklist_default'', IsBool),
      (''security.syscalls.blacklist_compat'', IsBool),
      (''security.syscalls.blacklist'', IsAny),
      (''security.syscalls.whitelist'', IsAny),
      (''raw.apparmor'', IsAny),
      (''raw.mercury'', IsAny),
      (''raw.seccomp'', IsAny),
      (''raw.idmap'', IsAny),
      (''volatile.apply_template'', IsAny),
      (''volatile.base_image'', IsAny),
      (''volatile.last_state.idmap'', IsAny),
      (''volatile.last_state.power'', IsAny),
      (''volatile.idmap.next'', IsAny),
      (''volatile.idmap.base'', IsAny),
      (''volatile.apply_quota'', IsAny)]"

definition ConfigKeyChecker :: "string \<Rightarrow> checker res" where
  "ConfigKeyChecker key =
     (case map_of KnownContainerConfigKeys key of
        Some f \<Rightarrow> Inr f
      | None \<Rightarrow>
          if HasPrefix key ''volatile.'' \<and> HasSuffix key ''.hwaddr'' then Inr IsAny
          else if HasPrefix key ''volatile.'' \<and> HasSuffix key ''.name'' then Inr IsAny
          else if HasPrefix key ''volatile.'' \<and> HasSuffix key ''.host_name'' then Inr IsAny
          else if HasPrefix key ''environment.'' then Inr IsAny
          else if HasPrefix key ''user.'' then Inr IsAny
          else if HasPrefix key ''image.'' then Inr IsAny
          else Inl (Errorf ''Bad key: %s'' [key]))"

end
