(* ===== verification/Osarch.thy ===== *)
theory Osarch
  imports GoStd
begin

text \<open>
  \<open>shared/osarch/architectures.go\<close>: the table of architectures with their names, aliases and
  personalities.
\<close>

definition ARCH_UNKNOWN :: int where "ARCH_UNKNOWN = 0"
definition ARCH_32BIT_INTEL_X86 :: int where "ARCH_32BIT_INTEL_X86 = 1"
definition ARCH_64BIT_INTEL_X86 :: int where "ARCH_64BIT_INTEL_X86 = 2"
definition ARCH_32BIT_ARMV7_LITTLE_ENDIAN :: int where "ARCH_32BIT_ARMV7_LITTLE_ENDIAN = 3"
definition ARCH_64BIT_ARMV8_LITTLE_ENDIAN :: int where "ARCH_64BIT_ARMV8_LITTLE_ENDIAN = 4"
definition ARCH_32BIT_POWERPC_BIG_ENDIAN :: int where "ARCH_32BIT_POWERPC_BIG_ENDIAN = 5"
definition ARCH_64BIT_POWERPC_BIG_ENDIAN :: int where "ARCH_64BIT_POWERPC_BIG_ENDIAN = 6"
definition ARCH_64BIT_POWERPC_LITTLE_ENDIAN :: int where "ARCH_64BIT_POWERPC_LITTLE_ENDIAN = 7"
definition ARCH_64BIT_S390_BIG_ENDIAN :: int where "ARCH_64BIT_S390_BIG_ENDIAN = 8"

lemmas arch_defs = ARCH_32BIT_INTEL_X86_def ARCH_64BIT_INTEL_X86_def
  ARCH_32BIT_ARMV7_LITTLE_ENDIAN_def ARCH_64BIT_ARMV8_LITTLE_ENDIAN_def
  ARCH_32BIT_POWERPC_BIG_ENDIAN_def ARCH_64BIT_POWERPC_BIG_ENDIAN_def
  ARCH_64BIT_POWERPC_LITTLE_ENDIAN_def ARCH_64BIT_S390_BIG_ENDIAN_def

definition architectureNames :: "(int \<times> string) list" where
  "architectureNames =
     [(ARCH_32BIT_INTEL_X86, ''i686''), (ARCH_64BIT_INTEL_X86, ''x86_64''),
      (ARCH_32BIT_ARMV7_LITTLE_ENDIAN, ''armv7l''), (ARCH_64BIT_ARMV8_LITTLE_ENDIAN, ''aarch64''),
      (ARCH_32BIT_POWERPC_BIG_ENDIAN, ''ppc''), (ARCH_64BIT_POWERPC_BIG_ENDIAN, ''ppc64''),
      (ARCH_64BIT_POWERPC_LITTLE_ENDIAN, ''ppc64le''), (ARCH_64BIT_S390_BIG_ENDIAN, ''s390x'')]"

definition architectureAliases :: "(int \<times> string list) list" where
  "architectureAliases =
     [(ARCH_32BIT_INTEL_X86, [''i386'']), (ARCH_64BIT_INTEL_X86, [''amd64'']),
      (ARCH_32BIT_ARMV7_LITTLE_ENDIAN, [''armel'', ''armhf'']),
      (ARCH_64BIT_ARMV8_LITTLE_ENDIAN, [''arm64'']),
      (ARCH_32BIT_POWERPC_BIG_ENDIAN, [''powerpc'']),
      (ARCH_64BIT_POWERPC_BIG_ENDIAN, [''powerpc64'']),
      (ARCH_64BIT_POWERPC_LITTLE_ENDIAN, [''ppc64el''])]"

definition architecturePersonalities :: "(int \<times> string) list" where
  "architecturePersonalities =
     [(ARCH_32BIT_INTEL_X86, ''linux32''), (ARCH_64BIT_INTEL_X86, ''linux64''),
      (ARCH_32BIT_ARMV7_LITTLE_ENDIAN, ''linux32''), (ARCH_64BIT_ARMV8_LITTLE_ENDIAN, ''linux64''),
      (ARCH_32BIT_POWERPC_BIG_ENDIAN, ''linux32''), (ARCH_64BIT_POWERPC_BIG_ENDIAN, ''linux64''),
      (ARCH_64BIT_POWERPC_LITTLE_ENDIAN, ''linux64''), (ARCH_64BIT_S390_BIG_ENDIAN, ''linux64'')]"

definition architectureSupportedPersonalities :: "(int \<times> int list) list" where
  "architectureSupportedPersonalities =
     [(ARCH_32BIT_INTEL_X86, []), (ARCH_64BIT_INTEL_X86, [ARCH_32BIT_INTEL_X86]),
      (ARCH_32BIT_ARMV7_LITTLE_ENDIAN, []),
      (ARCH_64BIT_ARMV8_LITTLE_ENDIAN, [ARCH_32BIT_ARMV7_LITTLE_ENDIAN]),
      (ARCH_32BIT_POWERPC_BIG_ENDIAN, []),
      (ARCH_64BIT_POWERPC_BIG_ENDIAN, [ARCH_32BIT_POWERPC_BIG_ENDIAN]),
      (ARCH_64BIT_POWERPC_LITTLE_ENDIAN, []), (ARCH_64BIT_S390_BIG_ENDIAN, [])]"

definition ArchitectureDefault :: string where "ArchitectureDefault = ''x86_64''"

definition unsupported :: "int \<Rightarrow> go_error" where
  "unsupported arch = Errorf ''Architecture isn't supported: %d'' [show_int arch]"

definition ArchitectureName :: "int \<Rightarrow> string res" where
  "ArchitectureName arch =
     (case map_of architectureNames arch of Some n \<Rightarrow> Inr n | None \<Rightarrow> Inl (unsupported arch))"

text \<open>
  The two loops range over maps; the visiting orders are \<open>names\<close> and \<open>aliases\<close>, and the maps of the
  package are one of them.
\<close>

definition find_arch :: "(int \<times> string) list \<Rightarrow> (int \<times> string list) list \<Rightarrow> string \<Rightarrow> int res" where
  "find_arch names aliases arch =
     (case find (\<lambda>(_, n). n = arch) names of
        Some (i, _) \<Rightarrow> Inr i
      | None \<Rightarrow>
          (case find (\<lambda>(_, as). arch \<in> set as) aliases of
             Some (i, _) \<Rightarrow> Inr i
           | None \<Rightarrow> Inl (Errorf ''Architecture isn't supported: %s'' [arch])))"

definition ArchitectureId :: "string \<Rightarrow> int res" where
  "ArchitectureId arch = find_arch architectureNames architectureAliases arch"

definition ArchitecturePersonality :: "int \<Rightarrow> string res" where
  "ArchitecturePersonality arch =
     (case map_of architecturePersonalities arch of Some n \<Rightarrow> Inr n | None \<Rightarrow> Inl (unsupported arch))"

definition ArchitecturePersonalities :: "int \<Rightarrow> int list res" where
  "ArchitecturePersonalities arch =
     (case map_of architectureSupportedPersonalities arch of
        Some ps \<Rightarrow> Inr ps | None \<Rightarrow> Inl (unsupported arch))"

text \<open>Names and aliases are unambiguous, so the answer does not depend on the visiting order.\<close>

lemma architectureNames_inj: "distinct (map fst architectureNames)" "distinct (map snd architectureNames)"
  by (simp_all add: architectureNames_def arch_defs)

lemma aliases_apart:
  "distinct (concat (map snd architectureAliases))"
  by (simp add: architectureAliases_def)

lemma ArchitectureId_Name: "ArchitectureName arch = Inr n \<Longrightarrow> ArchitectureId n = Inr arch"
  by (auto simp: ArchitectureName_def ArchitectureId_def find_arch_def architectureNames_def arch_defs
      split: if_splits)

end
