(* ===== verification/ContainerConfig.thy ===== *)
theory ContainerConfig
  imports ConfigKeys Devices Osarch
begin

text \<open>
  The validation of containers and profiles, \<open>apollo/container.go\<close>, with \<open>mercuryValidConfig\<close> and
  the expansion of profiles of \<open>apollo/container_mercury.go\<close>.
\<close>

section \<open>The host\<close>

text \<open>
  What the checks ask of the daemon and its host: the supported architectures, whether the daemon
  has an id map, whether the container library is at least 2.1, directories, paths, the type of a
  device node, and the storage pools of the database.
\<close>

record host =
  h_architectures :: "int list"
  h_idmap :: bool
  h_lxc21 :: bool
  h_is_dir :: "string \<Rightarrow> bool"
  h_exists :: "string \<Rightarrow> bool"
  h_dev_type :: "string \<Rightarrow> string res"
  h_pools :: "string list"

section \<open>Names and paths\<close>

definition containerGetParentAndSnapshotName :: "string \<Rightarrow> string \<times> string \<times> bool" where
  "containerGetParentAndSnapshotName name =
     (case SplitN2 SnapshotDelimiter name of
        [p, s] \<Rightarrow> (p, s, True)
      | _ \<Rightarrow> (name, [], False))"

definition containerValidName :: "string \<Rightarrow> unit res" where
  "containerValidName name =
     (if Contains name [SnapshotDelimiter]
      then Inl (Errorf ''The character '%s' is reserved for snapshots.'' [[SnapshotDelimiter]])
      else if \<not> ValidHostname name
      then Inl (Errorf ''Container name isn't a valid hostname.'' [])
      else Inr ())"

section \<open>Raw container configuration\<close>

definition trim_blanks :: "string \<Rightarrow> string" where
  "trim_blanks s =
     rev (dropWhile (\<lambda>c. c = CHR '' '' \<or> c = CHR 9) (rev (dropWhile (\<lambda>c. c = CHR '' '' \<or> c = CHR 9) s)))"

definition network_key_ok :: "bool \<Rightarrow> string \<Rightarrow> bool" where
  "network_key_ok lxc21 key =
     (let fields = Split (CHR ''.'') key;
          allowed = (if lxc21 then [''ipv4.address'', ''ipv6.address''] else [''ipv4'', ''ipv6''])
      in (length fields = 4 \<and> StringInSlice (fields ! 3) allowed) \<or>
         (length fields = 5 \<and> StringInSlice (fields ! 3) allowed \<and> fields ! 4 = ''gateway''))"

definition raw_key_check :: "bool \<Rightarrow> string \<Rightarrow> unit res" where
  "raw_key_check lxc21 key =
     (let net = (if lxc21 then ''mercury.net.'' else ''mercury.network.'')
      in if key = ''mercury.logfile'' \<or> key = ''mercury.log.file''
         then Inl (Errorf ''Setting mercury.logfile is not allowed'' [])
         else if key = ''mercury.syslog'' \<or> key = ''mercury.log.syslog''
         then Inl (Errorf ''Setting mercury.syslog is not allowed'' [])
         else if key = ''mercury.ephemeral''
         then Inl (Errorf ''Setting mercury.ephemeral is not allowed'' [])
         else if HasPrefix key net \<and> \<not> network_key_ok lxc21 key
         then Inl (Errorf ''Only interface-specific ipv4/ipv6 %s keys are allowed'' [net])
         else Inr ())"

definition raw_line_check :: "bool \<Rightarrow> string \<Rightarrow> unit res" where
  "raw_line_check lxc21 line0 =
     (if line0 = [] then Inr ()
      else let line = dropWhile (\<lambda>c. c = CHR 9 \<or> c = CHR '' '') line0
           in if HasPrefix line ''#'' then Inr ()
              else (case SplitN2 (CHR ''='') line of
                      [m0, _] \<Rightarrow> raw_key_check lxc21 (ToLower (trim_blanks m0))
                    | _ \<Rightarrow> Inl (Errorf ''Invalid raw.mercury line: %s'' [line])))"

fun raw_lines_check :: "bool \<Rightarrow> string list \<Rightarrow> unit res" where
  "raw_lines_check lxc21 [] = Inr ()"
| "raw_lines_check lxc21 (l # ls) = ebind (raw_line_check lxc21 l) (\<lambda>_. raw_lines_check lxc21 ls)"

definition mercuryValidConfig :: "bool \<Rightarrow> string \<Rightarrow> unit res" where
  "mercuryValidConfig lxc21 raw = raw_lines_check lxc21 (Split (CHR 10) raw)"

section \<open>Configuration\<close>

definition containerValidConfigKey :: "host \<Rightarrow> string \<Rightarrow> string \<Rightarrow> unit res" where
  "containerValidConfigKey h key v =
     ebind (ConfigKeyChecker key) (\<lambda>f.
     ebind (f v) (\<lambda>_.
       if key = ''raw.mercury'' then mercuryValidConfig (h_lxc21 h) v
       else if key = ''security.syscalls.blacklist_compat'' then
         (if list_ex (\<lambda>arch. arch = ARCH_64BIT_INTEL_X86 \<or> arch = ARCH_64BIT_ARMV8_LITTLE_ENDIAN \<or>
               arch = ARCH_64BIT_POWERPC_BIG_ENDIAN) (h_architectures h)
          then Inr ()
          else Inl (Errorf ''security.syscalls.blacklist_compat isn't supported on this architecture'' []))
       else Inr ()))"

definition config_key_check :: "host \<Rightarrow> bool \<Rightarrow> string \<times> string \<Rightarrow> unit res" where
  "config_key_check h profile = (\<lambda>(k, v).
     if profile \<and> HasPrefix k ''volatile.''
     then Inl (Errorf ''Volatile keys can only be set on containers.'' [])
     else if profile \<and> HasPrefix k ''image.''
     then Inl (Errorf ''Image keys can only be set on containers.'' [])
     else containerValidConfigKey h k v)"

text \<open>A nil map and an empty one are told apart: the first is \<open>None\<close> and always valid.\<close>

definition config_rules :: "host \<Rightarrow> bool \<Rightarrow> string gomap \<Rightarrow> unit res" where
  "config_rules h expanded config =
     (let rawSeccomp = gm_has config ''raw.seccomp'';
          whitelist = gm_has config ''security.syscalls.whitelist'';
          blacklist = gm_has config ''security.syscalls.blacklist'';
          blacklistDefault = IsTrue (gm_str config ''security.syscalls.blacklist_default'');
          blacklistCompat = IsTrue (gm_str config ''security.syscalls.blacklist_compat'')
      in if rawSeccomp \<and> (whitelist \<or> blacklist \<or> blacklistDefault \<or> blacklistCompat)
         then Inl (Errorf ''raw.seccomp is mutually exclusive with security.syscalls*'' [])
         else if whitelist \<and> (blacklist \<or> blacklistDefault \<or> blacklistCompat)
         then Inl (Errorf ''security.syscalls.whitelist is mutually exclusive with security.syscalls.blacklist*'' [])
         else if expanded \<and> (gm_str config ''security.privileged'' = [] \<or>
                 \<not> IsTrue (gm_str config ''security.privileged'')) \<and> \<not> h_idmap h
         then Inl (Errorf ''APOLLO doesn't have a uid/gid allocation. In this mode, only privileged containers are supported.'' [])
         else Inr ())"

definition containerValidConfig :: "host \<Rightarrow> string gomap option \<Rightarrow> bool \<Rightarrow> bool \<Rightarrow> unit res" where
  "containerValidConfig h config profile expanded =
     (case config of
        None \<Rightarrow> Inr ()
      | Some m \<Rightarrow>
          ebind (check_all (config_key_check h profile) m) (\<lambda>_. config_rules h expanded m))"

section \<open>Devices\<close>

definition containerValidDeviceConfigKey :: "string \<Rightarrow> string \<Rightarrow> bool" where
  "containerValidDeviceConfigKey t k =
     (if k = ''type'' then True
      else if t = ''unix-char'' \<or> t = ''unix-block'' then
        StringInSlice k [''gid'', ''major'', ''minor'', ''mode'', ''source'', ''path'', ''uid'']
      else if t = ''nic'' then
        StringInSlice k [''limits.max'', ''limits.ingress'', ''limits.egress'', ''host_name'', ''hwaddr'',
          ''mtu'', ''name'', ''nictype'', ''parent'', ''vlan'', ''ipv4.address'', ''ipv6.address'',
          ''security.mac_filtering'']
      else if t = ''disk'' then
        StringInSlice k [''limits.max'', ''limits.read'', ''limits.write'', ''optional'', ''path'',
          ''readonly'', ''size'', ''source'', ''recursive'', ''pool'']
      else if t = ''usb'' then
        StringInSlice k [''vendorid'', ''productid'', ''mode'', ''gid'', ''uid'', ''required'']
      else if t = ''gpu'' then
        StringInSlice k [''vendorid'', ''productid'', ''id'', ''pci'', ''mode'', ''gid'', ''uid'']
      else False)"

definition isRootDiskDevice :: "device \<Rightarrow> bool" where
  "isRootDiskDevice d \<longleftrightarrow> gm_str d ''type'' = ''disk'' \<and> gm_str d ''path'' = ''/'' \<and> gm_str d ''source'' = []"

text \<open>The loop keeps the name of the device found; the empty name stands for none.\<close>

fun root_disk_loop :: "string \<times> device \<Rightarrow> devices \<Rightarrow> (string \<times> device) res" where
  "root_disk_loop acc [] = Inr acc"
| "root_disk_loop acc ((n, d) # ds) =
     (if isRootDiskDevice d then
        (if fst acc \<noteq> [] then Inl (Errorf ''More than one root device found.'' [])
         else root_disk_loop (n, d) ds)
      else root_disk_loop acc ds)"

definition containerGetRootDiskDevice :: "devices \<Rightarrow> (string \<times> device) res" where
  "containerGetRootDiskDevice ds =
     ebind (root_disk_loop ([], []) ds) (\<lambda>(n, d).
       if n \<noteq> [] then Inr (n, d) else Inl (Errorf ''No root device could be found.'' []))"

definition device_types :: "string list" where
  "device_types = [''none'', ''nic'', ''disk'', ''unix-char'', ''unix-block'', ''usb'', ''gpu'']"

fun device_keys_check :: "string \<Rightarrow> device \<Rightarrow> unit res" where
  "device_keys_check t [] = Inr ()"
| "device_keys_check t ((k, _) # m) =
     (if \<not> containerValidDeviceConfigKey t k
      then Inl (Errorf ''Invalid device configuration key for %s: %s'' [t, k])
      else device_keys_check t m)"

definition nic_check :: "device \<Rightarrow> unit res" where
  "nic_check m =
     (if gm_str m ''nictype'' = [] then Inl (Errorf ''Missing nic type'' [])
      else if \<not> StringInSlice (gm_str m ''nictype'') [''bridged'', ''physical'', ''p2p'', ''macvlan'']
      then Inl (Errorf ''Bad nic type: %s'' [gm_str m ''nictype''])
      else if StringInSlice (gm_str m ''nictype'') [''bridged'', ''physical'', ''macvlan''] \<and>
              gm_str m ''parent'' = []
      then Inl (Errorf ''Missing parent for %s type nic.'' [gm_str m ''nictype''])
      else Inr ())"

text \<open>The checks of a disk after the one of its path against the paths seen so far.\<close>

definition disk_check :: "host \<Rightarrow> device \<Rightarrow> unit res" where
  "disk_check h m =
     (let path = gm_str m ''path''; source = gm_str m ''source''
      in if path = [] then Inl (Errorf ''Disk entry is missing the required \"path\" property.'' [])
         else if source = [] \<and> path \<noteq> ''/''
         then Inl (Errorf ''Disk entry is missing the required \"source\" property.'' [])
         else if path = ''/'' \<and> source \<noteq> []
         then Inl (Errorf ''Root disk entry may not have a \"source\" property set.'' [])
         else if gm_str m ''size'' \<noteq> [] \<and> path \<noteq> ''/''
         then Inl (Errorf ''Only the root disk may have a size quota.'' [])
         else if (path = ''/'' \<or> \<not> h_is_dir h source) \<and> gm_str m ''recursive'' \<noteq> []
         then Inl (Errorf ''The recursive option is only supported for additional bind-mounted paths.'' [])
         else if gm_str m ''pool'' \<noteq> [] \<and> HasPrefix source ''/''
         then Inl (Errorf ''Storage volumes cannot be specified as absolute paths.'' [])
         else if gm_str m ''pool'' \<noteq> [] \<and> gm_str m ''pool'' \<notin> set (h_pools h)
         then Inl (Errorf ''The \"%s\" storage pool doesn't exist.'' [gm_str m ''pool''])
         else Inr ())"

definition unix_check :: "host \<Rightarrow> device \<Rightarrow> unit res" where
  "unix_check h m =
     (if gm_str m ''source'' = [] \<and> gm_str m ''path'' = []
      then Inl (Errorf ''Unix device entry is missing the required \"source\" or \"path\" property.'' [])
      else if gm_str m ''major'' = [] \<or> gm_str m ''minor'' = [] then
        (let srcPath = (if gm_has m ''source'' then gm_str m ''source'' else gm_str m ''path'')
         in if \<not> h_exists h srcPath
            then Inl (Errorf ''The device path doesn't exist on the host and major/minor wasn't specified.'' [])
            else ebind (h_dev_type h srcPath) (\<lambda>dType.
              if gm_str m ''type'' = ''unix-char'' \<and> dType \<noteq> ''c''
              then Inl (Errorf ''Path specified for unix-char device is a block device.'' [])
              else if gm_str m ''type'' = ''unix-block'' \<and> dType \<noteq> ''b''
              then Inl (Errorf ''Path specified for unix-block device is a character device.'' [])
              else Inr ()))
      else Inr ())"

definition usb_check :: "device \<Rightarrow> unit res" where
  "usb_check m =
     (if gm_str m ''vendorid'' = [] then Inl (Errorf ''Missing vendorid for USB device.'' []) else Inr ())"

definition device_head_check :: "string \<Rightarrow> device \<Rightarrow> unit res" where
  "device_head_check name m =
     (if gm_str m ''type'' = [] then Inl (Errorf (''Missing device type for device '%s'' @ [CHR 39]) [name])
      else if \<not> StringInSlice (gm_str m ''type'') device_types
      then Inl (Errorf (''Invalid device type for device '%s'' @ [CHR 39]) [name])
      else device_keys_check (gm_str m ''type'') m)"

text \<open>The paths of the disks seen so far are kept for the check of local devices only.\<close>

fun devices_loop :: "host \<Rightarrow> bool \<Rightarrow> string list \<Rightarrow> devices \<Rightarrow> unit res" where
  "devices_loop h expanded paths [] = Inr ()"
| "devices_loop h expanded paths ((name, m) # ds) =
     ebind (device_head_check name m) (\<lambda>_.
       if gm_str m ''type'' = ''nic'' then ebind (nic_check m) (\<lambda>_. devices_loop h expanded paths ds)
       else if gm_str m ''type'' = ''disk'' then
         (if \<not> expanded \<and> StringInSlice (gm_str m ''path'') paths
          then Inl (Errorf ''More than one disk device uses the same path: %s.'' [gm_str m ''path''])
          else ebind (disk_check h m) (\<lambda>_.
            devices_loop h expanded (if expanded then paths else paths @ [gm_str m ''path'']) ds))
       else if gm_str m ''type'' = ''unix-char'' \<or> gm_str m ''type'' = ''unix-block'' then
         ebind (unix_check h m) (\<lambda>_. devices_loop h expanded paths ds)
       else if gm_str m ''type'' = ''usb'' then ebind (usb_check m) (\<lambda>_. devices_loop h expanded paths ds)
       else devices_loop h expanded paths ds)"

text \<open>The \<open>profile\<close> argument of the source is not used by it.\<close>

definition containerValidDevices :: "host \<Rightarrow> devices option \<Rightarrow> bool \<Rightarrow> bool \<Rightarrow> unit res" where
  "containerValidDevices h ds profile expanded =
     (case ds of
        None \<Rightarrow> Inr ()
      | Some m \<Rightarrow>
          ebind (devices_loop h expanded [] m) (\<lambda>_.
            if expanded then ebind (containerGetRootDiskDevice m) (\<lambda>_. Inr ()) else Inr ()))"

section \<open>Expansion\<close>

text \<open>
  The profiles are applied in order and the local settings on top. \<open>profile\<close> reads a profile from
  the database.
\<close>

definition overlay :: "'v gomap \<Rightarrow> 'v gomap \<Rightarrow> 'v gomap" where
  "overlay m m' = foldl (\<lambda>acc (k, v). gm_set acc k v) m m'"

fun expand_profiles :: "(string \<Rightarrow> 'v gomap res) \<Rightarrow> string list \<Rightarrow> 'v gomap \<Rightarrow> 'v gomap res" where
  "expand_profiles profile [] acc = Inr acc"
| "expand_profiles profile (p # ps) acc =
     ebind (profile p) (\<lambda>m. expand_profiles profile ps (overlay acc m))"

definition expandConfig :: "(string \<Rightarrow> string gomap res) \<Rightarrow> string list \<Rightarrow> string gomap \<Rightarrow> string gomap res" where
  "expandConfig profile profiles localConfig =
     ebind (expand_profiles profile profiles []) (\<lambda>m. Inr (overlay m localConfig))"

definition expandDevices :: "(string \<Rightarrow> devices res) \<Rightarrow> string list \<Rightarrow> devices \<Rightarrow> devices res" where
  "expandDevices profile profiles localDevices =
     ebind (expand_profiles profile profiles []) (\<lambda>m. Inr (overlay m localDevices))"

end
