(* ===== verification/ContainerConfigProps.thy ===== *)
theory ContainerConfigProps
  imports ContainerConfig DeviceSchedProps
begin

text \<open>
  Properties of the validation of containers: verdicts that do not depend on the order in which
  the maps are visited, the unique root disk, names, raw configuration, and the expansion of
  profiles.
\<close>

section \<open>Configuration\<close>

definition config_rules_ok :: "host \<Rightarrow> bool \<Rightarrow> (string \<Rightarrow> string option) \<Rightarrow> bool" where
  "config_rules_ok h expanded f \<longleftrightarrow>
     (let on = (\<lambda>k. case f k of None \<Rightarrow> False | Some v \<Rightarrow> IsTrue v);
          raw = f ''raw.seccomp'' \<noteq> None; white = f ''security.syscalls.whitelist'' \<noteq> None;
          black = f ''security.syscalls.blacklist'' \<noteq> None \<or> on ''security.syscalls.blacklist_default'' \<or>
            on ''security.syscalls.blacklist_compat''
      in \<not> (raw \<and> white) \<and> \<not> (raw \<and> black) \<and> \<not> (white \<and> black) \<and>
         (expanded \<longrightarrow> h_idmap h \<or> on ''security.privileged''))"

lemma IsTrue_Nil [simp]: "IsTrue [] = False"
  by (simp add: IsTrue_def ToLower_def)

lemma IsTrue_gm_str: "IsTrue (gm_str m k) = (case map_of m k of None \<Rightarrow> False | Some v \<Rightarrow> IsTrue v)"
  by (simp add: gm_str_def split: option.splits)

lemma config_rules_iff: "is_ok (config_rules h expanded m) = config_rules_ok h expanded (map_of m)"
proof -
  have p: "(gm_str m k = [] \<or> \<not> IsTrue (gm_str m k)) = (\<not> IsTrue (gm_str m k))" for k
    by (cases "gm_str m k = []") auto
  show ?thesis
    unfolding config_rules_def p
    unfolding config_rules_ok_def Let_def IsTrue_gm_str gm_has_def
    by (simp only: if_distrib [of is_ok] is_ok.simps) argo
qed

lemma containerValidConfig_iff:
  assumes "gm_wf m"
  shows "is_ok (containerValidConfig h (Some m) profile expanded) \<longleftrightarrow>
    config_rules_ok h expanded (map_of m) \<and>
    (\<forall>k v. map_of m k = Some v \<longrightarrow> is_ok (config_key_check h profile (k, v)))"
proof -
  have "is_ok (check_all (config_key_check h profile) m) \<longleftrightarrow>
      (\<forall>k v. map_of m k = Some v \<longrightarrow> is_ok (config_key_check h profile (k, v)))"
    unfolding check_all_is_ok using gm_wf_map_of [OF assms] by auto
  then show ?thesis
    by (simp only: containerValidConfig_def option.case is_ok_seq config_rules_iff) blast
qed

interpretation config_validator: map_validator
  "\<lambda>m. containerValidConfig h (Some m) profile expanded" "config_rules_ok h expanded"
  "\<lambda>f k v. is_ok (config_key_check h profile (k, v))" for h profile expanded
  by unfold_locales (rule containerValidConfig_iff)

section \<open>Devices\<close>

definition is_disk :: "device \<Rightarrow> bool" where
  "is_disk m \<longleftrightarrow> gm_str m ''type'' = ''disk''"

definition device_ok :: "host \<Rightarrow> string \<Rightarrow> device \<Rightarrow> bool" where
  "device_ok h name m \<longleftrightarrow> is_ok (device_head_check name m) \<and>
     (if gm_str m ''type'' = ''nic'' then is_ok (nic_check m)
      else if is_disk m then is_ok (disk_check h m)
      else if gm_str m ''type'' = ''unix-char'' \<or> gm_str m ''type'' = ''unix-block'' then is_ok (unix_check h m)
      else if gm_str m ''type'' = ''usb'' then is_ok (usb_check m)
      else True)"

definition disk_paths :: "devices \<Rightarrow> string list" where
  "disk_paths ds = map (\<lambda>(_, m). gm_str m ''path'') (filter (\<lambda>(_, m). is_disk m) ds)"

lemma disk_paths_simps [simp]:
  "disk_paths [] = []"
  "disk_paths ((n, m) # ds) = (if is_disk m then [gm_str m ''path''] else []) @ disk_paths ds"
  by (simp_all add: disk_paths_def)

lemma devices_loop_Cons:
  "is_ok (devices_loop h expanded paths ((n, m) # ds)) \<longleftrightarrow>
     device_ok h n m \<and> (is_disk m \<longrightarrow> expanded \<or> gm_str m ''path'' \<notin> set paths) \<and>
     is_ok (devices_loop h expanded (if is_disk m \<and> \<not> expanded then paths @ [gm_str m ''path''] else paths) ds)"
proof -
  consider "gm_str m ''type'' = ''nic''" | "is_disk m"
    | "gm_str m ''type'' = ''unix-char'' \<or> gm_str m ''type'' = ''unix-block''"
    | "gm_str m ''type'' = ''usb''"
    | "gm_str m ''type'' \<noteq> ''nic''" "\<not> is_disk m" "gm_str m ''type'' \<noteq> ''unix-char''"
      "gm_str m ''type'' \<noteq> ''unix-block''" "gm_str m ''type'' \<noteq> ''usb''" by blast
  then show ?thesis
  proof cases
    case 2
    then show ?thesis
      unfolding devices_loop.simps is_ok_seq device_ok_def is_disk_def
      by (cases expanded) (simp_all add: is_ok_seq del: is_ok_ebind)
  qed (auto simp: is_ok_seq device_ok_def is_disk_def simp del: is_ok_ebind)
qed

lemma devices_loop_iff:
  "is_ok (devices_loop h expanded paths ds) \<longleftrightarrow>
     (\<forall>(n, m) \<in> set ds. device_ok h n m) \<and>
     (expanded \<or> (distinct (disk_paths ds) \<and> set (disk_paths ds) \<inter> set paths = {}))"
proof (induction ds arbitrary: paths)
  case (Cons d ds)
  obtain n m where d: "d = (n, m)" by (cases d)
  show ?case unfolding d devices_loop_Cons Cons.IH
    by (cases "is_disk m"; cases expanded) auto
qed simp

lemma gm_wf_distinct: "gm_wf m \<Longrightarrow> distinct m"
  by (simp add: gm_wf_def distinct_map)

lemma disk_paths_distinct:
  assumes "gm_wf ds"
  shows "distinct (disk_paths ds) \<longleftrightarrow>
    (\<forall>n m n' m'. map_of ds n = Some m \<longrightarrow> map_of ds n' = Some m' \<longrightarrow> n \<noteq> n' \<longrightarrow>
       is_disk m \<longrightarrow> is_disk m' \<longrightarrow> gm_str m ''path'' \<noteq> gm_str m' ''path'')"
proof -
  let ?g = "\<lambda>(n :: string, m). gm_str m ''path''" and ?xs = "filter (\<lambda>(_, m). is_disk m) ds"
  have "distinct (disk_paths ds) \<longleftrightarrow> inj_on ?g (set ?xs)"
    using gm_wf_distinct [OF assms] by (simp add: disk_paths_def distinct_map)
  moreover have "set ?xs = {(n, m). map_of ds n = Some m \<and> is_disk m}"
    using gm_wf_map_of [OF assms] by auto
  ultimately show ?thesis by (fastforce simp: inj_on_def)
qed

section \<open>The root disk\<close>

lemma root_disk_loop_iff:
  assumes "\<forall>(n, m) \<in> set ds. n \<noteq> []"
  shows "root_disk_loop acc ds =
    (case filter (\<lambda>(_, m). isRootDiskDevice m) ds of
       [] \<Rightarrow> Inr acc
     | x # xs \<Rightarrow> if fst acc = [] \<and> xs = [] then Inr x else Inl (Errorf ''More than one root device found.'' []))"
  using assms by (induction acc ds rule: root_disk_loop.induct) (auto split: list.splits)

lemma root_disk_unique:
  assumes "gm_wf ds" "map_of ds [] = None"
  shows "containerGetRootDiskDevice ds = Inr (n, m) \<longleftrightarrow>
    map_of ds n = Some m \<and> isRootDiskDevice m \<and>
    (\<forall>n' m'. map_of ds n' = Some m' \<longrightarrow> isRootDiskDevice m' \<longrightarrow> n' = n)"
proof -
  have ne: "\<forall>(n, m) \<in> set ds. n \<noteq> []"
    using assms by (auto simp: gm_wf_map_of)
  have set: "set (filter (\<lambda>(_, m). isRootDiskDevice m) ds) = {(n, m). map_of ds n = Some m \<and> isRootDiskDevice m}"
    using gm_wf_map_of [OF assms(1)] by auto
  have dist: "distinct (filter (\<lambda>(_, m). isRootDiskDevice m) ds)"
    using gm_wf_distinct [OF assms(1)] by simp
  show ?thesis
  proof (cases "filter (\<lambda>(_, m). isRootDiskDevice m) ds")
    case Nil
    then show ?thesis using set root_disk_loop_iff [OF ne, of "([], [])"]
      by (auto simp: containerGetRootDiskDevice_def)
  next
    case (Cons x xs)
    obtain a b where x: "x = (a, b)" by (cases x)
    show ?thesis
    proof (cases xs)
      case Nil
      have s: "{(n, m). map_of ds n = Some m \<and> isRootDiskDevice m} = {(a, b)}"
        using set Cons Nil x by simp
      then have p: "map_of ds n = Some m \<and> isRootDiskDevice m \<longleftrightarrow> n = a \<and> m = b" for n m
        by (simp add: set_eq_iff)
      then have "a \<noteq> []" using assms(2) by (metis option.distinct(1))
      then have "containerGetRootDiskDevice ds = Inr (a, b)"
        using root_disk_loop_iff [OF ne, of "([], [])"] Cons Nil x
        by (simp add: containerGetRootDiskDevice_def)
      then have "containerGetRootDiskDevice ds = Inr (n, m) \<longleftrightarrow> map_of ds n = Some m \<and> isRootDiskDevice m"
        using p [of n m] by auto
      moreover have "n' = n" if "map_of ds n = Some m \<and> isRootDiskDevice m"
          "map_of ds n' = Some m'" "isRootDiskDevice m'" for n' m'
        using p that by metis
      ultimately show ?thesis by blast
    next
      case (Cons y ys)
      obtain c d where y: "y = (c, d)" by (cases y)
      have s: "map_of ds a = Some b" "isRootDiskDevice b" "map_of ds c = Some d" "isRootDiskDevice d" "(a, b) \<noteq> (c, d)"
        using set dist \<open>filter (\<lambda>(_, m). isRootDiskDevice m) ds = x # xs\<close> Cons x y by auto
      then have "a \<noteq> c" by auto
      have e: "root_disk_loop ([], []) ds = Inl (Errorf ''More than one root device found.'' [])"
        using root_disk_loop_iff [OF ne, of "([], [])"] \<open>filter (\<lambda>(_, m). isRootDiskDevice m) ds = x # xs\<close> Cons
        by simp
      have "a = c" if "\<forall>n' m'. map_of ds n' = Some m' \<longrightarrow> isRootDiskDevice m' \<longrightarrow> n' = n"
        using that s(1-4) by metis
      then have "\<not> (\<forall>n' m'. map_of ds n' = Some m' \<longrightarrow> isRootDiskDevice m' \<longrightarrow> n' = n)"
        using \<open>a \<noteq> c\<close> by blast
      then show ?thesis by (simp only: e containerGetRootDiskDevice_def ebind.simps) simp
    qed
  qed
qed

section \<open>Verdicts do not depend on the visiting order\<close>

definition disks_apart :: "(string \<Rightarrow> device option) \<Rightarrow> bool" where
  "disks_apart f \<longleftrightarrow> (\<forall>n m n' m'. f n = Some m \<longrightarrow> f n' = Some m' \<longrightarrow> n \<noteq> n' \<longrightarrow>
     is_disk m \<longrightarrow> is_disk m' \<longrightarrow> gm_str m ''path'' \<noteq> gm_str m' ''path'')"

lemma containerValidDevices_local_iff:
  assumes "gm_wf ds"
  shows "is_ok (containerValidDevices h (Some ds) profile False) \<longleftrightarrow>
    disks_apart (map_of ds) \<and> (\<forall>n m. map_of ds n = Some m \<longrightarrow> device_ok h n m)"
proof -
  have "is_ok (devices_loop h False [] ds) \<longleftrightarrow>
      disks_apart (map_of ds) \<and> (\<forall>n m. map_of ds n = Some m \<longrightarrow> device_ok h n m)"
    unfolding devices_loop_iff disks_apart_def disk_paths_distinct [OF assms] gm_wf_ball [OF assms] by auto
  then show ?thesis by (simp add: containerValidDevices_def is_ok_seq del: is_ok_ebind)
qed

interpretation device_validator: map_validator
  "\<lambda>ds. containerValidDevices h (Some ds) profile False" disks_apart "\<lambda>f n m. device_ok h n m" for h profile
  by unfold_locales (rule containerValidDevices_local_iff)

lemma root_disk_order:
  assumes "gm_wf ds" "gm_wf ds'" "map_of ds = map_of ds'" "map_of ds [] = None"
  shows "containerGetRootDiskDevice ds = Inr x \<longleftrightarrow> containerGetRootDiskDevice ds' = Inr x"
  using root_disk_unique [OF assms(1,4)] root_disk_unique [OF assms(2)] assms(3,4) by (cases x) auto

lemma containerValidDevices_expanded_iff:
  assumes "gm_wf ds"
  shows "is_ok (containerValidDevices h (Some ds) profile True) \<longleftrightarrow>
    (\<forall>n m. map_of ds n = Some m \<longrightarrow> device_ok h n m) \<and> is_ok (containerGetRootDiskDevice ds)"
  by (simp add: containerValidDevices_def is_ok_seq devices_loop_iff gm_wf_ball [OF assms] del: is_ok_ebind)


definition small_host :: host where
  "small_host = \<lparr>h_architectures = [2], h_idmap = True, h_lxc21 = True, h_is_dir = (\<lambda>_. True),
     h_exists = (\<lambda>_. True), h_dev_type = (\<lambda>_. Inr ''c''), h_pools = [''default'']\<rparr>"



definition root_devices :: devices where
  "root_devices = [(''root'', [(''type'', ''disk''), (''path'', ''/''), (''pool'', ''default'')])]"


section \<open>Limits that are accepted and limits that are used\<close>

lemma ParseInt_Atoi: "is_ok (ParseInt s 10 64) = is_ok (Atoi s)"
  by (auto simp: ParseInt_def Atoi_def split: sum.splits)

text \<open>C27: An accepted CPU allowance and priority never fail when the container starts: whatever
  the configuration check lets through, the parser of the limits can read.\<close>
theorem accepted_cpu_limits_parse:
  assumes "is_ok (containerValidConfigKey h ''limits.cpu.allowance'' allowance)"
    and "is_ok (containerValidConfigKey h ''limits.cpu.priority'' priority)"
  shows "is_ok (deviceParseCPU allowance priority)"
proof -
  have a: "is_ok (cpu_allowance_checker allowance)"
    using assms(1) by (simp add: containerValidConfigKey_def ConfigKeyChecker_def KnownContainerConfigKeys_def is_ok_unit)
  have "is_ok (IsPriority priority)"
    using assms(2) by (simp add: containerValidConfigKey_def ConfigKeyChecker_def KnownContainerConfigKeys_def is_ok_unit)
  then have p: "priority = [] \<or> is_ok (Atoi priority)"
    using ParseInt_Atoi [of priority] by (auto simp: IsPriority_def split: if_splits sum.splits)
  then obtain prio where prio: "(if priority \<noteq> [] then Atoi priority else Inr 10) = Inr prio"
    by (cases "priority = []") (auto simp: is_ok_iff)
  show ?thesis
    using a unfolding deviceParseCPU_def prio cpu_allowance_checker_def
    by (auto simp: Let_def split: if_splits list.splits)
qed

theorem accepted_cpu_limits_parse_witness:
  "is_ok (deviceParseCPU ''50%'' ''5'')"
proof (rule accepted_cpu_limits_parse [of small_host])
  show "is_ok (containerValidConfigKey small_host ''limits.cpu.allowance'' ''50%'')"
    using Atoi_show_nat [of 50]
    by (simp add: containerValidConfigKey_def ConfigKeyChecker_def KnownContainerConfigKeys_def
        cpu_allowance_checker_def HasSuffix_def TrimSuffix_def show_eval)
  show "is_ok (containerValidConfigKey small_host ''limits.cpu.priority'' ''5'')"
    using ParseInt_show_int [of 5]
    by (simp add: containerValidConfigKey_def ConfigKeyChecker_def KnownContainerConfigKeys_def
        IsPriority_def in_i64_def show_eval)
qed

lemma sort_containers_blocked:
  assumes "(c, Some limit, True) \<in> set ctns" "limit \<noteq> []" "\<not> is_ok (Atoi limit)" "\<not> is_ok (parseCpuset limit)"
  shows "sort_containers all cpus ctns fixed balanced \<noteq> Inr r"
  using assms
proof (induction all cpus ctns fixed balanced rule: sort_containers.induct)
  case (2 all cpus c' lim running cs fixed balanced)
  then show ?case
    by (cases limit) (auto simp: Let_def not_is_ok_iff ebind_eq_Inr split: option.splits list.splits sum.splits)
qed simp

text \<open>C28: The value of \<open>limits.cpu\<close> is never checked, and one running container whose value is
  neither a number nor a CPU set keeps every container of the host from being balanced: the task
  writes to no container.\<close>
theorem bad_cpu_limit_blocks_balancing:
  assumes "b_containers inp = Inr ctns" "(c, Some limit, True) \<in> set ctns" "limit \<noteq> []"
    and "\<not> is_ok (Atoi limit)" "\<not> is_ok (parseCpuset limit)"
  shows "is_ok (containerValidConfigKey h ''limits.cpu'' limit) \<and>
    (\<forall>(cgroup, v) \<in> set (fst (deviceTaskBalance srt ord inp)). cgroup = ''/mercury'')"
proof
  show "is_ok (containerValidConfigKey h ''limits.cpu'' limit)"
    by (simp add: containerValidConfigKey_def ConfigKeyChecker_def KnownContainerConfigKeys_def IsAny_def)
  have "\<not> is_ok (container_writes srt ord inp effective)" for effective
    using sort_containers_blocked [OF assms(2-5)] assms(1)
    by (auto simp: container_writes_def is_ok_iff ebind_eq_Inr)
  then have "\<exists>e. container_writes srt ord inp effective = Inl e" for effective
    by (simp add: not_is_ok_iff)
  then show "\<forall>(cgroup, v) \<in> set (fst (deviceTaskBalance srt ord inp)). cgroup = ''/mercury''"
    by (auto simp: deviceTaskBalance_def Let_def split: sum.splits if_splits) (metis sum.distinct(1))
qed

definition bad_limit_input :: balance_input where
  "bad_limit_input = \<lparr>b_controller = True, b_effective = Inr ''0-3'', b_cpus = Inr [], b_isolated = None,
     b_containers = Inr [(''web'', None, True), (''bad'', Some ''all'', True)], b_still_running = (\<lambda>_. True)\<rparr>"

theorem bad_cpu_limit_blocks_balancing_witness:
  "list_all (\<lambda>(cgroup, v). cgroup = ''/mercury'')
     (fst (deviceTaskBalance (insertion_sort usage_less) id_orders bad_limit_input))"
  unfolding list_all_iff
proof (rule bad_cpu_limit_blocks_balancing [THEN conjunct2])
  show "b_containers bad_limit_input = Inr [(''web'', None, True), (''bad'', Some ''all'', True)]"
    by (simp add: bad_limit_input_def)
  show "(''bad'', Some ''all'', True) \<in> set [(''web'', None, True), (''bad'', Some ''all'', True)]" by simp
  show "(''all'' :: string) \<noteq> []" by simp
  have a: "\<not> is_ok (Atoi ''all'')"
    by (simp add: Atoi_def int_of_str_def uint_of_def digit_val_def is_digit_def Let_def)
  then show "\<not> is_ok (Atoi ''all'')" .
  show "\<not> is_ok (parseCpuset ''all'')"
    using a by (auto simp: parseCpuset_def cpu_chunk_def is_ok_iff split: sum.splits)
qed

section \<open>Raw configuration\<close>

definition blanks :: "string \<Rightarrow> bool" where
  "blanks s \<longleftrightarrow> (\<forall>c \<in> set s. c = CHR '' '' \<or> c = CHR 9)"

definition raw_blacklist :: "string list" where
  "raw_blacklist = [''mercury.logfile'', ''mercury.log.file'', ''mercury.syslog'', ''mercury.log.syslog'',
     ''mercury.ephemeral'']"

lemma raw_key_check_blacklist: "k \<in> set raw_blacklist \<Longrightarrow> \<not> is_ok (raw_key_check lxc21 k)"
  unfolding raw_blacklist_def by (auto simp: raw_key_check_def Let_def)

lemma raw_lines_check_iff: "is_ok (raw_lines_check v ls) \<longleftrightarrow> (\<forall>l \<in> set ls. is_ok (raw_line_check v l))"
  by (induction ls) (auto simp: is_ok_seq simp del: is_ok_ebind)

lemma dropWhile_blanks:
  assumes "blanks ws" "s \<noteq> []" "hd s \<noteq> CHR '' ''" "hd s \<noteq> CHR 9"
  shows "dropWhile (\<lambda>c. c = CHR '' '' \<or> c = CHR 9) (ws @ s) = s"
    "dropWhile (\<lambda>c. c = CHR 9 \<or> c = CHR '' '') (ws @ s) = s"
proof -
  have p: "\<And>c. c \<in> set ws \<Longrightarrow> c = CHR '' '' \<or> c = CHR 9" "\<And>c. c \<in> set ws \<Longrightarrow> c = CHR 9 \<or> c = CHR '' ''"
    using assms(1) unfolding blanks_def by blast+
  show "dropWhile (\<lambda>c. c = CHR '' '' \<or> c = CHR 9) (ws @ s) = s"
    "dropWhile (\<lambda>c. c = CHR 9 \<or> c = CHR '' '') (ws @ s) = s"
    using assms(2-4) by (simp_all only: dropWhile_append2 [OF p(1)] dropWhile_append2 [OF p(2)]
        dropWhile_eq_self_iff simp_thms)
qed

lemma trim_blanks_key:
  assumes "blanks ws" "key \<noteq> []" "hd key \<noteq> CHR '' ''" "hd key \<noteq> CHR 9"
    and "last key \<noteq> CHR '' ''" "last key \<noteq> CHR 9"
  shows "trim_blanks (key @ ws) = key"
proof -
  have h: "hd (key @ ws) = hd key" using assms(2) by simp
  have "blanks (rev ws)" using assms(1) by (simp add: blanks_def)
  then have "dropWhile (\<lambda>c. c = CHR '' '' \<or> c = CHR 9) (rev ws @ rev key) = rev key"
    using dropWhile_blanks(1) [of "rev ws" "rev key"] assms(2,5,6) by (simp add: hd_rev)
  moreover have "dropWhile (\<lambda>c. c = CHR '' '' \<or> c = CHR 9) (key @ ws) = key @ ws"
    using dropWhile_blanks(1) [of "[]" "key @ ws"] assms(2-4) h by (simp add: blanks_def)
  ultimately show ?thesis by (simp add: trim_blanks_def)
qed

text \<open>C29: The blacklist of the raw configuration cannot be evaded by case or by blanks: a line that
  sets a forbidden key, in any mixture of cases and with any blanks around the key, makes the
  configuration invalid wherever it stands.\<close>
theorem raw_blacklist_enforced:
  assumes "ws @ key @ ws' @ ''='' @ v \<in> set (Split (CHR 10) raw)"
    and "ToLower key \<in> set raw_blacklist" "blanks ws" "blanks ws'"
    and "\<forall>c \<in> set key. c \<noteq> CHR ''='' \<and> c \<noteq> CHR '' '' \<and> c \<noteq> CHR 9 \<and> c \<noteq> CHR ''#''"
  shows "\<not> is_ok (mercuryValidConfig lxc21 raw)"
proof -
  let ?rest = "key @ ws' @ ''='' @ v"
  have ne: "key \<noteq> []" using assms(2) by (auto simp: raw_blacklist_def ToLower_def)
  then have hd: "hd key \<in> set key" "last key \<in> set key" by simp_all
  have d: "dropWhile (\<lambda>c. c = CHR 9 \<or> c = CHR '' '') (ws @ ?rest) = ?rest"
    using dropWhile_blanks(2) [OF assms(3), of ?rest] ne hd assms(5) by simp
  have nc: "HasPrefix ?rest ''#'' = False"
    using ne hd(1) assms(5) by (cases key) (auto simp: HasPrefix_def)
  have sp: "SplitN2 (CHR ''='') ?rest = [key @ ws', v]"
  proof -
    have "CHR ''='' \<notin> set key" using assms(5) by blast
    moreover have "CHR ''='' \<notin> set ws'"
    proof
      assume "CHR ''='' \<in> set ws'"
      then have "CHR ''='' = CHR '' '' \<or> CHR ''='' = CHR 9" using assms(4) unfolding blanks_def by blast
      then show False by simp
    qed
    ultimately have "CHR ''='' \<notin> set (key @ ws')" by simp
    from SplitN2_sep [OF this, of v] show ?thesis by simp
  qed
  have t: "trim_blanks (key @ ws') = key"
    using trim_blanks_key [OF assms(4) ne] hd assms(5) by blast
  have l: "(ws @ ?rest = []) = False" using ne by simp
  have "raw_line_check lxc21 (ws @ ?rest) = raw_key_check lxc21 (ToLower key)"
    unfolding raw_line_check_def l if_False d Let_def nc sp list.case t raw_key_check_def ..
  then have "\<not> is_ok (raw_line_check lxc21 (ws @ ?rest))"
    using raw_key_check_blacklist [OF assms(2)] by simp
  then show ?thesis using assms(1) unfolding mercuryValidConfig_def raw_lines_check_iff by blast
qed

theorem raw_blacklist_enforced_witness:
  "\<not> is_ok (mercuryValidConfig True (''a = b'' @ [CHR 10] @ '' Mercury.LogFile = /x''))"
proof -
  have "ToLower ''Mercury.LogFile'' = ''mercury.logfile''" by code_simp
  then show ?thesis
    by (intro raw_blacklist_enforced [of "'' ''" "''Mercury.LogFile''" "'' ''" "'' /x''"])
      (simp_all add: raw_blacklist_def blanks_def)
qed

section \<open>Names\<close>

text \<open>A valid container name never contains the snapshot delimiter, so the name of any of its
  snapshots splits back into the container and the snapshot, and the container's own name is not
  taken for a snapshot.\<close>
theorem snapshot_name_round_trip:
  assumes "is_ok (containerValidName c)"
  shows "containerGetParentAndSnapshotName (c @ [SnapshotDelimiter] @ s) = (c, s, True) \<and>
    containerGetParentAndSnapshotName c = (c, [], False) \<and>
    IsSnapshot (c @ [SnapshotDelimiter] @ s) \<and> \<not> IsSnapshot c \<and> 0 < length c \<and> length c \<le> 63"
proof -
  have v: "SnapshotDelimiter \<notin> set c" "ValidHostname c"
    using assms by (auto simp: containerValidName_def split: if_splits)
  then show ?thesis
    using SplitN2_sep [OF v(1), of s] SplitN2_no_sep [OF v(1)] ValidHostname_iff [of c]
    by (simp add: containerGetParentAndSnapshotName_def IsSnapshot_def)
qed

theorem snapshot_name_round_trip_witness:
  "containerGetParentAndSnapshotName ''web/snap0'' = (''web'', ''snap0'', True)"
proof -
  have "ValidHostname ''web''"
    by (simp add: ValidHostname_iff host_char_def is_lower_def)
  then have "is_ok (containerValidName ''web'')"
    by (simp add: containerValidName_def SnapshotDelimiter_def)
  then show ?thesis using snapshot_name_round_trip [of "''web''" "''snap0''"]
    by (simp add: SnapshotDelimiter_def)
qed

section \<open>Profiles\<close>

lemma map_of_overlay: "gm_wf m' \<Longrightarrow> map_of (overlay m m') = map_of m ++ map_of m'"
  unfolding overlay_def
proof (induction m' arbitrary: m)
  case (Cons kv m')
  obtain k v where kv: "kv = (k, v)" by (cases kv)
  have n: "k \<notin> dom (map_of m')" "gm_wf m'" using Cons.prems by (auto simp: gm_wf_def kv dom_map_of_conv_image_fst)
  have "map_of m ++ map_of (kv # m') = map_of (gm_set m k v) ++ map_of m'"
    using n(1) by (intro ext) (auto simp: kv map_add_def domIff split: option.splits)
  moreover have "foldl (\<lambda>acc (k, v). gm_set acc k v) m (kv # m') =
      foldl (\<lambda>acc (k, v). gm_set acc k v) (gm_set m k v) m'" by (simp add: kv)
  ultimately show ?case using Cons.IH [OF n(2), of "gm_set m k v"] by (simp only:)
qed simp

lemma gm_wf_overlay: "gm_wf m \<Longrightarrow> gm_wf (overlay m m')"
  unfolding overlay_def by (induction m' arbitrary: m) auto

lemma map_of_expand:
  assumes "\<And>p. p \<in> set ps \<Longrightarrow> profile p = Inr (conf p) \<and> gm_wf (conf p)"
  shows "\<exists>m. expand_profiles profile ps acc = Inr m \<and>
    map_of m = foldl (\<lambda>f p. f ++ map_of (conf p)) (map_of acc) ps"
  using assms
proof (induction ps arbitrary: acc)
  case (Cons p ps)
  have "profile p = Inr (conf p)" "gm_wf (conf p)" using Cons.prems [of p] by simp_all
  moreover obtain m where "expand_profiles profile ps (overlay acc (conf p)) = Inr m"
    "map_of m = foldl (\<lambda>f p. f ++ map_of (conf p)) (map_of (overlay acc (conf p))) ps"
    using Cons.IH [of "overlay acc (conf p)"] Cons.prems by auto
  ultimately show ?case by (simp add: map_of_overlay)
qed simp

text \<open>The expanded configuration of a container overrides: a key has the container's own
  value if it has one, otherwise that of the last profile that sets it; it has none when no layer
  sets it.\<close>
theorem expansion_precedence:
  assumes "\<And>p. p \<in> set ps \<Longrightarrow> profile p = Inr (conf p) \<and> gm_wf (conf p)" "gm_wf local"
  shows "\<exists>m. expandConfig profile ps local = Inr m \<and>
    (\<forall>k. map_of m k =
      (case find (\<lambda>l. map_of l k \<noteq> None) (local # rev (map conf ps)) of
         None \<Rightarrow> None | Some l \<Rightarrow> map_of l k))"
proof -
  have fold: "foldl (\<lambda>f p. f ++ map_of (conf p)) (map_of []) ps k =
      (case find (\<lambda>l. map_of l k \<noteq> None) (rev (map conf ps)) of None \<Rightarrow> None | Some l \<Rightarrow> map_of l k)" for k
    by (induction ps rule: rev_induct) (auto simp: map_add_def split: option.splits)
  obtain m where m: "expand_profiles profile ps [] = Inr m"
    "map_of m = foldl (\<lambda>f p. f ++ map_of (conf p)) (map_of []) ps"
    using map_of_expand [where ps = ps and profile = profile and conf = conf and acc = "[]"] assms(1) by blast
  have "map_of (overlay m local) k = (case find (\<lambda>l. map_of l k \<noteq> None) (local # rev (map conf ps)) of
      None \<Rightarrow> None | Some l \<Rightarrow> map_of l k)" for k
    using fold [of k] by (simp add: map_of_overlay [OF assms(2)] map_add_def m(2) split: option.splits)
  moreover have "expandConfig profile ps local = Inr (overlay m local)"
    using m(1) by (simp add: expandConfig_def)
  ultimately show ?thesis by blast
qed

theorem expansion_precedence_witness:
  "\<exists>m. expandConfig (\<lambda>p. Inr (if p = ''a'' then [(''x'', ''1''), (''y'', ''1'')] else [(''x'', ''2'')]))
      [''a'', ''b''] [(''z'', ''3'')] = Inr m \<and> map_of m ''x'' = Some ''2'' \<and> map_of m ''y'' = Some ''1''"
proof -
  let ?conf = "\<lambda>p. if p = ''a'' then [(''x'', ''1''), (''y'', ''1'')] else [(''x'', ''2'')]"
  have wf: "gm_wf (?conf p)" "gm_wf [(''z'', ''3'')]" for p by (simp_all add: gm_wf_def)
  obtain m where m: "expandConfig (\<lambda>p. Inr (?conf p)) [''a'', ''b''] [(''z'', ''3'')] = Inr m"
    "\<And>k. map_of m k = (case find (\<lambda>l. map_of l k \<noteq> None) ([(''z'', ''3'')] # rev (map ?conf [''a'', ''b''])) of
       None \<Rightarrow> None | Some l \<Rightarrow> map_of l k)"
    using expansion_precedence [of "[''a'', ''b'']" "\<lambda>p. Inr (?conf p)" ?conf "[(''z'', ''3'')]"] wf by blast
  then show ?thesis using m(2) [of "''x''"] m(2) [of "''y''"] by simp
qed

end
