(* ===== verification/Effects.thy ===== *)
theory Effects
  imports GoStd
begin

text \<open>
  Code that runs commands and touches files. A program is a function from a world to a result and
  a world. What the outside answers (the output of a command, the content of a file, the failure
  of a system call) is an oracle that sees the whole history of what the program did, so it can be
  any deterministic environment; the history is the only trace such code leaves.
\<close>

section \<open>Programs\<close>

type_synonym ('w, 'a) prog = "'w \<Rightarrow> 'a res \<times> 'w"

definition ret :: "'a \<Rightarrow> ('w, 'a) prog" where
  "ret x = (\<lambda>w. (Inr x, w))"

definition fail :: "go_error \<Rightarrow> ('w, 'a) prog" where
  "fail e = (\<lambda>w. (Inl e, w))"

definition pbind :: "('w, 'a) prog \<Rightarrow> ('a \<Rightarrow> ('w, 'b) prog) \<Rightarrow> ('w, 'b) prog" where
  "pbind p f = (\<lambda>w. case p w of (Inl e, w') \<Rightarrow> (Inl e, w') | (Inr x, w') \<Rightarrow> f x w')"

definition of_res :: "'a res \<Rightarrow> ('w, 'a) prog" where
  "of_res r = (\<lambda>w. (r, w))"

text \<open>A sequence of calls, each followed by \<open>if err != nil { return err }\<close>.\<close>

fun seq_all :: "('w, unit) prog list \<Rightarrow> ('w, unit) prog" where
  "seq_all [] = ret ()"
| "seq_all (p # ps) = pbind p (\<lambda>_. seq_all ps)"

definition for_all :: "('a \<Rightarrow> ('w, unit) prog) \<Rightarrow> 'a list \<Rightarrow> ('w, unit) prog" where
  "for_all f xs = seq_all (map f xs)"

definition pwhen :: "bool \<Rightarrow> ('w, unit) prog \<Rightarrow> ('w, unit) prog" where
  "pwhen b p = (if b then p else ret ())"

text \<open>
  A call whose error is looked at (\<open>attempt\<close>) or dropped (\<open>ignoring\<close>) by the caller. A panic is not an
  error: it goes up.
\<close>

definition is_panic :: "go_error \<Rightarrow> bool" where
  "is_panic e = (case e of Panic _ \<Rightarrow> True | _ \<Rightarrow> False)"

definition attempt :: "('w, 'a) prog \<Rightarrow> ('w, 'a res) prog" where
  "attempt p = (\<lambda>w. case p w of
     (Inl e, w') \<Rightarrow> (if is_panic e then Inl e else Inr (Inl e), w')
   | (Inr x, w') \<Rightarrow> (Inr (Inr x), w'))"

lemma snd_attempt [simp]: "snd (attempt p w) = snd (p w)"
  by (auto simp: attempt_def split: prod.splits sum.splits)

definition ignoring :: "('w, 'a) prog \<Rightarrow> ('w, unit) prog" where
  "ignoring p = pbind (attempt p) (\<lambda>_. ret ())"

definition get_world :: "('w \<Rightarrow> 'a) \<Rightarrow> ('w, 'a) prog" where
  "get_world f = (\<lambda>w. (Inr (f w), w))"

definition put_world :: "('w \<Rightarrow> 'w) \<Rightarrow> ('w, unit) prog" where
  "put_world f = (\<lambda>w. (Inr (), f w))"

lemmas prog_defs = ret_def fail_def pbind_def of_res_def pwhen_def attempt_def ignoring_def
  get_world_def put_world_def for_all_def

lemma pbind_ok: "fst (pbind p f w) = Inr y \<longleftrightarrow>
    (\<exists>x w'. p w = (Inr x, w') \<and> fst (f x w') = Inr y)"
  by (auto simp: pbind_def split: prod.splits sum.splits)

lemma seq_all_append: "seq_all (ps @ qs) w = pbind (seq_all ps) (\<lambda>_. seq_all qs) w"
  by (induction ps arbitrary: w) (auto simp: pbind_def ret_def split: prod.splits sum.splits)

section \<open>The outside\<close>

datatype event =
    Ran "string list"
  | Wrote string string
  | Created string
  | Removed string
  | Renamed string string
  | MadeDir string
  | Signalled int string
  | Stmt string
  | Called string "string list"

record world =
  w_hist :: "event list"

record env =
  o_run :: "event list \<Rightarrow> string list \<Rightarrow> string \<times> go_error option"
  o_exists :: "event list \<Rightarrow> string \<Rightarrow> bool"
  o_read :: "event list \<Rightarrow> string \<Rightarrow> string res"
  o_act :: "event list \<Rightarrow> event \<Rightarrow> go_error option"
  o_now :: "event list \<Rightarrow> int"
  o_var :: string

text \<open>\<open>Called\<close>: an operation of a component that is reached through an interface (liblxc, a storage driver).\<close>

text \<open>\<open>os.IsNotExist\<close> recognises this error.\<close>

definition NotExist :: go_error where
  "NotExist = OsError ''no such file or directory''"

definition emit :: "event \<Rightarrow> 'a world_scheme \<Rightarrow> 'a world_scheme" where
  "emit ev w = w\<lparr>w_hist := w_hist w @ [ev]\<rparr>"

lemma w_hist_emit [simp]: "w_hist (emit ev w) = w_hist w @ [ev]"
  by (simp add: emit_def)

definition run_output :: "'o env_scheme \<Rightarrow> string list \<Rightarrow> ('a world_scheme, string \<times> go_error option) prog" where
  "run_output orc cmd = (\<lambda>w. (Inr (o_run orc (w_hist w) cmd), emit (Ran cmd) w))"

definition RunCommand :: "'o env_scheme \<Rightarrow> string list \<Rightarrow> ('a world_scheme, string) prog" where
  "RunCommand orc cmd =
     pbind (run_output orc cmd) (\<lambda>(out, err). case err of None \<Rightarrow> ret out | Some e \<Rightarrow> fail e)"

text \<open>The call for its effect only.\<close>

definition run_cmd :: "'o env_scheme \<Rightarrow> string list \<Rightarrow> ('a world_scheme, unit) prog" where
  "run_cmd orc cmd = pbind (RunCommand orc cmd) (\<lambda>_. ret ())"

fun try_run :: "nat \<Rightarrow> 'o env_scheme \<Rightarrow> string list \<Rightarrow> string \<times> go_error option
    \<Rightarrow> ('a world_scheme, string \<times> go_error option) prog" where
  "try_run 0 orc cmd last_out = ret last_out"
| "try_run (Suc n) orc cmd last_out =
     pbind (run_output orc cmd) (\<lambda>(out, err).
       if err = None then ret (out, None) else try_run n orc cmd (out, err))"

definition perform :: "'o env_scheme \<Rightarrow> event \<Rightarrow> ('a world_scheme, unit) prog" where
  "perform orc ev =
     (\<lambda>w. (case o_act orc (w_hist w) ev of None \<Rightarrow> Inr () | Some e \<Rightarrow> Inl e, emit ev w))"

definition path_exists :: "'o env_scheme \<Rightarrow> string \<Rightarrow> ('a world_scheme, bool) prog" where
  "path_exists orc path = get_world (\<lambda>w. o_exists orc (w_hist w) path)"

definition ReadFile :: "'o env_scheme \<Rightarrow> string \<Rightarrow> ('a world_scheme, string) prog" where
  "ReadFile orc path = (\<lambda>w. (o_read orc (w_hist w) path, w))"

text \<open>\<open>filepath.Join\<close> of the state directory with names that need no cleaning.\<close>

definition VarPath :: "'o env_scheme \<Rightarrow> string list \<Rightarrow> string" where
  "VarPath orc parts = Join ''/'' (o_var orc # parts)"

lemmas io_defs = run_output_def RunCommand_def run_cmd_def perform_def path_exists_def ReadFile_def

section \<open>What a program may do\<close>

text \<open>
  \<open>only Q p\<close>: whatever the outside answers, every event the program adds satisfies \<open>Q\<close>; it never
  rewrites history.
\<close>

definition only :: "(event \<Rightarrow> bool) \<Rightarrow> ('a world_scheme, 'b) prog \<Rightarrow> bool" where
  "only Q p \<longleftrightarrow> (\<forall>w. \<exists>es. w_hist (snd (p w)) = w_hist w @ es \<and> list_all Q es)"

named_theorems only_intros \<open>rules for the events of a program\<close>

lemma onlyI: "(\<And>w. \<exists>es. w_hist (snd (p w)) = w_hist w @ es \<and> list_all Q es) \<Longrightarrow> only Q p"
  by (simp add: only_def)

lemma only_ret [only_intros]: "only Q (ret x)"
  by (rule onlyI) (simp add: ret_def)

lemma only_fail [only_intros]: "only Q (fail e)"
  by (rule onlyI) (simp add: fail_def)

lemma only_of_res [only_intros]: "only Q (of_res r)"
  by (rule onlyI) (simp add: of_res_def)

lemma only_get [only_intros]: "only Q (get_world f)"
  by (rule onlyI) (simp add: get_world_def)

lemma only_put: "(\<And>w. w_hist (f w) = w_hist w) \<Longrightarrow> only Q (put_world f)"
  by (rule onlyI) (simp add: put_world_def)

lemma only_pbind [only_intros]:
  assumes "only Q p" "\<And>x. only Q (f x)"
  shows "only Q (pbind p f)"
proof (rule onlyI)
  fix w
  obtain es where es: "w_hist (snd (p w)) = w_hist w @ es" "list_all Q es"
    using assms(1) by (auto simp: only_def)
  show "\<exists>es. w_hist (snd (pbind p f w)) = w_hist w @ es \<and> list_all Q es"
  proof (cases "fst (p w)")
    case (Inl e)
    then have "snd (pbind p f w) = snd (p w)" by (cases "p w") (simp add: pbind_def)
    with es show ?thesis by auto
  next
    case (Inr x)
    then have "pbind p f w = f x (snd (p w))"
      by (cases "p w") (simp add: pbind_def)
    moreover obtain fs where "w_hist (snd (f x (snd (p w)))) = w_hist (snd (p w)) @ fs" "list_all Q fs"
      using assms(2) [of x] by (auto simp: only_def)
    ultimately show ?thesis using es by auto
  qed
qed

lemma only_seq_all [only_intros]: "list_all (only Q) ps \<Longrightarrow> only Q (seq_all ps)"
  by (induction ps) (auto intro: only_intros)

lemma only_for_all [only_intros]: "(\<And>x. x \<in> set xs \<Longrightarrow> only Q (f x)) \<Longrightarrow> only Q (for_all f xs)"
  unfolding for_all_def by (rule only_seq_all) (simp add: list_all_iff)

lemma only_pwhen [only_intros]: "(b \<Longrightarrow> only Q p) \<Longrightarrow> only Q (pwhen b p)"
  by (simp add: pwhen_def only_ret)

lemma only_if [only_intros]: "(b \<Longrightarrow> only Q p) \<Longrightarrow> (\<not> b \<Longrightarrow> only Q q) \<Longrightarrow> only Q (if b then p else q)"
  by simp

lemma only_attempt [only_intros]: "only Q p \<Longrightarrow> only Q (attempt p)"
  by (simp add: only_def)

lemma only_ignoring [only_intros]: "only Q p \<Longrightarrow> only Q (ignoring p)"
  unfolding ignoring_def by (intro only_intros)

lemma only_run_output [only_intros]: "Q (Ran cmd) \<Longrightarrow> only Q (run_output orc cmd)"
  by (rule onlyI) (simp add: run_output_def)

lemma only_RunCommand [only_intros]: "Q (Ran cmd) \<Longrightarrow> only Q (RunCommand orc cmd)"
  unfolding RunCommand_def
  by (rule only_pbind) (auto intro: only_intros split: option.splits)

lemma only_run_cmd [only_intros]: "Q (Ran cmd) \<Longrightarrow> only Q (run_cmd orc cmd)"
  unfolding run_cmd_def by (auto intro: only_intros)

lemma only_try_run [only_intros]: "Q (Ran cmd) \<Longrightarrow> only Q (try_run n orc cmd l)"
  by (induction n arbitrary: l) (auto intro!: only_intros)

lemma only_perform [only_intros]: "Q ev \<Longrightarrow> only Q (perform orc ev)"
  by (rule onlyI) (simp add: perform_def)

lemma only_path_exists [only_intros]: "only Q (path_exists orc path)"
  unfolding path_exists_def by (rule only_get)

lemma only_ReadFile [only_intros]: "only Q (ReadFile orc path)"
  by (rule onlyI) (simp add: ReadFile_def)

lemma only_mono: "only Q p \<Longrightarrow> (\<And>e. Q e \<Longrightarrow> R e) \<Longrightarrow> only R p"
  unfolding only_def by (metis (mono_tags, lifting) list.pred_mono_strong)

end
