(* ===== verification/GoNet.thy ===== *)
theory GoNet
  imports GoStd "HOL-Library.Word"
begin

text \<open>
  The parts of Go's \<open>net\<close> package that the network code calls: addresses as byte slices of length
  4 or 16, CIDR masks, parsing and printing. The parser is that of the Go releases of the
  repository's time, which still accepted leading zeros in dotted decimals.
\<close>

unbundle bit_operations_syntax

section \<open>Addresses\<close>

type_synonym byte = "8 word"
type_synonym ip = "byte list"

record ipnet =
  n_ip :: ip
  n_mask :: "byte list"

definition v4InV6Prefix :: "byte list" where
  "v4InV6Prefix = [0, 0, 0, 0, 0, 0, 0, 0, 0, 0, 255, 255]"

text \<open>\<open>None\<close> is the nil slice.\<close>

definition To4 :: "ip \<Rightarrow> ip option" where
  "To4 i = (if length i = 4 then Some i
            else if length i = 16 \<and> take 12 i = v4InV6Prefix then Some (drop 12 i)
            else None)"

definition To16 :: "ip \<Rightarrow> ip option" where
  "To16 i = (if length i = 4 then Some (v4InV6Prefix @ i)
             else if length i = 16 then Some i else None)"

definition ip_Equal :: "ip \<Rightarrow> ip \<Rightarrow> bool" where
  "ip_Equal a b \<longleftrightarrow>
     (if length a = length b then a = b
      else if length a = 4 \<and> length b = 16 then take 12 b = v4InV6Prefix \<and> drop 12 b = a
      else if length a = 16 \<and> length b = 4 then take 12 a = v4InV6Prefix \<and> drop 12 a = b
      else False)"

section \<open>Masks\<close>

fun mask_bytes :: "nat \<Rightarrow> nat \<Rightarrow> byte list" where
  "mask_bytes n 0 = []"
| "mask_bytes n (Suc l) =
     (if 8 \<le> n then 255 # mask_bytes (n - 8) l
      else NOT (drop_bit n 255) # mask_bytes 0 l)"

definition CIDRMask :: "nat \<Rightarrow> nat \<Rightarrow> byte list" where
  "CIDRMask ones bits = mask_bytes ones (bits div 8)"

fun leading_ones :: "nat \<Rightarrow> byte \<Rightarrow> nat \<times> byte" where
  "leading_ones 0 v = (0, v)"
| "leading_ones (Suc k) v =
     (if v AND 128 = 0 then (0, v)
      else let (n, w) = leading_ones k (push_bit 1 v) in (Suc n, w))"

fun simpleMaskLength :: "byte list \<Rightarrow> nat option" where
  "simpleMaskLength [] = Some 0"
| "simpleMaskLength (v # m) =
     (if v = 255 then map_option (\<lambda>n. n + 8) (simpleMaskLength m)
      else let (n, w) = leading_ones 8 v
           in if w = 0 \<and> list_all (\<lambda>b. b = 0) m then Some n else None)"

text \<open>\<open>IPMask.Size\<close>: the number of leading ones and the total number of bits.\<close>

definition mask_Size :: "byte list \<Rightarrow> nat \<times> nat" where
  "mask_Size m = (case simpleMaskLength m of None \<Rightarrow> (0, 0) | Some n \<Rightarrow> (n, 8 * length m))"

definition ip_Mask :: "ip \<Rightarrow> byte list \<Rightarrow> ip option" where
  "ip_Mask i0 m0 =
     (let m = (if length m0 = 16 \<and> length i0 = 4 \<and> list_all (\<lambda>b. b = 255) (take 12 m0)
               then drop 12 m0 else m0);
          i = (if length m = 4 \<and> length i0 = 16 \<and> take 12 i0 = v4InV6Prefix
               then drop 12 i0 else i0)
      in if length i = length m then Some (map2 (AND) i m) else None)"

definition networkNumberAndMask :: "ipnet \<Rightarrow> (ip \<times> byte list) option" where
  "networkNumberAndMask n =
     (let nn = (case To4 (n_ip n) of Some x \<Rightarrow> x | None \<Rightarrow> n_ip n); m = n_mask n
      in if length nn \<noteq> 4 \<and> length nn \<noteq> 16 then None
         else if length m = length nn then Some (nn, m)
         else if length m = 16 \<and> length nn = 4 then Some (nn, drop 12 m)
         else None)"

definition net_Contains :: "ipnet \<Rightarrow> ip \<Rightarrow> bool" where
  "net_Contains n i0 =
     (case networkNumberAndMask n of None \<Rightarrow> False
      | Some (nn, m) \<Rightarrow>
          let i = (case To4 i0 of Some x \<Rightarrow> x | None \<Rightarrow> i0)
          in length i = length nn \<and> map2 (AND) nn m = map2 (AND) i m)"

section \<open>Parsing\<close>

text \<open>
  \<open>dtoi\<close> and \<open>xtoi\<close>: a run of digits below the package's bound of \<open>0xFFFFFF\<close>, with the rest of the
  string.
\<close>

fun toi_loop :: "nat \<Rightarrow> nat \<Rightarrow> string \<Rightarrow> (nat \<times> string) option" where
  "toi_loop base n [] = Some (n, [])"
| "toi_loop base n (c # s) =
     (case digit_val base c of
        None \<Rightarrow> Some (n, c # s)
      | Some d \<Rightarrow> if n * base + d \<ge> 16777215 then None else toi_loop base (n * base + d) s)"

definition toi :: "nat \<Rightarrow> string \<Rightarrow> (nat \<times> string) option" where
  "toi base s =
     (case s of [] \<Rightarrow> None
      | c # _ \<Rightarrow> if digit_val base c = None then None else toi_loop base 0 s)"

fun v4_loop :: "nat \<Rightarrow> bool \<Rightarrow> string \<Rightarrow> byte list option" where
  "v4_loop 0 first s = (if s = [] then Some [] else None)"
| "v4_loop (Suc k) first s =
     (if s = [] \<or> (\<not> first \<and> hd s \<noteq> CHR ''.'') then None
      else case toi 10 (if first then s else tl s) of
             None \<Rightarrow> None
           | Some (n, t) \<Rightarrow>
               if n > 255 then None else map_option (\<lambda>bs. of_nat n # bs) (v4_loop k False t))"

definition parseIPv4 :: "string \<Rightarrow> ip option" where
  "parseIPv4 s = map_option (\<lambda>bs. v4InV6Prefix @ bs) (v4_loop 4 True s)"

text \<open>
  The loop of \<open>parseIPv6\<close>: the bytes so far, the position of the ellipsis and the rest of the
  string; \<open>k\<close> is the number of 16-bit groups still free.
\<close>

fun v6_loop :: "nat \<Rightarrow> byte list \<Rightarrow> nat option \<Rightarrow> string \<Rightarrow> (byte list \<times> nat option \<times> string) option" where
  "v6_loop 0 acc ell s = Some (acc, ell, s)"
| "v6_loop (Suc k) acc ell s =
     (case toi 16 s of
        None \<Rightarrow> None
      | Some (n, t) \<Rightarrow>
          if n > 65535 then None
          else if t \<noteq> [] \<and> hd t = CHR ''.'' then
            (if (ell = None \<and> length acc \<noteq> 12) \<or> length acc + 4 > 16 then None
             else map_option (\<lambda>i4. (acc @ drop 12 i4, ell, [])) (parseIPv4 s))
          else
            (let acc' = acc @ [of_nat (n div 256), of_nat n]
             in if t = [] then Some (acc', ell, [])
                else if hd t \<noteq> CHR '':'' \<or> length t = 1 then None
                else let u = tl t
                     in if hd u = CHR '':'' then
                          (if ell \<noteq> None then None
                           else if tl u = [] then Some (acc', Some (length acc'), [])
                           else v6_loop k acc' (Some (length acc')) (tl u))
                        else v6_loop k acc' ell u))"

definition parseIPv6 :: "string \<Rightarrow> ip option" where
  "parseIPv6 s0 =
     (let lead = HasPrefix s0 ''::'';
          s = (if lead then drop 2 s0 else s0)
      in if lead \<and> s = [] then Some (replicate 16 0)
         else case v6_loop 8 [] (if lead then Some 0 else None) s of
                None \<Rightarrow> None
              | Some (acc, ell, t) \<Rightarrow>
                  if t \<noteq> [] then None
                  else if length acc < 16 then
                    (case ell of None \<Rightarrow> None
                     | Some e \<Rightarrow> Some (take e acc @ replicate (16 - length acc) 0 @ drop e acc))
                  else if ell \<noteq> None then None else Some acc)"

fun ParseIP_scan :: "string \<Rightarrow> string \<Rightarrow> ip option" where
  "ParseIP_scan s [] = None"
| "ParseIP_scan s (c # cs) =
     (if c = CHR ''.'' then parseIPv4 s
      else if c = CHR '':'' then parseIPv6 s else ParseIP_scan s cs)"

definition ParseIP :: "string \<Rightarrow> ip option" where
  "ParseIP s = ParseIP_scan s s"

definition ParseCIDR :: "string \<Rightarrow> (ip \<times> ipnet) res" where
  "ParseCIDR s =
     (let err = Inl (OsError (''invalid CIDR address: '' @ s))
      in case SplitN2 (CHR ''/'') s of
           [adr, msk] \<Rightarrow>
             (let (iplen, parsed) = (case parseIPv4 adr of
                      Some i \<Rightarrow> (4, Some i) | None \<Rightarrow> (16, parseIPv6 adr))
              in case parsed of None \<Rightarrow> err
                 | Some i \<Rightarrow>
                     (case toi 10 msk of
                        Some (n, []) \<Rightarrow>
                          if n > 8 * iplen then err
                          else let m = CIDRMask n (8 * iplen)
                               in (case ip_Mask i m of
                                     None \<Rightarrow> err
                                   | Some net \<Rightarrow> Inr (i, \<lparr>n_ip = net, n_mask = m\<rparr>))
                      | _ \<Rightarrow> err))
         | _ \<Rightarrow> err)"

section \<open>Printing\<close>

definition show_byte :: "byte \<Rightarrow> string" where
  "show_byte b = show_nat (unat b)"

fun show_hex :: "nat \<Rightarrow> string" where
  "show_hex n = (if n < 16 then [hex_digit n] else show_hex (n div 16) @ [hex_digit (n mod 16)])"

declare show_hex.simps [simp del]

fun groups :: "byte list \<Rightarrow> nat list" where
  "groups (a # b # bs) = (unat a * 256 + unat b) # groups bs"
| "groups _ = []"

text \<open>The first longest run of zero groups: start and length.\<close>

fun zero_run :: "nat \<Rightarrow> nat list \<Rightarrow> nat \<times> nat \<Rightarrow> nat \<times> nat" where
  "zero_run k [] best = best"
| "zero_run k (g # gs) best =
     (let n = length (takeWhile (\<lambda>x. x = 0) (g # gs))
      in zero_run (Suc k) gs (if n > snd best then (k, n) else best))"

definition show_groups :: "nat list \<Rightarrow> string" where
  "show_groups gs = Join '':'' (map show_hex gs)"

definition ip_String :: "ip \<Rightarrow> string" where
  "ip_String i =
     (case To4 i of
        Some b \<Rightarrow> Join ''.'' (map show_byte b)
      | None \<Rightarrow>
          if i = [] then ''<nil>''
          else if length i \<noteq> 16 then ''?'' @ concat (map (\<lambda>b. [hex_digit (unat b div 16), hex_digit (unat b mod 16)]) i)
          else let gs = groups i; (k, n) = zero_run 0 gs (0, 0)
               in if n \<le> 1 then show_groups gs
                  else show_groups (take k gs) @ ''::'' @ show_groups (drop (k + n) gs))"

text \<open>Every mask of the program comes from \<open>CIDRMask\<close>, so it has a length.\<close>

definition net_String :: "ipnet \<Rightarrow> string" where
  "net_String n =
     (case networkNumberAndMask n of
        None \<Rightarrow> ''<nil>''
      | Some (nn, m) \<Rightarrow> ip_String nn @ ''/'' @ show_nat (fst (mask_Size m)))"

end
