(* ===== verification/Host.thy ===== *)
theory Host
  imports Effects GoNet Util
begin

text \<open>
  The host as the network and container code sees it: interfaces, links, directories, the state of
  containers, randomness. What liblxc, the kernel and the storage drivers answer is a function of
  the history, like every answer of the outside.
\<close>

section \<open>The outside\<close>

datatype lxc_state =
    InitFails
  | MonitorFails
  | LxcState string

record hostenv = env +
  h_ifaces :: "event list \<Rightarrow> (string \<times> string list res) list res"
  h_dir :: "event list \<Rightarrow> string \<Rightarrow> string list res"
  h_link :: "event list \<Rightarrow> string \<Rightarrow> string res"
  h_finds :: "event list \<Rightarrow> string \<Rightarrow> bool"
  h_user :: "event list \<Rightarrow> string \<Rightarrow> bool"
  h_dial :: "event list \<Rightarrow> string \<Rightarrow> bool"
  h_rand :: "event list \<Rightarrow> nat \<Rightarrow> nat"
  h_lxc :: "event list \<Rightarrow> string \<Rightarrow> lxc_state"
  h_nics :: "event list \<Rightarrow> string \<Rightarrow> string list"
  h_cgroup :: "event list \<Rightarrow> string \<Rightarrow> string \<Rightarrow> string list"
  h_veths :: "event list \<Rightarrow> string \<Rightarrow> (string \<times> string) list"
  h_loopback :: "event list \<Rightarrow> string \<Rightarrow> bool"
  h_mock :: bool
  h_log :: string

definition Interfaces :: "'o hostenv_scheme \<Rightarrow> ('a world_scheme, (string \<times> string list res) list) prog" where
  "Interfaces orc = (\<lambda>w. (h_ifaces orc (w_hist w), w))"

definition no_interface :: go_error where
  "no_interface = OsError ''route ip+net: no such network interface''"

definition InterfaceByName :: "'o hostenv_scheme \<Rightarrow> string \<Rightarrow> ('a world_scheme, string list res) prog" where
  "InterfaceByName orc name =
     pbind (Interfaces orc) (\<lambda>ifs.
       case map_of ifs name of None \<Rightarrow> fail no_interface | Some addrs \<Rightarrow> ret addrs)"

definition ReadDir :: "'o hostenv_scheme \<Rightarrow> string \<Rightarrow> ('a world_scheme, string list) prog" where
  "ReadDir orc path = (\<lambda>w. (h_dir orc (w_hist w) path, w))"

definition Readlink :: "'o hostenv_scheme \<Rightarrow> string \<Rightarrow> ('a world_scheme, string) prog" where
  "Readlink orc path = (\<lambda>w. (h_link orc (w_hist w) path, w))"

definition LookPath :: "'o hostenv_scheme \<Rightarrow> string \<Rightarrow> ('a world_scheme, bool) prog" where
  "LookPath orc cmd = get_world (\<lambda>w. h_finds orc (w_hist w) cmd)"

text \<open>\<open>os.Remove\<close> and \<open>os.RemoveAll\<close> with their error dropped.\<close>

definition os_Remove :: "'o env_scheme \<Rightarrow> string \<Rightarrow> ('a world_scheme, unit) prog" where
  "os_Remove orc path = ignoring (perform orc (Removed path))"

text \<open>\<open>bufio.Reader.ReadLine\<close> until the end of the file.\<close>

definition read_lines :: "string \<Rightarrow> string list" where
  "read_lines s =
     (let ls = Split (CHR 10) s in if ls \<noteq> [] \<and> last ls = [] then butlast ls else ls)"

text \<open>\<open>filepath.Base\<close>.\<close>

definition path_Base :: "string \<Rightarrow> string" where
  "path_Base p =
     (if p = [] then ''.''
      else let q = rev (dropWhile (\<lambda>c. c = CHR ''/'') (rev p));
               b = rev (takeWhile (\<lambda>c. c \<noteq> CHR ''/'') (rev q))
           in if b = [] then ''/'' else b)"

text \<open>\<open>hex.DecodeString\<close>.\<close>

fun hex_decode :: "string \<Rightarrow> byte list option" where
  "hex_decode [] = Some []"
| "hex_decode [_] = None"
| "hex_decode (a # b # s) =
     (case (digit_val 16 a, digit_val 16 b, hex_decode s) of
        (Some x, Some y, Some bs) \<Rightarrow> Some (of_nat (16 * x + y) # bs)
      | _ \<Rightarrow> None)"

text \<open>\<open>xs[i]\<close> with its panic.\<close>

definition nth_or_panic :: "'a list \<Rightarrow> nat \<Rightarrow> 'a res" where
  "nth_or_panic xs i = (if i < length xs then Inr (xs ! i) else Inl (Panic ''index out of range''))"

text \<open>\<open>strings.SplitN(_, _, 3)\<close>.\<close>

definition SplitN3 :: "char \<Rightarrow> string \<Rightarrow> string list" where
  "SplitN3 c s = (case SplitN2 c s of [a, b] \<Rightarrow> a # SplitN2 c b | xs \<Rightarrow> xs)"

lemmas host_defs = Interfaces_def ReadDir_def Readlink_def LookPath_def

lemma only_host [only_intros]:
  "only Q (Interfaces orc)" "only Q (ReadDir orc p)" "only Q (Readlink orc p)" "only Q (LookPath orc c)"
  by (rule onlyI; simp add: host_defs get_world_def)+

lemma only_InterfaceByName [only_intros]: "only Q (InterfaceByName orc name)"
  unfolding InterfaceByName_def by (rule only_pbind) (auto intro: only_intros split: option.splits)

lemma only_os_Remove [only_intros]: "Q (Removed p) \<Longrightarrow> only Q (os_Remove orc p)"
  unfolding os_Remove_def by (intro only_intros)

section \<open>Attaching interfaces\<close>

definition networkAttachInterface :: "'o env_scheme \<Rightarrow> string \<Rightarrow> string \<Rightarrow> ('a world_scheme, unit) prog" where
  "networkAttachInterface orc netName devName =
     pbind (path_exists orc (''/sys/class/net/'' @ netName @ ''/bridge'')) (\<lambda>isBridge.
       if isBridge then run_cmd orc [''ip'', ''link'', ''set'', ''dev'', devName, ''master'', netName]
       else pbind (attempt (run_cmd orc [''ovs-vsctl'', ''port-to-br'', devName])) (\<lambda>r.
              case r of
                Inr _ \<Rightarrow> ret ()
              | Inl _ \<Rightarrow> run_cmd orc [''ovs-vsctl'', ''add-port'', netName, devName]))"

definition networkDetachInterface :: "'o env_scheme \<Rightarrow> string \<Rightarrow> string \<Rightarrow> ('a world_scheme, unit) prog" where
  "networkDetachInterface orc netName devName =
     pbind (path_exists orc (''/sys/class/net/'' @ netName @ ''/bridge'')) (\<lambda>isBridge.
       if isBridge then run_cmd orc [''ip'', ''link'', ''set'', ''dev'', devName, ''nomaster'']
       else pbind (attempt (run_cmd orc [''ovs-vsctl'', ''port-to-br'', devName])) (\<lambda>r.
              case r of
                Inr _ \<Rightarrow> run_cmd orc [''ovs-vsctl'', ''del-port'', netName, devName]
              | Inl _ \<Rightarrow> ret ()))"

definition networkSysctl :: "'o env_scheme \<Rightarrow> string \<Rightarrow> string \<Rightarrow> ('a world_scheme, unit) prog" where
  "networkSysctl orc path v =
     pbind (ReadFile orc (''/proc/sys/net/'' @ path)) (\<lambda>content.
       if TrimSpace content = v then ret ()
       else perform orc (Wrote (''/proc/sys/net/'' @ path) v))"

text \<open>The first line of the VLAN table with the parent and the id.\<close>

fun vlan_loop :: "string \<Rightarrow> string \<Rightarrow> string list \<Rightarrow> string option" where
  "vlan_loop parent vlan [] = None"
| "vlan_loop parent vlan (l # ls) =
     (case Split (CHR ''|'') l of
        [a, b, c] \<Rightarrow>
          if TrimSpace c = parent \<and> TrimSpace b = vlan then Some (TrimSpace a) else vlan_loop parent vlan ls
      | _ \<Rightarrow> vlan_loop parent vlan ls)"

definition networkGetHostDevice :: "'o env_scheme \<Rightarrow> string \<Rightarrow> string \<Rightarrow> ('a world_scheme, string) prog" where
  "networkGetHostDevice orc parent vlan =
     (let defaultVlan = parent @ ''.'' @ vlan; conf = ''/proc/net/vlan/config''
      in if vlan = [] then ret parent
         else pbind (path_exists orc conf) (\<lambda>ex.
                if \<not> ex then ret defaultVlan
                else pbind (attempt (ReadFile orc conf)) (\<lambda>r.
                       case r of
                         Inl _ \<Rightarrow> ret defaultVlan
                       | Inr content \<Rightarrow>
                           ret (case vlan_loop parent vlan (read_lines content) of
                                  Some d \<Rightarrow> d | None \<Rightarrow> defaultVlan))))"

definition deviceRemoveInterface :: "'o env_scheme \<Rightarrow> string \<Rightarrow> ('a world_scheme, unit) prog" where
  "deviceRemoveInterface orc nic = run_cmd orc [''ip'', ''link'', ''del'', ''dev'', nic]"

definition hex_byte :: "nat \<Rightarrow> string" where
  "hex_byte b = [hex_digit (b div 16), hex_digit (b mod 16)]"

definition deviceNextVeth :: "'o hostenv_scheme \<Rightarrow> nat \<Rightarrow> ('a world_scheme, string) prog" where
  "deviceNextVeth orc k =
     get_world (\<lambda>w. ''veth'' @ concat (map (\<lambda>i. hex_byte (h_rand orc (w_hist w) (4 * k + i) mod 256)) [0, 1, 2, 3]))"

end
