(* ===== verification/Sql.thy ===== *)
theory Sql
  imports Effects Devices
begin

text \<open>
  The daemon's database (\<open>apollo/db/db.go\<close>): its tables, SQL statements on them, the retry loops
  around a locked database, and transactions. SQLite is modelled by its documented behaviour:
  rows get increasing ids, UNIQUE, NOT NULL and FOREIGN KEY constraints make a statement fail, a
  deletion cascades to the referring rows, and a transaction that is not committed leaves the
  tables as they were. Whether a statement fails for another reason (I/O, a locked file) is up to
  the outside.
\<close>

section \<open>Tables\<close>

record 'r table =
  t_rows :: "(int \<times> 'r) list"
  t_next :: int

definition t_empty :: "'r table" where
  "t_empty = \<lparr>t_rows = [], t_next = 1\<rparr>"

definition t_ids :: "'r table \<Rightarrow> int list" where
  "t_ids t = map fst (t_rows t)"

definition t_vals :: "'r table \<Rightarrow> 'r list" where
  "t_vals t = map snd (t_rows t)"

definition t_where :: "('r \<Rightarrow> bool) \<Rightarrow> 'r table \<Rightarrow> (int \<times> 'r) list" where
  "t_where P t = filter (\<lambda>(i, r). P r) (t_rows t)"

definition t_get :: "'r table \<Rightarrow> int \<Rightarrow> 'r option" where
  "t_get t i = map_of (t_rows t) i"

definition t_delete :: "(int \<Rightarrow> 'r \<Rightarrow> bool) \<Rightarrow> 'r table \<Rightarrow> 'r table" where
  "t_delete P t = t\<lparr>t_rows := filter (\<lambda>(i, r). \<not> P i r) (t_rows t)\<rparr>"

definition constraint_failed :: go_error where
  "constraint_failed = OsError ''constraint failed''"

text \<open>\<open>key\<close> is the UNIQUE constraint of the table; rows without a key are not constrained.\<close>

definition t_unique :: "('r \<Rightarrow> 'k option) \<Rightarrow> 'r list \<Rightarrow> bool" where
  "t_unique key rs \<longleftrightarrow> distinct (filter (\<lambda>k. k \<noteq> None) (map key rs))"

definition t_insert :: "('r \<Rightarrow> 'k option) \<Rightarrow> 'r \<Rightarrow> 'r table \<Rightarrow> (int \<times> 'r table) res" where
  "t_insert key r t =
     (if key r \<noteq> None \<and> key r \<in> set (map key (t_vals t)) then Inl constraint_failed
      else Inr (t_next t, t\<lparr>t_rows := t_rows t @ [(t_next t, r)], t_next := t_next t + 1\<rparr>))"

definition t_update :: "('r \<Rightarrow> 'k option) \<Rightarrow> (int \<Rightarrow> 'r \<Rightarrow> bool) \<Rightarrow> ('r \<Rightarrow> 'r) \<Rightarrow> 'r table \<Rightarrow> 'r table res" where
  "t_update key P f t =
     (let rows = map (\<lambda>(i, r). (i, if P i r then f r else r)) (t_rows t)
      in if t_unique key (map snd rows) then Inr (t\<lparr>t_rows := rows\<rparr>) else Inl constraint_failed)"

definition t_ok :: "('r \<Rightarrow> 'k option) \<Rightarrow> 'r table \<Rightarrow> bool" where
  "t_ok key t \<longleftrightarrow> distinct (t_ids t) \<and> list_all (\<lambda>i. i < t_next t) (t_ids t) \<and> t_unique key (t_vals t)"

definition fk_ok :: "('r \<Rightarrow> int) \<Rightarrow> 'r table \<Rightarrow> 'p table \<Rightarrow> bool" where
  "fk_ok own child parent \<longleftrightarrow> set (map own (t_vals child)) \<subseteq> set (t_ids parent)"

lemma t_ok_empty [simp]: "t_ok key t_empty"
  by (simp add: t_ok_def t_empty_def t_ids_def t_vals_def t_unique_def)

lemma fk_ok_empty [simp]: "fk_ok own t_empty parent"
  by (simp add: fk_ok_def t_empty_def t_vals_def)

lemma t_unique_Cons: "t_unique key (r # rs) \<longleftrightarrow> (key r \<noteq> None \<longrightarrow> key r \<notin> key ` set rs) \<and> t_unique key rs"
  by (simp add: t_unique_def)

lemma t_unique_filter: "t_unique key rs \<Longrightarrow> t_unique key (filter P rs)"
  by (induction rs) (auto simp: t_unique_Cons image_iff)

lemma t_vals_delete: "t_vals (t_delete P t) = map snd (filter (\<lambda>(i, r). \<not> P i r) (t_rows t))"
  by (simp add: t_vals_def t_delete_def)

lemma t_unique_map_filter: "t_unique key (map snd xs) \<Longrightarrow> t_unique key (map snd (filter P xs))"
proof (induction xs)
  case (Cons x xs)
  have "key ` snd ` set (filter P xs) \<subseteq> key ` snd ` set xs" by auto
  with Cons show ?case by (auto simp: t_unique_Cons)
qed simp

lemma t_ok_delete [simp]: "t_ok key t \<Longrightarrow> t_ok key (t_delete P t)"
  by (auto simp: t_ok_def t_delete_def t_ids_def t_vals_def distinct_map_filter
      list_all_iff intro: t_unique_map_filter)

lemma t_insert_props:
  assumes "t_insert key r t = Inr (i, t')"
  shows "t_vals t' = t_vals t @ [r]" "t_ids t' = t_ids t @ [i]" "i = t_next t" "t_next t' = i + 1"
    "key r = None \<or> key r \<notin> key ` set (t_vals t)"
  using assms by (auto simp: t_insert_def t_vals_def t_ids_def split: if_splits)

lemma t_unique_snoc:
  "t_unique key (rs @ [r]) \<longleftrightarrow> (key r \<noteq> None \<longrightarrow> key r \<notin> key ` set rs) \<and> t_unique key rs"
  by (auto simp: t_unique_def)

lemma t_ok_insert:
  assumes "t_ok key t" "t_insert key r t = Inr (i, t')"
  shows "t_ok key t'"
proof -
  note props = t_insert_props [OF assms(2)]
  have less: "\<forall>j \<in> set (t_ids t). j < i" using assms(1) props(3) by (simp add: t_ok_def list_all_iff)
  then have "i \<notin> set (t_ids t)" by blast
  with less assms(1) props show ?thesis
    by (auto simp: t_ok_def t_unique_snoc list_all_iff)
qed

lemma t_ok_update: "t_ok key t \<Longrightarrow> t_update key P f t = Inr t' \<Longrightarrow> t_ok key t'"
  by (auto simp: t_ok_def t_update_def t_ids_def t_vals_def Let_def comp_def case_prod_unfold
      split: if_splits)

lemma fk_ok_delete_child [simp]: "fk_ok own c p \<Longrightarrow> fk_ok own (t_delete P c) p"
  by (auto simp: fk_ok_def t_vals_def t_delete_def)

lemma fk_ok_insert_child:
  "fk_ok own c p \<Longrightarrow> own r \<in> set (t_ids p) \<Longrightarrow> t_insert key r c = Inr (i, c') \<Longrightarrow> fk_ok own c' p"
  by (simp add: fk_ok_def t_insert_props(1))

lemma fk_ok_insert_parent: "fk_ok own c p \<Longrightarrow> t_insert key r p = Inr (i, p') \<Longrightarrow> fk_ok own c p'"
  by (auto simp: fk_ok_def t_insert_props(2))

lemma t_update_ids: "t_update key P f p = Inr p' \<Longrightarrow> t_ids p' = t_ids p"
  by (auto simp: t_update_def t_ids_def Let_def case_prod_unfold split: if_splits)

lemma fk_ok_update_parent: "fk_ok own c p \<Longrightarrow> t_update key P f p = Inr p' \<Longrightarrow> fk_ok own c p'"
  by (simp add: fk_ok_def t_update_ids)

lemma t_insert_id: "t_insert key r t = Inr (i, t') \<Longrightarrow> i \<in> set (t_ids t')"
  by (simp add: t_insert_props(2))

text \<open>ON DELETE CASCADE: the rows that refer to a deleted row go with it.\<close>

definition cascade :: "('r \<Rightarrow> int) \<Rightarrow> 'p table \<Rightarrow> 'r table \<Rightarrow> 'r table" where
  "cascade own parent child = t_delete (\<lambda>_ r. own r \<notin> set (t_ids parent)) child"

lemma fk_ok_cascade [simp]: "fk_ok own (cascade own p c) p"
  by (auto simp: fk_ok_def t_vals_def t_delete_def cascade_def)

lemma t_ok_cascade [simp]: "t_ok key c \<Longrightarrow> t_ok key (cascade own p c)"
  by (simp add: cascade_def)

lemma fk_ok_cascade_other [simp]: "fk_ok own c q \<Longrightarrow> fk_ok own (cascade own' p c) q"
  by (simp add: cascade_def)

section \<open>The schema\<close>

type_synonym kv_row = "int \<times> string \<times> string"

record cert_row =
  ce_fingerprint :: string
  ce_type :: int
  ce_name :: string
  ce_certificate :: string

record container_row =
  co_name :: string
  co_description :: "string option"
  co_architecture :: int
  co_type :: int
  co_ephemeral :: int
  co_stateful :: int
  co_creation_date :: int
  co_last_use_date :: "int option"

record device_row =
  de_owner :: int
  de_name :: string
  de_type :: int

record use_row =
  us_container :: int
  us_profile :: int
  us_order :: int

record image_row =
  im_cached :: int
  im_fingerprint :: string
  im_filename :: string
  im_size :: int
  im_public :: int
  im_auto_update :: int
  im_architecture :: int
  im_creation_date :: "int option"
  im_expiry_date :: "int option"
  im_upload_date :: int
  im_last_use_date :: "int option"

record alias_row =
  al_name :: string
  al_image :: int
  al_description :: string

record source_row =
  so_image :: int
  so_server :: string
  so_protocol :: int
  so_certificate :: string
  so_alias :: string

record named_row =
  na_name :: string
  na_description :: "string option"

record pool_row =
  po_name :: string
  po_description :: "string option"
  po_driver :: string

record volume_row =
  vo_name :: string
  vo_description :: "string option"
  vo_pool :: int
  vo_type :: int

record db =
  certificates :: "cert_row table"
  config :: "(string \<times> string) table"
  containers :: "container_row table"
  containers_config :: "kv_row table"
  containers_devices :: "device_row table"
  containers_devices_config :: "kv_row table"
  containers_profiles :: "use_row table"
  images :: "image_row table"
  images_aliases :: "alias_row table"
  images_properties :: "kv_row table"
  images_source :: "source_row table"
  networks :: "named_row table"
  networks_config :: "kv_row table"
  patches :: "string table"
  profiles :: "named_row table"
  profiles_config :: "kv_row table"
  profiles_devices :: "device_row table"
  profiles_devices_config :: "kv_row table"
  storage_pools :: "pool_row table"
  storage_pools_config :: "kv_row table"
  storage_volumes :: "volume_row table"
  storage_volumes_config :: "kv_row table"

text \<open>The UNIQUE constraints.\<close>

definition kv_key :: "kv_row \<Rightarrow> (int \<times> string) option" where
  "kv_key = (\<lambda>(i, k, v). Some (i, k))"

definition device_key :: "device_row \<Rightarrow> (int \<times> string) option" where
  "device_key r = Some (de_owner r, de_name r)"

definition use_key :: "use_row \<Rightarrow> (int \<times> int) option" where
  "use_key r = Some (us_container r, us_profile r)"

definition volume_key :: "volume_row \<Rightarrow> (int \<times> string \<times> int) option" where
  "volume_key r = Some (vo_pool r, vo_name r, vo_type r)"

definition no_key :: "'r \<Rightarrow> unit option" where
  "no_key r = None"

text \<open>
  Uniqueness and referential integrity, for the shapes the schema repeats: an entity with its
  configuration, and one with devices and their configuration besides.
\<close>

definition entity_ok :: "('r \<Rightarrow> 'k option) \<Rightarrow> 'r table \<Rightarrow> kv_row table \<Rightarrow> bool" where
  "entity_ok key P C \<longleftrightarrow> t_ok key P \<and> t_ok kv_key C \<and> fk_ok fst C P"

definition holder_ok :: "('r \<Rightarrow> 'k option) \<Rightarrow> 'r table \<Rightarrow> kv_row table \<Rightarrow> device_row table \<Rightarrow> kv_row table \<Rightarrow> bool" where
  "holder_ok key P C D DC \<longleftrightarrow>
     entity_ok key P C \<and> entity_ok device_key D DC \<and> fk_ok de_owner D P"

definition uses_ok :: "use_row table \<Rightarrow> container_row table \<Rightarrow> named_row table \<Rightarrow> bool" where
  "uses_ok U C P \<longleftrightarrow> t_ok use_key U \<and> fk_ok us_container U C \<and> fk_ok us_profile U P"

definition images_ok :: "image_row table \<Rightarrow> alias_row table \<Rightarrow> kv_row table \<Rightarrow> source_row table \<Rightarrow> bool" where
  "images_ok I A P S \<longleftrightarrow>
     t_ok (Some \<circ> im_fingerprint) I \<and> t_ok (Some \<circ> al_name) A \<and> t_ok no_key P \<and> t_ok no_key S \<and>
     fk_ok al_image A I \<and> fk_ok fst P I \<and> fk_ok so_image S I"

definition db_ok :: "db \<Rightarrow> bool" where
  "db_ok d \<longleftrightarrow>
     t_ok (Some \<circ> ce_fingerprint) (certificates d) \<and>
     t_ok (Some \<circ> fst) (config d) \<and>
     t_ok Some (patches d) \<and>
     holder_ok (Some \<circ> co_name) (containers d) (containers_config d)
       (containers_devices d) (containers_devices_config d) \<and>
     holder_ok (Some \<circ> na_name) (profiles d) (profiles_config d)
       (profiles_devices d) (profiles_devices_config d) \<and>
     uses_ok (containers_profiles d) (containers d) (profiles d) \<and>
     images_ok (images d) (images_aliases d) (images_properties d) (images_source d) \<and>
     entity_ok (Some \<circ> na_name) (networks d) (networks_config d) \<and>
     entity_ok (Some \<circ> po_name) (storage_pools d) (storage_pools_config d) \<and>
     entity_ok volume_key (storage_volumes d) (storage_volumes_config d) \<and>
     fk_ok vo_pool (storage_volumes d) (storage_pools d)"

lemmas shape_defs = entity_ok_def holder_ok_def uses_ok_def images_ok_def

definition db_empty :: db where
  "db_empty =
     \<lparr>certificates = t_empty, config = t_empty, containers = t_empty, containers_config = t_empty,
      containers_devices = t_empty, containers_devices_config = t_empty, containers_profiles = t_empty,
      images = t_empty, images_aliases = t_empty, images_properties = t_empty, images_source = t_empty,
      networks = t_empty, networks_config = t_empty, patches = t_empty, profiles = t_empty,
      profiles_config = t_empty, profiles_devices = t_empty, profiles_devices_config = t_empty,
      storage_pools = t_empty, storage_pools_config = t_empty, storage_volumes = t_empty,
      storage_volumes_config = t_empty\<rparr>"

lemma db_ok_empty: "db_ok db_empty"
  by (simp add: db_ok_def shape_defs db_empty_def)

section \<open>Errors\<close>

definition ErrNoRows :: go_error where
  "ErrNoRows = OsError ''sql: no rows in result set''"

definition NoSuchObjectError :: go_error where
  "NoSuchObjectError = Errorf ''No such object'' []"

definition DbErrAlreadyDefined :: go_error where
  "DbErrAlreadyDefined = Errorf ''The container/snapshot already exists'' []"

definition db_locked :: go_error where
  "db_locked = OsError ''database is locked''"

definition IsDbLockedError :: "go_error option \<Rightarrow> bool" where
  "IsDbLockedError err = (case err of None \<Rightarrow> False | Some e \<Rightarrow> e = db_locked)"

definition isNoMatchError :: "go_error option \<Rightarrow> bool" where
  "isNoMatchError err = (case err of None \<Rightarrow> False | Some e \<Rightarrow> e = ErrNoRows)"

section \<open>Statements\<close>

record dbworld = world +
  w_db :: db

text \<open>
  A statement: the outside may make it fail; otherwise its effect on the tables decides. A locked
  database is asked again, up to a thousand times.
\<close>

definition sql :: "'o env_scheme \<Rightarrow> string \<Rightarrow> (db \<Rightarrow> ('r \<times> db) res) \<Rightarrow> ('a dbworld_scheme, 'r) prog" where
  "sql orc q eff =
     pbind (perform orc (Stmt q)) (\<lambda>_ w.
       case eff (w_db w) of
         Inl e \<Rightarrow> (Inl e, w)
       | Inr (r, d) \<Rightarrow> (Inr r, w\<lparr>w_db := d\<rparr>))"

fun retry :: "nat \<Rightarrow> ('w, 'r) prog \<Rightarrow> ('w, 'r) prog" where
  "retry 0 p = fail (Errorf ''DB is locked'' [])"
| "retry (Suc n) p =
     pbind (attempt p) (\<lambda>r.
       case r of
         Inr x \<Rightarrow> ret x
       | Inl e \<Rightarrow> if \<not> IsDbLockedError (Some e) then fail e else retry n p)"

text \<open>Statements inside a transaction are not asked again.\<close>

definition tx_Exec :: "'o env_scheme \<Rightarrow> string \<Rightarrow> (db \<Rightarrow> db res) \<Rightarrow> ('a dbworld_scheme, unit) prog" where
  "tx_Exec orc q eff = sql orc q (\<lambda>d. ebind (eff d) (\<lambda>d'. Inr ((), d')))"

definition Exec :: "'o env_scheme \<Rightarrow> string \<Rightarrow> (db \<Rightarrow> db res) \<Rightarrow> ('a dbworld_scheme, unit) prog" where
  "Exec orc q eff = retry 1000 (tx_Exec orc q eff)"

definition QueryScan :: "'o env_scheme \<Rightarrow> string \<Rightarrow> (db \<Rightarrow> 'r) \<Rightarrow> ('a dbworld_scheme, 'r) prog" where
  "QueryScan orc q f = retry 1000 (sql orc q (\<lambda>d. Inr (f d, d)))"

definition dbQueryRowScan :: "'o env_scheme \<Rightarrow> string \<Rightarrow> (db \<Rightarrow> 'r list) \<Rightarrow> ('a dbworld_scheme, 'r) prog" where
  "dbQueryRowScan orc q f =
     retry 1000 (sql orc q (\<lambda>d. case f d of [] \<Rightarrow> Inl ErrNoRows | r # _ \<Rightarrow> Inr (r, d)))"

definition no_effect :: "db \<Rightarrow> db res" where
  "no_effect d = Inr d"

definition Begin :: "'o env_scheme \<Rightarrow> ('a dbworld_scheme, unit) prog" where
  "Begin orc = retry 1000 (tx_Exec orc ''BEGIN'' no_effect)"

definition TxCommit :: "'o env_scheme \<Rightarrow> ('a dbworld_scheme, unit) prog" where
  "TxCommit orc = retry 1000 (tx_Exec orc ''COMMIT'' no_effect)"

definition Prepare :: "'o env_scheme \<Rightarrow> string \<Rightarrow> ('a dbworld_scheme, unit) prog" where
  "Prepare orc q = tx_Exec orc (''PREPARE '' @ q) no_effect"

text \<open>
  \<open>stmt, err := tx.Prepare(...)\<close> without a look at \<open>err\<close>: the deferred \<open>Close\<close> of the nil statement
  panics.
\<close>

definition Prepare_unchecked :: "'o env_scheme \<Rightarrow> string \<Rightarrow> ('a dbworld_scheme, unit) prog" where
  "Prepare_unchecked orc q =
     pbind (attempt (Prepare orc q)) (\<lambda>r.
       case r of Inr _ \<Rightarrow> ret () | Inl _ \<Rightarrow> fail (Panic ''nil pointer dereference''))"

text \<open>
  \<open>Begin\<close>, the statements, and \<open>TxCommit\<close>, with a \<open>Rollback\<close> on the way out of every failure: the
  tables are again what they were when the transaction began.
\<close>

definition transaction :: "'o env_scheme \<Rightarrow> ('a dbworld_scheme, 'r) prog \<Rightarrow> ('a dbworld_scheme, 'r) prog" where
  "transaction orc body =
     pbind (Begin orc) (\<lambda>_ w.
       case pbind body (\<lambda>x. pbind (TxCommit orc) (\<lambda>_. ret x)) w of
         (Inl e, w') \<Rightarrow> (Inl e, w'\<lparr>w_db := w_db w\<rparr>)
       | (Inr x, w') \<Rightarrow> (Inr x, w'))"

text \<open>Results of a query on two columns, read into a map.\<close>

definition rows_map :: "(string \<times> string) list \<Rightarrow> string gomap" where
  "rows_map rs = foldl (\<lambda>m (k, v). gm_set m k v) [] rs"

text \<open>\<open>INSERT\<close> into a table of key-value rows, with its FOREIGN KEY.\<close>

definition kv_insert :: "('p table) \<Rightarrow> kv_row \<Rightarrow> kv_row table \<Rightarrow> kv_row table res" where
  "kv_insert parent r t =
     (if fst r \<notin> set (t_ids parent) then Inl constraint_failed
      else ebind (t_insert kv_key r t) (\<lambda>(_, t'). Inr t'))"

text \<open>\<open>LIKE\<close> of SQLite: \<open>%\<close> and \<open>_\<close> are wildcards, and ASCII letters match in either case.\<close>

fun sql_like :: "string \<Rightarrow> string \<Rightarrow> bool" where
  "sql_like [] s = (s = [])"
| "sql_like (p # ps) [] = (p = CHR ''%'' \<and> sql_like ps [])"
| "sql_like (p # ps) (c # s) =
     (if p = CHR ''%'' then sql_like ps (c # s) \<or> sql_like (p # ps) s
      else (p = CHR ''_'' \<or> to_lower p = to_lower c) \<and> sql_like ps s)"

end
