(* ===== verification/DbContainers.thy ===== *)
theory DbContainers
  imports Sql
begin

text \<open>
  Containers, devices and profiles in the database: \<open>apollo/db/containers.go\<close>, \<open>devices.go\<close> and
  \<open>profiles.go\<close>.
\<close>

section \<open>Device types\<close>

definition dbDeviceTypeToString :: "int \<Rightarrow> string res" where
  "dbDeviceTypeToString t =
     (if t = 0 then Inr ''none'' else if t = 1 then Inr ''nic'' else if t = 2 then Inr ''disk''
      else if t = 3 then Inr ''unix-char'' else if t = 4 then Inr ''unix-block''
      else if t = 5 then Inr ''usb'' else if t = 6 then Inr ''gpu''
      else Inl (Errorf ''Invalid device type %d'' [show_int t]))"

definition dbDeviceTypeToInt :: "string \<Rightarrow> int res" where
  "dbDeviceTypeToInt t =
     (if t = ''none'' then Inr 0 else if t = ''nic'' then Inr 1 else if t = ''disk'' then Inr 2
      else if t = ''unix-char'' then Inr 3 else if t = ''unix-block'' then Inr 4
      else if t = ''usb'' then Inr 5 else if t = ''gpu'' then Inr 6
      else Inl (Errorf ''Invalid device type %s'' [t]))"

section \<open>Devices\<close>

text \<open>The tables of the devices of profiles (\<open>p\<close>) or of containers.\<close>

definition devices_of :: "bool \<Rightarrow> db \<Rightarrow> device_row table" where
  "devices_of p d = (if p then profiles_devices d else containers_devices d)"

definition devices_config_of :: "bool \<Rightarrow> db \<Rightarrow> kv_row table" where
  "devices_config_of p d = (if p then profiles_devices_config d else containers_devices_config d)"

definition insert_device :: "bool \<Rightarrow> int \<Rightarrow> string \<Rightarrow> int \<Rightarrow> db \<Rightarrow> (int \<times> db) res" where
  "insert_device p cID name t d =
     (let r = \<lparr>de_owner = cID, de_name = name, de_type = t\<rparr>;
          owners = (if p then t_ids (profiles d) else t_ids (containers d))
      in if cID \<notin> set owners then Inl constraint_failed
         else ebind (t_insert device_key r (devices_of p d)) (\<lambda>(i, tab).
           Inr (i, if p then d\<lparr>profiles_devices := tab\<rparr> else d\<lparr>containers_devices := tab\<rparr>)))"

definition insert_device_config :: "bool \<Rightarrow> int \<Rightarrow> string \<Rightarrow> string \<Rightarrow> db \<Rightarrow> db res" where
  "insert_device_config p i k v d =
     ebind (kv_insert (devices_of p d) (i, k, v) (devices_config_of p d)) (\<lambda>tab.
       Inr (if p then d\<lparr>profiles_devices_config := tab\<rparr> else d\<lparr>containers_devices_config := tab\<rparr>))"

definition add_device :: "'o env_scheme \<Rightarrow> bool \<Rightarrow> int \<Rightarrow> string \<times> device \<Rightarrow> ('a dbworld_scheme, unit) prog" where
  "add_device orc p cID = (\<lambda>(k, v).
     pbind (of_res (dbDeviceTypeToInt (gm_str v ''type''))) (\<lambda>t.
     pbind (sql orc ''INSERT INTO devices'' (insert_device p cID k t)) (\<lambda>i.
       for_all (\<lambda>(ck, cv).
         pwhen (ck \<noteq> ''type'') (tx_Exec orc ''INSERT INTO devices_config'' (insert_device_config p i ck cv))) v)))"

definition DevicesAdd :: "'o env_scheme \<Rightarrow> bool \<Rightarrow> int \<Rightarrow> devices \<Rightarrow> ('a dbworld_scheme, unit) prog" where
  "DevicesAdd orc p cID ds =
     seq_all [Prepare orc ''INSERT INTO devices'', Prepare orc ''INSERT INTO devices_config'',
              for_all (add_device orc p cID) ds]"

definition dbDeviceConfig :: "'o env_scheme \<Rightarrow> int \<Rightarrow> bool \<Rightarrow> ('a dbworld_scheme, device) prog" where
  "dbDeviceConfig orc i p =
     pbind (QueryScan orc ''SELECT key, value FROM devices_config''
              (\<lambda>d. map (snd \<circ> snd) (t_where (\<lambda>r. fst r = i) (devices_config_of p d))))
       (\<lambda>rs. ret (rows_map rs))"

definition owner_name :: "bool \<Rightarrow> db \<Rightarrow> int \<Rightarrow> string option" where
  "owner_name p d i =
     (if p then map_option na_name (t_get (profiles d) i) else map_option co_name (t_get (containers d) i))"

fun devices_rows :: "'o env_scheme \<Rightarrow> bool \<Rightarrow> devices \<Rightarrow> (int \<times> string \<times> int) list \<Rightarrow> ('a dbworld_scheme, devices) prog" where
  "devices_rows orc p acc [] = ret acc"
| "devices_rows orc p acc ((i, name, t) # rs) =
     pbind (of_res (dbDeviceTypeToString t)) (\<lambda>stype.
     pbind (dbDeviceConfig orc i p) (\<lambda>newdev.
       devices_rows orc p (gm_set acc name (gm_set newdev ''type'' stype)) rs))"

definition Devices :: "'o env_scheme \<Rightarrow> string \<Rightarrow> bool \<Rightarrow> ('a dbworld_scheme, devices) prog" where
  "Devices orc qName p =
     pbind (QueryScan orc ''SELECT id, name, type FROM devices''
              (\<lambda>d. map (\<lambda>(i, r). (i, de_name r, de_type r))
                     (t_where (\<lambda>r. owner_name p d (de_owner r) = Some qName) (devices_of p d))))
       (devices_rows orc p [])"

section \<open>Containers\<close>

record container_args =
  ca_Id :: int
  ca_Description :: string
  ca_Architecture :: int
  ca_Config :: "string gomap"
  ca_CreationDate :: int
  ca_LastUsedDate :: int
  ca_Ctype :: int
  ca_Devices :: devices
  ca_Ephemeral :: bool
  ca_Name :: string
  ca_Profiles :: "string list"
  ca_Stateful :: bool

definition CTypeRegular :: int where "CTypeRegular = 0"
definition CTypeSnapshot :: int where "CTypeSnapshot = 1"

definition delete_containers :: "(int \<Rightarrow> container_row \<Rightarrow> bool) \<Rightarrow> db \<Rightarrow> db" where
  "delete_containers P d =
     (let cs = t_delete P (containers d); devs = cascade de_owner cs (containers_devices d)
      in d\<lparr>containers := cs,
           containers_config := cascade fst cs (containers_config d),
           containers_devices := devs,
           containers_devices_config := cascade fst devs (containers_devices_config d),
           containers_profiles := cascade us_container cs (containers_profiles d)\<rparr>)"

definition ContainerName :: "'o env_scheme \<Rightarrow> int \<Rightarrow> ('a dbworld_scheme, string) prog" where
  "ContainerName orc i =
     dbQueryRowScan orc ''SELECT name FROM containers WHERE id=?''
       (\<lambda>d. map co_name (map snd (filter (\<lambda>(j, r). j = i) (t_rows (containers d)))))"

definition ContainerId :: "'o env_scheme \<Rightarrow> string \<Rightarrow> ('a dbworld_scheme, int) prog" where
  "ContainerId orc name =
     dbQueryRowScan orc ''SELECT id FROM containers WHERE name=?''
       (\<lambda>d. map fst (t_where (\<lambda>r. co_name r = name) (containers d)))"

definition ContainerRemove :: "'o env_scheme \<Rightarrow> string \<Rightarrow> ('a dbworld_scheme, unit) prog" where
  "ContainerRemove orc name =
     pbind (ContainerId orc name) (\<lambda>i.
       Exec orc ''DELETE FROM containers WHERE id=?'' (\<lambda>d. Inr (delete_containers (\<lambda>j _. j = i) d)))"

definition ContainerConfig :: "'o env_scheme \<Rightarrow> int \<Rightarrow> ('a dbworld_scheme, string gomap) prog" where
  "ContainerConfig orc i =
     pbind (QueryScan orc ''SELECT key, value FROM containers_config''
              (\<lambda>d. map (snd \<circ> snd) (t_where (\<lambda>r. fst r = i) (containers_config d))))
       (\<lambda>rs. ret (rows_map rs))"

definition ContainerProfiles :: "'o env_scheme \<Rightarrow> int \<Rightarrow> ('a dbworld_scheme, string list) prog" where
  "ContainerProfiles orc i =
     QueryScan orc ''SELECT name FROM containers_profiles''
       (\<lambda>d. concat (map (\<lambda>r. case t_get (profiles d) (us_profile r) of None \<Rightarrow> [] | Some q \<Rightarrow> [na_name q])
               (sort_key us_order (map snd (t_where (\<lambda>r. us_container r = i) (containers_profiles d))))))"

definition ContainerGet :: "'o env_scheme \<Rightarrow> string \<Rightarrow> ('a dbworld_scheme, container_args) prog" where
  "ContainerGet orc name =
     pbind (dbQueryRowScan orc ''SELECT id, description, architecture, type FROM containers''
              (\<lambda>d. t_where (\<lambda>r. co_name r = name) (containers d))) (\<lambda>(i, r).
     if i = -1 then fail (Errorf ''Unknown container'' [])
     else
       pbind (ContainerConfig orc i) (\<lambda>cfg.
       pbind (ContainerProfiles orc i) (\<lambda>profs.
       pbind (Devices orc name False) (\<lambda>newdevs.
         ret \<lparr>ca_Id = i,
              ca_Description = (case co_description r of None \<Rightarrow> [] | Some s \<Rightarrow> s),
              ca_Architecture = co_architecture r,
              ca_Config = cfg,
              ca_CreationDate = co_creation_date r,
              ca_LastUsedDate = (case co_last_use_date r of None \<Rightarrow> 0 | Some t \<Rightarrow> t),
              ca_Ctype = co_type r,
              ca_Devices = foldl (\<lambda>m (k, v). gm_set m k v) [] newdevs,
              ca_Ephemeral = (co_ephemeral r = 1),
              ca_Name = name,
              ca_Profiles = profs,
              ca_Stateful = (co_stateful r = 1)\<rparr>))))"

definition insert_container :: "container_row \<Rightarrow> db \<Rightarrow> (int \<times> db) res" where
  "insert_container r d =
     ebind (t_insert (Some \<circ> co_name) r (containers d)) (\<lambda>(i, tab). Inr (i, d\<lparr>containers := tab\<rparr>))"

definition insert_container_config :: "int \<Rightarrow> string \<Rightarrow> string \<Rightarrow> db \<Rightarrow> db res" where
  "insert_container_config i k v d =
     ebind (kv_insert (containers d) (i, k, v) (containers_config d)) (\<lambda>tab.
       Inr (d\<lparr>containers_config := tab\<rparr>))"

definition ContainerConfigInsert :: "'o env_scheme \<Rightarrow> int \<Rightarrow> string gomap \<Rightarrow> ('a dbworld_scheme, unit) prog" where
  "ContainerConfigInsert orc i cfg =
     seq_all [Prepare orc ''INSERT INTO containers_config'',
              for_all (\<lambda>(k, v). tx_Exec orc ''INSERT INTO containers_config'' (insert_container_config i k v)) cfg]"

text \<open>A profile that does not exist gives a NULL, which the column refuses.\<close>

definition insert_use :: "int \<Rightarrow> string \<Rightarrow> int \<Rightarrow> db \<Rightarrow> db res" where
  "insert_use i p order d =
     (case map fst (t_where (\<lambda>r. na_name r = p) (profiles d)) of
        [] \<Rightarrow> Inl constraint_failed
      | pid # _ \<Rightarrow>
          if i \<notin> set (t_ids (containers d)) then Inl constraint_failed
          else ebind (t_insert use_key \<lparr>us_container = i, us_profile = pid, us_order = order\<rparr>
                        (containers_profiles d)) (\<lambda>(_, tab).
                 Inr (d\<lparr>containers_profiles := tab\<rparr>)))"

definition ContainerProfilesInsert :: "'o env_scheme \<Rightarrow> int \<Rightarrow> string list \<Rightarrow> ('a dbworld_scheme, unit) prog" where
  "ContainerProfilesInsert orc i ps =
     seq_all [Prepare orc ''INSERT INTO containers_profiles'',
              for_all (\<lambda>(p, order). tx_Exec orc ''INSERT INTO containers_profiles'' (insert_use i p order))
                (zip ps (map int [1..<Suc (length ps)]))]"

definition ContainerCreate :: "'o env_scheme \<Rightarrow> container_args \<Rightarrow> ('a dbworld_scheme, int) prog" where
  "ContainerCreate orc args =
     pbind (attempt (ContainerId orc (ca_Name args))) (\<lambda>r.
       case r of
         Inr _ \<Rightarrow> fail DbErrAlreadyDefined
       | Inl _ \<Rightarrow>
           transaction orc
             (pbind (get_world (\<lambda>w. o_now orc (w_hist w))) (\<lambda>now.
              pbind (Prepare orc ''INSERT INTO containers'') (\<lambda>_.
              pbind (sql orc ''INSERT INTO containers''
                       (insert_container
                          \<lparr>co_name = ca_Name args, co_description = None,
                           co_architecture = ca_Architecture args, co_type = ca_Ctype args,
                           co_ephemeral = (if ca_Ephemeral args then 1 else 0),
                           co_stateful = (if ca_Stateful args then 1 else 0),
                           co_creation_date = now, co_last_use_date = Some 0\<rparr>)) (\<lambda>i.
              pbind (seq_all [ContainerConfigInsert orc i (ca_Config args),
                              ContainerProfilesInsert orc i (ca_Profiles args),
                              DevicesAdd orc False i (ca_Devices args)]) (\<lambda>_.
                ret i))))))"

definition ContainerConfigClear :: "'o env_scheme \<Rightarrow> int \<Rightarrow> ('a dbworld_scheme, unit) prog" where
  "ContainerConfigClear orc i =
     seq_all
       [tx_Exec orc ''DELETE FROM containers_config'' (\<lambda>d.
          Inr (d\<lparr>containers_config := t_delete (\<lambda>_ r. fst r = i) (containers_config d)\<rparr>)),
        tx_Exec orc ''DELETE FROM containers_profiles'' (\<lambda>d.
          Inr (d\<lparr>containers_profiles := t_delete (\<lambda>_ r. us_container r = i) (containers_profiles d)\<rparr>)),
        tx_Exec orc ''DELETE FROM containers_devices_config'' (\<lambda>d.
          Inr (d\<lparr>containers_devices_config :=
                 t_delete (\<lambda>_ r. map_option de_owner (t_get (containers_devices d) (fst r)) = Some i)
                   (containers_devices_config d)\<rparr>)),
        tx_Exec orc ''DELETE FROM containers_devices'' (\<lambda>d.
          let devs = t_delete (\<lambda>_ r. de_owner r = i) (containers_devices d)
          in Inr (d\<lparr>containers_devices := devs,
                    containers_devices_config := cascade fst devs (containers_devices_config d)\<rparr>))]"

definition ContainerConfigGet :: "'o env_scheme \<Rightarrow> int \<Rightarrow> string \<Rightarrow> ('a dbworld_scheme, string) prog" where
  "ContainerConfigGet orc i key =
     dbQueryRowScan orc ''SELECT value FROM containers_config''
       (\<lambda>d. map (snd \<circ> snd \<circ> snd) (t_where (\<lambda>r. fst r = i \<and> fst (snd r) = key) (containers_config d)))"

definition ContainerConfigRemove :: "'o env_scheme \<Rightarrow> int \<Rightarrow> string \<Rightarrow> ('a dbworld_scheme, unit) prog" where
  "ContainerConfigRemove orc i name =
     Exec orc ''DELETE FROM containers_config'' (\<lambda>d.
       Inr (d\<lparr>containers_config :=
              t_delete (\<lambda>_ r. fst (snd r) = name \<and> fst r = i) (containers_config d)\<rparr>))"

definition update_containers :: "(int \<Rightarrow> container_row \<Rightarrow> bool) \<Rightarrow> (container_row \<Rightarrow> container_row) \<Rightarrow> db \<Rightarrow> db res" where
  "update_containers P f d =
     ebind (t_update (Some \<circ> co_name) P f (containers d)) (\<lambda>tab. Inr (d\<lparr>containers := tab\<rparr>))"

definition ContainerSetStateful :: "'o env_scheme \<Rightarrow> int \<Rightarrow> bool \<Rightarrow> ('a dbworld_scheme, unit) prog" where
  "ContainerSetStateful orc i stateful =
     Exec orc ''UPDATE containers SET stateful=?''
       (update_containers (\<lambda>j _. j = i) (\<lambda>r. r\<lparr>co_stateful := (if stateful then 1 else 0)\<rparr>))"

definition ContainersList :: "'o env_scheme \<Rightarrow> int \<Rightarrow> ('a dbworld_scheme, string list) prog" where
  "ContainersList orc cType =
     QueryScan orc ''SELECT name FROM containers WHERE type=? ORDER BY name''
       (\<lambda>d. sort (map (co_name \<circ> snd) (t_where (\<lambda>r. co_type r = cType) (containers d))))"

definition ContainerSetState :: "'o env_scheme \<Rightarrow> int \<Rightarrow> string \<Rightarrow> ('a dbworld_scheme, unit) prog" where
  "ContainerSetState orc i st =
     transaction orc (seq_all
       [Prepare orc ''DELETE FROM containers_config'',
        tx_Exec orc ''DELETE FROM containers_config'' (\<lambda>d.
          Inr (d\<lparr>containers_config :=
                 t_delete (\<lambda>_ r. fst r = i \<and> fst (snd r) = ''volatile.last_state.power'') (containers_config d)\<rparr>)),
        Prepare orc ''INSERT INTO containers_config'',
        tx_Exec orc ''INSERT INTO containers_config'' (insert_container_config i ''volatile.last_state.power'' st)])"

definition ContainerRename :: "'o env_scheme \<Rightarrow> string \<Rightarrow> string \<Rightarrow> ('a dbworld_scheme, unit) prog" where
  "ContainerRename orc oldName newName =
     transaction orc (seq_all
       [Prepare orc ''UPDATE containers SET name'',
        tx_Exec orc ''UPDATE containers SET name''
          (update_containers (\<lambda>_ r. co_name r = oldName) (\<lambda>r. r\<lparr>co_name := newName\<rparr>))])"

definition ContainerUpdate :: "'o env_scheme \<Rightarrow> int \<Rightarrow> string \<Rightarrow> int \<Rightarrow> bool \<Rightarrow> ('a dbworld_scheme, unit) prog" where
  "ContainerUpdate orc i description arch ephemeral =
     seq_all
       [Prepare orc ''UPDATE containers SET description'',
        tx_Exec orc ''UPDATE containers SET description''
          (update_containers (\<lambda>j _. j = i)
             (\<lambda>r. r\<lparr>co_description := Some description, co_architecture := arch,
                    co_ephemeral := (if ephemeral then 1 else 0)\<rparr>))]"

definition ContainerLastUsedUpdate :: "'o env_scheme \<Rightarrow> int \<Rightarrow> int \<Rightarrow> ('a dbworld_scheme, unit) prog" where
  "ContainerLastUsedUpdate orc i date =
     Exec orc ''UPDATE containers SET last_use_date=?''
       (update_containers (\<lambda>j _. j = i) (\<lambda>r. r\<lparr>co_last_use_date := Some date\<rparr>))"

definition ContainerGetSnapshots :: "'o env_scheme \<Rightarrow> string \<Rightarrow> ('a dbworld_scheme, string list) prog" where
  "ContainerGetSnapshots orc name =
     (let pre = name @ ''/''
      in QueryScan orc ''SELECT name FROM containers WHERE type=? AND SUBSTR(name,1,?)=?''
           (\<lambda>d. map (co_name \<circ> snd)
              (t_where (\<lambda>r. co_type r = CTypeSnapshot \<and> take (length pre) (co_name r) = pre) (containers d))))"

definition StoragePoolVolumeTypeContainer :: int where "StoragePoolVolumeTypeContainer = 0"
definition StoragePoolVolumeTypeImage :: int where "StoragePoolVolumeTypeImage = 1"
definition StoragePoolVolumeTypeCustom :: int where "StoragePoolVolumeTypeCustom = 2"

definition ContainerPool :: "'o env_scheme \<Rightarrow> string \<Rightarrow> ('a dbworld_scheme, string) prog" where
  "ContainerPool orc name =
     pbind (attempt (dbQueryRowScan orc ''SELECT storage_pools.name FROM storage_pools''
       (\<lambda>d. concat (map (\<lambda>(i, p). map (\<lambda>_. po_name p)
              (t_where (\<lambda>v. vo_pool v = i \<and> vo_name v = name \<and> vo_type v = StoragePoolVolumeTypeContainer)
                 (storage_volumes d))) (t_rows (storage_pools d)))))) (\<lambda>r.
       case r of
         Inr x \<Rightarrow> ret x
       | Inl e \<Rightarrow> if e = ErrNoRows then fail NoSuchObjectError else fail e)"

section \<open>Profiles\<close>

record profile =
  pr_Name :: string
  pr_Description :: string
  pr_Config :: "string gomap"
  pr_Devices :: devices

definition Profiles :: "'o env_scheme \<Rightarrow> ('a dbworld_scheme, string list) prog" where
  "Profiles orc = QueryScan orc ''SELECT name FROM profiles'' (\<lambda>d. map na_name (t_vals (profiles d)))"

text \<open>The rows of the profiles with a name, joined with their configuration.\<close>

definition ProfileConfig :: "'o env_scheme \<Rightarrow> string \<Rightarrow> ('a dbworld_scheme, string gomap) prog" where
  "ProfileConfig orc name =
     pbind (attempt (QueryScan orc ''SELECT key, value FROM profiles_config''
              (\<lambda>d. map (snd \<circ> snd)
                 (t_where (\<lambda>r. map_option na_name (t_get (profiles d) (fst r)) = Some name) (profiles_config d)))))
       (\<lambda>q. case q of
          Inl _ \<Rightarrow> fail (Errorf (''Failed to get profile '%s'' @ [CHR 39]) [name])
        | Inr rs \<Rightarrow>
            if rs = [] then
              pbind (QueryScan orc ''SELECT id FROM profiles''
                       (\<lambda>d. map fst (t_where (\<lambda>r. na_name r = name) (profiles d))))
                (\<lambda>ids. if ids = [] then fail NoSuchObjectError else ret [])
            else ret (rows_map rs))"

definition ProfileGet :: "'o env_scheme \<Rightarrow> string \<Rightarrow> ('a dbworld_scheme, int \<times> profile) prog" where
  "ProfileGet orc name =
     pbind (dbQueryRowScan orc ''SELECT id, description FROM profiles''
              (\<lambda>d. t_where (\<lambda>r. na_name r = name) (profiles d))) (\<lambda>(i, r).
     pbind (ProfileConfig orc name) (\<lambda>cfg.
     pbind (Devices orc name True) (\<lambda>devs.
       ret (i, \<lparr>pr_Name = name,
                pr_Description = (case na_description r of None \<Rightarrow> [] | Some s \<Rightarrow> s),
                pr_Config = cfg, pr_Devices = devs\<rparr>))))"

definition insert_profile :: "string \<Rightarrow> string \<Rightarrow> db \<Rightarrow> (int \<times> db) res" where
  "insert_profile name description d =
     ebind (t_insert (Some \<circ> na_name) \<lparr>na_name = name, na_description = Some description\<rparr> (profiles d))
       (\<lambda>(i, tab). Inr (i, d\<lparr>profiles := tab\<rparr>))"

definition insert_profile_config :: "int \<Rightarrow> string \<Rightarrow> string \<Rightarrow> db \<Rightarrow> db res" where
  "insert_profile_config i k v d =
     ebind (kv_insert (profiles d) (i, k, v) (profiles_config d)) (\<lambda>tab. Inr (d\<lparr>profiles_config := tab\<rparr>))"

definition ProfileConfigAdd :: "'o env_scheme \<Rightarrow> int \<Rightarrow> string gomap \<Rightarrow> ('a dbworld_scheme, unit) prog" where
  "ProfileConfigAdd orc i cfg =
     seq_all [Prepare_unchecked orc ''INSERT INTO profiles_config'',
              for_all (\<lambda>(k, v). tx_Exec orc ''INSERT INTO profiles_config'' (insert_profile_config i k v)) cfg]"

definition ProfileCreate :: "'o env_scheme \<Rightarrow> string \<Rightarrow> string \<Rightarrow> string gomap \<Rightarrow> devices \<Rightarrow> ('a dbworld_scheme, int) prog" where
  "ProfileCreate orc name description cfg devs =
     transaction orc
       (pbind (sql orc ''INSERT INTO profiles'' (insert_profile name description)) (\<lambda>i.
        pbind (seq_all [ProfileConfigAdd orc i cfg, DevicesAdd orc True i devs]) (\<lambda>_. ret i)))"

text \<open>\<open>id\<close> keeps its initial \<open>-1\<close> whatever the error.\<close>

definition ProfileCreateDefault :: "'o env_scheme \<Rightarrow> ('a dbworld_scheme, unit) prog" where
  "ProfileCreateDefault orc =
     pbind (attempt (ProfileGet orc ''default'')) (\<lambda>r.
       let i = (case r of Inl _ \<Rightarrow> -1 | Inr (j, _) \<Rightarrow> j)
       in if i \<noteq> -1 then ret ()
          else pbind (ProfileCreate orc ''default'' ''Default APOLLO profile'' [] []) (\<lambda>_. ret ()))"

definition delete_profiles :: "(int \<Rightarrow> named_row \<Rightarrow> bool) \<Rightarrow> db \<Rightarrow> db" where
  "delete_profiles P d =
     (let ps = t_delete P (profiles d); devs = cascade de_owner ps (profiles_devices d)
      in d\<lparr>profiles := ps,
           profiles_config := cascade fst ps (profiles_config d),
           profiles_devices := devs,
           profiles_devices_config := cascade fst devs (profiles_devices_config d),
           containers_profiles := cascade us_profile ps (containers_profiles d)\<rparr>)"

definition ProfileDelete :: "'o env_scheme \<Rightarrow> string \<Rightarrow> ('a dbworld_scheme, unit) prog" where
  "ProfileDelete orc name =
     pbind (ProfileGet orc name) (\<lambda>(i, _).
       Exec orc ''DELETE FROM profiles WHERE id=?'' (\<lambda>d. Inr (delete_profiles (\<lambda>j _. j = i) d)))"

definition update_profiles :: "(int \<Rightarrow> named_row \<Rightarrow> bool) \<Rightarrow> (named_row \<Rightarrow> named_row) \<Rightarrow> db \<Rightarrow> db res" where
  "update_profiles P f d =
     ebind (t_update (Some \<circ> na_name) P f (profiles d)) (\<lambda>tab. Inr (d\<lparr>profiles := tab\<rparr>))"

definition ProfileUpdate :: "'o env_scheme \<Rightarrow> string \<Rightarrow> string \<Rightarrow> ('a dbworld_scheme, unit) prog" where
  "ProfileUpdate orc name newName =
     transaction orc (tx_Exec orc ''UPDATE profiles SET name''
       (update_profiles (\<lambda>_ r. na_name r = name) (\<lambda>r. r\<lparr>na_name := newName\<rparr>)))"

definition ProfileDescriptionUpdate :: "'o env_scheme \<Rightarrow> int \<Rightarrow> string \<Rightarrow> ('a dbworld_scheme, unit) prog" where
  "ProfileDescriptionUpdate orc i description =
     tx_Exec orc ''UPDATE profiles SET description''
       (update_profiles (\<lambda>j _. j = i) (\<lambda>r. r\<lparr>na_description := Some description\<rparr>))"

definition ProfileConfigClear :: "'o env_scheme \<Rightarrow> int \<Rightarrow> ('a dbworld_scheme, unit) prog" where
  "ProfileConfigClear orc i =
     seq_all
       [tx_Exec orc ''DELETE FROM profiles_config'' (\<lambda>d.
          Inr (d\<lparr>profiles_config := t_delete (\<lambda>_ r. fst r = i) (profiles_config d)\<rparr>)),
        tx_Exec orc ''DELETE FROM profiles_devices_config'' (\<lambda>d.
          Inr (d\<lparr>profiles_devices_config :=
                 t_delete (\<lambda>_ r. map_option de_owner (t_get (profiles_devices d) (fst r)) = Some i)
                   (profiles_devices_config d)\<rparr>)),
        tx_Exec orc ''DELETE FROM profiles_devices'' (\<lambda>d.
          let devs = t_delete (\<lambda>_ r. de_owner r = i) (profiles_devices d)
          in Inr (d\<lparr>profiles_devices := devs,
                    profiles_devices_config := cascade fst devs (profiles_devices_config d)\<rparr>))]"

definition ProfileContainersGet :: "'o env_scheme \<Rightarrow> string \<Rightarrow> ('a dbworld_scheme, string list) prog" where
  "ProfileContainersGet orc name =
     QueryScan orc ''SELECT containers.name FROM containers JOIN containers_profiles''
       (\<lambda>d. concat (map (\<lambda>(i, c). concat (map (\<lambda>r.
              if map_option na_name (t_get (profiles d) (us_profile r)) = Some name then [co_name c] else [])
              (map snd (t_where (\<lambda>r. us_container r = i) (containers_profiles d)))))
            (t_rows (containers d))))"

end
