(* ===== verification/DbStorage.thy ===== *)
theory DbStorage
  imports DbContainers
begin

text \<open>
  Storage pools and volumes in the database: \<open>apollo/db/storage_pools.go\<close> and
  \<open>storage_volumes.go\<close>.
\<close>

section \<open>Pools\<close>

record pool =
  sp_Name :: string
  sp_Driver :: string
  sp_Description :: string
  sp_Config :: "string gomap"

definition StoragePools :: "'o env_scheme \<Rightarrow> ('a dbworld_scheme, string list) prog" where
  "StoragePools orc =
     pbind (QueryScan orc ''SELECT name FROM storage_pools'' (\<lambda>d. map po_name (t_vals (storage_pools d))))
       (\<lambda>rs. if rs = [] then fail NoSuchObjectError else ret rs)"

definition StoragePoolsGetDrivers :: "'o env_scheme \<Rightarrow> ('a dbworld_scheme, string list) prog" where
  "StoragePoolsGetDrivers orc =
     pbind (QueryScan orc ''SELECT DISTINCT driver FROM storage_pools''
              (\<lambda>d. remdups (map po_driver (t_vals (storage_pools d)))))
       (\<lambda>rs. if rs = [] then fail NoSuchObjectError else ret rs)"

text \<open>An error other than a missing row is dropped, and the id stays \<open>-1\<close>.\<close>

definition StoragePoolGetID :: "'o env_scheme \<Rightarrow> string \<Rightarrow> ('a dbworld_scheme, int) prog" where
  "StoragePoolGetID orc name =
     pbind (attempt (dbQueryRowScan orc ''SELECT id FROM storage_pools''
              (\<lambda>d. map fst (t_where (\<lambda>r. po_name r = name) (storage_pools d))))) (\<lambda>r.
       case r of
         Inr i \<Rightarrow> ret i
       | Inl e \<Rightarrow> if e = ErrNoRows then fail NoSuchObjectError else ret (-1))"

definition StoragePoolConfigGet :: "'o env_scheme \<Rightarrow> int \<Rightarrow> ('a dbworld_scheme, string gomap) prog" where
  "StoragePoolConfigGet orc i =
     pbind (QueryScan orc ''SELECT key, value FROM storage_pools_config''
              (\<lambda>d. map (snd \<circ> snd) (t_where (\<lambda>r. fst r = i) (storage_pools_config d))))
       (\<lambda>rs. ret (rows_map rs))"

definition StoragePoolGet :: "'o env_scheme \<Rightarrow> string \<Rightarrow> ('a dbworld_scheme, int \<times> pool) prog" where
  "StoragePoolGet orc name =
     pbind (attempt (dbQueryRowScan orc ''SELECT id, driver, description FROM storage_pools''
              (\<lambda>d. t_where (\<lambda>r. po_name r = name) (storage_pools d)))) (\<lambda>q.
       case q of
         Inl e \<Rightarrow> fail (if e = ErrNoRows then NoSuchObjectError else e)
       | Inr (i, r) \<Rightarrow>
           pbind (StoragePoolConfigGet orc i) (\<lambda>cfg.
             ret (i, \<lparr>sp_Name = name, sp_Driver = po_driver r,
                      sp_Description = (case po_description r of None \<Rightarrow> [] | Some s \<Rightarrow> s),
                      sp_Config = cfg\<rparr>)))"

definition insert_pool :: "string \<Rightarrow> string \<Rightarrow> string \<Rightarrow> db \<Rightarrow> (int \<times> db) res" where
  "insert_pool name description driver d =
     ebind (t_insert (Some \<circ> po_name)
              \<lparr>po_name = name, po_description = Some description, po_driver = driver\<rparr> (storage_pools d))
       (\<lambda>(i, tab). Inr (i, d\<lparr>storage_pools := tab\<rparr>))"

definition insert_pool_config :: "int \<Rightarrow> string \<Rightarrow> string \<Rightarrow> db \<Rightarrow> db res" where
  "insert_pool_config i k v d =
     ebind (kv_insert (storage_pools d) (i, k, v) (storage_pools_config d)) (\<lambda>tab.
       Inr (d\<lparr>storage_pools_config := tab\<rparr>))"

definition StoragePoolConfigAdd :: "'o env_scheme \<Rightarrow> int \<Rightarrow> string gomap \<Rightarrow> ('a dbworld_scheme, unit) prog" where
  "StoragePoolConfigAdd orc i cfg =
     seq_all [Prepare_unchecked orc ''INSERT INTO storage_pools_config'',
              for_all (\<lambda>(k, v). pwhen (v \<noteq> [])
                (tx_Exec orc ''INSERT INTO storage_pools_config'' (insert_pool_config i k v))) cfg]"

definition StoragePoolCreate :: "'o env_scheme \<Rightarrow> string \<Rightarrow> string \<Rightarrow> string \<Rightarrow> string gomap
    \<Rightarrow> ('a dbworld_scheme, int) prog" where
  "StoragePoolCreate orc name description driver cfg =
     transaction orc
       (pbind (sql orc ''INSERT INTO storage_pools'' (insert_pool name description driver)) (\<lambda>i.
        pbind (StoragePoolConfigAdd orc i cfg) (\<lambda>_. ret i)))"

definition update_pools :: "(int \<Rightarrow> pool_row \<Rightarrow> bool) \<Rightarrow> (pool_row \<Rightarrow> pool_row) \<Rightarrow> db \<Rightarrow> db res" where
  "update_pools P f d =
     ebind (t_update (Some \<circ> po_name) P f (storage_pools d)) (\<lambda>tab. Inr (d\<lparr>storage_pools := tab\<rparr>))"

definition StoragePoolUpdateDescription :: "'o env_scheme \<Rightarrow> int \<Rightarrow> string \<Rightarrow> ('a dbworld_scheme, unit) prog" where
  "StoragePoolUpdateDescription orc i description =
     tx_Exec orc ''UPDATE storage_pools SET description''
       (update_pools (\<lambda>j _. j = i) (\<lambda>r. r\<lparr>po_description := Some description\<rparr>))"

definition StoragePoolConfigClear :: "'o env_scheme \<Rightarrow> int \<Rightarrow> ('a dbworld_scheme, unit) prog" where
  "StoragePoolConfigClear orc i =
     tx_Exec orc ''DELETE FROM storage_pools_config'' (\<lambda>d.
       Inr (d\<lparr>storage_pools_config := t_delete (\<lambda>_ r. fst r = i) (storage_pools_config d)\<rparr>))"

definition StoragePoolUpdate :: "'o env_scheme \<Rightarrow> string \<Rightarrow> string \<Rightarrow> string gomap \<Rightarrow> ('a dbworld_scheme, unit) prog" where
  "StoragePoolUpdate orc name description cfg =
     pbind (StoragePoolGet orc name) (\<lambda>(i, _).
       transaction orc (seq_all
         [StoragePoolUpdateDescription orc i description, StoragePoolConfigClear orc i,
          StoragePoolConfigAdd orc i cfg]))"

definition delete_volumes :: "(int \<Rightarrow> volume_row \<Rightarrow> bool) \<Rightarrow> db \<Rightarrow> db" where
  "delete_volumes P d =
     (let vs = t_delete P (storage_volumes d)
      in d\<lparr>storage_volumes := vs,
           storage_volumes_config := cascade fst vs (storage_volumes_config d)\<rparr>)"

definition delete_pools :: "(int \<Rightarrow> pool_row \<Rightarrow> bool) \<Rightarrow> db \<Rightarrow> db" where
  "delete_pools P d =
     (let ps = t_delete P (storage_pools d); vs = cascade vo_pool ps (storage_volumes d)
      in d\<lparr>storage_pools := ps,
           storage_pools_config := cascade fst ps (storage_pools_config d),
           storage_volumes := vs,
           storage_volumes_config := cascade fst vs (storage_volumes_config d)\<rparr>)"

definition StoragePoolDelete :: "'o env_scheme \<Rightarrow> string \<Rightarrow> ('a dbworld_scheme, pool) prog" where
  "StoragePoolDelete orc name =
     pbind (StoragePoolGet orc name) (\<lambda>(i, p).
     pbind (Exec orc ''DELETE FROM storage_pools WHERE id=?'' (\<lambda>d. Inr (delete_pools (\<lambda>j _. j = i) d)))
       (\<lambda>_. ret p))"

section \<open>Volumes\<close>

record volume =
  sv_Type :: string
  sv_Name :: string
  sv_Description :: string
  sv_Config :: "string gomap"

definition StoragePoolVolumeTypeToName :: "int \<Rightarrow> string res" where
  "StoragePoolVolumeTypeToName t =
     (if t = StoragePoolVolumeTypeContainer then Inr ''container''
      else if t = StoragePoolVolumeTypeImage then Inr ''image''
      else if t = StoragePoolVolumeTypeCustom then Inr ''custom''
      else Inl (Errorf ''invalid storage volume type'' []))"

definition StoragePoolVolumesGetNames :: "'o env_scheme \<Rightarrow> int \<Rightarrow> ('a dbworld_scheme, int) prog" where
  "StoragePoolVolumesGetNames orc poolID =
     pbind (QueryScan orc ''SELECT name FROM storage_volumes''
              (\<lambda>d. map (vo_name \<circ> snd) (t_where (\<lambda>r. vo_pool r = poolID) (storage_volumes d))))
       (\<lambda>rs. ret (int (length rs)))"

definition StorageVolumeConfigGet :: "'o env_scheme \<Rightarrow> int \<Rightarrow> ('a dbworld_scheme, string gomap) prog" where
  "StorageVolumeConfigGet orc i =
     pbind (QueryScan orc ''SELECT key, value FROM storage_volumes_config''
              (\<lambda>d. map (snd \<circ> snd) (t_where (\<lambda>r. fst r = i) (storage_volumes_config d))))
       (\<lambda>rs. ret (rows_map rs))"

definition StorageVolumeDescriptionGet :: "'o env_scheme \<Rightarrow> int \<Rightarrow> ('a dbworld_scheme, string) prog" where
  "StorageVolumeDescriptionGet orc i =
     pbind (attempt (dbQueryRowScan orc ''SELECT description FROM storage_volumes''
              (\<lambda>d. map (vo_description \<circ> snd) (filter (\<lambda>(j, r). j = i) (t_rows (storage_volumes d)))))) (\<lambda>q.
       case q of
         Inr desc \<Rightarrow> ret (case desc of None \<Rightarrow> [] | Some s \<Rightarrow> s)
       | Inl e \<Rightarrow> if e = ErrNoRows then fail NoSuchObjectError else ret [])"

text \<open>Any error of the query counts as a missing volume.\<close>

definition StoragePoolVolumeGetTypeID :: "'o env_scheme \<Rightarrow> string \<Rightarrow> int \<Rightarrow> int \<Rightarrow> ('a dbworld_scheme, int) prog" where
  "StoragePoolVolumeGetTypeID orc name t poolID =
     pbind (attempt (dbQueryRowScan orc ''SELECT storage_volumes.id FROM storage_volumes JOIN storage_pools''
              (\<lambda>d. map fst (t_where (\<lambda>r. vo_pool r \<in> set (t_ids (storage_pools d)) \<and> vo_pool r = poolID \<and>
                                      vo_name r = name \<and> vo_type r = t) (storage_volumes d))))) (\<lambda>q.
       case q of Inr i \<Rightarrow> ret i | Inl _ \<Rightarrow> fail NoSuchObjectError)"

definition StoragePoolVolumeGetType :: "'o env_scheme \<Rightarrow> string \<Rightarrow> int \<Rightarrow> int \<Rightarrow> ('a dbworld_scheme, int \<times> volume) prog" where
  "StoragePoolVolumeGetType orc name t poolID =
     pbind (StoragePoolVolumeGetTypeID orc name t poolID) (\<lambda>i.
     pbind (StorageVolumeConfigGet orc i) (\<lambda>cfg.
     pbind (StorageVolumeDescriptionGet orc i) (\<lambda>desc.
     pbind (of_res (StoragePoolVolumeTypeToName t)) (\<lambda>tname.
       ret (i, \<lparr>sv_Type = tname, sv_Name = name, sv_Description = desc, sv_Config = cfg\<rparr>)))))"

definition StoragePoolVolumesGetType :: "'o env_scheme \<Rightarrow> int \<Rightarrow> int \<Rightarrow> ('a dbworld_scheme, string list) prog" where
  "StoragePoolVolumesGetType orc t poolID =
     QueryScan orc ''SELECT name FROM storage_volumes WHERE storage_pool_id=? AND type=?''
       (\<lambda>d. map (vo_name \<circ> snd) (t_where (\<lambda>r. vo_pool r = poolID \<and> vo_type r = t) (storage_volumes d)))"

fun volumes_named :: "'o env_scheme \<Rightarrow> int \<Rightarrow> int \<Rightarrow> string list \<Rightarrow> ('a dbworld_scheme, volume list) prog" where
  "volumes_named orc t poolID [] = ret []"
| "volumes_named orc t poolID (n # ns) =
     pbind (StoragePoolVolumeGetType orc n t poolID) (\<lambda>(_, v).
     pbind (volumes_named orc t poolID ns) (\<lambda>vs. ret (v # vs)))"

fun volumes_of_types :: "'o env_scheme \<Rightarrow> int \<Rightarrow> int list \<Rightarrow> ('a dbworld_scheme, volume list) prog" where
  "volumes_of_types orc poolID [] = ret []"
| "volumes_of_types orc poolID (t # ts) =
     pbind (attempt (StoragePoolVolumesGetType orc t poolID)) (\<lambda>q.
       case (case q of Inr ns \<Rightarrow> Inr ns | Inl e \<Rightarrow> if e = ErrNoRows then Inr [] else Inl e) of
         Inl e \<Rightarrow> fail e
       | Inr ns \<Rightarrow>
           pbind (volumes_named orc t poolID ns) (\<lambda>vs.
           pbind (volumes_of_types orc poolID ts) (\<lambda>ws. ret (vs @ ws))))"

definition StoragePoolVolumesGet :: "'o env_scheme \<Rightarrow> int \<Rightarrow> int list \<Rightarrow> ('a dbworld_scheme, volume list) prog" where
  "StoragePoolVolumesGet orc poolID ts =
     pbind (volumes_of_types orc poolID ts) (\<lambda>vs. if vs = [] then fail NoSuchObjectError else ret vs)"

definition insert_volume :: "int \<Rightarrow> int \<Rightarrow> string \<Rightarrow> string \<Rightarrow> db \<Rightarrow> (int \<times> db) res" where
  "insert_volume poolID t name description d =
     (if poolID \<notin> set (t_ids (storage_pools d)) then Inl constraint_failed
      else ebind (t_insert volume_key
                    \<lparr>vo_name = name, vo_description = Some description, vo_pool = poolID, vo_type = t\<rparr>
                    (storage_volumes d)) (\<lambda>(i, tab). Inr (i, d\<lparr>storage_volumes := tab\<rparr>)))"

definition insert_volume_config :: "int \<Rightarrow> string \<Rightarrow> string \<Rightarrow> db \<Rightarrow> db res" where
  "insert_volume_config i k v d =
     ebind (kv_insert (storage_volumes d) (i, k, v) (storage_volumes_config d)) (\<lambda>tab.
       Inr (d\<lparr>storage_volumes_config := tab\<rparr>))"

definition StorageVolumeConfigAdd :: "'o env_scheme \<Rightarrow> int \<Rightarrow> string gomap \<Rightarrow> ('a dbworld_scheme, unit) prog" where
  "StorageVolumeConfigAdd orc i cfg =
     seq_all [Prepare_unchecked orc ''INSERT INTO storage_volumes_config'',
              for_all (\<lambda>(k, v). pwhen (v \<noteq> [])
                (tx_Exec orc ''INSERT INTO storage_volumes_config'' (insert_volume_config i k v))) cfg]"

definition StorageVolumeConfigClear :: "'o env_scheme \<Rightarrow> int \<Rightarrow> ('a dbworld_scheme, unit) prog" where
  "StorageVolumeConfigClear orc i =
     tx_Exec orc ''DELETE FROM storage_volumes_config'' (\<lambda>d.
       Inr (d\<lparr>storage_volumes_config := t_delete (\<lambda>_ r. fst r = i) (storage_volumes_config d)\<rparr>))"

definition update_volumes :: "(int \<Rightarrow> volume_row \<Rightarrow> bool) \<Rightarrow> (volume_row \<Rightarrow> volume_row) \<Rightarrow> db \<Rightarrow> db res" where
  "update_volumes P f d =
     ebind (t_update volume_key P f (storage_volumes d)) (\<lambda>tab. Inr (d\<lparr>storage_volumes := tab\<rparr>))"

definition StorageVolumeDescriptionUpdate :: "'o env_scheme \<Rightarrow> int \<Rightarrow> string \<Rightarrow> ('a dbworld_scheme, unit) prog" where
  "StorageVolumeDescriptionUpdate orc i description =
     tx_Exec orc ''UPDATE storage_volumes SET description''
       (update_volumes (\<lambda>j _. j = i) (\<lambda>r. r\<lparr>vo_description := Some description\<rparr>))"

definition StoragePoolVolumeCreate :: "'o env_scheme \<Rightarrow> string \<Rightarrow> string \<Rightarrow> int \<Rightarrow> int \<Rightarrow> string gomap
    \<Rightarrow> ('a dbworld_scheme, int) prog" where
  "StoragePoolVolumeCreate orc name description t poolID cfg =
     transaction orc
       (pbind (sql orc ''INSERT INTO storage_volumes'' (insert_volume poolID t name description)) (\<lambda>i.
        pbind (StorageVolumeConfigAdd orc i cfg) (\<lambda>_. ret i)))"

definition StoragePoolVolumeUpdate :: "'o env_scheme \<Rightarrow> string \<Rightarrow> int \<Rightarrow> int \<Rightarrow> string \<Rightarrow> string gomap
    \<Rightarrow> ('a dbworld_scheme, unit) prog" where
  "StoragePoolVolumeUpdate orc name t poolID description cfg =
     pbind (StoragePoolVolumeGetType orc name t poolID) (\<lambda>(i, _).
       transaction orc (seq_all
         [StorageVolumeConfigClear orc i, StorageVolumeConfigAdd orc i cfg,
          StorageVolumeDescriptionUpdate orc i description]))"

definition StoragePoolVolumeDelete :: "'o env_scheme \<Rightarrow> string \<Rightarrow> int \<Rightarrow> int \<Rightarrow> ('a dbworld_scheme, unit) prog" where
  "StoragePoolVolumeDelete orc name t poolID =
     pbind (StoragePoolVolumeGetType orc name t poolID) (\<lambda>(i, _).
       Exec orc ''DELETE FROM storage_volumes WHERE id=?'' (\<lambda>d. Inr (delete_volumes (\<lambda>j _. j = i) d)))"

definition StoragePoolVolumeRename :: "'o env_scheme \<Rightarrow> string \<Rightarrow> string \<Rightarrow> int \<Rightarrow> int \<Rightarrow> ('a dbworld_scheme, unit) prog" where
  "StoragePoolVolumeRename orc oldName newName t poolID =
     pbind (StoragePoolVolumeGetType orc oldName t poolID) (\<lambda>(i, _).
       transaction orc (tx_Exec orc ''UPDATE storage_volumes SET name''
         (update_volumes (\<lambda>j r. j = i \<and> vo_type r = t) (\<lambda>r. r\<lparr>vo_name := newName\<rparr>))))"

end
