(* ===== verification/ContainerCore.thy ===== *)
theory ContainerCore
  imports Host DbContainers DbStorage ContainerConfig DeviceSched
begin

text \<open>
  The container object of \<open>apollo/container_mercury.go\<close>: loading it from the database, expanding its
  profiles, its state, and its network devices with the volatile settings that complete them.
  A method runs in a world that holds the object it mutates.
\<close>

section \<open>The object\<close>

text \<open>The calls in order, then a value.\<close>

definition seq_ret :: "'a \<Rightarrow> ('w, unit) prog list \<Rightarrow> ('w, 'a) prog" where
  "seq_ret x ps = pbind (seq_all ps) (\<lambda>_. ret x)"


record ctr =
  ct_architecture :: int
  ct_cType :: int
  ct_creationDate :: int
  ct_lastUsedDate :: int
  ct_ephemeral :: bool
  ct_id :: int
  ct_name :: string
  ct_description :: string
  ct_stateful :: bool
  ct_expandedConfig :: "string gomap"
  ct_expandedDevices :: devices
  ct_localConfig :: "string gomap"
  ct_localDevices :: devices
  ct_profiles :: "string list"

record cworld = dbworld +
  w_ctr :: ctr

type_synonym ('a, 'r) action = "('a cworld_scheme, 'r) prog"

definition this :: "('a, ctr) action" where
  "this = get_world w_ctr"

definition modify_this :: "(ctr \<Rightarrow> ctr) \<Rightarrow> ('a, unit) action" where
  "modify_this f = put_world (\<lambda>w. w\<lparr>w_ctr := f (w_ctr w)\<rparr>)"

text \<open>Calling a method of an object.\<close>

definition enter :: "ctr \<Rightarrow> 'a dbworld_scheme \<Rightarrow> 'a cworld_scheme" where
  "enter c w = \<lparr>w_hist = w_hist w, w_db = w_db w, w_ctr = c, \<dots> = dbworld.more w\<rparr>"

definition leave :: "'a cworld_scheme \<Rightarrow> 'a dbworld_scheme" where
  "leave v = \<lparr>w_hist = w_hist v, w_db = w_db v, \<dots> = cworld.more v\<rparr>"

definition on_container :: "ctr \<Rightarrow> ('a, 'r) action \<Rightarrow> ('a dbworld_scheme, 'r) prog" where
  "on_container c p = (\<lambda>w. case p (enter c w) of (r, v) \<Rightarrow> (r, leave v))"

text \<open>An event that cannot fail: a message to another goroutine.\<close>

definition notify :: "event \<Rightarrow> ('a world_scheme, unit) prog" where
  "notify ev = put_world (emit ev)"

definition deviceTaskSchedulerTrigger :: "string \<Rightarrow> string \<Rightarrow> string \<Rightarrow> ('a world_scheme, unit) prog" where
  "deviceTaskSchedulerTrigger srcType srcName srcStatus =
     notify (Called ''deviceTaskSchedulerTrigger'' [srcType, srcName, srcStatus])"

section \<open>Loading and expansion\<close>

fun profile_overlays :: "(string \<Rightarrow> ('w, 'v gomap) prog) \<Rightarrow> string list \<Rightarrow> 'v gomap \<Rightarrow> ('w, 'v gomap) prog" where
  "profile_overlays profile [] acc = ret acc"
| "profile_overlays profile (p # ps) acc =
     pbind (profile p) (\<lambda>m. profile_overlays profile ps (overlay acc m))"

definition ctr_expandConfig :: "'o env_scheme \<Rightarrow> ('a, unit) action" where
  "ctr_expandConfig orc =
     pbind this (\<lambda>c.
     pbind (profile_overlays (ProfileConfig orc) (ct_profiles c) []) (\<lambda>m.
       modify_this (\<lambda>c. c\<lparr>ct_expandedConfig := overlay m (ct_localConfig c)\<rparr>)))"

definition ctr_expandDevices :: "'o env_scheme \<Rightarrow> ('a, unit) action" where
  "ctr_expandDevices orc =
     pbind this (\<lambda>c.
     pbind (profile_overlays (\<lambda>p. Devices orc p True) (ct_profiles c) []) (\<lambda>m.
       modify_this (\<lambda>c. c\<lparr>ct_expandedDevices := overlay m (ct_localDevices c)\<rparr>)))"

definition ctr_init :: "'o env_scheme \<Rightarrow> ('a, unit) action" where
  "ctr_init orc = seq_all [ctr_expandConfig orc, ctr_expandDevices orc]"

definition ctr_of :: "container_args \<Rightarrow> ctr" where
  "ctr_of args =
     \<lparr>ct_architecture = ca_Architecture args, ct_cType = ca_Ctype args,
      ct_creationDate = ca_CreationDate args, ct_lastUsedDate = ca_LastUsedDate args,
      ct_ephemeral = ca_Ephemeral args, ct_id = ca_Id args, ct_name = ca_Name args,
      ct_description = ca_Description args, ct_stateful = ca_Stateful args,
      ct_expandedConfig = [], ct_expandedDevices = [], ct_localConfig = ca_Config args,
      ct_localDevices = ca_Devices args, ct_profiles = ca_Profiles args\<rparr>"

definition containerMERCURYLoad :: "'o env_scheme \<Rightarrow> container_args \<Rightarrow> ('a dbworld_scheme, ctr) prog" where
  "containerMERCURYLoad orc args = on_container (ctr_of args) (pbind (ctr_init orc) (\<lambda>_. this))"

definition containerLoadByName :: "'o env_scheme \<Rightarrow> string \<Rightarrow> ('a dbworld_scheme, ctr) prog" where
  "containerLoadByName orc name = pbind (ContainerGet orc name) (containerMERCURYLoad orc)"

definition containerLoadById :: "'o env_scheme \<Rightarrow> int \<Rightarrow> ('a dbworld_scheme, ctr) prog" where
  "containerLoadById orc i = pbind (ContainerName orc i) (containerLoadByName orc)"

fun load_all :: "'o env_scheme \<Rightarrow> string list \<Rightarrow> ('a dbworld_scheme, ctr list) prog" where
  "load_all orc [] = ret []"
| "load_all orc (n # ns) =
     pbind (containerLoadByName orc n) (\<lambda>c. pbind (load_all orc ns) (\<lambda>cs. ret (c # cs)))"

definition Snapshots :: "'o env_scheme \<Rightarrow> string \<Rightarrow> ('a dbworld_scheme, ctr list) prog" where
  "Snapshots orc name = pbind (ContainerGetSnapshots orc name) (load_all orc)"

section \<open>State\<close>

definition ctr_IsSnapshot :: "ctr \<Rightarrow> bool" where
  "ctr_IsSnapshot c \<longleftrightarrow> ct_cType c = CTypeSnapshot"

definition ctr_IsPrivileged :: "ctr \<Rightarrow> bool" where
  "ctr_IsPrivileged c \<longleftrightarrow> IsTrue (gm_str (ct_expandedConfig c) ''security.privileged'')"

definition ctr_IsNesting :: "ctr \<Rightarrow> bool" where
  "ctr_IsNesting c \<longleftrightarrow> IsTrue (gm_str (ct_expandedConfig c) ''security.nesting'')"

text \<open>Whether liblxc accepts the configuration is the outside's answer.\<close>

definition initMERCURY :: "'o hostenv_scheme \<Rightarrow> ('a, unit) action" where
  "initMERCURY orc =
     pbind this (\<lambda>c.
       if ctr_IsSnapshot c then ret ()
       else pbind (get_world (\<lambda>w. h_lxc orc (w_hist w) (ct_name c))) (\<lambda>s.
              if s = InitFails then fail (OsError ''liblxc'') else ret ()))"

definition ctr_State :: "'o hostenv_scheme \<Rightarrow> ('a, string) action" where
  "ctr_State orc =
     pbind (attempt (initMERCURY orc)) (\<lambda>r.
       case r of
         Inl _ \<Rightarrow> ret ''Broken''
       | Inr _ \<Rightarrow>
           pbind this (\<lambda>c.
             if ctr_IsSnapshot c then ret ''STOPPED''
             else pbind (get_world (\<lambda>w. h_lxc orc (w_hist w) (ct_name c))) (\<lambda>s.
               case s of LxcState st \<Rightarrow> ret st | _ \<Rightarrow> ret ''Error'')))"

definition ctr_IsRunning :: "'o hostenv_scheme \<Rightarrow> ('a, bool) action" where
  "ctr_IsRunning orc = pbind (ctr_State orc) (\<lambda>st. ret (st \<noteq> ''BROKEN'' \<and> st \<noteq> ''STOPPED''))"

definition ctr_IsFrozen :: "'o hostenv_scheme \<Rightarrow> ('a, bool) action" where
  "ctr_IsFrozen orc = pbind (ctr_State orc) (\<lambda>st. ret (st = ''FROZEN''))"

definition CGroupGet :: "'o hostenv_scheme \<Rightarrow> string \<Rightarrow> ('a, string) action" where
  "CGroupGet orc key =
     pbind (initMERCURY orc) (\<lambda>_.
     pbind (ctr_IsRunning orc) (\<lambda>running.
       if \<not> running then fail (Errorf ''Can't get cgroups on a stopped container'' [])
       else pbind this (\<lambda>c. get_world (\<lambda>w. Join [CHR 10] (h_cgroup orc (w_hist w) (ct_name c) key)))))"

definition CGroupSet :: "'o hostenv_scheme \<Rightarrow> string \<Rightarrow> string \<Rightarrow> ('a, unit) action" where
  "CGroupSet orc key v =
     pbind (initMERCURY orc) (\<lambda>_.
     pbind (ctr_IsRunning orc) (\<lambda>running.
       if \<not> running then fail (Errorf ''Can't set cgroups on a stopped container'' [])
       else pbind this (\<lambda>c.
         pbind (attempt (perform orc (Called ''SetCgroupItem'' [ct_name c, key, v]))) (\<lambda>r.
           case r of
             Inr _ \<Rightarrow> ret ()
           | Inl _ \<Rightarrow> fail (Errorf ''Failed to set cgroup %s=\"%s\": %s'' [key, v])))))"


section \<open>Volatile settings of network devices\<close>

definition updateKey :: "'o env_scheme \<Rightarrow> string \<Rightarrow> string \<Rightarrow> ('a, unit) action" where
  "updateKey orc key v =
     pbind this (\<lambda>c. transaction orc (ContainerConfigInsert orc (ct_id c) [(key, v)]))"

definition set_volatile :: "string \<Rightarrow> string \<Rightarrow> ('a, unit) action" where
  "set_volatile key v =
     modify_this (\<lambda>c. c\<lparr>ct_localConfig := gm_set (ct_localConfig c) key v,
                        ct_expandedConfig := gm_set (ct_expandedConfig c) key v\<rparr>)"

text \<open>
  The value of a volatile key: the recorded one, or a new one that is recorded. Where the recording
  fails because another one is there by now, the object takes over the other one, and the caller
  still gets the new one.
\<close>

definition volatile_value :: "'o env_scheme \<Rightarrow> string \<Rightarrow> ('a, string) action \<Rightarrow> ('a, string) action" where
  "volatile_value orc key gen =
     pbind this (\<lambda>c.
       if gm_str (ct_localConfig c) key \<noteq> [] then ret (gm_str (ct_localConfig c) key)
       else pbind gen (\<lambda>v.
            pbind (attempt (updateKey orc key v)) (\<lambda>r.
              case r of
                Inr _ \<Rightarrow> pbind (set_volatile key v) (\<lambda>_. ret v)
              | Inl e \<Rightarrow>
                  pbind (attempt (ContainerConfigGet orc (ct_id c) key)) (\<lambda>r1.
                    case r1 of
                      Inl _ \<Rightarrow> fail e
                    | Inr v1 \<Rightarrow>
                        if v1 = [] then fail e
                        else pbind (set_volatile key v1) (\<lambda>_. ret v)))))"

definition new_hwaddr :: "'o hostenv_scheme \<Rightarrow> ('a, string) action" where
  "new_hwaddr orc =
     get_world (\<lambda>w. deviceNextInterfaceHWAddr (map (h_rand orc (w_hist w)) [0, 1, 2, 3, 4, 5]))"

definition add_new :: "string list \<Rightarrow> string list \<Rightarrow> string list" where
  "add_new acc xs = foldl (\<lambda>a x. if StringInSlice x a then a else a @ [x]) acc xs"

text \<open>The names that are taken: static ones, recorded ones, and those of the running container.\<close>

definition static_names :: "devices \<Rightarrow> string list" where
  "static_names ds = filter (\<lambda>n. n \<noteq> []) (map (\<lambda>(k, v). gm_str v ''name'') ds)"

definition volatile_names :: "string gomap \<Rightarrow> string list" where
  "volatile_names m =
     map snd (filter (\<lambda>(k, v). HasPrefix k ''volatile.'' \<and>
       (case SplitN3 (CHR ''.'') k of [_, _, f] \<Rightarrow> f = ''name'' | _ \<Rightarrow> False)) m)"

fun free_eth :: "nat \<Rightarrow> nat \<Rightarrow> string list \<Rightarrow> string" where
  "free_eth 0 i taken = ''eth'' @ show_nat i"
| "free_eth (Suc n) i taken =
     (if \<not> StringInSlice (''eth'' @ show_nat i) taken then ''eth'' @ show_nat i
      else free_eth n (i + 1) taken)"

definition nextInterfaceName :: "'o hostenv_scheme \<Rightarrow> ('a, string) action" where
  "nextInterfaceName orc =
     pbind this (\<lambda>c.
       get_world (\<lambda>w.
         let taken = add_new (add_new (add_new [] (static_names (ct_expandedDevices c)))
               (volatile_names (ct_expandedConfig c))) (h_nics orc (w_hist w) (ct_name c))
         in free_eth (length taken) 0 taken))"

definition fillNetworkDevice :: "'o hostenv_scheme \<Rightarrow> string \<Rightarrow> device \<Rightarrow> ('a, device) action" where
  "fillNetworkDevice orc name m =
     pbind (if gm_str m ''nictype'' \<noteq> ''physical'' \<and> gm_str m ''hwaddr'' = []
            then pbind (volatile_value orc (''volatile.'' @ name @ ''.hwaddr'') (new_hwaddr orc))
                   (\<lambda>v. ret (gm_set m ''hwaddr'' v))
            else ret m) (\<lambda>d1.
     pbind (if gm_str m ''name'' = []
            then pbind (volatile_value orc (''volatile.'' @ name @ ''.name'') (nextInterfaceName orc))
                   (\<lambda>v. ret (gm_set d1 ''name'' v))
            else ret d1) (\<lambda>d2.
     pbind this (\<lambda>c.
       ret (if gm_str m ''host_name'' = [] \<and> StringInSlice (gm_str m ''nictype'') [''bridged'', ''p2p'']
            then gm_set d2 ''host_name'' (gm_str (ct_localConfig c) (''volatile.'' @ name @ ''.host_name''))
            else d2))))"

section \<open>Filters\<close>

definition createNetworkFilter :: "'o env_scheme \<Rightarrow> string \<Rightarrow> string \<Rightarrow> string \<Rightarrow> ('a world_scheme, unit) prog" where
  "createNetworkFilter orc name bridge hwaddr =
     seq_all
       [run_cmd orc [''ebtables'', ''-A'', ''FORWARD'', ''-s'', ''!'', hwaddr, ''-i'', name, ''-o'', bridge, ''-j'', ''DROP''],
        run_cmd orc [''ebtables'', ''-A'', ''INPUT'', ''-s'', ''!'', hwaddr, ''-i'', name, ''-j'', ''DROP'']]"

text \<open>What a line of the listing makes the removal run.\<close>

definition filter_line :: "string \<Rightarrow> string \<Rightarrow> string \<Rightarrow> string list option" where
  "filter_line hwaddr bridge line =
     (let f = Fields (TrimSpace line)
      in if length f = 12 then
           (if f = [''ebtables'', ''-t'', ''filter'', ''-A'', ''INPUT'', ''-s'', ''!'', hwaddr, ''-i'', f ! 9, ''-j'', ''DROP'']
            then Some (f[3 := ''-D'']) else None)
         else if length f = 14 then
           (if f = [''ebtables'', ''-t'', ''filter'', ''-A'', ''FORWARD'', ''-s'', ''!'', hwaddr, ''-i'', f ! 9,
                    ''-o'', bridge, ''-j'', ''DROP'']
            then Some (f[3 := ''-D'']) else None)
         else None)"

definition removeNetworkFilter :: "'o env_scheme \<Rightarrow> string \<Rightarrow> string \<Rightarrow> ('a world_scheme, unit) prog" where
  "removeNetworkFilter orc hwaddr bridge =
     pbind (run_output orc [''ebtables'', ''-L'', ''--Lmac2'', ''--Lx'']) (\<lambda>(out, _).
       for_all (\<lambda>line. case filter_line hwaddr bridge line of
                         None \<Rightarrow> ret () | Some cmd \<Rightarrow> run_cmd orc cmd) (Split (CHR 10) out))"

definition removeNetworkFilters :: "'o hostenv_scheme \<Rightarrow> ('a, unit) action" where
  "removeNetworkFilters orc =
     pbind this (\<lambda>c.
       for_all (\<lambda>(k, m).
         pwhen (\<not> (gm_str m ''type'' \<noteq> ''nic'' \<or> gm_str m ''nictype'' \<noteq> ''bridged''))
           (pbind (fillNetworkDevice orc k m) (\<lambda>d.
              removeNetworkFilter orc (gm_str d ''hwaddr'') (gm_str d ''parent''))))
         (ct_expandedDevices c))"

section \<open>Network devices\<close>

definition veth_pair :: "'o hostenv_scheme \<Rightarrow> device \<Rightarrow> string \<Rightarrow> ('a world_scheme, string) prog" where
  "veth_pair orc m n1 =
     pbind (deviceNextVeth orc 1) (\<lambda>n2.
     pbind (attempt (run_cmd orc [''ip'', ''link'', ''add'', ''dev'', n1, ''type'', ''veth'', ''peer'', ''name'', n2])) (\<lambda>r.
       case r of
         Inl _ \<Rightarrow> fail (Errorf ''Failed to create the veth interface: %s'' [])
       | Inr _ \<Rightarrow>
     pbind (attempt (run_cmd orc [''ip'', ''link'', ''set'', ''dev'', n1, ''up''])) (\<lambda>r.
       case r of
         Inl _ \<Rightarrow> fail (Errorf ''Failed to bring up the veth interface %s: %s'' [n1])
       | Inr _ \<Rightarrow>
           if gm_str m ''nictype'' = ''bridged'' then
             pbind (attempt (networkAttachInterface orc (gm_str m ''parent'') n1)) (\<lambda>r.
               case r of
                 Inl _ \<Rightarrow> pbind (ignoring (deviceRemoveInterface orc n2)) (\<lambda>_.
                            fail (Errorf ''Failed to add interface to bridge: %s'' []))
               | Inr _ \<Rightarrow> pbind (ignoring (networkSysctl orc (''ipv6/conf/'' @ n1 @ ''/disable_ipv6'') ''1''))
                            (\<lambda>_. ret n2))
           else ret n2)))"

definition vlan_device :: "'o hostenv_scheme \<Rightarrow> device \<Rightarrow> ('a world_scheme, string) prog" where
  "vlan_device orc m =
     (if gm_str m ''vlan'' = [] then ret (gm_str m ''parent'')
      else pbind (networkGetHostDevice orc (gm_str m ''parent'') (gm_str m ''vlan'')) (\<lambda>device.
           pbind (path_exists orc (''/sys/class/net/'' @ device)) (\<lambda>ex.
             if ex then ret device
             else pbind (run_cmd orc [''ip'', ''link'', ''add'', ''link'', gm_str m ''parent'', ''name'', device,
                    ''up'', ''type'', ''vlan'', ''id'', gm_str m ''vlan'']) (\<lambda>_.
                  pbind (ignoring (networkSysctl orc (''ipv6/conf/'' @ device @ ''/disable_ipv6'') ''1''))
                    (\<lambda>_. ret device)))))"

definition or_remove :: "'o env_scheme \<Rightarrow> string \<Rightarrow> string list \<Rightarrow> string \<Rightarrow> ('a world_scheme, unit) prog" where
  "or_remove orc dev cmd msg =
     pbind (attempt (run_cmd orc cmd)) (\<lambda>r.
       case r of
         Inr _ \<Rightarrow> ret ()
       | Inl _ \<Rightarrow> pbind (ignoring (deviceRemoveInterface orc dev)) (\<lambda>_. fail (Errorf msg [])))"

definition createNetworkDevice :: "'o hostenv_scheme \<Rightarrow> string \<Rightarrow> device \<Rightarrow> ('a world_scheme, string) prog" where
  "createNetworkDevice orc name m =
     (let nictype = gm_str m ''nictype'' in
      pbind (if StringInSlice nictype [''bridged'', ''p2p'', ''macvlan''] then
               (if gm_str m ''host_name'' \<noteq> [] then ret (gm_str m ''host_name'') else deviceNextVeth orc 0)
             else ret []) (\<lambda>n1.
      pbind (if StringInSlice nictype [''bridged'', ''p2p''] then veth_pair orc m n1 else ret []) (\<lambda>dev0.
      pbind (if StringInSlice nictype [''physical'', ''macvlan''] then
               pbind (vlan_device orc m) (\<lambda>device.
                 if nictype = ''physical'' then ret device
                 else pbind (attempt (run_cmd orc [''ip'', ''link'', ''add'', ''dev'', n1, ''link'', device,
                        ''type'', ''macvlan'', ''mode'', ''bridge''])) (\<lambda>r.
                      case r of
                        Inl _ \<Rightarrow> fail (Errorf ''Failed to create the new macvlan interface: %s'' [])
                      | Inr _ \<Rightarrow> ret n1))
             else ret dev0) (\<lambda>dev.
      seq_ret dev
        [pwhen (gm_str m ''hwaddr'' \<noteq> [])
           (or_remove orc dev [''ip'', ''link'', ''set'', ''dev'', dev, ''address'', gm_str m ''hwaddr'']
              ''Failed to set the MAC address: %s''),
         or_remove orc dev [''ip'', ''link'', ''set'', ''dev'', dev, ''up''] ''Failed to bring up the interface: %s'',
         pwhen (nictype = ''bridged'' \<and> IsTrue (gm_str m ''security.mac_filtering''))
           (createNetworkFilter orc dev (gm_str m ''parent'') (gm_str m ''hwaddr''))]))))"

definition insertNetworkDevice :: "'o hostenv_scheme \<Rightarrow> string \<Rightarrow> device \<Rightarrow> ('a, unit) action" where
  "insertNetworkDevice orc name m0 =
     pbind (attempt (initMERCURY orc)) (\<lambda>r. case r of Inl _ \<Rightarrow> ret () | Inr _ \<Rightarrow>
     pbind (attempt (fillNetworkDevice orc name m0)) (\<lambda>r. case r of Inl _ \<Rightarrow> ret () | Inr m \<Rightarrow>
     pbind (path_exists orc (''/sys/class/net/'' @ gm_str m ''parent'')) (\<lambda>ex.
       if gm_str m ''parent'' \<noteq> [] \<and> \<not> ex
       then fail (Errorf ''Parent device '%s' doesn't exist'' [gm_str m ''parent''])
       else pbind (ctr_IsRunning orc) (\<lambda>running.
         if \<not> running then fail (Errorf ''Can't insert device into stopped container'' [])
         else pbind (createNetworkDevice orc name m) (\<lambda>devName.
              pbind this (\<lambda>c.
              pbind (attempt (perform orc (Called ''AttachInterface'' [ct_name c, devName, gm_str m ''name'']))) (\<lambda>r.
                case r of
                  Inr _ \<Rightarrow> ret ()
                | Inl _ \<Rightarrow> fail (Errorf ''Failed to attach interface: %s: %s'' [devName]))))))))"

definition removeNetworkDevice :: "'o hostenv_scheme \<Rightarrow> string \<Rightarrow> device \<Rightarrow> ('a, unit) action" where
  "removeNetworkDevice orc name m0 =
     pbind (attempt (initMERCURY orc)) (\<lambda>r. case r of Inl _ \<Rightarrow> ret () | Inr _ \<Rightarrow>
     pbind (attempt (fillNetworkDevice orc name m0)) (\<lambda>r. case r of Inl _ \<Rightarrow> ret () | Inr m \<Rightarrow>
     pbind (ctr_IsRunning orc) (\<lambda>running.
       if \<not> running then fail (Errorf ''Can't insert device into stopped container'' [])
       else
         pbind (if gm_str m ''nictype'' = ''physical'' then ret (gm_str m ''parent'') else deviceNextVeth orc 0) (\<lambda>hostName.
         pbind this (\<lambda>c.
         pbind (perform orc (Called ''NewContainer'' [ct_name c])) (\<lambda>_.
         pbind (attempt (perform orc (Called ''DetachInterfaceRename'' [ct_name c, gm_str m ''name'', hostName]))) (\<lambda>r.
           case r of
             Inl _ \<Rightarrow> fail (Errorf ''Failed to detach interface: %s: %s'' [gm_str m ''name''])
           | Inr _ \<Rightarrow>
               seq_all
                 [pwhen (gm_str m ''nictype'' \<noteq> ''physical'') (ignoring (deviceRemoveInterface orc hostName)),
                  pwhen (gm_str m ''nictype'' = ''bridged'')
                    (removeNetworkFilter orc (gm_str m ''hwaddr'') (gm_str m ''parent''))])))))))"

end
