(* ===== verification/NetworkConfig.thy ===== *)
theory NetworkConfig
  imports ConfigKeys Devices GoNet Effects
begin

text \<open>
  Networks: the validation of their configuration (\<open>apollo/networks_config.go\<close>) and the helpers of
  \<open>apollo/networks_utils.go\<close>.
\<close>

section \<open>Value checkers\<close>

definition name_char :: "char \<Rightarrow> bool" where
  "name_char c \<longleftrightarrow> is_digit c \<or> is_lower c \<or> is_upper c \<or> c = CHR ''-''"

definition networkValidName :: checker where
  "networkValidName v =
     (if length v < 2 then Inl (Errorf ''Interface name is too short (minimum 2 characters)'' [])
      else if length v > 15 then Inl (Errorf ''Interface name is too long (maximum 15 characters)'' [])
      else if \<not> list_all name_char v then Inl (Errorf ''Interface name contains invalid characters'' [])
      else Inr ())"

definition networkValidPort :: checker where
  "networkValidPort v =
     (if v = [] then Inr ()
      else case ParseInt v 10 64 of
             Inl _ \<Rightarrow> Inl (Errorf ''Invalid value for an integer: %s'' [v])
           | Inr n \<Rightarrow>
               if n < 1 \<or> n > 65536 then Inl (Errorf ''Invalid port number: %s'' [v]) else Inr ())"

definition networkValidAddressCIDRV6 :: checker where
  "networkValidAddressCIDRV6 v =
     (if v = [] then Inr ()
      else ebind (ParseCIDR v) (\<lambda>(i, subnet).
        if To4 i \<noteq> None then Inl (Errorf ''Not an IPv6 address: %s'' [v])
        else if ip_String i = ip_String (n_ip subnet)
        then Inl (Errorf ''Not a usable IPv6 address: %s'' [v])
        else Inr ()))"

definition networkValidAddressCIDRV4 :: checker where
  "networkValidAddressCIDRV4 v =
     (if v = [] then Inr ()
      else ebind (ParseCIDR v) (\<lambda>(i, subnet).
        if To4 i = None then Inl (Errorf ''Not an IPv4 address: %s'' [v])
        else if ip_String i = ip_String (n_ip subnet)
        then Inl (Errorf ''Not a usable IPv4 address: %s'' [v])
        else Inr ()))"

definition networkValidAddressV4 :: checker where
  "networkValidAddressV4 v =
     (if v = [] then Inr ()
      else if ParseIP v = None then Inl (Errorf ''Not an IPv4 address: %s'' [v])
      else Inr ())"

definition networkValidNetworkV4 :: checker where
  "networkValidNetworkV4 v =
     (if v = [] then Inr ()
      else ebind (ParseCIDR v) (\<lambda>(i, subnet).
        if To4 i = None then Inl (Errorf ''Not an IPv4 network: %s'' [v])
        else if ip_String i \<noteq> ip_String (n_ip subnet)
        then Inl (Errorf ''Not an IPv4 network address: %s'' [v])
        else Inr ()))"

section \<open>The table of keys\<close>

definition external_interfaces_checker :: checker where
  "external_interfaces_checker v =
     (if v = [] then Inr ()
      else check_all (\<lambda>(entry0, _).
             let entry = TrimSpace entry0
             in if networkValidName entry \<noteq> Inr ()
                then Inl (Errorf (''Invalid interface name '%s'' @ [CHR 39]) [entry]) else Inr ())
           (map (\<lambda>e. (e, ())) (Split (CHR '','') v)))"

definition underlay_checker :: checker where
  "underlay_checker v = (if v = ''auto'' then Inr () else networkValidNetworkV4 v)"

definition address_checker :: "checker \<Rightarrow> checker" where
  "address_checker valid v =
     (if IsOneOf v [''none'', ''auto''] = Inr () then Inr () else valid v)"

definition networkConfigKeys :: "(string \<times> checker) list" where
  "networkConfigKeys =
     [(''bridge.driver'', \<lambda>v. IsOneOf v [''native'', ''openvswitch'']),
      (''bridge.external_interfaces'', external_interfaces_checker),
      (''bridge.mtu'', IsInt64),
      (''bridge.mode'', \<lambda>v. IsOneOf v [''standard'', ''fan'']),
      (''fan.overlay_subnet'', networkValidNetworkV4),
      (''fan.underlay_subnet'', underlay_checker),
      (''fan.type'', \<lambda>v. IsOneOf v [''vxlan'', ''ipip'']),
      (''tunnel.TARGET.protocol'', \<lambda>v. IsOneOf v [''gre'', ''vxlan'']),
      (''tunnel.TARGET.local'', networkValidAddressV4),
      (''tunnel.TARGET.remote'', networkValidAddressV4),
      (''tunnel.TARGET.port'', networkValidPort),
      (''tunnel.TARGET.group'', networkValidAddressV4),
      (''tunnel.TARGET.id'', IsInt64),
      (''tunnel.TARGET.interface'', networkValidName),
      (''ipv4.address'', address_checker networkValidAddressCIDRV4),
      (''ipv4.firewall'', IsBool),
      (''ipv4.nat'', IsBool),
      (''ipv4.dhcp'', IsBool),
      (''ipv4.dhcp.expiry'', IsAny),
      (''ipv4.dhcp.ranges'', IsAny),
      (''ipv4.routes'', IsAny),
      (''ipv4.routing'', IsBool),
      (''ipv6.address'', address_checker networkValidAddressCIDRV6),
      (''ipv6.firewall'', IsBool),
      (''ipv6.nat'', IsBool),
      (''ipv6.dhcp'', IsBool),
      (''ipv6.dhcp.expiry'', IsAny),
      (''ipv6.dhcp.stateful'', IsBool),
      (''ipv6.dhcp.ranges'', IsAny),
      (''ipv6.routes'', IsAny),
      (''ipv6.routing'', IsBool),
      (''dns.domain'', IsAny),
      (''dns.mode'', \<lambda>v. IsOneOf v [''dynamic'', ''managed'', ''none'']),
      (''raw.dnsmasq'', IsAny)]"

section \<open>Validation\<close>

fun tunnels_loop :: "string list \<Rightarrow> string gomap \<Rightarrow> string list" where
  "tunnels_loop acc [] = acc"
| "tunnels_loop acc ((k, _) # m) =
     (if \<not> HasPrefix k ''tunnel.'' then tunnels_loop acc m
      else let t = Split (CHR ''.'') k ! 1
           in tunnels_loop (if \<not> StringInSlice t acc then acc @ [t] else acc) m)"

definition networkGetTunnels :: "string gomap \<Rightarrow> string list" where
  "networkGetTunnels config = tunnels_loop [] config"

definition mtu_check :: "string gomap \<Rightarrow> string \<Rightarrow> unit res" where
  "mtu_check config v =
     (case ParseInt v 10 64 of
        Inl _ \<Rightarrow> Inl (Errorf ''Invalid value for an integer: %s'' [v])
      | Inr mtu \<Rightarrow>
          let ipv6 = gm_str config ''ipv6.address''; ipv4 = gm_str config ''ipv4.address''
          in if ipv6 \<noteq> [] \<and> ipv6 \<noteq> ''none'' \<and> mtu < 1280
             then Inl (Errorf ''The minimum MTU for an IPv6 network is 1280'' [])
             else if ipv4 \<noteq> [] \<and> ipv4 \<noteq> ''none'' \<and> mtu < 68
             then Inl (Errorf ''The minimum MTU for an IPv4 network is 68'' [])
             else if gm_str config ''bridge.mode'' = ''fan'' \<and> gm_str config ''fan.type'' = ''ipip'' \<and> mtu > 1480
             then Inl (Errorf ''Maximum MTU for an IPIP FAN bridge is 1480'' [])
             else if gm_str config ''bridge.mode'' = ''fan'' \<and> gm_str config ''fan.type'' \<noteq> ''ipip'' \<and> mtu > 1450
             then Inl (Errorf ''Maximum MTU for a VXLAN FAN bridge is 1450'' [])
             else if length (networkGetTunnels config) > 0 \<and> mtu > 1400
             then Inl (Errorf ''Maximum MTU when using tunnels is 1400'' [])
             else Inr ())"

text \<open>The key under which a key is looked up in the table.\<close>

definition table_key :: "string \<Rightarrow> string \<Rightarrow> string res" where
  "table_key name k =
     (if HasPrefix k ''tunnel.'' then
        (let fields = Split (CHR ''.'') k
         in if length fields \<noteq> 3 then Inl (Errorf ''Invalid network configuration key: %s'' [k])
            else if length name + length (fields ! 1) > 14
            then Inl (Errorf ''Network name too long for tunnel interface: %s-%s'' [name, fields ! 1])
            else Inr (''tunnel.TARGET.'' @ fields ! 2))
      else Inr k)"

definition network_key_check :: "string \<Rightarrow> string gomap \<Rightarrow> string \<times> string \<Rightarrow> unit res" where
  "network_key_check name config = (\<lambda>(k, v).
     let fan = (gm_str config ''bridge.mode'' = ''fan'')
     in if HasPrefix k ''user.'' then Inr ()
        else ebind (table_key name k) (\<lambda>key.
          case map_of networkConfigKeys key of
            None \<Rightarrow> Inl (Errorf ''Invalid network configuration key: %s'' [k])
          | Some validator \<Rightarrow>
              ebind (validator v) (\<lambda>_.
                if fan \<and> HasPrefix key ''ipv4.'' \<and> v \<noteq> []
                then Inl (Errorf ''IPv4 configuration may not be set when in 'fan' mode'' [])
                else if fan \<and> HasPrefix key ''ipv6.'' \<and> v \<noteq> []
                then Inl (Errorf ''IPv6 configuration may not be set when in 'fan' mode'' [])
                else if \<not> fan \<and> HasPrefix key ''fan.'' \<and> v \<noteq> []
                then Inl (Errorf ''FAN configuration may only be set when in 'fan' mode'' [])
                else if key = ''bridge.mtu'' \<and> v \<noteq> [] then mtu_check config v
                else Inr ())))"

definition networkValidateConfig :: "string \<Rightarrow> string gomap \<Rightarrow> unit res" where
  "networkValidateConfig name config =
     (if gm_str config ''bridge.mode'' = ''fan'' \<and> length name > 11
      then Inl (Errorf ''Network name too long to use with the FAN (must be 11 characters or less)'' [])
      else check_all (network_key_check name config) config)"

section \<open>Addresses of a subnet\<close>

definition ip_nat :: "byte list \<Rightarrow> nat" where
  "ip_nat bs = foldl (\<lambda>n b. n * 256 + unat b) 0 bs"

text \<open>\<open>big.Int.Bytes\<close>: big endian without leading zeros, of the absolute value.\<close>

fun big_bytes :: "nat \<Rightarrow> byte list" where
  "big_bytes n = (if n = 0 then [] else big_bytes (n div 256) @ [of_nat n])"

declare big_bytes.simps [simp del]

definition put_uint32 :: "32 word \<Rightarrow> byte list" where
  "put_uint32 w = [ucast (drop_bit 24 w), ucast (drop_bit 16 w), ucast (drop_bit 8 w), ucast w]"

text \<open>The number of hosts is a power of two, which the source's floating point computes exactly.\<close>

definition networkGetIP :: "ipnet \<Rightarrow> int \<Rightarrow> ip" where
  "networkGetIP subnet host =
     (let bigIP = int (ip_nat (case To16 (n_ip subnet) of None \<Rightarrow> [] | Some i \<Rightarrow> i));
          (ones, bits) = mask_Size (n_mask subnet);
          bigCount = (if host < 0 then 2 ^ (bits - ones) + host else host);
          total = bigIP + bigCount
      in if To4 (n_ip subnet) = None then big_bytes (nat \<bar>total\<bar>)
         else put_uint32 (word_of_int total))"

text \<open>
  The address of a host on the fan overlay; \<open>found\<close> is what \<open>networkAddressForSubnet\<close> answers for
  the underlay.
\<close>

definition fan_bytes :: "ipnet \<Rightarrow> nat \<Rightarrow> nat \<Rightarrow> byte list \<Rightarrow> byte list" where
  "fan_bytes overlay overlaySize underlaySize b =
     (let b0 = n_ip overlay ! 0;
          b1 = (if overlaySize = 16 then n_ip overlay ! 1
                else if underlaySize = 24 then 0
                else if underlaySize = 16 then b ! 2
                else b ! 1)
      in [b0, b1, b ! 3, 1])"

definition networkFanAddress :: "(ip \<times> string) res \<Rightarrow> ipnet \<Rightarrow> ipnet \<Rightarrow> (string \<times> string \<times> string) res" where
  "networkFanAddress found underlay overlay =
     (let underlaySize = fst (mask_Size (n_mask underlay));
          overlaySize = fst (mask_Size (n_mask overlay))
      in if underlaySize \<noteq> 16 \<and> underlaySize \<noteq> 24
         then Inl (Errorf ''Only /16 or /24 underlays are supported at this time'' [])
         else if overlaySize \<noteq> 8 \<and> overlaySize \<noteq> 16
         then Inl (Errorf ''Only /8 or /16 overlays are supported at this time'' [])
         else if overlaySize + (32 - underlaySize) + 8 > 32
         then Inl (Errorf ''Underlay or overlay networks too large to accommodate the FAN'' [])
         else ebind found (\<lambda>(i, dev).
           case To4 i of
             None \<Rightarrow> Inl (Errorf ''Invalid IPv4: %s'' [ip_String i])
           | Some b \<Rightarrow>
               if length (n_ip overlay) < 2 then Inl (Panic ''index out of range'')
               else Inr (ip_String (fan_bytes overlay overlaySize underlaySize b) @ ''/'' @ show_nat overlaySize,
                         dev, ip_String i)))"

fun addrs_loop :: "ipnet \<Rightarrow> string \<Rightarrow> string list \<Rightarrow> (ip \<times> string) option" where
  "addrs_loop subnet name [] = None"
| "addrs_loop subnet name (a # as) =
     (case ParseCIDR a of
        Inl _ \<Rightarrow> addrs_loop subnet name as
      | Inr (i, _) \<Rightarrow> if net_Contains subnet i then Some (i, name) else addrs_loop subnet name as)"

fun ifaces_loop :: "ipnet \<Rightarrow> (string \<times> string list res) list \<Rightarrow> (ip \<times> string) res" where
  "ifaces_loop subnet [] = Inl (Errorf ''No address found in subnet'' [])"
| "ifaces_loop subnet ((name, addrs) # is) =
     (case addrs of
        Inl _ \<Rightarrow> ifaces_loop subnet is
      | Inr as \<Rightarrow> (case addrs_loop subnet name as of
                     Some r \<Rightarrow> Inr r | None \<Rightarrow> ifaces_loop subnet is))"

text \<open>\<open>ifaces\<close> is the host's list of interfaces with their addresses.\<close>

definition networkAddressForSubnet :: "(string \<times> string list res) list res \<Rightarrow> ipnet \<Rightarrow> (ip \<times> string) res" where
  "networkAddressForSubnet ifaces subnet = ebind ifaces (ifaces_loop subnet)"

end
