(* ===== verification/DbNetworks.thy ===== *)
theory DbNetworks
  imports Sql
begin

text \<open>Networks in the database: \<open>apollo/db/networks.go\<close>.\<close>

record network =
  nw_Name :: string
  nw_Description :: string
  nw_Config :: "string gomap"

definition Networks :: "'o env_scheme \<Rightarrow> ('a dbworld_scheme, string list) prog" where
  "Networks orc = QueryScan orc ''SELECT name FROM networks'' (\<lambda>d. map na_name (t_vals (networks d)))"

definition NetworkConfigGet :: "'o env_scheme \<Rightarrow> int \<Rightarrow> ('a dbworld_scheme, string gomap) prog" where
  "NetworkConfigGet orc i =
     pbind (attempt (QueryScan orc ''SELECT key, value FROM networks_config''
              (\<lambda>d. map (snd \<circ> snd) (t_where (\<lambda>r. fst r = i) (networks_config d)))))
       (\<lambda>q. case q of
          Inl _ \<Rightarrow> fail (Errorf (''Failed to get network '%d'' @ [CHR 39]) [show_int i])
        | Inr rs \<Rightarrow>
            if rs = [] then
              pbind (QueryScan orc ''SELECT id FROM networks WHERE id=?''
                       (\<lambda>d. filter (\<lambda>j. j = i) (t_ids (networks d))))
                (\<lambda>ids. if ids = [] then fail NoSuchObjectError else ret [])
            else ret (rows_map rs))"

definition NetworkGet :: "'o env_scheme \<Rightarrow> string \<Rightarrow> ('a dbworld_scheme, int \<times> network) prog" where
  "NetworkGet orc name =
     pbind (dbQueryRowScan orc ''SELECT id, description FROM networks''
              (\<lambda>d. t_where (\<lambda>r. na_name r = name) (networks d))) (\<lambda>(i, r).
     pbind (NetworkConfigGet orc i) (\<lambda>cfg.
       ret (i, \<lparr>nw_Name = name,
                nw_Description = (case na_description r of None \<Rightarrow> [] | Some s \<Rightarrow> s),
                nw_Config = cfg\<rparr>)))"

text \<open>The last network that lists the interface wins.\<close>

definition interface_owner :: "string \<Rightarrow> (int \<times> string \<times> string) list \<Rightarrow> (int \<times> string) option" where
  "interface_owner devName rs =
     foldl (\<lambda>acc (i, name, v).
       if list_ex (\<lambda>entry. TrimSpace entry = devName) (Split (CHR '','') v) then Some (i, name) else acc) None rs"

definition NetworkGetInterface :: "'o env_scheme \<Rightarrow> string \<Rightarrow> ('a dbworld_scheme, int \<times> network) prog" where
  "NetworkGetInterface orc devName =
     pbind (QueryScan orc ''SELECT networks.id, networks.name, networks_config.value FROM networks''
              (\<lambda>d. concat (map (\<lambda>(i, n). map (\<lambda>(_, r). (i, na_name n, snd (snd r)))
                     (t_where (\<lambda>r. fst r = i \<and> fst (snd r) = ''bridge.external_interfaces'') (networks_config d)))
                   (t_rows (networks d))))) (\<lambda>rs.
       case interface_owner devName rs of
         None \<Rightarrow> fail (Errorf ''No network found for interface: %s'' [devName])
       | Some (i, name) \<Rightarrow>
           if i = -1 then fail (Errorf ''No network found for interface: %s'' [devName])
           else pbind (NetworkConfigGet orc i) (\<lambda>cfg.
                  ret (i, \<lparr>nw_Name = name, nw_Description = [], nw_Config = cfg\<rparr>)))"

definition insert_network :: "string \<Rightarrow> string \<Rightarrow> db \<Rightarrow> (int \<times> db) res" where
  "insert_network name description d =
     ebind (t_insert (Some \<circ> na_name) \<lparr>na_name = name, na_description = Some description\<rparr> (networks d))
       (\<lambda>(i, tab). Inr (i, d\<lparr>networks := tab\<rparr>))"

definition insert_network_config :: "int \<Rightarrow> string \<Rightarrow> string \<Rightarrow> db \<Rightarrow> db res" where
  "insert_network_config i k v d =
     ebind (kv_insert (networks d) (i, k, v) (networks_config d)) (\<lambda>tab. Inr (d\<lparr>networks_config := tab\<rparr>))"

definition NetworkConfigAdd :: "'o env_scheme \<Rightarrow> int \<Rightarrow> string gomap \<Rightarrow> ('a dbworld_scheme, unit) prog" where
  "NetworkConfigAdd orc i cfg =
     seq_all [Prepare_unchecked orc ''INSERT INTO networks_config'',
              for_all (\<lambda>(k, v). pwhen (v \<noteq> [])
                (tx_Exec orc ''INSERT INTO networks_config'' (insert_network_config i k v))) cfg]"

definition NetworkCreate :: "'o env_scheme \<Rightarrow> string \<Rightarrow> string \<Rightarrow> string gomap \<Rightarrow> ('a dbworld_scheme, int) prog" where
  "NetworkCreate orc name description cfg =
     transaction orc
       (pbind (sql orc ''INSERT INTO networks'' (insert_network name description)) (\<lambda>i.
        pbind (NetworkConfigAdd orc i cfg) (\<lambda>_. ret i)))"

definition update_networks :: "(int \<Rightarrow> named_row \<Rightarrow> bool) \<Rightarrow> (named_row \<Rightarrow> named_row) \<Rightarrow> db \<Rightarrow> db res" where
  "update_networks P f d =
     ebind (t_update (Some \<circ> na_name) P f (networks d)) (\<lambda>tab. Inr (d\<lparr>networks := tab\<rparr>))"

definition NetworkUpdateDescription :: "'o env_scheme \<Rightarrow> int \<Rightarrow> string \<Rightarrow> ('a dbworld_scheme, unit) prog" where
  "NetworkUpdateDescription orc i description =
     tx_Exec orc ''UPDATE networks SET description''
       (update_networks (\<lambda>j _. j = i) (\<lambda>r. r\<lparr>na_description := Some description\<rparr>))"

definition NetworkConfigClear :: "'o env_scheme \<Rightarrow> int \<Rightarrow> ('a dbworld_scheme, unit) prog" where
  "NetworkConfigClear orc i =
     tx_Exec orc ''DELETE FROM networks_config'' (\<lambda>d.
       Inr (d\<lparr>networks_config := t_delete (\<lambda>_ r. fst r = i) (networks_config d)\<rparr>))"

definition NetworkUpdate :: "'o env_scheme \<Rightarrow> string \<Rightarrow> string \<Rightarrow> string gomap \<Rightarrow> ('a dbworld_scheme, unit) prog" where
  "NetworkUpdate orc name description cfg =
     pbind (NetworkGet orc name) (\<lambda>(i, _).
       transaction orc (seq_all
         [NetworkUpdateDescription orc i description, NetworkConfigClear orc i, NetworkConfigAdd orc i cfg]))"

definition delete_networks :: "(int \<Rightarrow> named_row \<Rightarrow> bool) \<Rightarrow> db \<Rightarrow> db" where
  "delete_networks P d =
     (let ns = t_delete P (networks d)
      in d\<lparr>networks := ns, networks_config := cascade fst ns (networks_config d)\<rparr>)"

definition NetworkDelete :: "'o env_scheme \<Rightarrow> string \<Rightarrow> ('a dbworld_scheme, unit) prog" where
  "NetworkDelete orc name =
     pbind (NetworkGet orc name) (\<lambda>(i, _).
       Exec orc ''DELETE FROM networks WHERE id=?'' (\<lambda>d. Inr (delete_networks (\<lambda>j _. j = i) d)))"

definition NetworkRename :: "'o env_scheme \<Rightarrow> string \<Rightarrow> string \<Rightarrow> ('a dbworld_scheme, unit) prog" where
  "NetworkRename orc oldName newName =
     pbind (NetworkGet orc oldName) (\<lambda>(i, _).
       transaction orc (tx_Exec orc ''UPDATE networks SET name''
         (update_networks (\<lambda>j _. j = i) (\<lambda>r. r\<lparr>na_name := newName\<rparr>))))"

end
