(* ===== verification/NetworkHost.thy ===== *)
theory NetworkHost
  imports ContainerCore NetworkConfig DbNetworks
begin

text \<open>
  The helpers of \<open>apollo/networks_utils.go\<close> that look at the host, \<open>networkFillAuto\<close>
  (\<open>apollo/networks_config.go\<close>) and the iptables rules of \<open>apollo/networks_iptables.go\<close>.
\<close>

section \<open>Routing table\<close>

definition v4_addr :: "byte list \<Rightarrow> ip res" where
  "v4_addr bs =
     (if length bs < 4 then Inl (Panic ''index out of range'')
      else Inr [bs ! 3, bs ! 2, bs ! 1, bs ! 0])"

text \<open>The network of a line of the table; \<open>None\<close> where the line is skipped.\<close>

definition v6_route :: "string list \<Rightarrow> ipnet option res" where
  "v6_route fs =
     ebind (nth_or_panic fs 0) (\<lambda>f0.
       case hex_decode f0 of
         None \<Rightarrow> Inr None
       | Some i \<Rightarrow>
           ebind (nth_or_panic fs 1) (\<lambda>f1.
             case ParseInt0 (''0x'' @ f1) of
               Inl _ \<Rightarrow> Inr None
             | Inr sz \<Rightarrow>
                 Inr (Some \<lparr>n_ip = i, n_mask = (if sz < 0 \<or> sz > 128 then [] else CIDRMask (nat sz) 128)\<rparr>)))"

definition v4_route :: "string list \<Rightarrow> ipnet option res" where
  "v4_route fs =
     ebind (nth_or_panic fs 1) (\<lambda>f1.
       case hex_decode f1 of
         None \<Rightarrow> Inr None
       | Some bs \<Rightarrow>
           ebind (v4_addr bs) (\<lambda>i.
           ebind (nth_or_panic fs 7) (\<lambda>f7.
             case hex_decode f7 of
               None \<Rightarrow> Inr None
             | Some ms \<Rightarrow> ebind (v4_addr ms) (\<lambda>m. Inr (Some \<lparr>n_ip = v4InV6Prefix @ i, n_mask = m\<rparr>)))))"

fun route_loop :: "bool \<Rightarrow> ip \<Rightarrow> string list \<Rightarrow> bool res" where
  "route_loop v6 addr [] = Inr False"
| "route_loop v6 addr (l # ls) =
     ebind ((if v6 then v6_route else v4_route) (Fields l)) (\<lambda>r.
       case r of
         None \<Rightarrow> route_loop v6 addr ls
       | Some lineNet \<Rightarrow>
           if ip_Equal (n_ip lineNet) (replicate 16 0) then route_loop v6 addr ls
           else if ip_Equal (n_ip lineNet) (v4InV6Prefix @ replicate 4 0) then route_loop v6 addr ls
           else if net_Contains lineNet addr then Inr True
           else route_loop v6 addr ls)"

definition networkInRoutingTable :: "'o env_scheme \<Rightarrow> ipnet \<Rightarrow> ('a world_scheme, bool) prog" where
  "networkInRoutingTable orc subnet =
     (let v6 = (To4 (n_ip subnet) = None)
      in pbind (attempt (ReadFile orc (''/proc/net/'' @ (if v6 then ''ipv6_route'' else ''route'')))) (\<lambda>r.
           case r of
             Inl _ \<Rightarrow> ret False
           | Inr content \<Rightarrow> of_res (route_loop v6 (n_ip subnet) (read_lines content))))"

section \<open>Free subnets\<close>

text \<open>
  The checks of a subnet run at the same time in the source; any of them may report that somebody
  answered, and only that is looked at.
\<close>

definition ping :: "'o env_scheme \<Rightarrow> ip \<Rightarrow> ('a world_scheme, bool) prog" where
  "ping orc i =
     (let cmd = (if To4 i = None then ''ping6'' else ''ping'')
      in pbind (attempt (run_cmd orc [cmd, ''-n'', ''-q'', ip_String i, ''-c'', ''1'', ''-W'', ''1''])) (\<lambda>r.
           ret (is_ok r)))"

definition poke :: "'o hostenv_scheme \<Rightarrow> ip \<Rightarrow> ('a world_scheme, bool) prog" where
  "poke orc i =
     get_world (\<lambda>w. h_dial orc (w_hist w)
       (if To4 i = None then ''['' @ ip_String i @ '']:22'' else ip_String i @ '':22''))"

definition answers :: "'o hostenv_scheme \<Rightarrow> ip \<Rightarrow> ('a world_scheme, bool) prog" where
  "answers orc i = pbind (ping orc i) (\<lambda>a. pbind (poke orc i) (\<lambda>b. ret (a \<or> b)))"

definition networkPingSubnet :: "'o hostenv_scheme \<Rightarrow> ipnet \<Rightarrow> ('a world_scheme, bool) prog" where
  "networkPingSubnet orc subnet =
     pbind (answers orc (networkGetIP subnet 1)) (\<lambda>a.
       if To4 (n_ip subnet) = None then ret a
       else pbind (answers orc (networkGetIP subnet (-2))) (\<lambda>b. ret (a \<or> b)))"

text \<open>A hundred draws; \<open>cidr\<close> is the candidate of a draw.\<close>

fun random_subnet :: "'o hostenv_scheme \<Rightarrow> string \<Rightarrow> (nat \<Rightarrow> event list \<Rightarrow> string) \<Rightarrow> nat \<Rightarrow> nat
    \<Rightarrow> ('a world_scheme, string) prog" where
  "random_subnet orc msg cidr i 0 = fail (Errorf msg [])"
| "random_subnet orc msg cidr i (Suc n) =
     pbind (get_world (\<lambda>w. cidr i (w_hist w))) (\<lambda>c.
       case ParseCIDR c of
         Inl _ \<Rightarrow> random_subnet orc msg cidr (i + 1) n
       | Inr (_, subnet) \<Rightarrow>
           pbind (networkInRoutingTable orc subnet) (\<lambda>routed.
             if routed then random_subnet orc msg cidr (i + 1) n
             else pbind (networkPingSubnet orc subnet) (\<lambda>used.
                    if used then random_subnet orc msg cidr (i + 1) n else ret c)))"

definition networkRandomSubnetV4 :: "'o hostenv_scheme \<Rightarrow> ('a world_scheme, string) prog" where
  "networkRandomSubnetV4 orc =
     random_subnet orc ''Failed to automatically find an unused IPv4 subnet, manual configuration required''
       (\<lambda>i h. ''10.'' @ show_nat (h_rand orc h (2 * i) mod 255) @ ''.'' @
              show_nat (h_rand orc h (2 * i + 1) mod 255) @ ''.1/24'') 0 100"

definition networkRandomSubnetV6 :: "'o hostenv_scheme \<Rightarrow> ('a world_scheme, string) prog" where
  "networkRandomSubnetV6 orc =
     random_subnet orc ''Failed to automatically find an unused IPv6 subnet, manual configuration required''
       (\<lambda>i h. ''fd42:'' @ show_hex (h_rand orc h (3 * i) mod 65535) @ '':'' @
              show_hex (h_rand orc h (3 * i + 1) mod 65535) @ '':'' @
              show_hex (h_rand orc h (3 * i + 2) mod 65535) @ ''::1/64'') 0 100"

section \<open>The default gateway\<close>

fun gateway_loop :: "string list \<Rightarrow> string res" where
  "gateway_loop [] = Inr []"
| "gateway_loop (l # ls) =
     (let fs = Fields l in
      ebind (nth_or_panic fs 1) (\<lambda>f1.
        if f1 \<noteq> ''00000000'' then gateway_loop ls
        else ebind (nth_or_panic fs 7) (\<lambda>f7.
               if f7 = ''00000000'' then Inr (fs ! 0) else gateway_loop ls)))"

fun gateway_addrs :: "ipnet option \<Rightarrow> string list \<Rightarrow> ipnet option res" where
  "gateway_addrs subnet [] = Inr subnet"
| "gateway_addrs subnet (a # as) =
     ebind (ParseCIDR a) (\<lambda>(i, net).
       if To4 i = None then gateway_addrs subnet as
       else if subnet \<noteq> None then Inl (Errorf ''More than one IPv4 subnet on default interface'' [])
       else gateway_addrs (Some net) as)"

definition networkDefaultGatewaySubnetV4 :: "'o hostenv_scheme \<Rightarrow> ('a world_scheme, ipnet \<times> string) prog" where
  "networkDefaultGatewaySubnetV4 orc =
     pbind (ReadFile orc ''/proc/net/route'') (\<lambda>content.
     pbind (of_res (gateway_loop (read_lines content))) (\<lambda>ifaceName.
       if ifaceName = [] then fail (Errorf ''No default gateway for IPv4'' [])
       else pbind (InterfaceByName orc ifaceName) (\<lambda>addrs.
            pbind (of_res addrs) (\<lambda>as.
            pbind (of_res (gateway_addrs None as)) (\<lambda>subnet.
              case subnet of
                None \<Rightarrow> fail (Errorf ''No IPv4 subnet on default interface'' [])
              | Some net \<Rightarrow> ret (net, ifaceName))))))"

definition networkFillAuto :: "'o hostenv_scheme \<Rightarrow> string gomap \<Rightarrow> ('a world_scheme, string gomap) prog" where
  "networkFillAuto orc cfg =
     pbind (if gm_str cfg ''ipv4.address'' = ''auto''
            then pbind (networkRandomSubnetV4 orc) (\<lambda>s. ret (gm_set cfg ''ipv4.address'' s))
            else ret cfg) (\<lambda>c1.
     pbind (if gm_str c1 ''ipv6.address'' = ''auto''
            then pbind (networkRandomSubnetV6 orc) (\<lambda>s. ret (gm_set c1 ''ipv6.address'' s))
            else ret c1) (\<lambda>c2.
       if gm_str c2 ''fan.underlay_subnet'' = ''auto''
       then pbind (networkDefaultGatewaySubnetV4 orc) (\<lambda>(s, _). ret (gm_set c2 ''fan.underlay_subnet'' (net_String s)))
       else ret c2))"

section \<open>Users of a network\<close>

definition networkGetInterfaces :: "'o hostenv_scheme \<Rightarrow> ('a dbworld_scheme, string list) prog" where
  "networkGetInterfaces orc =
     pbind (Networks orc) (\<lambda>ns.
     pbind (Interfaces orc) (\<lambda>ifs. ret (add_new ns (map fst ifs))))"

definition networkAutoAttach :: "'o env_scheme \<Rightarrow> string \<Rightarrow> ('a dbworld_scheme, unit) prog" where
  "networkAutoAttach orc devName =
     pbind (attempt (NetworkGetInterface orc devName)) (\<lambda>r.
       case r of
         Inl _ \<Rightarrow> ret ()
       | Inr (_, dbInfo) \<Rightarrow> networkAttachInterface orc (nw_Name dbInfo) devName)"

definition nic_parent :: "device \<Rightarrow> bool" where
  "nic_parent d \<longleftrightarrow> gm_str d ''type'' = ''nic'' \<and>
     StringInSlice (gm_str d ''nictype'') [''bridged'', ''macvlan'', ''physical''] \<and> gm_str d ''parent'' \<noteq> []"

fun networkIsInUse :: "'o env_scheme \<Rightarrow> devices \<Rightarrow> string \<Rightarrow> ('a world_scheme, bool) prog" where
  "networkIsInUse orc [] name = ret False"
| "networkIsInUse orc ((_, d) # ds) name =
     (if \<not> nic_parent d then networkIsInUse orc ds name
      else pbind (networkGetHostDevice orc (gm_str d ''parent'') (gm_str d ''vlan'')) (\<lambda>dev.
             if dev = name then ret True else networkIsInUse orc ds name))"

section \<open>dnsmasq\<close>

definition not_running :: "bool \<Rightarrow> ('w, unit) prog" where
  "not_running reload = (if reload then fail (Errorf (''dnsmasq isn'' @ [CHR 39] @ ''t running'') []) else ret ())"

text \<open>Only a process whose executable is dnsmasq is signalled.\<close>

definition networkKillDnsmasq :: "'o hostenv_scheme \<Rightarrow> string \<Rightarrow> bool \<Rightarrow> ('a world_scheme, unit) prog" where
  "networkKillDnsmasq orc name reload =
     (let pidPath = VarPath orc [''networks'', name, ''dnsmasq.pid'']
      in pbind (path_exists orc pidPath) (\<lambda>ex.
         if \<not> ex then not_running reload
         else
           pbind (ReadFile orc pidPath) (\<lambda>content.
           let pid = TrimSpace content
           in if pid = [] then pbind (os_Remove orc pidPath) (\<lambda>_. not_running reload)
              else
                pbind (path_exists orc (''/proc/'' @ pid)) (\<lambda>alive.
                  if \<not> alive then pbind (os_Remove orc pidPath) (\<lambda>_. not_running reload)
                  else
                    pbind (attempt (Readlink orc (''/proc/'' @ pid @ ''/exe''))) (\<lambda>r.
                    let cmdPath = (case r of Inl _ \<Rightarrow> [] | Inr p \<Rightarrow> p);
                        cmdName = path_Base (Split (CHR '' '') cmdPath ! 0)
                    in if cmdName \<noteq> ''dnsmasq'' then
                         (if reload then not_running True else os_Remove orc pidPath)
                       else
                         pbind (of_res (Atoi pid)) (\<lambda>pidInt.
                           if reload then perform orc (Signalled pidInt ''SIGHUP'')
                           else pbind (perform orc (Signalled pidInt ''SIGKILL'')) (\<lambda>_. os_Remove orc pidPath)))))))"

section \<open>Static leases\<close>

record host_entry =
  he_hwaddr :: string
  he_name :: string
  he_ipv4 :: string
  he_ipv6 :: string

definition add_entry :: "host_entry list gomap \<Rightarrow> string \<Rightarrow> host_entry \<Rightarrow> host_entry list gomap" where
  "add_entry es parent e =
     gm_set es parent ((case map_of es parent of None \<Rightarrow> [] | Some l \<Rightarrow> l) @ [e])"

fun device_entries :: "'o hostenv_scheme \<Rightarrow> string list \<Rightarrow> devices \<Rightarrow> host_entry list gomap
    \<Rightarrow> ('a, host_entry list gomap) action" where
  "device_entries orc nets [] es = ret es"
| "device_entries orc nets ((k, d0) # ds) es =
     (if gm_str d0 ''type'' \<noteq> ''nic'' \<or> gm_str d0 ''nictype'' \<noteq> ''bridged'' \<or>
         \<not> StringInSlice (gm_str d0 ''parent'') nets
      then device_entries orc nets ds es
      else pbind (attempt (fillNetworkDevice orc k d0)) (\<lambda>r.
             case r of
               Inl _ \<Rightarrow> device_entries orc nets ds es
             | Inr d \<Rightarrow>
                 pbind this (\<lambda>c.
                   device_entries orc nets ds
                     (add_entry es (gm_str d ''parent'')
                        \<lparr>he_hwaddr = gm_str d ''hwaddr'', he_name = ct_name c,
                         he_ipv4 = gm_str d ''ipv4.address'', he_ipv6 = gm_str d ''ipv6.address''\<rparr>))))"

fun container_entries :: "'o hostenv_scheme \<Rightarrow> string list \<Rightarrow> string list \<Rightarrow> host_entry list gomap
    \<Rightarrow> ('a dbworld_scheme, host_entry list gomap) prog" where
  "container_entries orc nets [] es = ret es"
| "container_entries orc nets (cName # cNames) es =
     pbind (attempt (containerLoadByName orc cName)) (\<lambda>r.
       case r of
         Inl _ \<Rightarrow> container_entries orc nets cNames es
       | Inr c \<Rightarrow>
           pbind (on_container c (device_entries orc nets (ct_expandedDevices c) es))
             (container_entries orc nets cNames))"

definition host_line :: "string gomap \<Rightarrow> host_entry \<Rightarrow> string" where
  "host_line cfg e =
     he_hwaddr e
     @ (if he_ipv4 e \<noteq> [] then '',id:*,'' @ he_ipv4 e else [])
     @ (if he_ipv6 e \<noteq> [] then '',['' @ he_ipv6 e @ '']'' else [])
     @ (if gm_str cfg ''dns.mode'' = [] \<or> gm_str cfg ''dns.mode'' = ''managed'' then '','' @ he_name e else [])"

definition hosts_file :: "string gomap \<Rightarrow> host_entry list option \<Rightarrow> string" where
  "hosts_file cfg es =
     (case es of
        None \<Rightarrow> []
      | Some l \<Rightarrow>
          Join [CHR 10] (map (host_line cfg) (filter (\<lambda>e. host_line cfg e \<noteq> he_hwaddr e) l)) @ [CHR 10])"

definition update_hosts :: "'o hostenv_scheme \<Rightarrow> host_entry list gomap \<Rightarrow> string \<Rightarrow> ('a dbworld_scheme, unit) prog" where
  "update_hosts orc es net =
     (let file = VarPath orc [''networks'', net, ''dnsmasq.hosts'']
      in pbind (path_exists orc file) (\<lambda>ex.
           if \<not> ex then ret ()
           else pbind (NetworkGet orc net) (\<lambda>(_, n).
                  seq_all [perform orc (Wrote file (hosts_file (nw_Config n) (map_of es net))),
                           networkKillDnsmasq orc net True])))"

definition networkUpdateStatic :: "'o hostenv_scheme \<Rightarrow> string \<Rightarrow> ('a dbworld_scheme, unit) prog" where
  "networkUpdateStatic orc name =
     pbind (ContainersList orc CTypeRegular) (\<lambda>containers.
     pbind (if name = [] then Networks orc else ret [name]) (\<lambda>nets.
     pbind (container_entries orc nets containers []) (\<lambda>es.
       for_all (update_hosts orc es) nets)))"

section \<open>Leases\<close>

fun pairs_of :: "string \<Rightarrow> string list" where
  "pairs_of (a # b # s) = [a, b] # pairs_of s"
| "pairs_of _ = []"

text \<open>A client id in decimal is printed in hexadecimal, with a newline, and cut into pairs.\<close>

definition networkGetMacSlice :: "string \<Rightarrow> string list" where
  "networkGetMacSlice hwaddr =
     (if \<not> Contains hwaddr '':'' then
        (case ParseUint hwaddr 10 64 of
           Inl _ \<Rightarrow> []
         | Inr s \<Rightarrow> pairs_of (show_hex s @ [CHR 10]))
      else Split (CHR '':'') (ToLower hwaddr))"

section \<open>Firewall rules\<close>

definition iptables_cmd :: "string \<Rightarrow> string" where
  "iptables_cmd protocol = (if protocol = ''ipv6'' then ''ip6tables'' else ''iptables'')"

definition base_args :: "string \<Rightarrow> string list" where
  "base_args table = ''-w'' # (if table \<noteq> [] then [''-t'', table] else [])"

definition rule_comment :: "string \<Rightarrow> string" where
  "rule_comment netName = ''generated for APOLLO network '' @ netName"

definition networkIptablesPrepend :: "'o env_scheme \<Rightarrow> string \<Rightarrow> string \<Rightarrow> string \<Rightarrow> string \<Rightarrow> string list
    \<Rightarrow> ('a world_scheme, unit) prog" where
  "networkIptablesPrepend orc protocol netName table chain rule =
     (let cmd = iptables_cmd protocol;
          rest = rule @ [''-m'', ''comment'', ''--comment'', rule_comment netName]
      in pbind (attempt (run_cmd orc (cmd # base_args table @ [''-C'', chain] @ rest))) (\<lambda>r.
           case r of
             Inr _ \<Rightarrow> ret ()
           | Inl _ \<Rightarrow> run_cmd orc (cmd # base_args table @ [''-I'', chain] @ rest)))"

text \<open>The command that deletes the rule of a line of the listing.\<close>

definition clear_line :: "string \<Rightarrow> string \<Rightarrow> string \<Rightarrow> string \<Rightarrow> string list option" where
  "clear_line protocol netName table line =
     (if \<not> Contains line (rule_comment netName) then None
      else Some [''sh'', ''-c'', iptables_cmd protocol @ '' '' @
                   Join '' '' (base_args table @ (Fields line)[0 := ''-D''])])"

definition networkIptablesClear :: "'o env_scheme \<Rightarrow> string \<Rightarrow> string \<Rightarrow> string \<Rightarrow> ('a world_scheme, unit) prog" where
  "networkIptablesClear orc protocol netName table =
     pbind (path_exists orc ''/proc/sys/net/ipv6'') (\<lambda>ex.
       if \<not> ex \<and> protocol = ''ipv6'' then ret ()
       else
         pbind (attempt (RunCommand orc (iptables_cmd protocol # base_args table @ [''-S'']))) (\<lambda>r.
           case r of
             Inl _ \<Rightarrow> fail (Errorf ''Failed to list %s rules for %s (table %s)'' [protocol, netName, table])
           | Inr out \<Rightarrow>
               for_all (\<lambda>line. case clear_line protocol netName table line of
                                 None \<Rightarrow> ret () | Some cmd \<Rightarrow> run_cmd orc cmd) (Split (CHR 10) out)))"

end
