(* ===== verification/Responses.thy ===== *)
theory Responses
  imports DbStorage
begin

text \<open>
  What the REST handlers answer (\<open>apollo/response.go\<close>): the kind of answer with its content. The
  headers, the rendering, and the status that \<open>SmartError\<close> derives from an error are left out, except
  that \<open>SmartError\<close> of no error is an empty success.
\<close>

datatype response =
    EmptyOk
  | OkString "string list"
  | OkNetwork string bool string string "string gomap" "string list"
  | OkPool pool "string list"
  | OkPools "(pool \<times> string list) list"
  | OkVolume volume "string list"
  | OkVolumes "(volume \<times> string list) list"
  | OkLocation string
  | BadRequest go_error
  | InternalError go_error
  | SmartError go_error
  | PreconditionFailed go_error
  | NotFound
  | Conflict

text \<open>Each failure of a step is turned into a response.\<close>

definition or_respond :: "(go_error \<Rightarrow> response) \<Rightarrow> ('w, 'a) prog \<Rightarrow> ('a \<Rightarrow> ('w, response) prog) \<Rightarrow> ('w, response) prog" where
  "or_respond resp p f =
     pbind (attempt p) (\<lambda>r. case r of Inl e \<Rightarrow> ret (resp e) | Inr x \<Rightarrow> f x)"

text \<open>\<open>attempt\<close> for a call whose \<open>NoSuchObjectError\<close> stands for an empty list.\<close>

definition or_none :: "('w, 'a list) prog \<Rightarrow> ('w, 'a list res) prog" where
  "or_none p =
     pbind (attempt p) (\<lambda>r. ret (if r = Inl NoSuchObjectError then Inr [] else r))"

end
