(* ===== verification/NetworkBridge.thy ===== *)
theory NetworkBridge
  imports NetworkHost Responses
begin

text \<open>
  Bringing a network up and down, updating, renaming and deleting it, and its REST handlers:
  \<open>apollo/networks.go\<close>. A network object is its name and its configuration. \<open>Start\<close> is cut into the
  blocks of the source; the dnsmasq command line is what they hand on.
\<close>

section \<open>Start: the bridge\<close>

definition is_set :: "string \<Rightarrow> bool" where
  "is_set v \<longleftrightarrow> \<not> StringInSlice v [[], ''none'']"

definition default_true :: "string gomap \<Rightarrow> string \<Rightarrow> bool" where
  "default_true cfg k \<longleftrightarrow> gm_str cfg k = [] \<or> IsTrue (gm_str cfg k)"

definition net_IsRunning :: "'o env_scheme \<Rightarrow> string \<Rightarrow> ('a world_scheme, bool) prog" where
  "net_IsRunning orc name = path_exists orc (''/sys/class/net/'' @ name)"

definition create_bridge :: "'o env_scheme \<Rightarrow> string \<Rightarrow> string gomap \<Rightarrow> ('a world_scheme, unit) prog" where
  "create_bridge orc name cfg =
     pbind (path_exists orc (VarPath orc [''networks'', name])) (\<lambda>ex.
     pbind (pwhen (\<not> ex) (perform orc (MadeDir (VarPath orc [''networks'', name])))) (\<lambda>_.
     pbind (net_IsRunning orc name) (\<lambda>running.
       pwhen (\<not> running)
         (if gm_str cfg ''bridge.driver'' = ''openvswitch''
          then run_cmd orc [''ovs-vsctl'', ''add-br'', name]
          else run_cmd orc [''ip'', ''link'', ''add'', ''dev'', name, ''type'', ''bridge'']))))"

definition ipv6_conf :: "'o env_scheme \<Rightarrow> string \<Rightarrow> string gomap \<Rightarrow> ('a world_scheme, unit) prog" where
  "ipv6_conf orc name cfg =
     pwhen (is_set (gm_str cfg ''ipv6.address''))
       (seq_all [networkSysctl orc (''ipv6/conf/'' @ name @ ''/autoconf'') ''0'',
                 networkSysctl orc (''ipv6/conf/'' @ name @ ''/accept_dad'') ''0''])"

definition clean_tunnels :: "'o hostenv_scheme \<Rightarrow> string \<Rightarrow> ('a world_scheme, unit) prog" where
  "clean_tunnels orc name =
     pbind (Interfaces orc) (\<lambda>ifs.
       for_all (\<lambda>(i, _). pwhen (HasPrefix i (name @ ''-'')) (run_cmd orc [''ip'', ''link'', ''del'', ''dev'', i])) ifs)"

definition bridge_mtu :: "string gomap \<Rightarrow> string" where
  "bridge_mtu cfg =
     (if gm_str cfg ''bridge.mtu'' \<noteq> [] then gm_str cfg ''bridge.mtu''
      else if length (networkGetTunnels cfg) > 0 then ''1400''
      else if gm_str cfg ''bridge.mode'' = ''fan'' then
        (if gm_str cfg ''fan.type'' = ''ipip'' then ''1480'' else ''1450'')
      else [])"

definition default_mtu :: "string \<Rightarrow> string" where
  "default_mtu mtu = (if mtu = [] then ''1500'' else mtu)"

definition set_mtu :: "'o env_scheme \<Rightarrow> string \<Rightarrow> string gomap \<Rightarrow> ('a world_scheme, unit) prog" where
  "set_mtu orc name cfg =
     (let mtu = bridge_mtu cfg; dummy = name @ ''-mtu''
      in pbind (pwhen (mtu \<noteq> [] \<and> gm_str cfg ''bridge.driver'' \<noteq> ''openvswitch'')
           (pbind (attempt (run_cmd orc [''ip'', ''link'', ''add'', ''dev'', dummy, ''mtu'', mtu, ''type'', ''dummy''])) (\<lambda>r.
              pwhen (is_ok r) (ignoring (networkAttachInterface orc name dummy))))) (\<lambda>_.
         seq_all [run_cmd orc [''ip'', ''link'', ''set'', ''dev'', name, ''mtu'', default_mtu mtu],
                  run_cmd orc [''ip'', ''link'', ''set'', ''dev'', name, ''up'']]))"

definition external_interface :: "'o hostenv_scheme \<Rightarrow> string \<Rightarrow> string \<Rightarrow> ('a world_scheme, unit) prog" where
  "external_interface orc name entry0 =
     (let entry = TrimSpace entry0
      in pbind (attempt (InterfaceByName orc entry)) (\<lambda>r.
           case r of
             Inl _ \<Rightarrow> ret ()
           | Inr addrs \<Rightarrow>
               (case addrs of
                  Inr (a # as) \<Rightarrow> fail (Errorf ''Only unconfigured network interfaces can be bridged'' [])
                | _ \<Rightarrow> networkAttachInterface orc name entry)))"

definition external_interfaces :: "'o hostenv_scheme \<Rightarrow> string \<Rightarrow> string gomap \<Rightarrow> ('a world_scheme, unit) prog" where
  "external_interfaces orc name cfg =
     pwhen (gm_str cfg ''bridge.external_interfaces'' \<noteq> [])
       (for_all (external_interface orc name) (Split (CHR '','') (gm_str cfg ''bridge.external_interfaces'')))"

section \<open>Start: addresses and rules of a family\<close>

definition clear_rules :: "'o env_scheme \<Rightarrow> string \<Rightarrow> string \<Rightarrow> string list \<Rightarrow> ('a world_scheme, unit) prog" where
  "clear_rules orc protocol name tables = for_all (networkIptablesClear orc protocol name) tables"

definition flush :: "'o env_scheme \<Rightarrow> string \<Rightarrow> string \<Rightarrow> ('a world_scheme, unit) prog" where
  "flush orc fam name =
     seq_all [run_cmd orc [''ip'', fam, ''addr'', ''flush'', ''dev'', name, ''scope'', ''global''],
              run_cmd orc [''ip'', fam, ''route'', ''flush'', ''dev'', name, ''proto'', ''static'']]"

text \<open>The rules that let DHCP and DNS through.\<close>

definition dhcp_rules :: "'o env_scheme \<Rightarrow> string \<Rightarrow> string \<Rightarrow> string \<Rightarrow> ('a world_scheme, unit) prog" where
  "dhcp_rules orc protocol name port =
     for_all (\<lambda>(chain, rule). networkIptablesPrepend orc protocol name [] chain rule)
       [(''INPUT'', [''-i'', name, ''-p'', ''udp'', ''--dport'', port, ''-j'', ''ACCEPT'']),
        (''INPUT'', [''-i'', name, ''-p'', ''udp'', ''--dport'', ''53'', ''-j'', ''ACCEPT'']),
        (''INPUT'', [''-i'', name, ''-p'', ''tcp'', ''--dport'', ''53'', ''-j'', ''ACCEPT'']),
        (''OUTPUT'', [''-o'', name, ''-p'', ''udp'', ''--sport'', port, ''-j'', ''ACCEPT'']),
        (''OUTPUT'', [''-o'', name, ''-p'', ''udp'', ''--sport'', ''53'', ''-j'', ''ACCEPT'']),
        (''OUTPUT'', [''-o'', name, ''-p'', ''tcp'', ''--sport'', ''53'', ''-j'', ''ACCEPT''])]"

definition forward_rules :: "'o env_scheme \<Rightarrow> string \<Rightarrow> string \<Rightarrow> string \<Rightarrow> ('a world_scheme, unit) prog" where
  "forward_rules orc protocol name target =
     seq_all [networkIptablesPrepend orc protocol name [] ''FORWARD'' [''-i'', name, ''-j'', target],
              networkIptablesPrepend orc protocol name [] ''FORWARD'' [''-o'', name, ''-j'', target]]"

definition masquerade :: "'o env_scheme \<Rightarrow> string \<Rightarrow> string \<Rightarrow> string \<Rightarrow> ('a world_scheme, unit) prog" where
  "masquerade orc protocol name subnet =
     networkIptablesPrepend orc protocol name ''nat'' ''POSTROUTING''
       [''-s'', subnet, ''!'', ''-d'', subnet, ''-j'', ''MASQUERADE'']"

definition add_routes :: "'o env_scheme \<Rightarrow> string \<Rightarrow> string \<Rightarrow> string \<Rightarrow> ('a world_scheme, unit) prog" where
  "add_routes orc fam name routes =
     pwhen (routes \<noteq> [])
       (for_all (\<lambda>route. run_cmd orc [''ip'', fam, ''route'', ''add'', ''dev'', name, TrimSpace route, ''proto'', ''static''])
          (Split (CHR '','') routes))"

definition ipv4_firewall :: "'o env_scheme \<Rightarrow> string \<Rightarrow> string gomap \<Rightarrow> ('a world_scheme, unit) prog" where
  "ipv4_firewall orc name cfg =
     (let fan = (gm_str cfg ''bridge.mode'' = ''fan'')
      in pwhen (fan \<or> is_set (gm_str cfg ''ipv4.address''))
           (seq_all
              [pwhen (default_true cfg ''ipv4.dhcp'') (dhcp_rules orc ''ipv4'' name ''67''),
               networkIptablesPrepend orc ''ipv4'' name ''mangle'' ''POSTROUTING''
                 [''-o'', name, ''-p'', ''udp'', ''--dport'', ''68'', ''-j'', ''CHECKSUM'', ''--checksum-fill''],
               if fan \<or> default_true cfg ''ipv4.routing'' then
                 seq_all [networkSysctl orc ''ipv4/ip_forward'' ''1'',
                          pwhen (default_true cfg ''ipv4.firewall'') (forward_rules orc ''ipv4'' name ''ACCEPT'')]
               else pwhen (default_true cfg ''ipv4.firewall'') (forward_rules orc ''ipv4'' name ''REJECT'')]))"

definition dnsmasq_base :: "'o env_scheme \<Rightarrow> string \<Rightarrow> string list" where
  "dnsmasq_base orc name =
     [''dnsmasq'', ''--strict-order'', ''--bind-interfaces'',
      ''--pid-file='' @ VarPath orc [''networks'', name, ''dnsmasq.pid''],
      ''--except-interface=lo'', ''--interface='' @ name]"

definition dhcp_files :: "'o env_scheme \<Rightarrow> string \<Rightarrow> string list" where
  "dhcp_files orc name =
     [''--dhcp-no-override'', ''--dhcp-authoritative'',
      ''--dhcp-leasefile='' @ VarPath orc [''networks'', name, ''dnsmasq.leases''],
      ''--dhcp-hostsfile='' @ VarPath orc [''networks'', name, ''dnsmasq.hosts'']]"

definition with_dhcp_files :: "'o env_scheme \<Rightarrow> string \<Rightarrow> string list \<Rightarrow> string list" where
  "with_dhcp_files orc name cmd =
     (if \<not> StringInSlice ''--dhcp-no-override'' cmd then cmd @ dhcp_files orc name else cmd)"

definition range_args :: "string \<Rightarrow> string \<Rightarrow> string list" where
  "range_args ranges expiry =
     concat (map (\<lambda>r. [''--dhcp-range'', Replace (TrimSpace r) ''-'' '','' @ '','' @ expiry]) (Split (CHR '','') ranges))"

definition expiry_of :: "string gomap \<Rightarrow> string \<Rightarrow> string" where
  "expiry_of cfg k = (if gm_str cfg k \<noteq> [] then gm_str cfg k else ''1h'')"

definition subnet_range :: "ipnet \<Rightarrow> int \<Rightarrow> int \<Rightarrow> string" where
  "subnet_range subnet lo hi = ip_String (networkGetIP subnet lo) @ '','' @ ip_String (networkGetIP subnet hi)"

definition ipv4_args :: "'o env_scheme \<Rightarrow> string \<Rightarrow> string gomap \<Rightarrow> ip \<Rightarrow> ipnet \<Rightarrow> string list \<Rightarrow> string list" where
  "ipv4_args orc name cfg i subnet cmd0 =
     (let cmd = cmd0 @ [''--listen-address='' @ ip_String i]; expiry = expiry_of cfg ''ipv4.dhcp.expiry''
      in if \<not> default_true cfg ''ipv4.dhcp'' then cmd
         else with_dhcp_files orc name cmd
              @ (if gm_str cfg ''ipv4.dhcp.ranges'' \<noteq> [] then range_args (gm_str cfg ''ipv4.dhcp.ranges'') expiry
                 else [''--dhcp-range'', subnet_range subnet 2 (-2) @ '','' @ expiry]))"

definition start_ipv4 :: "'o env_scheme \<Rightarrow> string \<Rightarrow> string gomap \<Rightarrow> string list \<Rightarrow> ('a world_scheme, string list) prog" where
  "start_ipv4 orc name cfg cmd =
     (if \<not> is_set (gm_str cfg ''ipv4.address'') then ret cmd
      else pbind (of_res (ParseCIDR (gm_str cfg ''ipv4.address''))) (\<lambda>(i, subnet).
           seq_ret (ipv4_args orc name cfg i subnet cmd)
             [run_cmd orc [''ip'', ''-4'', ''addr'', ''add'', ''dev'', name, gm_str cfg ''ipv4.address''],
              pwhen (IsTrue (gm_str cfg ''ipv4.nat'')) (masquerade orc ''ipv4'' name (net_String subnet)),
              add_routes orc ''-4'' name (gm_str cfg ''ipv4.routes'')]))"

definition ipv6_args :: "'o env_scheme \<Rightarrow> string \<Rightarrow> string gomap \<Rightarrow> ip \<Rightarrow> ipnet \<Rightarrow> string list \<Rightarrow> string list" where
  "ipv6_args orc name cfg i subnet cmd0 =
     (let cmd = cmd0 @ [''--listen-address='' @ ip_String i, ''--enable-ra'']; expiry = expiry_of cfg ''ipv6.dhcp.expiry''
      in if \<not> default_true cfg ''ipv6.dhcp'' then cmd @ [''--dhcp-range'', ''::,constructor:'' @ name @ '',ra-only'']
         else with_dhcp_files orc name cmd
              @ (if IsTrue (gm_str cfg ''ipv6.dhcp.stateful'') then
                   (if gm_str cfg ''ipv6.dhcp.ranges'' \<noteq> [] then range_args (gm_str cfg ''ipv6.dhcp.ranges'') expiry
                    else [''--dhcp-range'', subnet_range subnet 2 (-1) @ '','' @ expiry])
                 else [''--dhcp-range'', ''::,constructor:'' @ name @ '',ra-stateless,ra-names'']))"

definition sysctl_if_there :: "'o env_scheme \<Rightarrow> string \<Rightarrow> string \<Rightarrow> ('a world_scheme, unit) prog" where
  "sysctl_if_there orc path v =
     pbind (attempt (networkSysctl orc path v)) (\<lambda>r.
       case r of Inr _ \<Rightarrow> ret () | Inl e \<Rightarrow> if e = NotExist then ret () else fail e)"

definition accept_ra :: "'o env_scheme \<Rightarrow> string \<Rightarrow> ('a world_scheme, unit) prog" where
  "accept_ra orc entry =
     pbind (attempt (ReadFile orc (''/proc/sys/net/ipv6/conf/'' @ entry @ ''/accept_ra''))) (\<lambda>r.
       if is_ok r \<and> r \<noteq> Inr (''1'' @ [CHR 10]) then ret ()
       else sysctl_if_there orc (''ipv6/conf/'' @ entry @ ''/accept_ra'') ''2'')"

definition ipv6_forwarding :: "'o hostenv_scheme \<Rightarrow> string \<Rightarrow> string gomap \<Rightarrow> ('a world_scheme, unit) prog" where
  "ipv6_forwarding orc name cfg =
     (if default_true cfg ''ipv6.routing'' then
        pbind (ReadDir orc ''/proc/sys/net/ipv6/conf/'') (\<lambda>entries.
          seq_all
            [for_all (accept_ra orc) entries,
             for_all (\<lambda>e. sysctl_if_there orc (''ipv6/conf/'' @ e @ ''/forwarding'') ''1'') entries,
             pwhen (default_true cfg ''ipv6.firewall'') (forward_rules orc ''ipv6'' name ''ACCEPT'')])
      else pwhen (default_true cfg ''ipv6.firewall'') (forward_rules orc ''ipv6'' name ''REJECT''))"

definition start_ipv6 :: "'o hostenv_scheme \<Rightarrow> string \<Rightarrow> string gomap \<Rightarrow> string list \<Rightarrow> ('a world_scheme, string list) prog" where
  "start_ipv6 orc name cfg cmd =
     (if \<not> is_set (gm_str cfg ''ipv6.address'') then ret cmd
      else pbind (networkSysctl orc (''ipv6/conf/'' @ name @ ''/disable_ipv6'') ''0'') (\<lambda>_.
           pbind (of_res (ParseCIDR (gm_str cfg ''ipv6.address''))) (\<lambda>(i, subnet).
           seq_ret (ipv6_args orc name cfg i subnet cmd)
             [pwhen (default_true cfg ''ipv6.dhcp'') (dhcp_rules orc ''ipv6'' name ''546''),
              ipv6_forwarding orc name cfg,
              run_cmd orc [''ip'', ''-6'', ''addr'', ''add'', ''dev'', name, gm_str cfg ''ipv6.address''],
              pwhen (IsTrue (gm_str cfg ''ipv6.nat'')) (masquerade orc ''ipv6'' name (net_String subnet)),
              add_routes orc ''-6'' name (gm_str cfg ''ipv6.routes'')])))"

section \<open>Start: the fan and the tunnels\<close>

definition bring_up :: "'o env_scheme \<Rightarrow> string \<Rightarrow> string \<Rightarrow> string \<Rightarrow> ('a world_scheme, unit) prog" where
  "bring_up orc name tunName mtu =
     seq_all [networkAttachInterface orc name tunName,
              run_cmd orc [''ip'', ''link'', ''set'', ''dev'', tunName, ''mtu'', mtu, ''up''],
              run_cmd orc [''ip'', ''link'', ''set'', ''dev'', name, ''up'']]"

definition vxlan_id :: "ipnet \<Rightarrow> string res" where
  "vxlan_id ovl =
     (case To4 (n_ip ovl) of
        None \<Rightarrow> Inl (Panic ''index out of range'')
      | Some b \<Rightarrow> Inr (show_nat (ip_nat b div 256)))"

definition fan_tunnel :: "'o env_scheme \<Rightarrow> string \<Rightarrow> string gomap \<Rightarrow> string \<Rightarrow> string \<Rightarrow> string \<times> string \<times> string
    \<Rightarrow> ipnet \<Rightarrow> ('a world_scheme, unit) prog" where
  "fan_tunnel orc name cfg ovl und = (\<lambda>(addr, devName, devAddr) overlaySubnet.
     if gm_str cfg ''fan.type'' = ''ipip'' then
       seq_all
         [run_cmd orc [''ip'', ''-4'', ''route'', ''flush'', ''dev'', ''tunl0''],
          run_cmd orc [''ip'', ''link'', ''set'', ''dev'', ''tunl0'', ''up''],
          ignoring (run_cmd orc [''ip'', ''link'', ''change'', ''dev'', ''tunl0'', ''type'', ''ipip'', ''fan-map'',
                      ovl @ '':'' @ und]),
          run_cmd orc [''ip'', ''route'', ''add'', ovl, ''dev'', ''tunl0'', ''src'', addr]]
     else
       pbind (of_res (vxlan_id overlaySubnet)) (\<lambda>vxlanID.
         seq_all
           [run_cmd orc [''ip'', ''link'', ''add'', name @ ''-fan'', ''type'', ''vxlan'', ''id'', vxlanID, ''dev'', devName,
              ''dstport'', ''0'', ''local'', devAddr, ''fan-map'', ovl @ '':'' @ und],
            bring_up orc name (name @ ''-fan'') (default_mtu (bridge_mtu cfg))]))"

text \<open>
  \<open>None\<close>: the underlay does not parse, and \<open>Start\<close> returns without an error, leaving out everything
  that follows.
\<close>

definition start_fan :: "'o hostenv_scheme \<Rightarrow> string \<Rightarrow> string gomap \<Rightarrow> string list
    \<Rightarrow> ('a world_scheme, string list option) prog" where
  "start_fan orc name cfg cmd =
     (if gm_str cfg ''bridge.mode'' \<noteq> ''fan'' then ret (Some cmd)
      else
        let und = gm_str cfg ''fan.underlay_subnet'';
            ovl = (if gm_str cfg ''fan.overlay_subnet'' = [] then ''240.0.0.0/8'' else gm_str cfg ''fan.overlay_subnet'')
        in case ParseCIDR und of
             Inl _ \<Rightarrow> ret None
           | Inr (_, underlaySubnet) \<Rightarrow>
               pbind (of_res (ParseCIDR ovl)) (\<lambda>(_, overlaySubnet).
               pbind (attempt (Interfaces orc)) (\<lambda>ifs.
               pbind (of_res (networkFanAddress (networkAddressForSubnet ifs underlaySubnet) underlaySubnet overlaySubnet))
                 (\<lambda>(fanAddress0, devName, devAddr).
               let addr = Split (CHR ''/'') fanAddress0 ! 0;
                   fanAddress = (if gm_str cfg ''fan.type'' = ''ipip'' then addr @ ''/24'' else fanAddress0)
               in pbind (of_res (ParseCIDR (addr @ ''/24''))) (\<lambda>(_, hostSubnet).
                  seq_ret (Some (cmd @ [''--listen-address='' @ addr] @ dhcp_files orc name @
                                  [''--dhcp-range'', subnet_range hostSubnet 2 (-2)]))
                    [run_cmd orc [''ip'', ''-4'', ''addr'', ''add'', ''dev'', name, fanAddress],
                     fan_tunnel orc name cfg ovl und (addr, devName, devAddr) overlaySubnet,
                     masquerade orc ''ipv4'' name (net_String underlaySubnet)])))))"

definition or_else :: "string \<Rightarrow> string \<Rightarrow> string" where
  "or_else v def = (if v = [] then def else v)"

definition vxlan_args :: "'o hostenv_scheme \<Rightarrow> (string \<Rightarrow> string) \<Rightarrow> ('a world_scheme, string list) prog" where
  "vxlan_args orc getConfig =
     pbind (if getConfig ''local'' \<noteq> [] \<and> getConfig ''remote'' \<noteq> []
            then ret [''local'', getConfig ''local'', ''remote'', getConfig ''remote'']
            else
              pbind (if getConfig ''interface'' = []
                     then pbind (networkDefaultGatewaySubnetV4 orc) (\<lambda>(_, dev). ret dev)
                     else ret (getConfig ''interface'')) (\<lambda>devName.
                ret [''group'', or_else (getConfig ''group'') ''239.0.0.1'', ''dev'', devName])) (\<lambda>ends.
       ret ([''type'', ''vxlan''] @ ends @
            [''dstport'', or_else (getConfig ''port'') ''0'', ''id'', or_else (getConfig ''id'') ''1'']))"

text \<open>A protocol that is not set leaves the command without a type.\<close>

definition start_tunnel :: "'o hostenv_scheme \<Rightarrow> string \<Rightarrow> string gomap \<Rightarrow> string \<Rightarrow> ('a world_scheme, unit) prog" where
  "start_tunnel orc name cfg tunnel =
     (let getConfig = (\<lambda>key. gm_str cfg (''tunnel.'' @ tunnel @ ''.'' @ key));
          tunName = name @ ''-'' @ tunnel;
          base = [''ip'', ''link'', ''add'', ''dev'', tunName]
      in if getConfig ''protocol'' = ''gre'' \<and> (getConfig ''local'' = [] \<or> getConfig ''remote'' = []) then ret ()
         else
           pbind (if getConfig ''protocol'' = ''gre''
                  then ret [''type'', ''gretap'', ''local'', getConfig ''local'', ''remote'', getConfig ''remote'']
                  else if getConfig ''protocol'' = ''vxlan'' then vxlan_args orc getConfig
                  else ret []) (\<lambda>args.
             seq_all [run_cmd orc (base @ args), bring_up orc name tunName (default_mtu (bridge_mtu cfg))]))"

section \<open>Start: dnsmasq\<close>

definition dnsmasq_user :: "'o hostenv_scheme \<Rightarrow> event list \<Rightarrow> string list" where
  "dnsmasq_user orc h =
     (if h_user orc h ''apollo'' then [''-u'', ''apollo'']
      else if h_user orc h ''nobody'' then [''-u'', ''nobody''] else [])"

definition start_dnsmasq :: "'o hostenv_scheme \<Rightarrow> string \<Rightarrow> string gomap \<Rightarrow> string list
    \<Rightarrow> ('a dbworld_scheme, unit) prog" where
  "start_dnsmasq orc name cfg cmd0 =
     pwhen (gm_str cfg ''bridge.mode'' = ''fan'' \<or> is_set (gm_str cfg ''ipv4.address'') \<or> is_set (gm_str cfg ''ipv6.address''))
       (let domain = or_else (gm_str cfg ''dns.domain'') ''apollo'';
            raw = VarPath orc [''networks'', name, ''dnsmasq.raw''];
            hosts = VarPath orc [''networks'', name, ''dnsmasq.hosts''];
            cmd1 = cmd0 @ (if gm_str cfg ''dns.mode'' \<noteq> ''none'' then [''-s'', domain, ''-S'', ''/'' @ domain @ ''/''] else [])
        in pbind (perform orc (Wrote raw (gm_str cfg ''raw.dnsmasq'' @ [CHR 10]))) (\<lambda>_.
           pbind (path_exists orc hosts) (\<lambda>ex.
           pbind (pwhen (\<not> ex) (perform orc (Wrote hosts []))) (\<lambda>_.
           pbind (get_world (\<lambda>w. cmd1 @ [''--conf-file='' @ raw] @ dnsmasq_user orc (w_hist w))) (\<lambda>cmd.
           pbind (LookPath orc ''dnsmasq'') (\<lambda>found.
             if \<not> found then fail (Errorf ''dnsmasq is required for APOLLO managed bridges.'' [])
             else pbind (try_run 20 orc cmd ([], None)) (\<lambda>(out, err).
                  if err \<noteq> None then fail (Errorf ''Failed to run: %s: %s'' [Join '' '' cmd, TrimSpace out])
                  else networkUpdateStatic orc name)))))))"

definition net_Start :: "'o hostenv_scheme \<Rightarrow> string \<Rightarrow> string gomap \<Rightarrow> ('a dbworld_scheme, unit) prog" where
  "net_Start orc name cfg =
     (if h_mock orc then ret ()
      else
        pbind (seq_all
          [create_bridge orc name cfg, ipv6_conf orc name cfg, clean_tunnels orc name, set_mtu orc name cfg,
           external_interfaces orc name cfg, clear_rules orc ''ipv4'' name [[], ''mangle'', ''nat''],
           flush orc ''-4'' name, ipv4_firewall orc name cfg]) (\<lambda>_.
        pbind (start_ipv4 orc name cfg (dnsmasq_base orc name)) (\<lambda>cmd4.
        pbind (seq_all [clear_rules orc ''ipv6'' name [[], ''nat''], flush orc ''-6'' name]) (\<lambda>_.
        pbind (start_ipv6 orc name cfg cmd4) (\<lambda>cmd6.
        pbind (start_fan orc name cfg cmd6) (\<lambda>fan.
          case fan of
            None \<Rightarrow> ret ()
          | Some cmd \<Rightarrow>
              seq_all [for_all (start_tunnel orc name cfg) (networkGetTunnels cfg),
                       networkKillDnsmasq orc name False,
                       start_dnsmasq orc name cfg cmd]))))))"

section \<open>Stop, delete, rename\<close>

definition net_Stop :: "'o hostenv_scheme \<Rightarrow> string \<Rightarrow> string gomap \<Rightarrow> ('a world_scheme, unit) prog" where
  "net_Stop orc name cfg =
     pbind (net_IsRunning orc name) (\<lambda>running.
       if \<not> running then fail (Errorf ''The network is already stopped'' [])
       else seq_all
         [if gm_str cfg ''bridge.driver'' = ''openvswitch'' then run_cmd orc [''ovs-vsctl'', ''del-br'', name]
          else run_cmd orc [''ip'', ''link'', ''del'', ''dev'', name],
          clear_rules orc ''ipv4'' name [[], ''mangle'', ''nat''],
          clear_rules orc ''ipv6'' name [[], ''nat''],
          networkKillDnsmasq orc name False,
          clean_tunnels orc name])"

fun used_by :: "'o hostenv_scheme \<Rightarrow> string list \<Rightarrow> string \<Rightarrow> ('a dbworld_scheme, bool) prog" where
  "used_by orc [] name = ret False"
| "used_by orc (ct # cts) name =
     pbind (attempt (containerLoadByName orc ct)) (\<lambda>r.
       case r of
         Inl _ \<Rightarrow> ret True
       | Inr c \<Rightarrow> pbind (networkIsInUse orc (ct_expandedDevices c) name) (\<lambda>used.
                    if used then ret True else used_by orc cts name))"

definition net_IsUsed :: "'o hostenv_scheme \<Rightarrow> string \<Rightarrow> ('a dbworld_scheme, bool) prog" where
  "net_IsUsed orc name =
     pbind (attempt (ContainersList orc CTypeRegular)) (\<lambda>r.
       case r of Inl _ \<Rightarrow> ret True | Inr cts \<Rightarrow> used_by orc cts name)"

definition stop_if_running :: "'o hostenv_scheme \<Rightarrow> string \<Rightarrow> string gomap \<Rightarrow> ('a world_scheme, unit) prog" where
  "stop_if_running orc name cfg =
     pbind (net_IsRunning orc name) (\<lambda>running. pwhen running (net_Stop orc name cfg))"

definition net_Delete :: "'o hostenv_scheme \<Rightarrow> string \<Rightarrow> string gomap \<Rightarrow> ('a dbworld_scheme, unit) prog" where
  "net_Delete orc name cfg =
     pbind (net_IsUsed orc name) (\<lambda>used.
       if used then fail (Errorf ''The network is currently in use'' [])
       else seq_all [stop_if_running orc name cfg, NetworkDelete orc name])"

definition rename_dir :: "'o env_scheme \<Rightarrow> string \<Rightarrow> string \<Rightarrow> ('a world_scheme, unit) prog" where
  "rename_dir orc oldName newName =
     (let old = VarPath orc [''networks'', oldName]; new = VarPath orc [''networks'', newName]
      in pbind (path_exists orc new) (\<lambda>taken.
         pbind (pwhen taken (os_Remove orc new)) (\<lambda>_.
         pbind (path_exists orc old) (\<lambda>ex.
           pwhen ex (perform orc (Renamed old new))))))"

text \<open>The object keeps its old name, and it is the object that is started.\<close>

definition net_Rename :: "'o hostenv_scheme \<Rightarrow> string \<Rightarrow> string gomap \<Rightarrow> string \<Rightarrow> ('a dbworld_scheme, unit) prog" where
  "net_Rename orc name cfg newName =
     pbind (net_IsUsed orc name) (\<lambda>used.
       if used then fail (Errorf ''The network is currently in use'' [])
       else seq_all [stop_if_running orc name cfg, rename_dir orc name newName,
                     NetworkRename orc name newName, net_Start orc name cfg])"

section \<open>Update\<close>

definition config_changes :: "string gomap \<Rightarrow> string gomap \<Rightarrow> string list" where
  "config_changes old new =
     add_new [] (filter (\<lambda>k. gm_str old k \<noteq> gm_str new k) (map fst old @ map fst new))"

definition user_only :: "string list \<Rightarrow> bool" where
  "user_only keys \<longleftrightarrow> list_all (\<lambda>k. HasPrefix k ''user.'') keys"

definition detach_dropped :: "'o env_scheme \<Rightarrow> string \<Rightarrow> string gomap \<Rightarrow> string gomap \<Rightarrow> ('a world_scheme, unit) prog" where
  "detach_dropped orc name old new =
     (let devices = map TrimSpace (Split (CHR '','') (gm_str new ''bridge.external_interfaces''))
      in for_all (\<lambda>dev0.
           let dev = TrimSpace dev0
           in pbind (path_exists orc (''/sys/class/net/'' @ dev)) (\<lambda>ex.
                pwhen (dev \<noteq> [] \<and> \<not> StringInSlice dev devices \<and> ex) (networkDetachInterface orc name dev)))
           (Split (CHR '','') (gm_str old ''bridge.external_interfaces'')))"

definition apply_bridge_changes :: "'o hostenv_scheme \<Rightarrow> string \<Rightarrow> string gomap \<Rightarrow> string gomap \<Rightarrow> string list
    \<Rightarrow> ('a world_scheme, unit) prog" where
  "apply_bridge_changes orc name old new keys =
     pbind (net_IsRunning orc name) (\<lambda>running.
     pbind (pwhen (StringInSlice ''bridge.driver'' keys \<and> running) (net_Stop orc name old)) (\<lambda>_.
     pbind (net_IsRunning orc name) (\<lambda>running.
       pwhen (StringInSlice ''bridge.external_interfaces'' keys \<and> running) (detach_dropped orc name old new))))"

definition net_Update :: "'o hostenv_scheme \<Rightarrow> string \<Rightarrow> string \<Rightarrow> string gomap \<Rightarrow> string \<Rightarrow> string gomap
    \<Rightarrow> ('a dbworld_scheme, unit) prog" where
  "net_Update orc name oldDescription old description new0 =
     pbind (networkFillAuto orc new0) (\<lambda>new.
     let keys = config_changes old new
     in if keys = [] \<and> description = oldDescription then ret ()
        else seq_all
          [pwhen (\<not> user_only keys) (apply_bridge_changes orc name old new keys),
           NetworkUpdate orc name description new,
           pwhen (\<not> user_only keys) (net_Start orc name new)])"

section \<open>Leases\<close>

text \<open>A deferred call runs last, whatever came before.\<close>

definition deferred :: "('w, unit) prog \<Rightarrow> ('w, 'r) prog \<Rightarrow> ('w, 'r) prog" where
  "deferred q p = (\<lambda>w. case p w of (r, v) \<Rightarrow> (r, snd (q v)))"

text \<open>\<open>knownMac[len(knownMac)-len(leaseMac):]\<close> panics where the lease has more parts.\<close>

definition lease_matches :: "string \<Rightarrow> string \<Rightarrow> bool res" where
  "lease_matches hwaddr lease =
     (let fs = Fields lease
      in if length fs \<le> 2 then Inr False
         else let leaseMac = networkGetMacSlice (fs ! 1); knownMac = networkGetMacSlice hwaddr
              in if length knownMac < length leaseMac then Inl (Panic ''slice bounds out of range'')
                 else Inr (Join '':'' (drop (length knownMac - length leaseMac) knownMac) = Join '':'' leaseMac))"

definition keep_lease :: "'o env_scheme \<Rightarrow> string \<Rightarrow> string \<Rightarrow> string \<Rightarrow> ('a world_scheme, unit) prog" where
  "keep_lease orc file hwaddr lease =
     (if lease = [] then ret ()
      else pbind (of_res (lease_matches hwaddr lease)) (\<lambda>same.
             pwhen (\<not> same) (perform orc (Called ''WriteString'' [file, lease @ [CHR 10]]))))"

definition networkClearLease :: "'o hostenv_scheme \<Rightarrow> string \<Rightarrow> string \<Rightarrow> ('a dbworld_scheme, unit) prog" where
  "networkClearLease orc net hwaddr =
     (let file = VarPath orc [''networks'', net, ''dnsmasq.leases'']
      in pbind (path_exists orc file) (\<lambda>ex.
         if \<not> ex then ret ()
         else pbind (NetworkGet orc net) (\<lambda>(_, n).
           deferred (net_Start orc net (nw_Config n))
             (pbind (networkKillDnsmasq orc net False) (\<lambda>_.
              pbind (ReadFile orc file) (\<lambda>leases.
                seq_all [perform orc (Created file),
                         for_all (keep_lease orc file hwaddr) (Split (CHR 10) leases),
                         perform orc (Called ''Close'' [file])]))))))"

section \<open>Handlers\<close>

definition default_to :: "string gomap \<Rightarrow> string \<Rightarrow> string \<Rightarrow> string gomap" where
  "default_to m k v = (if gm_str m k = [] then gm_set m k v else m)"

definition nat_default :: "string gomap \<Rightarrow> string \<Rightarrow> string \<Rightarrow> string gomap" where
  "nat_default m addr nk =
     (if gm_str m addr = ''auto'' \<and> gm_str m nk = [] then gm_set m nk ''true'' else m)"

definition network_defaults :: "string res \<Rightarrow> string gomap \<Rightarrow> string gomap" where
  "network_defaults disable_ipv6 cfg =
     (if gm_str cfg ''bridge.mode'' = ''fan'' then default_to cfg ''fan.underlay_subnet'' ''auto''
      else
        let c4 = nat_default (default_to cfg ''ipv4.address'' ''auto'') ''ipv4.address'' ''ipv4.nat'';
            c6 = (if disable_ipv6 = Inr (''0'' @ [CHR 10]) then default_to c4 ''ipv6.address'' ''auto'' else c4)
        in nat_default c6 ''ipv6.address'' ''ipv6.nat'')"

definition net_location :: "string \<Rightarrow> response" where
  "net_location name = OkLocation (''/1.0/networks/'' @ name)"

text \<open>The request: its decoding, then name, description, type and configuration.\<close>

definition networksPost :: "'o hostenv_scheme \<Rightarrow> (string \<times> string \<times> string \<times> string gomap) res
    \<Rightarrow> ('a dbworld_scheme, response) prog" where
  "networksPost orc req =
     (case req of
        Inl e \<Rightarrow> ret (BadRequest e)
      | Inr (name, description, typ, cfg) \<Rightarrow>
          if name = [] then ret (BadRequest (Errorf ''No name provided'' []))
          else or_respond BadRequest (of_res (networkValidName name)) (\<lambda>_.
          if typ \<noteq> [] \<and> typ \<noteq> ''bridge''
          then ret (BadRequest (Errorf (''Only '' @ [CHR 39] @ ''bridge'' @ [CHR 39] @ '' type networks can be created'') []))
          else or_respond InternalError (networkGetInterfaces orc) (\<lambda>nets.
          if StringInSlice name nets then ret (BadRequest (Errorf ''The network already exists'' []))
          else or_respond BadRequest (of_res (networkValidateConfig name cfg)) (\<lambda>_.
          pbind (attempt (ReadFile orc ''/proc/sys/net/ipv6/conf/default/disable_ipv6'')) (\<lambda>content.
          or_respond InternalError (networkFillAuto orc (network_defaults content cfg)) (\<lambda>full.
          or_respond (\<lambda>_. InternalError (Errorf ''Error inserting %s into database: %s'' [name]))
            (NetworkCreate orc name description full) (\<lambda>_.
          or_respond InternalError (NetworkGet orc name) (\<lambda>(_, n).
          pbind (attempt (net_Start orc name (nw_Config n))) (\<lambda>r.
            case r of
              Inr _ \<Rightarrow> ret (net_location name)
            | Inl e \<Rightarrow> pbind (ignoring (net_Delete orc name (nw_Config n))) (\<lambda>_. ret (InternalError e)))))))))))"

definition networkDelete :: "'o hostenv_scheme \<Rightarrow> string \<Rightarrow> ('a dbworld_scheme, response) prog" where
  "networkDelete orc name =
     or_respond (\<lambda>_. NotFound) (NetworkGet orc name) (\<lambda>(_, n).
     or_respond SmartError (net_Delete orc name (nw_Config n)) (\<lambda>_.
     pbind (path_exists orc (VarPath orc [''networks'', name])) (\<lambda>ex.
     pbind (pwhen ex (os_Remove orc (VarPath orc [''networks'', name]))) (\<lambda>_.
       ret EmptyOk))))"

definition networkPost :: "'o hostenv_scheme \<Rightarrow> string \<Rightarrow> string res \<Rightarrow> ('a dbworld_scheme, response) prog" where
  "networkPost orc name req =
     (case req of
        Inl e \<Rightarrow> ret (BadRequest e)
      | Inr newName \<Rightarrow>
          or_respond (\<lambda>_. NotFound) (NetworkGet orc name) (\<lambda>(_, n).
          if newName = [] then ret (BadRequest (Errorf ''No name provided'' []))
          else or_respond BadRequest (of_res (networkValidName newName)) (\<lambda>_.
          or_respond InternalError (networkGetInterfaces orc) (\<lambda>nets.
          if StringInSlice newName nets then ret Conflict
          else or_respond SmartError (net_Rename orc name (nw_Config n) newName) (\<lambda>_. ret (net_location newName))))))"

definition doNetworkUpdate :: "'o hostenv_scheme \<Rightarrow> string \<Rightarrow> string \<Rightarrow> string gomap \<Rightarrow> ('a dbworld_scheme, response) prog" where
  "doNetworkUpdate orc name description cfg0 =
     or_respond BadRequest (of_res (networkValidateConfig name cfg0)) (\<lambda>_.
     let cfg = (if gm_str cfg0 ''bridge.mode'' = ''fan'' then default_to cfg0 ''fan.underlay_subnet'' ''auto'' else cfg0)
     in or_respond (\<lambda>_. NotFound) (NetworkGet orc name) (\<lambda>(_, n).
        or_respond SmartError (net_Update orc name (nw_Description n) (nw_Config n) description cfg) (\<lambda>_.
          ret EmptyOk)))"

definition networkPut :: "'o hostenv_scheme \<Rightarrow> string \<Rightarrow> (network \<Rightarrow> unit res) \<Rightarrow> (string \<times> string gomap) res
    \<Rightarrow> ('a dbworld_scheme, response) prog" where
  "networkPut orc name etagCheck req =
     or_respond SmartError (NetworkGet orc name) (\<lambda>(_, dbInfo).
     or_respond PreconditionFailed (of_res (etagCheck dbInfo)) (\<lambda>_.
     or_respond BadRequest (of_res req) (\<lambda>(description, cfg).
       doNetworkUpdate orc name description cfg)))"

text \<open>
  The test is \<open>if dbInfo != nil\<close>: a network that is found is answered with \<open>SmartError(nil)\<close>, and one
  that is not found makes the handler read through a nil pointer.
\<close>

definition networkPatch :: "'o hostenv_scheme \<Rightarrow> string \<Rightarrow> ('a dbworld_scheme, response) prog" where
  "networkPatch orc name =
     pbind (attempt (NetworkGet orc name)) (\<lambda>r.
       case r of
         Inr _ \<Rightarrow> ret EmptyOk
       | Inl _ \<Rightarrow> fail (Panic ''nil pointer dereference''))"

fun users_of :: "'o hostenv_scheme \<Rightarrow> string list \<Rightarrow> string \<Rightarrow> ('a dbworld_scheme, string list) prog" where
  "users_of orc [] name = ret []"
| "users_of orc (ct # cts) name =
     pbind (containerLoadByName orc ct) (\<lambda>c.
     pbind (networkIsInUse orc (ct_expandedDevices c) name) (\<lambda>used.
     pbind (users_of orc cts name) (\<lambda>us.
       ret (if used then (''/1.0/containers/'' @ ct) # us else us))))"

definition interface_type :: "'o hostenv_scheme \<Rightarrow> string \<Rightarrow> bool \<Rightarrow> ('a world_scheme, string) prog" where
  "interface_type orc name managed =
     pbind (path_exists orc (''/sys/class/net/'' @ name @ ''/bridge'')) (\<lambda>bridge.
     pbind (path_exists orc (''/proc/net/vlan/'' @ name)) (\<lambda>vlan.
     pbind (path_exists orc (''/sys/class/net/'' @ name @ ''/device'')) (\<lambda>device.
     pbind (path_exists orc (''/sys/class/net/'' @ name @ ''/bonding'')) (\<lambda>bonding.
       if managed \<or> bridge then ret ''bridge''
       else if vlan then ret ''vlan''
       else if device then ret ''physical''
       else if bonding then ret ''bond''
       else pbind (attempt (run_cmd orc [''ovs-vsctl'', ''br-exists'', name])) (\<lambda>r.
              ret (if is_ok r then ''bridge'' else ''unknown''))))))"

definition doNetworkGet :: "'o hostenv_scheme \<Rightarrow> string \<Rightarrow> ('a dbworld_scheme, response) prog" where
  "doNetworkGet orc name =
     pbind (attempt (InterfaceByName orc name)) (\<lambda>osInfo.
     pbind (attempt (NetworkGet orc name)) (\<lambda>dbInfo.
       if \<not> is_ok osInfo \<and> \<not> is_ok dbInfo then fail NotExist
       else
         pbind (ContainersList orc CTypeRegular) (\<lambda>cts.
         pbind (users_of orc cts name) (\<lambda>users.
         pbind (get_world (\<lambda>w. h_loopback orc (w_hist w) name)) (\<lambda>loopback.
           if is_ok osInfo \<and> loopback then ret (OkNetwork name False ''loopback'' [] [] users)
           else pbind (interface_type orc name (is_ok dbInfo)) (\<lambda>t.
                  ret (case dbInfo of
                         Inr (_, n) \<Rightarrow> OkNetwork name True t (nw_Description n) (nw_Config n) users
                       | Inl _ \<Rightarrow> OkNetwork name False t [] [] users)))))))"

definition networkGet :: "'o hostenv_scheme \<Rightarrow> string \<Rightarrow> ('a dbworld_scheme, response) prog" where
  "networkGet orc name = or_respond SmartError (doNetworkGet orc name) ret"

definition networkStartup :: "'o hostenv_scheme \<Rightarrow> ('a dbworld_scheme, unit) prog" where
  "networkStartup orc =
     pbind (Networks orc) (\<lambda>nets.
       for_all (\<lambda>name. pbind (NetworkGet orc name) (\<lambda>(_, n). ignoring (net_Start orc name (nw_Config n)))) nets)"

definition networkShutdown :: "'o hostenv_scheme \<Rightarrow> ('a dbworld_scheme, unit) prog" where
  "networkShutdown orc =
     pbind (Networks orc) (\<lambda>nets.
       for_all (\<lambda>name. pbind (NetworkGet orc name) (\<lambda>(_, n).
         pbind (net_IsRunning orc name) (\<lambda>running.
           pwhen running (ignoring (net_Stop orc name (nw_Config n)))))) nets)"

end
