(* ===== verification/DbImages.thy ===== *)
theory DbImages
  imports DbStorage Osarch
begin

text \<open>
  Images, certificates, daemon configuration and patches in the database: \<open>apollo/db/images.go\<close>,
  \<open>certificates.go\<close>, \<open>config.go\<close> and \<open>patches.go\<close>.
\<close>

section \<open>Sources\<close>

definition ImageSourceProtocol :: "(int \<times> string) list" where
  "ImageSourceProtocol = [(0, ''apollo''), (1, ''direct''), (2, ''simplestreams'')]"

record image_source =
  is_Server :: string
  is_Protocol :: string
  is_Certificate :: string
  is_Alias :: string

text \<open>The names of the protocols differ, so the visiting order of the map does not matter.\<close>

definition protocol_int :: "string \<Rightarrow> int res" where
  "protocol_int protocol =
     (case map fst (filter (\<lambda>(i, s). s = protocol) ImageSourceProtocol) of
        [] \<Rightarrow> Inl (Errorf ''Invalid protocol: %s'' [protocol])
      | i # _ \<Rightarrow> Inr i)"

definition insert_source :: "source_row \<Rightarrow> db \<Rightarrow> db res" where
  "insert_source r d =
     (if so_image r \<notin> set (t_ids (images d)) then Inl constraint_failed
      else ebind (t_insert no_key r (images_source d)) (\<lambda>(_, tab). Inr (d\<lparr>images_source := tab\<rparr>)))"

definition ImageSourceInsert :: "'o env_scheme \<Rightarrow> int \<Rightarrow> string \<Rightarrow> string \<Rightarrow> string \<Rightarrow> string
    \<Rightarrow> ('a dbworld_scheme, unit) prog" where
  "ImageSourceInsert orc imageId server protocol certificate alias =
     pbind (of_res (protocol_int protocol)) (\<lambda>p.
       Exec orc ''INSERT INTO images_source''
         (insert_source \<lparr>so_image = imageId, so_server = server, so_protocol = p,
                         so_certificate = certificate, so_alias = alias\<rparr>))"

definition no_rows_to_no_object :: "('w, 'r) prog \<Rightarrow> ('w, 'r) prog" where
  "no_rows_to_no_object p =
     pbind (attempt p) (\<lambda>q. case q of
       Inr r \<Rightarrow> ret r | Inl e \<Rightarrow> fail (if e = ErrNoRows then NoSuchObjectError else e))"

definition ImageSourceGet :: "'o env_scheme \<Rightarrow> int \<Rightarrow> ('a dbworld_scheme, int \<times> image_source) prog" where
  "ImageSourceGet orc imageId =
     pbind (no_rows_to_no_object (dbQueryRowScan orc ''SELECT id, server FROM images_source''
              (\<lambda>d. t_where (\<lambda>r. so_image r = imageId) (images_source d)))) (\<lambda>(i, r).
       case map_of ImageSourceProtocol (so_protocol r) of
         None \<Rightarrow> fail (Errorf ''Invalid protocol: %d'' [show_int (so_protocol r)])
       | Some p \<Rightarrow> ret (i, \<lparr>is_Server = so_server r, is_Protocol = p,
                             is_Certificate = so_certificate r, is_Alias = so_alias r\<rparr>))"

text \<open>\<open>ORDER BY creation_date DESC\<close>, NULLs last.\<close>

definition newest_first :: "image_row list \<Rightarrow> image_row list" where
  "newest_first rs =
     sort_key (\<lambda>r. - the (im_creation_date r)) (filter (\<lambda>r. im_creation_date r \<noteq> None) rs) @
     filter (\<lambda>r. im_creation_date r = None) rs"

definition ImageSourceGetCachedFingerprint :: "'o env_scheme \<Rightarrow> string \<Rightarrow> string \<Rightarrow> string
    \<Rightarrow> ('a dbworld_scheme, string) prog" where
  "ImageSourceGetCachedFingerprint orc server protocol alias =
     pbind (of_res (protocol_int protocol)) (\<lambda>p.
       no_rows_to_no_object (dbQueryRowScan orc ''SELECT images.fingerprint FROM images_source''
         (\<lambda>d. map im_fingerprint (newest_first
            (concat (map (\<lambda>s. case t_get (images d) (so_image s) of
                                None \<Rightarrow> [] | Some r \<Rightarrow> if im_auto_update r = 1 then [r] else [])
               (map snd (t_where (\<lambda>s. so_server s = server \<and> so_protocol s = p \<and> so_alias s = alias)
                  (images_source d)))))))))"

section \<open>Images\<close>

record image =
  mg_Fingerprint :: string
  mg_Filename :: string
  mg_Size :: int
  mg_Cached :: bool
  mg_Public :: bool
  mg_AutoUpdate :: bool
  mg_Architecture :: string
  mg_CreatedAt :: "int option"
  mg_ExpiresAt :: "int option"
  mg_LastUsedAt :: "int option"
  mg_UploadedAt :: int
  mg_Properties :: "string gomap"
  mg_Aliases :: "(string \<times> string) list"
  mg_UpdateSource :: "image_source option"

definition ImagesGet :: "'o env_scheme \<Rightarrow> bool \<Rightarrow> ('a dbworld_scheme, string list) prog" where
  "ImagesGet orc public =
     QueryScan orc ''SELECT fingerprint FROM images''
       (\<lambda>d. map (im_fingerprint \<circ> snd) (t_where (\<lambda>r. public \<longrightarrow> im_public r = 1) (images d)))"

definition ImageExists :: "'o env_scheme \<Rightarrow> string \<Rightarrow> ('a dbworld_scheme, bool) prog" where
  "ImageExists orc fp =
     dbQueryRowScan orc ''SELECT COUNT(*) > 0 FROM images''
       (\<lambda>d. [length (t_where (\<lambda>r. im_fingerprint r = fp) (images d)) > 0])"

definition fp_match :: "string \<Rightarrow> bool \<Rightarrow> image_row \<Rightarrow> bool" where
  "fp_match fp strict r \<longleftrightarrow>
     (if strict then im_fingerprint r = fp else sql_like (fp @ ''%'') (im_fingerprint r))"

definition ImageGet :: "'o env_scheme \<Rightarrow> string \<Rightarrow> bool \<Rightarrow> bool \<Rightarrow> ('a dbworld_scheme, int \<times> image) prog" where
  "ImageGet orc fp public strict =
     pbind (dbQueryRowScan orc ''SELECT id, fingerprint FROM images''
              (\<lambda>d. t_where (\<lambda>r. fp_match fp strict r \<and> (public \<longrightarrow> im_public r = 1)) (images d))) (\<lambda>(i, r).
     pbind (if strict then ret 1
            else dbQueryRowScan orc ''SELECT COUNT(id) FROM images''
                   (\<lambda>d. [length (t_where (fp_match fp False) (images d))])) (\<lambda>count.
     if count > 1 then fail (Errorf ''Partial fingerprint matches more than one image'' [])
     else
       pbind (QueryScan orc ''SELECT key, value FROM images_properties''
                (\<lambda>d. map (snd \<circ> snd) (t_where (\<lambda>p. fst p = i) (images_properties d)))) (\<lambda>properties.
       pbind (QueryScan orc ''SELECT name, description FROM images_aliases''
                (\<lambda>d. map (\<lambda>(_, a). (al_name a, al_description a)) (t_where (\<lambda>a. al_image a = i) (images_aliases d))))
         (\<lambda>aliases.
       pbind (attempt (ImageSourceGet orc i)) (\<lambda>source.
         ret (i, \<lparr>mg_Fingerprint = im_fingerprint r, mg_Filename = im_filename r, mg_Size = im_size r,
                  mg_Cached = (im_cached r \<noteq> 0), mg_Public = (im_public r \<noteq> 0),
                  mg_AutoUpdate = (im_auto_update r \<noteq> 0),
                  mg_Architecture = (case ArchitectureName (im_architecture r) of
                     Inr n \<Rightarrow> n | Inl _ \<Rightarrow> ''unknown''),
                  mg_CreatedAt = im_creation_date r, mg_ExpiresAt = im_expiry_date r,
                  mg_LastUsedAt = im_last_use_date r, mg_UploadedAt = im_upload_date r,
                  mg_Properties = rows_map properties, mg_Aliases = aliases,
                  mg_UpdateSource = (case source of Inr (_, s) \<Rightarrow> Some s | Inl _ \<Rightarrow> None)\<rparr>))))))"

definition delete_images :: "(int \<Rightarrow> image_row \<Rightarrow> bool) \<Rightarrow> db \<Rightarrow> db" where
  "delete_images P d =
     (let ims = t_delete P (images d)
      in d\<lparr>images := ims,
           images_aliases := cascade al_image ims (images_aliases d),
           images_properties := cascade fst ims (images_properties d),
           images_source := cascade so_image ims (images_source d)\<rparr>)"

definition ImageDelete :: "'o env_scheme \<Rightarrow> int \<Rightarrow> ('a dbworld_scheme, unit) prog" where
  "ImageDelete orc i =
     Exec orc ''DELETE FROM images WHERE id=?'' (\<lambda>d. Inr (delete_images (\<lambda>j _. j = i) d))"

definition update_images :: "(int \<Rightarrow> image_row \<Rightarrow> bool) \<Rightarrow> (image_row \<Rightarrow> image_row) \<Rightarrow> db \<Rightarrow> db res" where
  "update_images P f d =
     ebind (t_update (Some \<circ> im_fingerprint) P f (images d)) (\<lambda>tab. Inr (d\<lparr>images := tab\<rparr>))"

definition ImageLastAccessUpdate :: "'o env_scheme \<Rightarrow> string \<Rightarrow> int \<Rightarrow> ('a dbworld_scheme, unit) prog" where
  "ImageLastAccessUpdate orc fp date =
     Exec orc ''UPDATE images SET last_use_date''
       (update_images (\<lambda>_ r. im_fingerprint r = fp) (\<lambda>r. r\<lparr>im_last_use_date := Some date\<rparr>))"

definition ImageLastAccessInit :: "'o env_scheme \<Rightarrow> string \<Rightarrow> ('a dbworld_scheme, unit) prog" where
  "ImageLastAccessInit orc fp =
     pbind (get_world (\<lambda>w. o_now orc (w_hist w))) (\<lambda>now.
       Exec orc ''UPDATE images SET cached=1''
         (update_images (\<lambda>_ r. im_fingerprint r = fp)
            (\<lambda>r. r\<lparr>im_cached := 1, im_last_use_date := Some now\<rparr>)))"

definition arch_or_zero :: "string \<Rightarrow> int" where
  "arch_or_zero a = (case ArchitectureId a of Inr i \<Rightarrow> i | Inl _ \<Rightarrow> 0)"

definition insert_property :: "int \<Rightarrow> string \<Rightarrow> string \<Rightarrow> db \<Rightarrow> db res" where
  "insert_property i k v d =
     (if i \<notin> set (t_ids (images d)) then Inl constraint_failed
      else ebind (t_insert no_key (i, k, v) (images_properties d)) (\<lambda>(_, tab).
             Inr (d\<lparr>images_properties := tab\<rparr>)))"

text \<open>The error of the deletion of the old properties is overwritten by that of the next statement.\<close>

definition ImageUpdate :: "'o env_scheme \<Rightarrow> int \<Rightarrow> string \<Rightarrow> int \<Rightarrow> bool \<Rightarrow> bool \<Rightarrow> string \<Rightarrow> int \<Rightarrow> int
    \<Rightarrow> string gomap \<Rightarrow> ('a dbworld_scheme, unit) prog" where
  "ImageUpdate orc i fname sz public autoUpdate arch createdAt expiresAt properties =
     transaction orc (seq_all
       [Prepare orc ''UPDATE images'',
        tx_Exec orc ''UPDATE images''
          (update_images (\<lambda>j _. j = i)
             (\<lambda>r. r\<lparr>im_filename := fname, im_size := sz, im_public := (if public then 1 else 0),
                    im_auto_update := (if autoUpdate then 1 else 0),
                    im_architecture := arch_or_zero arch,
                    im_creation_date := Some createdAt, im_expiry_date := Some expiresAt\<rparr>)),
        ignoring (tx_Exec orc ''DELETE FROM images_properties'' (\<lambda>d.
          Inr (d\<lparr>images_properties := t_delete (\<lambda>_ r. fst r = i) (images_properties d)\<rparr>))),
        Prepare orc ''INSERT INTO images_properties'',
        for_all (\<lambda>(k, v). tx_Exec orc ''INSERT INTO images_properties'' (insert_property i k v)) properties])"

definition insert_image :: "image_row \<Rightarrow> db \<Rightarrow> (int \<times> db) res" where
  "insert_image r d =
     ebind (t_insert (Some \<circ> im_fingerprint) r (images d)) (\<lambda>(i, tab). Inr (i, d\<lparr>images := tab\<rparr>))"

definition ImageInsert :: "'o env_scheme \<Rightarrow> string \<Rightarrow> string \<Rightarrow> int \<Rightarrow> bool \<Rightarrow> bool \<Rightarrow> string \<Rightarrow> int \<Rightarrow> int
    \<Rightarrow> string gomap \<Rightarrow> ('a dbworld_scheme, unit) prog" where
  "ImageInsert orc fp fname sz public autoUpdate arch createdAt expiresAt properties =
     transaction orc
       (pbind (Prepare orc ''INSERT INTO images'') (\<lambda>_.
        pbind (get_world (\<lambda>w. o_now orc (w_hist w))) (\<lambda>now.
        pbind (sql orc ''INSERT INTO images''
                 (insert_image
                    \<lparr>im_cached = 0, im_fingerprint = fp, im_filename = fname, im_size = sz,
                     im_public = (if public then 1 else 0),
                     im_auto_update = (if autoUpdate then 1 else 0),
                     im_architecture = arch_or_zero arch, im_creation_date = Some createdAt,
                     im_expiry_date = Some expiresAt, im_upload_date = now, im_last_use_date = None\<rparr>)) (\<lambda>i.
          pwhen (length properties > 0) (seq_all
            [Prepare orc ''INSERT INTO images_properties'',
             for_all (\<lambda>(k, v). tx_Exec orc ''INSERT INTO images_properties'' (insert_property i k v))
               properties])))))"

definition ImageGetPools :: "'o env_scheme \<Rightarrow> string \<Rightarrow> ('a dbworld_scheme, int list) prog" where
  "ImageGetPools orc fp =
     QueryScan orc ''SELECT storage_pool_id FROM storage_volumes''
       (\<lambda>d. map (vo_pool \<circ> snd)
              (t_where (\<lambda>r. vo_name r = fp \<and> vo_type r = StoragePoolVolumeTypeImage) (storage_volumes d)))"

fun ImageGetPoolNamesFromIDs :: "'o env_scheme \<Rightarrow> int list \<Rightarrow> ('a dbworld_scheme, string list) prog" where
  "ImageGetPoolNamesFromIDs orc [] = ret []"
| "ImageGetPoolNamesFromIDs orc (i # is) =
     pbind (QueryScan orc ''SELECT name FROM storage_pools WHERE id=?''
              (\<lambda>d. map (po_name \<circ> snd) (filter (\<lambda>(j, r). j = i) (t_rows (storage_pools d))))) (\<lambda>names.
     pbind (ImageGetPoolNamesFromIDs orc is) (\<lambda>rest. ret (names @ rest)))"

section \<open>Aliases\<close>

record alias_entry =
  ae_Name :: string
  ae_Target :: string
  ae_Description :: string

definition ImageAliasGet :: "'o env_scheme \<Rightarrow> string \<Rightarrow> bool \<Rightarrow> ('a dbworld_scheme, int \<times> alias_entry) prog" where
  "ImageAliasGet orc name isTrustedClient =
     pbind (no_rows_to_no_object (dbQueryRowScan orc ''SELECT images_aliases.id FROM images_aliases''
       (\<lambda>d. concat (map (\<lambda>(i, a). case t_get (images d) (al_image a) of
              None \<Rightarrow> []
            | Some r \<Rightarrow> if isTrustedClient \<or> im_public r = 1
                        then [(i, im_fingerprint r, al_description a)] else [])
            (t_where (\<lambda>a. al_name a = name) (images_aliases d))))))
       (\<lambda>(i, fp, desc). ret (i, \<lparr>ae_Name = name, ae_Target = fp, ae_Description = desc\<rparr>))"

definition update_aliases :: "(int \<Rightarrow> alias_row \<Rightarrow> bool) \<Rightarrow> (alias_row \<Rightarrow> alias_row) \<Rightarrow> db \<Rightarrow> db res" where
  "update_aliases P f d =
     ebind (t_update (Some \<circ> al_name) P f (images_aliases d)) (\<lambda>tab.
       if fk_ok al_image tab (images d) then Inr (d\<lparr>images_aliases := tab\<rparr>) else Inl constraint_failed)"

definition ImageAliasRename :: "'o env_scheme \<Rightarrow> int \<Rightarrow> string \<Rightarrow> ('a dbworld_scheme, unit) prog" where
  "ImageAliasRename orc i name =
     Exec orc ''UPDATE images_aliases SET name'' (update_aliases (\<lambda>j _. j = i) (\<lambda>r. r\<lparr>al_name := name\<rparr>))"

definition ImageAliasDelete :: "'o env_scheme \<Rightarrow> string \<Rightarrow> ('a dbworld_scheme, unit) prog" where
  "ImageAliasDelete orc name =
     Exec orc ''DELETE FROM images_aliases'' (\<lambda>d.
       Inr (d\<lparr>images_aliases := t_delete (\<lambda>_ r. al_name r = name) (images_aliases d)\<rparr>))"

definition ImageAliasesMove :: "'o env_scheme \<Rightarrow> int \<Rightarrow> int \<Rightarrow> ('a dbworld_scheme, unit) prog" where
  "ImageAliasesMove orc source destination =
     Exec orc ''UPDATE images_aliases SET image_id''
       (update_aliases (\<lambda>_ r. al_image r = source) (\<lambda>r. r\<lparr>al_image := destination\<rparr>))"

definition insert_alias :: "alias_row \<Rightarrow> db \<Rightarrow> db res" where
  "insert_alias r d =
     (if al_image r \<notin> set (t_ids (images d)) then Inl constraint_failed
      else ebind (t_insert (Some \<circ> al_name) r (images_aliases d)) (\<lambda>(_, tab).
             Inr (d\<lparr>images_aliases := tab\<rparr>)))"

definition ImageAliasAdd :: "'o env_scheme \<Rightarrow> string \<Rightarrow> int \<Rightarrow> string \<Rightarrow> ('a dbworld_scheme, unit) prog" where
  "ImageAliasAdd orc name imageID desc =
     Exec orc ''INSERT INTO images_aliases''
       (insert_alias \<lparr>al_name = name, al_image = imageID, al_description = desc\<rparr>)"

definition ImageAliasUpdate :: "'o env_scheme \<Rightarrow> int \<Rightarrow> int \<Rightarrow> string \<Rightarrow> ('a dbworld_scheme, unit) prog" where
  "ImageAliasUpdate orc i imageID desc =
     Exec orc ''UPDATE images_aliases SET image_id, description''
       (update_aliases (\<lambda>j _. j = i) (\<lambda>r. r\<lparr>al_image := imageID, al_description := desc\<rparr>))"

section \<open>Certificates\<close>

text \<open>The first certificate whose fingerprint matches the pattern; nothing asks whether it is the only one.\<close>

definition CertsGet :: "'o env_scheme \<Rightarrow> ('a dbworld_scheme, (int \<times> cert_row) list) prog" where
  "CertsGet orc = QueryScan orc ''SELECT id, fingerprint, type, name, certificate FROM certificates''
     (\<lambda>d. t_rows (certificates d))"

definition CertGet :: "'o env_scheme \<Rightarrow> string \<Rightarrow> ('a dbworld_scheme, int \<times> cert_row) prog" where
  "CertGet orc fp =
     dbQueryRowScan orc ''SELECT id, fingerprint, type, name, certificate FROM certificates''
       (\<lambda>d. t_where (\<lambda>r. sql_like (fp @ ''%'') (ce_fingerprint r)) (certificates d))"

definition CertSave :: "'o env_scheme \<Rightarrow> cert_row \<Rightarrow> ('a dbworld_scheme, unit) prog" where
  "CertSave orc cert =
     transaction orc (seq_all
       [Prepare orc ''INSERT INTO certificates'',
        tx_Exec orc ''INSERT INTO certificates'' (\<lambda>d.
          ebind (t_insert (Some \<circ> ce_fingerprint) cert (certificates d)) (\<lambda>(_, tab).
            Inr (d\<lparr>certificates := tab\<rparr>)))])"

definition CertDelete :: "'o env_scheme \<Rightarrow> string \<Rightarrow> ('a dbworld_scheme, unit) prog" where
  "CertDelete orc fp =
     Exec orc ''DELETE FROM certificates'' (\<lambda>d.
       Inr (d\<lparr>certificates := t_delete (\<lambda>_ r. ce_fingerprint r = fp) (certificates d)\<rparr>))"

definition CertUpdate :: "'o env_scheme \<Rightarrow> string \<Rightarrow> string \<Rightarrow> int \<Rightarrow> ('a dbworld_scheme, unit) prog" where
  "CertUpdate orc fp certName certType =
     transaction orc (tx_Exec orc ''UPDATE certificates SET name, type'' (\<lambda>d.
       ebind (t_update (Some \<circ> ce_fingerprint) (\<lambda>_ r. ce_fingerprint r = fp)
                (\<lambda>r. r\<lparr>ce_name := certName, ce_type := certType\<rparr>) (certificates d)) (\<lambda>tab.
         Inr (d\<lparr>certificates := tab\<rparr>))))"

section \<open>Daemon configuration and patches\<close>

definition ConfigValuesGet :: "'o env_scheme \<Rightarrow> ('a dbworld_scheme, string gomap) prog" where
  "ConfigValuesGet orc =
     pbind (QueryScan orc ''SELECT key, value FROM config'' (\<lambda>d. t_vals (config d))) (\<lambda>rs. ret (rows_map rs))"

definition insert_config :: "string \<Rightarrow> string \<Rightarrow> db \<Rightarrow> db res" where
  "insert_config k v d =
     ebind (t_insert (Some \<circ> fst) (k, v) (config d)) (\<lambda>(_, tab). Inr (d\<lparr>config := tab\<rparr>))"

definition ConfigValueSet :: "'o env_scheme \<Rightarrow> string \<Rightarrow> string \<Rightarrow> ('a dbworld_scheme, unit) prog" where
  "ConfigValueSet orc key v =
     transaction orc (seq_all
       [tx_Exec orc ''DELETE FROM config'' (\<lambda>d.
          Inr (d\<lparr>config := t_delete (\<lambda>_ r. fst r = key) (config d)\<rparr>)),
        pwhen (v \<noteq> []) (seq_all
          [Prepare orc ''INSERT INTO config'', tx_Exec orc ''INSERT INTO config'' (insert_config key v)])])"

definition Patches :: "'o env_scheme \<Rightarrow> ('a dbworld_scheme, string list) prog" where
  "Patches orc = QueryScan orc ''SELECT name FROM patches'' (\<lambda>d. t_vals (patches d))"

text \<open>Not retried.\<close>

definition PatchesMarkApplied :: "'o env_scheme \<Rightarrow> string \<Rightarrow> ('a dbworld_scheme, unit) prog" where
  "PatchesMarkApplied orc patch =
     tx_Exec orc ''INSERT INTO patches'' (\<lambda>d.
       ebind (t_insert Some patch (patches d)) (\<lambda>(_, tab). Inr (d\<lparr>patches := tab\<rparr>)))"

end
