(* ===== verification/DbLaws.thy ===== *)
theory DbLaws
  imports DbImages DbNetworks
begin

text \<open>
  What the database calls keep: a small calculus for properties of the tables that every program
  keeps (\<open>keeps\<close>) and for programs that leave the tables alone when they fail (\<open>atomic\<close>), and the
  integrity of the tables under every statement of the database layer.
\<close>

section \<open>The calculus\<close>

definition keeps :: "(db \<Rightarrow> bool) \<Rightarrow> ('a dbworld_scheme, 'r) prog \<Rightarrow> bool" where
  "keeps I p \<longleftrightarrow> (\<forall>w. I (w_db w) \<longrightarrow> I (w_db (snd (p w))))"

definition atomic :: "('a dbworld_scheme, 'r) prog \<Rightarrow> bool" where
  "atomic p \<longleftrightarrow> (\<forall>w e. fst (p w) = Inl e \<longrightarrow> w_db (snd (p w)) = w_db w)"

text \<open>Programs that never change the tables.\<close>

definition db_readonly :: "('a dbworld_scheme, 'r) prog \<Rightarrow> bool" where
  "db_readonly p \<longleftrightarrow> (\<forall>w. w_db (snd (p w)) = w_db w)"

named_theorems keeps_intros \<open>rules for kept properties of the tables\<close>
named_theorems eff_intros \<open>effects of statements that keep the integrity of the tables\<close>
named_theorems db_readonly_intros \<open>rules for programs that only read\<close>
named_theorems atomic_intros \<open>rules for programs that change nothing when they fail\<close>

lemma w_db_emit [simp]: "w_db (emit ev w) = w_db w"
  by (simp add: emit_def)

lemma keepsI: "(\<And>w. I (w_db w) \<Longrightarrow> I (w_db (snd (p w)))) \<Longrightarrow> keeps I p"
  by (simp add: keeps_def)

lemma keepsD: "keeps I p \<Longrightarrow> I (w_db w) \<Longrightarrow> I (w_db (snd (p w)))"
  by (simp add: keeps_def)

lemma keeps_basic [keeps_intros]:
  "keeps I (ret x)" "keeps I (fail e)" "keeps I (of_res r)" "keeps I (get_world f)"
  by (simp_all add: keeps_def prog_defs)

lemma keeps_pbind [keeps_intros]:
  assumes "keeps I p" "\<And>x. keeps I (f x)"
  shows "keeps I (pbind p f)"
proof (rule keepsI)
  fix w :: "'a dbworld_scheme" assume "I (w_db w)"
  then have "I (w_db (snd (p w)))" by (rule keepsD [OF assms(1)])
  then show "I (w_db (snd (pbind p f w)))"
    using keepsD [OF assms(2)] by (cases "p w"; cases "fst (p w)") (auto simp: pbind_def)
qed

lemma keeps_attempt [keeps_intros]: "keeps I p \<Longrightarrow> keeps I (attempt p)"
  by (simp add: keeps_def)

lemma keeps_ignoring [keeps_intros]: "keeps I p \<Longrightarrow> keeps I (ignoring p)"
  unfolding ignoring_def by (intro keeps_intros)

lemma keeps_seq_all [keeps_intros]: "list_all (keeps I) ps \<Longrightarrow> keeps I (seq_all ps)"
  by (induction ps) (auto intro: keeps_intros)

lemma keeps_for_all [keeps_intros]: "(\<And>x. x \<in> set xs \<Longrightarrow> keeps I (f x)) \<Longrightarrow> keeps I (for_all f xs)"
  unfolding for_all_def by (rule keeps_seq_all) (simp add: list_all_iff)

lemma keeps_pwhen [keeps_intros]: "keeps I p \<Longrightarrow> keeps I (pwhen b p)"
  by (simp add: pwhen_def keeps_basic)

lemma keeps_if [keeps_intros]: "keeps I p \<Longrightarrow> keeps I q \<Longrightarrow> keeps I (if b then p else q)"
  by simp

lemma keeps_sum [keeps_intros]:
  "(\<And>e. r = Inl e \<Longrightarrow> keeps I (f e)) \<Longrightarrow> (\<And>x. r = Inr x \<Longrightarrow> keeps I (g x)) \<Longrightarrow>
   keeps I (case r of Inl e \<Rightarrow> f e | Inr x \<Rightarrow> g x)"
  by (cases r) auto

lemma keeps_option [keeps_intros]:
  "keeps I p \<Longrightarrow> (\<And>x. keeps I (f x)) \<Longrightarrow> keeps I (case r of None \<Rightarrow> p | Some x \<Rightarrow> f x)"
  by (cases r) auto

lemma keeps_prod [keeps_intros]: "(\<And>a b. keeps I (f a b)) \<Longrightarrow> keeps I (case x of (a, b) \<Rightarrow> f a b)"
  by (cases x) auto

lemma keeps_sql:
  assumes "\<And>d r d'. I d \<Longrightarrow> eff d = Inr (r, d') \<Longrightarrow> I d'"
  shows "keeps I (sql orc q eff)"
  using assms
  by (auto simp: keeps_def sql_def perform_def pbind_def split: option.splits sum.splits)

lemma keeps_tx_Exec:
  "(\<And>d d'. I d \<Longrightarrow> eff d = Inr d' \<Longrightarrow> I d') \<Longrightarrow> keeps I (tx_Exec orc q eff)"
  unfolding tx_Exec_def by (rule keeps_sql) (auto simp: ebind_eq_Inr)

lemma keeps_retry [keeps_intros]: "keeps I p \<Longrightarrow> keeps I (retry n p)"
  by (induction n) (auto intro!: keeps_intros)

lemma keeps_Exec: "(\<And>d d'. I d \<Longrightarrow> eff d = Inr d' \<Longrightarrow> I d') \<Longrightarrow> keeps I (Exec orc q eff)"
  unfolding Exec_def by (intro keeps_retry keeps_tx_Exec)

lemma keeps_QueryScan [keeps_intros]: "keeps I (QueryScan orc q f)"
  unfolding QueryScan_def by (intro keeps_retry keeps_sql) simp

lemma keeps_dbQueryRowScan [keeps_intros]: "keeps I (dbQueryRowScan orc q f)"
  unfolding dbQueryRowScan_def by (intro keeps_retry keeps_sql) (auto split: list.splits)

lemma keeps_plain [keeps_intros]:
  "keeps I (Begin orc)" "keeps I (TxCommit orc)" "keeps I (Prepare orc q)" "keeps I (Prepare_unchecked orc q)"
proof -
  have p: "keeps I (tx_Exec orc s no_effect)" for s
    by (rule keeps_tx_Exec) (simp add: no_effect_def)
  show "keeps I (Begin orc)" "keeps I (TxCommit orc)" "keeps I (Prepare orc q)"
    unfolding Begin_def TxCommit_def Prepare_def by (intro keeps_intros p)+
  then show "keeps I (Prepare_unchecked orc q)"
    unfolding Prepare_unchecked_def by (intro keeps_intros)
qed

lemma keeps_transaction [keeps_intros]:
  assumes "keeps I body"
  shows "keeps I (transaction orc body)"
proof -
  have "keeps I (pbind body (\<lambda>x. pbind (TxCommit orc) (\<lambda>_. ret x)))"
    by (intro keeps_intros assms)
  then show ?thesis
    unfolding transaction_def by (intro keeps_intros) (auto simp: keeps_def split: prod.splits sum.splits)
qed

section \<open>Reading and failing\<close>

lemma db_readonly_basic [db_readonly_intros]:
  "db_readonly (ret x)" "db_readonly (fail e)" "db_readonly (of_res r)" "db_readonly (get_world f)"
  by (simp_all add: db_readonly_def prog_defs)

lemma db_readonly_iff_keeps: "db_readonly p \<longleftrightarrow> (\<forall>d. keeps (\<lambda>d'. d' = d) p)"
  by (auto simp: db_readonly_def keeps_def)

lemma db_readonly_pbind [db_readonly_intros]:
  "db_readonly p \<Longrightarrow> (\<And>x. db_readonly (f x)) \<Longrightarrow> db_readonly (pbind p f)"
  unfolding db_readonly_iff_keeps by (blast intro: keeps_pbind)

lemma db_readonly_attempt [db_readonly_intros]: "db_readonly p \<Longrightarrow> db_readonly (attempt p)"
  unfolding db_readonly_iff_keeps by (blast intro: keeps_attempt)

lemma db_readonly_query [db_readonly_intros]:
  "db_readonly (QueryScan orc q f)" "db_readonly (dbQueryRowScan orc q g)" "db_readonly (Begin orc)"
  "db_readonly (Prepare orc q)"
  by (simp_all add: db_readonly_iff_keeps keeps_intros)

lemma db_readonly_if [db_readonly_intros]:
  "db_readonly p \<Longrightarrow> db_readonly q \<Longrightarrow> db_readonly (if b then p else q)"
  by simp

lemma db_readonly_sum [db_readonly_intros]:
  "(\<And>e. db_readonly (f e)) \<Longrightarrow> (\<And>x. db_readonly (g x)) \<Longrightarrow>
   db_readonly (case r of Inl e \<Rightarrow> f e | Inr x \<Rightarrow> g x)"
  by (cases r) auto

lemma db_readonly_option [db_readonly_intros]:
  "db_readonly p \<Longrightarrow> (\<And>x. db_readonly (f x)) \<Longrightarrow> db_readonly (case r of None \<Rightarrow> p | Some x \<Rightarrow> f x)"
  by (cases r) auto

lemma db_readonly_prod [db_readonly_intros]:
  "(\<And>a b. db_readonly (f a b)) \<Longrightarrow> db_readonly (case x of (a, b) \<Rightarrow> f a b)"
  by (cases x) auto

lemma atomic_readonly: "db_readonly p \<Longrightarrow> atomic p"
  by (simp add: atomic_def db_readonly_def)

lemma atomic_sql [atomic_intros]: "atomic (sql orc q eff)"
  by (auto simp: atomic_def sql_def perform_def pbind_def split: option.splits sum.splits prod.splits)

lemma atomic_tx_Exec [atomic_intros]: "atomic (tx_Exec orc q eff)"
  unfolding tx_Exec_def by (rule atomic_sql)

lemma locked_no_panic: "IsDbLockedError (Some e) \<Longrightarrow> \<not> is_panic e"
  by (simp add: IsDbLockedError_def db_locked_def is_panic_def)

lemma atomic_retry [atomic_intros]: "atomic p \<Longrightarrow> atomic (retry n p)"
proof (induction n)
  case (Suc n)
  show ?case
    unfolding atomic_def
  proof (intro allI impI)
    fix w e
    assume fail: "fst (retry (Suc n) p w) = Inl e"
    obtain r v where rv: "p w = (r, v)" by (cases "p w")
    show "w_db (snd (retry (Suc n) p w)) = w_db w"
    proof (cases r)
      case (Inl x)
      with Suc.prems rv have same: "w_db v = w_db w" unfolding atomic_def by (metis fst_conv snd_conv)
      show ?thesis
      proof (cases "IsDbLockedError (Some x)")
        case True
        note no_panic = locked_no_panic [OF this]
        with True Inl rv fail have "fst (retry n p v) = Inl e" by (simp add: pbind_def attempt_def)
        with Suc.IH [OF Suc.prems] have "w_db (snd (retry n p v)) = w_db v" unfolding atomic_def by blast
        with True no_panic Inl rv same show ?thesis by (simp add: pbind_def attempt_def)
      next
        case False
        with Inl rv same show ?thesis by (simp add: pbind_def attempt_def fail_def)
      qed
    next
      case (Inr x)
      with rv fail show ?thesis by (simp add: pbind_def attempt_def ret_def)
    qed
  qed
qed (simp add: atomic_def fail_def)

lemma atomic_Exec [atomic_intros]: "atomic (Exec orc q eff)"
  unfolding Exec_def by (intro atomic_intros)

text \<open>What a transaction gives: whatever its statements did, a failure takes it back.\<close>

lemma atomic_transaction [atomic_intros]: "atomic (transaction orc body)"
  unfolding atomic_def
proof (intro allI impI)
  fix w e
  assume "fst (transaction orc body w) = Inl e"
  moreover have "w_db (snd (Begin orc w)) = w_db w"
    by (rule db_readonly_query(3) [unfolded db_readonly_def, rule_format])
  ultimately show "w_db (snd (transaction orc body w)) = w_db w"
    by (cases "Begin orc w"; cases "fst (Begin orc w)")
       (auto simp: transaction_def pbind_def [of "Begin orc"] split: prod.splits sum.splits)
qed

lemma atomic_after_read [atomic_intros]:
  assumes "db_readonly p" "\<And>x. atomic (f x)"
  shows "atomic (pbind p f)"
  unfolding atomic_def
proof (intro allI impI)
  fix w e
  assume fail: "fst (pbind p f w) = Inl e"
  obtain r v where rv: "p w = (r, v)" by (cases "p w")
  then have same: "w_db v = w_db w" using assms(1) unfolding db_readonly_def by (metis snd_conv)
  show "w_db (snd (pbind p f w)) = w_db w"
    using fail rv same assms(2) by (cases r) (auto simp: pbind_def atomic_def)
qed

lemma atomic_then_ret [atomic_intros]: "atomic p \<Longrightarrow> atomic (pbind p (\<lambda>x. ret (f x)))"
  unfolding atomic_def
proof (intro allI impI)
  fix w e
  assume p: "\<forall>w e. fst (p w) = Inl e \<longrightarrow> w_db (snd (p w)) = w_db w"
    and "fst (pbind p (\<lambda>x. ret (f x)) w) = Inl e"
  then show "w_db (snd (pbind p (\<lambda>x. ret (f x)) w)) = w_db w"
    using p [rule_format, of w] by (cases "p w"; cases "fst (p w)") (auto simp: pbind_def ret_def)
qed

lemma atomic_cases [atomic_intros]:
  "(\<And>e. atomic (f e)) \<Longrightarrow> (\<And>x. atomic (g x)) \<Longrightarrow> atomic (case r of Inl e \<Rightarrow> f e | Inr x \<Rightarrow> g x)"
  by (cases r) auto

lemma atomic_prod [atomic_intros]: "(\<And>a b. atomic (f a b)) \<Longrightarrow> atomic (case x of (a, b) \<Rightarrow> f a b)"
  by (cases x) auto

lemma atomic_if [atomic_intros]: "atomic p \<Longrightarrow> atomic q \<Longrightarrow> atomic (if b then p else q)"
  by simp

section \<open>Integrity under every statement\<close>

lemma kv_insert_ok:
  assumes "kv_insert p r t = Inr t'"
  shows "t_ok kv_key t \<Longrightarrow> t_ok kv_key t'" "fk_ok fst t p \<Longrightarrow> fk_ok fst t' p"
  using assms
  by (auto simp: kv_insert_def ebind_eq_Inr split: if_splits intro: t_ok_insert fk_ok_insert_child)

text \<open>An update that leaves the owners of the rows alone.\<close>

lemma fk_ok_update_child:
  assumes "fk_ok own c p" "t_update key P f c = Inr c'" "\<And>r. own (f r) = own r"
  shows "fk_ok own c' p"
proof -
  have "map own (t_vals c') = map own (t_vals c)"
    using assms(2,3) by (auto simp: t_update_def t_vals_def Let_def split: if_splits)
  with assms(1) show ?thesis by (simp add: fk_ok_def)
qed

text \<open>An entity with its configuration.\<close>

lemma entity_insert: "entity_ok key P C \<Longrightarrow> t_insert key r P = Inr (i, P') \<Longrightarrow> entity_ok key P' C"
  unfolding entity_ok_def by (blast intro: t_ok_insert fk_ok_insert_parent)

lemma entity_update: "entity_ok key P C \<Longrightarrow> t_update key Q f P = Inr P' \<Longrightarrow> entity_ok key P' C"
  unfolding entity_ok_def by (blast intro: t_ok_update fk_ok_update_parent)

lemma entity_kv_insert: "entity_ok key P C \<Longrightarrow> kv_insert P r C = Inr C' \<Longrightarrow> entity_ok key P C'"
  unfolding entity_ok_def by (blast intro: kv_insert_ok)

lemma entity_kv_delete: "entity_ok key P C \<Longrightarrow> entity_ok key P (t_delete Q C)"
  unfolding entity_ok_def by simp

lemma entity_delete: "entity_ok key P C \<Longrightarrow> entity_ok key (t_delete Q P) (cascade fst (t_delete Q P) C)"
  unfolding entity_ok_def by simp

lemma entity_cascade:
  "entity_ok key P C \<Longrightarrow> entity_ok key (cascade own X P) (cascade fst (cascade own X P) C)"
  unfolding cascade_def [of own X P] by (rule entity_delete)

text \<open>One with devices besides.\<close>

lemma holder_insert: "holder_ok key P C D E \<Longrightarrow> t_insert key r P = Inr (i, P') \<Longrightarrow> holder_ok key P' C D E"
  unfolding holder_ok_def by (blast intro: entity_insert fk_ok_insert_parent)

lemma holder_update: "holder_ok key P C D E \<Longrightarrow> t_update key Q f P = Inr P' \<Longrightarrow> holder_ok key P' C D E"
  unfolding holder_ok_def by (blast intro: entity_update fk_ok_update_parent)

lemma holder_kv_insert: "holder_ok key P C D E \<Longrightarrow> kv_insert P r C = Inr C' \<Longrightarrow> holder_ok key P C' D E"
  unfolding holder_ok_def by (blast intro: entity_kv_insert)

lemma holder_kv_delete: "holder_ok key P C D E \<Longrightarrow> holder_ok key P (t_delete Q C) D E"
  unfolding holder_ok_def by (blast intro: entity_kv_delete)

lemma holder_device_insert:
  "holder_ok key P C D E \<Longrightarrow> de_owner r \<in> set (t_ids P) \<Longrightarrow> t_insert device_key r D = Inr (i, D') \<Longrightarrow>
   holder_ok key P C D' E"
  unfolding holder_ok_def by (blast intro: entity_insert fk_ok_insert_child)

lemma holder_device_kv_insert: "holder_ok key P C D E \<Longrightarrow> kv_insert D r E = Inr E' \<Longrightarrow> holder_ok key P C D E'"
  unfolding holder_ok_def by (blast intro: entity_kv_insert)

lemma holder_device_kv_delete: "holder_ok key P C D E \<Longrightarrow> holder_ok key P C D (t_delete Q E)"
  unfolding holder_ok_def by (blast intro: entity_kv_delete)

lemma holder_device_delete:
  "holder_ok key P C D E \<Longrightarrow> holder_ok key P C (t_delete Q D) (cascade fst (t_delete Q D) E)"
  unfolding holder_ok_def by (simp add: entity_delete)

lemma holder_delete:
  "holder_ok key P C D E \<Longrightarrow>
   holder_ok key (t_delete Q P) (cascade fst (t_delete Q P) C) (cascade de_owner (t_delete Q P) D)
     (cascade fst (cascade de_owner (t_delete Q P) D) E)"
  unfolding holder_ok_def by (simp add: entity_delete entity_cascade)

text \<open>The profiles of the containers.\<close>

lemma uses_parents:
  "uses_ok U C P \<Longrightarrow> t_insert k r C = Inr (i, C') \<Longrightarrow> uses_ok U C' P"
  "uses_ok U C P \<Longrightarrow> t_insert l s P = Inr (j, P') \<Longrightarrow> uses_ok U C P'"
  "uses_ok U C P \<Longrightarrow> t_update k Q f C = Inr C'' \<Longrightarrow> uses_ok U C'' P"
  "uses_ok U C P \<Longrightarrow> t_update l R g P = Inr P'' \<Longrightarrow> uses_ok U C P''"
  unfolding uses_ok_def by (blast intro: fk_ok_insert_parent fk_ok_update_parent)+

lemma uses_delete:
  "uses_ok U C P \<Longrightarrow> uses_ok (cascade us_container C' U) C' P"
  "uses_ok U C P \<Longrightarrow> uses_ok (cascade us_profile P' U) C P'"
  "uses_ok U C P \<Longrightarrow> uses_ok (t_delete Q U) C P"
  unfolding uses_ok_def by simp_all

lemma uses_insert:
  "uses_ok U C P \<Longrightarrow> us_container r \<in> set (t_ids C) \<Longrightarrow> us_profile r \<in> set (t_ids P) \<Longrightarrow>
   t_insert use_key r U = Inr (i, U') \<Longrightarrow> uses_ok U' C P"
  unfolding uses_ok_def by (blast intro: t_ok_insert fk_ok_insert_child)

lemma map_fst_where_ids: "t_where P t = (i, r) # rs \<Longrightarrow> i \<in> set (t_ids t)"
proof -
  assume "t_where P t = (i, r) # rs"
  then have "(i, r) \<in> set (t_rows t)" unfolding t_where_def
    by (metis filter_eq_ConsD in_set_conv_decomp)
  then show ?thesis by (force simp: t_ids_def)
qed

text \<open>The statements.\<close>

lemmas eff_simps = db_ok_def ebind_eq_Inr devices_of_def devices_config_of_def

lemma insert_device_ok [eff_intros]: "db_ok d \<Longrightarrow> insert_device p c n t d = Inr (i, d') \<Longrightarrow> db_ok d'"
  by (cases p) (clarsimp simp: eff_simps insert_device_def split: if_splits;
      erule (1) holder_device_insert [rotated 2]; simp)+

lemma insert_device_config_ok [eff_intros]:
  "db_ok d \<Longrightarrow> insert_device_config p i k v d = Inr d' \<Longrightarrow> db_ok d'"
  by (cases p) (clarsimp simp: eff_simps insert_device_config_def; erule (1) holder_device_kv_insert)+

lemma insert_container_ok [eff_intros]: "db_ok d \<Longrightarrow> insert_container r d = Inr (i, d') \<Longrightarrow> db_ok d'"
  by (clarsimp simp: eff_simps insert_container_def) (blast intro: holder_insert uses_parents)

lemma insert_container_config_ok [eff_intros]:
  "db_ok d \<Longrightarrow> insert_container_config i k v d = Inr d' \<Longrightarrow> db_ok d'"
  by (clarsimp simp: eff_simps insert_container_config_def) (erule (1) holder_kv_insert)

lemma insert_use_ok [eff_intros]: "db_ok d \<Longrightarrow> insert_use i p n d = Inr d' \<Longrightarrow> db_ok d'"
  by (clarsimp simp: eff_simps insert_use_def split: list.splits if_splits)
     (erule uses_insert; simp add: map_fst_where_ids)

lemma delete_containers_ok [eff_intros]: "db_ok d \<Longrightarrow> db_ok (delete_containers P d)"
  by (clarsimp simp: eff_simps delete_containers_def Let_def holder_delete) (erule uses_delete)

lemma update_containers_ok [eff_intros]: "db_ok d \<Longrightarrow> update_containers P f d = Inr d' \<Longrightarrow> db_ok d'"
  by (clarsimp simp: eff_simps update_containers_def) (blast intro: holder_update uses_parents)

lemma insert_profile_ok [eff_intros]: "db_ok d \<Longrightarrow> insert_profile n s d = Inr (i, d') \<Longrightarrow> db_ok d'"
  by (clarsimp simp: eff_simps insert_profile_def) (blast intro: holder_insert uses_parents)

lemma insert_profile_config_ok [eff_intros]:
  "db_ok d \<Longrightarrow> insert_profile_config i k v d = Inr d' \<Longrightarrow> db_ok d'"
  by (clarsimp simp: eff_simps insert_profile_config_def) (erule (1) holder_kv_insert)

lemma delete_profiles_ok [eff_intros]: "db_ok d \<Longrightarrow> db_ok (delete_profiles P d)"
  by (clarsimp simp: eff_simps delete_profiles_def Let_def holder_delete) (erule uses_delete)

lemma update_profiles_ok [eff_intros]: "db_ok d \<Longrightarrow> update_profiles P f d = Inr d' \<Longrightarrow> db_ok d'"
  by (clarsimp simp: eff_simps update_profiles_def) (blast intro: holder_update uses_parents)

lemma insert_network_ok [eff_intros]: "db_ok d \<Longrightarrow> insert_network n s d = Inr (i, d') \<Longrightarrow> db_ok d'"
  by (clarsimp simp: eff_simps insert_network_def) (erule (1) entity_insert)

lemma insert_network_config_ok [eff_intros]:
  "db_ok d \<Longrightarrow> insert_network_config i k v d = Inr d' \<Longrightarrow> db_ok d'"
  by (clarsimp simp: eff_simps insert_network_config_def) (erule (1) entity_kv_insert)

lemma delete_networks_ok [eff_intros]: "db_ok d \<Longrightarrow> db_ok (delete_networks P d)"
  by (simp add: eff_simps delete_networks_def Let_def entity_delete)

lemma update_networks_ok [eff_intros]: "db_ok d \<Longrightarrow> update_networks P f d = Inr d' \<Longrightarrow> db_ok d'"
  by (clarsimp simp: eff_simps update_networks_def) (erule (1) entity_update)

lemma insert_pool_ok [eff_intros]: "db_ok d \<Longrightarrow> insert_pool n s dr d = Inr (i, d') \<Longrightarrow> db_ok d'"
  by (clarsimp simp: eff_simps insert_pool_def) (blast intro: entity_insert fk_ok_insert_parent)

lemma insert_pool_config_ok [eff_intros]:
  "db_ok d \<Longrightarrow> insert_pool_config i k v d = Inr d' \<Longrightarrow> db_ok d'"
  by (clarsimp simp: eff_simps insert_pool_config_def) (erule (1) entity_kv_insert)

lemma delete_pools_ok [eff_intros]: "db_ok d \<Longrightarrow> db_ok (delete_pools P d)"
  by (simp add: eff_simps delete_pools_def Let_def entity_delete entity_cascade)

lemma update_pools_ok [eff_intros]: "db_ok d \<Longrightarrow> update_pools P f d = Inr d' \<Longrightarrow> db_ok d'"
  by (clarsimp simp: eff_simps update_pools_def) (blast intro: entity_update fk_ok_update_parent)

lemma insert_volume_ok [eff_intros]: "db_ok d \<Longrightarrow> insert_volume p t n s d = Inr (i, d') \<Longrightarrow> db_ok d'"
  by (clarsimp simp: eff_simps insert_volume_def split: if_splits)
     (metis entity_insert fk_ok_insert_child volume_row.select_convs(3))

lemma insert_volume_config_ok [eff_intros]:
  "db_ok d \<Longrightarrow> insert_volume_config i k v d = Inr d' \<Longrightarrow> db_ok d'"
  by (clarsimp simp: eff_simps insert_volume_config_def) (erule (1) entity_kv_insert)

lemma delete_volumes_ok [eff_intros]: "db_ok d \<Longrightarrow> db_ok (delete_volumes P d)"
  by (simp add: eff_simps delete_volumes_def Let_def entity_delete)

lemma update_volumes_ok:
  "db_ok d \<Longrightarrow> update_volumes P f d = Inr d' \<Longrightarrow> (\<And>r. vo_pool (f r) = vo_pool r) \<Longrightarrow> db_ok d'"
  by (clarsimp simp: eff_simps update_volumes_def) (blast intro: entity_update fk_ok_update_child)

lemma insert_source_ok [eff_intros]: "db_ok d \<Longrightarrow> insert_source r d = Inr d' \<Longrightarrow> db_ok d'"
  by (clarsimp simp: eff_simps images_ok_def insert_source_def split: if_splits)
     (blast intro: t_ok_insert fk_ok_insert_child)

lemma delete_images_ok [eff_intros]: "db_ok d \<Longrightarrow> db_ok (delete_images P d)"
  by (simp add: eff_simps images_ok_def delete_images_def Let_def)

lemma update_images_ok [eff_intros]: "db_ok d \<Longrightarrow> update_images P f d = Inr d' \<Longrightarrow> db_ok d'"
  by (clarsimp simp: eff_simps images_ok_def update_images_def) (blast intro: t_ok_update fk_ok_update_parent)

lemma insert_image_ok [eff_intros]: "db_ok d \<Longrightarrow> insert_image r d = Inr (i, d') \<Longrightarrow> db_ok d'"
  by (clarsimp simp: eff_simps images_ok_def insert_image_def) (blast intro: t_ok_insert fk_ok_insert_parent)

lemma insert_property_ok [eff_intros]: "db_ok d \<Longrightarrow> insert_property i k v d = Inr d' \<Longrightarrow> db_ok d'"
  by (clarsimp simp: eff_simps images_ok_def insert_property_def split: if_splits)
     (metis t_ok_insert fk_ok_insert_child fst_conv)

lemma update_aliases_ok [eff_intros]: "db_ok d \<Longrightarrow> update_aliases P f d = Inr d' \<Longrightarrow> db_ok d'"
  by (clarsimp simp: eff_simps images_ok_def update_aliases_def split: if_splits) (blast intro: t_ok_update)

lemma insert_alias_ok [eff_intros]: "db_ok d \<Longrightarrow> insert_alias r d = Inr d' \<Longrightarrow> db_ok d'"
  by (clarsimp simp: eff_simps images_ok_def insert_alias_def split: if_splits)
     (blast intro: t_ok_insert fk_ok_insert_child)

lemma insert_config_ok [eff_intros]: "db_ok d \<Longrightarrow> insert_config k v d = Inr d' \<Longrightarrow> db_ok d'"
  by (clarsimp simp: eff_simps insert_config_def) (erule (1) t_ok_insert)

end
