(* ===== verification/DbStore.thy ===== *)
theory DbStore
  imports DbLaws
begin

text \<open>
  What the database calls do when the outside lets every statement succeed (\<open>quiet\<close>): a calculus
  of successful runs, and the interface of the tables that hold the configuration of an entity,
  which all the entities share.
\<close>

section \<open>Successful runs\<close>

definition quiet :: "'o env_scheme \<Rightarrow> bool" where
  "quiet orc \<longleftrightarrow> (\<forall>h q. o_act orc h (Stmt q) = None)"

text \<open>From tables satisfying \<open>P\<close> the program returns a value, and \<open>Q\<close> holds of it and the new tables.\<close>

definition gives :: "(db \<Rightarrow> bool) \<Rightarrow> ('a dbworld_scheme, 'r) prog \<Rightarrow> ('r \<Rightarrow> db \<Rightarrow> bool) \<Rightarrow> bool" where
  "gives P p Q \<longleftrightarrow>
     (\<forall>w. P (w_db w) \<longrightarrow> (\<exists>x. fst (p w) = Inr x \<and> Q x (w_db (snd (p w)))))"

lemma givesD: "gives P p Q \<Longrightarrow> P (w_db w) \<Longrightarrow> \<exists>x v. p w = (Inr x, v) \<and> Q x (w_db v)"
  unfolding gives_def by (metis prod.collapse)

lemma givesI: "(\<And>w. P (w_db w) \<Longrightarrow> \<exists>x v. p w = (Inr x, v) \<and> Q x (w_db v)) \<Longrightarrow> gives P p Q"
  unfolding gives_def by (metis fst_conv snd_conv)

lemma gives_ret: "(\<And>d. P d \<Longrightarrow> Q x d) \<Longrightarrow> gives P (ret x) Q"
  by (simp add: gives_def ret_def)

lemma gives_get: "(\<And>w. P (w_db w) \<Longrightarrow> Q (f w) (w_db w)) \<Longrightarrow> gives P (get_world f) Q"
  by (simp add: gives_def get_world_def)

lemma gives_of_res: "r = Inr x \<Longrightarrow> (\<And>d. P d \<Longrightarrow> Q x d) \<Longrightarrow> gives P (of_res r) Q"
  by (simp add: gives_def of_res_def)

lemma gives_pbind:
  assumes "gives P p R" "\<And>x. gives (R x) (f x) Q"
  shows "gives P (pbind p f) Q"
proof (rule givesI)
  fix w :: "'a dbworld_scheme" assume "P (w_db w)"
  from givesD [OF assms(1) this] obtain x v where x: "p w = (Inr x, v)" "R x (w_db v)" by blast
  from givesD [OF assms(2) x(2)] obtain y u where "f x v = (Inr y, u)" "Q y (w_db u)" by blast
  with x(1) show "\<exists>y u. pbind p f w = (Inr y, u) \<and> Q y (w_db u)" by (simp add: pbind_def)
qed

lemma gives_weaken: "gives P p R \<Longrightarrow> (\<And>x d. R x d \<Longrightarrow> Q x d) \<Longrightarrow> gives P p Q"
  unfolding gives_def by blast

lemma gives_pre: "gives P p Q \<Longrightarrow> (\<And>d. P' d \<Longrightarrow> P d) \<Longrightarrow> gives P' p Q"
  unfolding gives_def by blast

text \<open>Runs from known tables.\<close>

definition turns :: "('a dbworld_scheme, 'r) prog \<Rightarrow> db \<Rightarrow> 'r \<Rightarrow> db \<Rightarrow> bool" where
  "turns p d x d' \<longleftrightarrow> (\<forall>w. w_db w = d \<longrightarrow> (\<exists>v. p w = (Inr x, v) \<and> w_db v = d'))"

lemma turnsD: "turns p d x d' \<Longrightarrow> w_db w = d \<Longrightarrow> \<exists>v. p w = (Inr x, v) \<and> w_db v = d'"
  by (simp add: turns_def)

lemma gives_turns: "(\<And>d. P d \<Longrightarrow> \<exists>x d'. turns p d x d' \<and> Q x d') \<Longrightarrow> gives P p Q"
  by (rule givesI) (metis turnsD)

lemma turns_pbind: "turns p d x d1 \<Longrightarrow> turns (f x) d1 y d2 \<Longrightarrow> turns (pbind p f) d y d2"
  unfolding turns_def pbind_def by (metis (mono_tags, lifting) case_prod_conv sum.case(2))

lemma turns_ret: "turns (ret x) d x d"
  by (simp add: turns_def ret_def)

lemma turns_of_res: "turns (of_res (Inr x)) d x d"
  by (simp add: turns_def of_res_def)

lemma turns_sql: "quiet orc \<Longrightarrow> eff d = Inr (x, d') \<Longrightarrow> turns (sql orc q eff) d x d'"
  by (simp add: turns_def quiet_def sql_def perform_def pbind_def)

lemma turns_tx_Exec: "quiet orc \<Longrightarrow> eff d = Inr d' \<Longrightarrow> turns (tx_Exec orc q eff) d () d'"
  unfolding tx_Exec_def by (rule turns_sql) simp_all

lemma turns_retry: "turns p d x d' \<Longrightarrow> 0 < n \<Longrightarrow> turns (retry n p) d x d'"
proof (cases n)
  case (Suc m)
  assume "turns p d x d'"
  then show ?thesis
    unfolding turns_def Suc by (fastforce simp: pbind_def attempt_def ret_def)
qed simp

lemma turns_Exec: "quiet orc \<Longrightarrow> eff d = Inr d' \<Longrightarrow> turns (Exec orc q eff) d () d'"
  unfolding Exec_def by (intro turns_retry turns_tx_Exec) simp_all

lemma turns_QueryScan: "quiet orc \<Longrightarrow> turns (QueryScan orc q f) d (f d) d"
  unfolding QueryScan_def by (intro turns_retry turns_sql) simp_all

lemma turns_dbQueryRowScan: "quiet orc \<Longrightarrow> f d = x # xs \<Longrightarrow> turns (dbQueryRowScan orc q f) d x d"
  unfolding dbQueryRowScan_def by (intro turns_retry turns_sql) simp_all

lemma turns_plain:
  "quiet orc \<Longrightarrow> turns (Begin orc) d () d" "quiet orc \<Longrightarrow> turns (TxCommit orc) d () d"
  "quiet orc \<Longrightarrow> turns (Prepare orc q) d () d"
  unfolding Begin_def TxCommit_def Prepare_def
  by (intro turns_retry turns_tx_Exec; simp add: no_effect_def)+

lemma turns_attempt: "turns p d x d' \<Longrightarrow> turns (attempt p) d (Inr x) d'"
  by (fastforce simp: turns_def attempt_def)

lemma turns_Prepare_unchecked: "quiet orc \<Longrightarrow> turns (Prepare_unchecked orc q) d () d"
  unfolding Prepare_unchecked_def
  by (rule turns_pbind [OF turns_attempt [OF turns_plain(3)]]) (auto intro: turns_ret)

lemma turns_transaction:
  assumes "quiet orc" "turns body d x d'"
  shows "turns (transaction orc body) d x d'"
proof -
  have "turns (pbind body (\<lambda>x. pbind (TxCommit orc) (\<lambda>_. ret x))) d x d'"
    by (intro turns_pbind [OF assms(2)] turns_pbind [OF turns_plain(2)] turns_ret assms(1))
  then have "turns (\<lambda>w. case pbind body (\<lambda>x. pbind (TxCommit orc) (\<lambda>_. ret x)) w of
         (Inl e, w') \<Rightarrow> (Inl e, w'\<lparr>w_db := w_db w\<rparr>)
       | (Inr x, w') \<Rightarrow> (Inr x, w')) d x d'"
    unfolding turns_def by (fastforce split: prod.splits sum.splits)
  then show ?thesis
    unfolding transaction_def by (rule turns_pbind [OF turns_plain(1) [OF assms(1)]])
qed

lemma turns_seq_Nil: "turns (seq_all []) d () d"
  by (simp add: turns_ret)

lemma turns_seq_Cons: "turns p d () d1 \<Longrightarrow> turns (seq_all ps) d1 () d2 \<Longrightarrow> turns (seq_all (p # ps)) d () d2"
  by (simp add: turns_pbind)

text \<open>Successive runs of one loop body, threaded through a fold of its effect.\<close>

lemma turns_for_all:
  assumes "\<And>d x. x \<in> set xs \<Longrightarrow> I d \<Longrightarrow> turns (f x) d () (g x d)"
    and "\<And>d x. x \<in> set xs \<Longrightarrow> I d \<Longrightarrow> I (g x d)"
  shows "I d \<Longrightarrow> turns (for_all f xs) d () (fold g xs d)"
  using assms
proof (induction xs arbitrary: d)
  case Nil
  then show ?case by (simp add: for_all_def turns_ret)
next
  case (Cons x xs)
  have "turns (f x) d () (g x d)" "I (g x d)" using Cons.prems by simp_all
  moreover have "turns (for_all f xs) (g x d) () (fold g xs (g x d))"
    using Cons.prems by (intro Cons.IH) simp_all
  ultimately show ?case by (auto simp: for_all_def intro: turns_pbind)
qed

section \<open>Reading a map back\<close>

lemma map_of_foldl_gm_set:
  "map_of (foldl (\<lambda>m (k, v). gm_set m k v) m0 rs) k =
     (case map_of (rev rs) k of Some v \<Rightarrow> Some v | None \<Rightarrow> map_of m0 k)"
  by (induction rs arbitrary: m0) (auto simp: map_add_def split: option.splits prod.splits)

lemma map_of_rows_map: "distinct (map fst rs) \<Longrightarrow> map_of (rows_map rs) = map_of rs"
proof (rule ext)
  fix k assume d: "distinct (map fst rs)"
  have "map_of (rev rs) k = map_of rs k"
    using d map_of_eqI [of "rev rs" rs]
    by (metis distinct_rev map_of_eq_Some_iff not_Some_eq rev_map set_rev)
  then show "map_of (rows_map rs) k = map_of rs k"
    by (simp add: rows_map_def map_of_foldl_gm_set split: option.splits)
qed

lemma map_of_nonempty:
  "map_of (filter (\<lambda>(k, v). v \<noteq> []) m) k = (case map_of m k of Some v \<Rightarrow> if v = [] then None else Some v | None \<Rightarrow> None)"
  if "gm_wf m"
  using that
proof (induction m)
  case (Cons kv m)
  obtain j v where kv: "kv = (j, v)" by (cases kv)
  with Cons have "j \<notin> fst ` set m" "gm_wf m" by (simp_all add: gm_wf_def)
  then have "map_of m j = None" by (simp add: map_of_eq_None_iff)
  with Cons kv \<open>gm_wf m\<close> show ?case by (auto split: option.splits)
qed simp

section \<open>The configuration of an entity\<close>

text \<open>
  The interface: the ids of the owners, the table of the key-value rows, and the insertion of a row
  with its FOREIGN KEY and UNIQUE constraints.
\<close>

locale kv_store =
  fixes owners :: "db \<Rightarrow> int list"
    and get :: "db \<Rightarrow> kv_row table"
    and put :: "kv_row table \<Rightarrow> db \<Rightarrow> db"
    and ins :: "int \<Rightarrow> string \<Rightarrow> string \<Rightarrow> db \<Rightarrow> db res"
  assumes get_put: "get (put t d) = t"
    and put_put: "put t (put s d) = put t d"
    and put_get: "put (get d) d = d"
    and owners_put: "owners (put t d) = owners d"
    and ins_eq: "ins i k v d =
      (if i \<notin> set (owners d) then Inl constraint_failed
       else ebind (t_insert kv_key (i, k, v) (get d)) (\<lambda>(_, t). Inr (put t d)))"
begin

definition rows :: "int \<Rightarrow> db \<Rightarrow> (string \<times> string) list" where
  "rows i d = map (snd \<circ> snd) (t_where (\<lambda>r. fst r = i) (get d))"

lemma rows_vals: "rows i d = map snd (filter (\<lambda>r. fst r = i) (t_vals (get d)))"
  by (simp add: rows_def t_where_def t_vals_def filter_map comp_def case_prod_unfold)

lemma rows_put_append:
  assumes "t_vals t = t_vals (get d) @ map (\<lambda>(k, v). (i, k, v)) kvs"
  shows "rows j (put t d) = rows j d @ (if j = i then kvs else [])"
proof -
  have "filter (\<lambda>r. fst r = j) (map (\<lambda>(k, v). (i, k, v)) kvs) =
      (if j = i then map (\<lambda>(k, v). (i, k, v)) kvs else [])"
    by (induction kvs) auto
  moreover have "map snd (map (\<lambda>(k, v). (i, k, v)) kvs) = kvs" by (induction kvs) auto
  ultimately show ?thesis by (simp add: rows_vals get_put assms)
qed

lemma ins_fresh:
  assumes "i \<in> set (owners d)" "k \<notin> fst ` set (rows i d)"
  shows "\<exists>t. ins i k v d = Inr (put t d) \<and> t_vals t = t_vals (get d) @ [(i, k, v)]"
proof -
  have "kv_key (i, k, v) \<notin> set (map kv_key (t_vals (get d)))"
  proof
    assume "kv_key (i, k, v) \<in> set (map kv_key (t_vals (get d)))"
    then obtain x where "(i, k, x) \<in> set (t_vals (get d))" by (auto simp: kv_key_def)
    then have "(k, x) \<in> set (rows i d)" by (force simp: rows_vals)
    with assms(2) show False by force
  qed
  then have "t_insert kv_key (i, k, v) (get d) =
      Inr (t_next (get d), (get d)\<lparr>t_rows := t_rows (get d) @ [(t_next (get d), (i, k, v))],
             t_next := t_next (get d) + 1\<rparr>)"
    by (simp add: t_insert_def)
  with assms(1) show ?thesis by (intro exI [of _ "(get d)\<lparr>t_rows := t_rows (get d) @ [(t_next (get d), (i, k, v))],
      t_next := t_next (get d) + 1\<rparr>"]) (simp add: ins_eq t_vals_def)
qed

text \<open>Adding a map of settings to an owner that has none of its keys.\<close>

lemma add_all:
  fixes body :: "string \<times> string \<Rightarrow> ('a dbworld_scheme, unit) prog"
  assumes "quiet orc" and body: "body = (\<lambda>(k, v). pwhen (keep v) (tx_Exec orc q (ins i k v)))"
    and "i \<in> set (owners d)" "distinct (map fst m)" "fst ` set m \<inter> fst ` set (rows i d) = {}"
  shows "\<exists>t. turns (for_all body m) d () (put t d) \<and>
     t_vals t = t_vals (get d) @ map (\<lambda>(k, v). (i, k, v)) (filter (\<lambda>(k, v). keep v) m)"
  using assms(3-5)
proof (induction m arbitrary: d)
  case Nil
  show ?case by (rule exI [of _ "get d"]) (simp add: for_all_def turns_ret put_get)
next
  case (Cons kv m)
  obtain k v where kv: "kv = (k, v)" by (cases kv)
  show ?case
  proof (cases "keep v")
    case False
    have "\<exists>t. turns (for_all body m) d () (put t d) \<and>
       t_vals t = t_vals (get d) @ map (\<lambda>(k, v). (i, k, v)) (filter (\<lambda>(k, v). keep v) m)"
      using Cons.prems by (intro Cons.IH) auto
    then show ?thesis
      using False kv by (auto simp: for_all_def pwhen_def body intro: turns_pbind [OF turns_ret])
  next
    case True
    have "k \<notin> fst ` set (rows i d)" using Cons.prems(3) kv by auto
    from ins_fresh [OF Cons.prems(1) this, of v] obtain s where
      s: "ins i k v d = Inr (put s d)" "t_vals s = t_vals (get d) @ [(i, k, v)]" by blast
    have r: "rows i (put s d) = rows i d @ [(k, v)]"
      using rows_put_append [of s d i "[(k, v)]" i] s(2) by simp
    have "\<exists>t. turns (for_all body m) (put s d) () (put t (put s d)) \<and>
       t_vals t = t_vals (get (put s d)) @ map (\<lambda>(k, v). (i, k, v)) (filter (\<lambda>(k, v). keep v) m)"
      using Cons.prems kv by (intro Cons.IH) (auto simp: owners_put r)
    then obtain t where t: "turns (for_all body m) (put s d) () (put t d)"
      "t_vals t = t_vals s @ map (\<lambda>(k, v). (i, k, v)) (filter (\<lambda>(k, v). keep v) m)"
      by (auto simp: put_put get_put)
    have "turns (body kv) d () (put s d)"
      using True kv s(1) turns_tx_Exec [OF assms(1), of "ins i k v" d "put s d"]
      by (simp add: body pwhen_def)
    then have "turns (for_all body (kv # m)) d () (put t d)"
      using t(1) by (simp add: for_all_def turns_pbind)
    with t(2) s(2) True kv show ?thesis by (intro exI [of _ t]) simp
  qed
qed

lemma add_all_rows:
  fixes body :: "string \<times> string \<Rightarrow> ('a dbworld_scheme, unit) prog"
  assumes "quiet orc" "body = (\<lambda>(k, v). pwhen (keep v) (tx_Exec orc q (ins i k v)))"
    and "i \<in> set (owners d)" "gm_wf m" "rows i d = []"
  shows "\<exists>t. turns (for_all body m) d () (put t d) \<and>
     rows i (put t d) = filter (\<lambda>(k, v). keep v) m \<and> (\<forall>j. j \<noteq> i \<longrightarrow> rows j (put t d) = rows j d)"
proof -
  have "distinct (map fst m)" "fst ` set m \<inter> fst ` set (rows i d) = {}"
    using assms(4,5) by (simp_all add: gm_wf_def)
  from add_all [OF assms(1-3) this] obtain t where
    t: "turns (for_all body m) d () (put t d)"
    "t_vals t = t_vals (get d) @ map (\<lambda>(k, v). (i, k, v)) (filter (\<lambda>(k, v). keep v) m)" by blast
  show ?thesis
    using rows_put_append [OF t(2)] assms(5) by (intro exI [of _ t] conjI t(1)) simp_all
qed

text \<open>A new owner has no rows yet.\<close>

lemma rows_no_owner:
  assumes "set (map fst (t_vals (get d))) \<subseteq> set (owners d)" "i \<notin> set (owners d)"
  shows "rows i d = []"
proof -
  have "filter (\<lambda>r. fst r = i) (t_vals (get d)) = []"
    using assms by (force simp: filter_empty_conv)
  then show ?thesis by (simp add: rows_vals)
qed

lemma rows_distinct:
  assumes "t_ok kv_key (get d)"
  shows "distinct (map fst (rows i d))"
proof -
  have "t_unique kv_key (filter (\<lambda>r. fst r = i) (t_vals (get d)))"
    using assms by (intro t_unique_filter) (simp add: t_ok_def)
  moreover have "t_unique kv_key rs \<Longrightarrow> \<forall>r \<in> set rs. fst r = i \<Longrightarrow> distinct (map fst (map snd rs))" for rs
    by (induction rs) (force simp: t_unique_Cons kv_key_def)+
  ultimately show ?thesis by (simp add: rows_vals del: list.map_comp)
qed

end

text \<open>The tables that implement it.\<close>

lemma kv_insert_bind:
  "ebind (kv_insert P r t) f =
     (if fst r \<notin> set (t_ids P) then Inl constraint_failed
      else ebind (t_insert kv_key r t) (\<lambda>(_, t'). f t'))"
  by (cases "t_insert kv_key r t") (auto simp: kv_insert_def)

interpretation network_kv: kv_store "\<lambda>d. t_ids (networks d)" networks_config
  "\<lambda>t d. d\<lparr>networks_config := t\<rparr>" insert_network_config
  by unfold_locales (simp_all add: insert_network_config_def kv_insert_bind)

interpretation pool_kv: kv_store "\<lambda>d. t_ids (storage_pools d)" storage_pools_config
  "\<lambda>t d. d\<lparr>storage_pools_config := t\<rparr>" insert_pool_config
  by unfold_locales (simp_all add: insert_pool_config_def kv_insert_bind)

interpretation volume_kv: kv_store "\<lambda>d. t_ids (storage_volumes d)" storage_volumes_config
  "\<lambda>t d. d\<lparr>storage_volumes_config := t\<rparr>" insert_volume_config
  by unfold_locales (simp_all add: insert_volume_config_def kv_insert_bind)

interpretation profile_kv: kv_store "\<lambda>d. t_ids (profiles d)" profiles_config
  "\<lambda>t d. d\<lparr>profiles_config := t\<rparr>" insert_profile_config
  by unfold_locales (simp_all add: insert_profile_config_def kv_insert_bind)

interpretation container_kv: kv_store "\<lambda>d. t_ids (containers d)" containers_config
  "\<lambda>t d. d\<lparr>containers_config := t\<rparr>" insert_container_config
  by unfold_locales (simp_all add: insert_container_config_def kv_insert_bind)

interpretation device_kv: kv_store "\<lambda>d. t_ids (devices_of p d)" "devices_config_of p"
  "\<lambda>t d. if p then d\<lparr>profiles_devices_config := t\<rparr> else d\<lparr>containers_devices_config := t\<rparr>"
  "insert_device_config p" for p
  by unfold_locales (simp_all add: insert_device_config_def kv_insert_bind devices_of_def devices_config_of_def)

end
