(* ===== verification/DbProps.thy ===== *)
theory DbProps
  imports DbStore
begin

text \<open>
  The properties of the database layer: integrity of the tables under any sequence of calls,
  calls that fail without a trace, the retry loops, what is read back after a creation, and what
  a deletion takes along.
\<close>

section \<open>Sequences of calls\<close>

text \<open>The writing calls of the layer, as the daemon makes them.\<close>

datatype container_call =
    CallContainerCreate container_args
  | CallContainerRemove string
  | CallContainerRename string string
  | CallContainerSetState int string
  | CallContainerConfigRemove int string
  | CallContainerSetStateful int bool
  | CallContainerLastUsedUpdate int int

datatype profile_call =
    CallProfileCreate string string "string gomap" devices
  | CallProfileCreateDefault
  | CallProfileDelete string
  | CallProfileUpdate string string

datatype network_call =
    CallNetworkCreate string string "string gomap"
  | CallNetworkUpdate string string "string gomap"
  | CallNetworkDelete string
  | CallNetworkRename string string

datatype storage_call =
    CallStoragePoolCreate string string string "string gomap"
  | CallStoragePoolUpdate string string "string gomap"
  | CallStoragePoolDelete string
  | CallStoragePoolVolumeCreate string string int int "string gomap"
  | CallStoragePoolVolumeUpdate string int int string "string gomap"
  | CallStoragePoolVolumeDelete string int int
  | CallStoragePoolVolumeRename string string int int

datatype image_call =
    CallImageInsert string string int bool bool string int int "string gomap"
  | CallImageUpdate int string int bool bool string int int "string gomap"
  | CallImageDelete int
  | CallImageSourceInsert int string string string string
  | CallImageLastAccessUpdate string int
  | CallImageLastAccessInit string
  | CallImageAliasAdd string int string
  | CallImageAliasUpdate int int string
  | CallImageAliasRename int string
  | CallImageAliasDelete string
  | CallImageAliasesMove int int

datatype other_call =
    CallCertSave cert_row
  | CallCertDelete string
  | CallCertUpdate string string int
  | CallConfigValueSet string string
  | CallPatchesMarkApplied string

datatype db_call =
    OnContainers container_call
  | OnProfiles profile_call
  | OnNetworks network_call
  | OnStorage storage_call
  | OnImages image_call
  | OnRest other_call

definition void :: "('w, 'r) prog \<Rightarrow> ('w, unit) prog" where
  "void p = pbind p (\<lambda>_. ret ())"

fun container_prog :: "'o env_scheme \<Rightarrow> container_call \<Rightarrow> ('a dbworld_scheme, unit) prog" where
  "container_prog orc (CallContainerCreate args) = void (ContainerCreate orc args)"
| "container_prog orc (CallContainerRemove n) = ContainerRemove orc n"
| "container_prog orc (CallContainerRename n m) = ContainerRename orc n m"
| "container_prog orc (CallContainerSetState i s) = ContainerSetState orc i s"
| "container_prog orc (CallContainerConfigRemove i k) = ContainerConfigRemove orc i k"
| "container_prog orc (CallContainerSetStateful i b) = ContainerSetStateful orc i b"
| "container_prog orc (CallContainerLastUsedUpdate i t) = ContainerLastUsedUpdate orc i t"

fun profile_prog :: "'o env_scheme \<Rightarrow> profile_call \<Rightarrow> ('a dbworld_scheme, unit) prog" where
  "profile_prog orc (CallProfileCreate n s cfg devs) = void (ProfileCreate orc n s cfg devs)"
| "profile_prog orc CallProfileCreateDefault = ProfileCreateDefault orc"
| "profile_prog orc (CallProfileDelete n) = ProfileDelete orc n"
| "profile_prog orc (CallProfileUpdate n m) = ProfileUpdate orc n m"

fun network_prog :: "'o env_scheme \<Rightarrow> network_call \<Rightarrow> ('a dbworld_scheme, unit) prog" where
  "network_prog orc (CallNetworkCreate n s cfg) = void (NetworkCreate orc n s cfg)"
| "network_prog orc (CallNetworkUpdate n s cfg) = NetworkUpdate orc n s cfg"
| "network_prog orc (CallNetworkDelete n) = NetworkDelete orc n"
| "network_prog orc (CallNetworkRename n m) = NetworkRename orc n m"

fun storage_prog :: "'o env_scheme \<Rightarrow> storage_call \<Rightarrow> ('a dbworld_scheme, unit) prog" where
  "storage_prog orc (CallStoragePoolCreate n s dr cfg) = void (StoragePoolCreate orc n s dr cfg)"
| "storage_prog orc (CallStoragePoolUpdate n s cfg) = StoragePoolUpdate orc n s cfg"
| "storage_prog orc (CallStoragePoolDelete n) = void (StoragePoolDelete orc n)"
| "storage_prog orc (CallStoragePoolVolumeCreate n s t p cfg) = void (StoragePoolVolumeCreate orc n s t p cfg)"
| "storage_prog orc (CallStoragePoolVolumeUpdate n t p s cfg) = StoragePoolVolumeUpdate orc n t p s cfg"
| "storage_prog orc (CallStoragePoolVolumeDelete n t p) = StoragePoolVolumeDelete orc n t p"
| "storage_prog orc (CallStoragePoolVolumeRename n m t p) = StoragePoolVolumeRename orc n m t p"

fun image_prog :: "'o env_scheme \<Rightarrow> image_call \<Rightarrow> ('a dbworld_scheme, unit) prog" where
  "image_prog orc (CallImageInsert fp f sz pu au ar c e ps) = ImageInsert orc fp f sz pu au ar c e ps"
| "image_prog orc (CallImageUpdate i f sz pu au ar c e ps) = ImageUpdate orc i f sz pu au ar c e ps"
| "image_prog orc (CallImageDelete i) = ImageDelete orc i"
| "image_prog orc (CallImageSourceInsert i s p c a) = ImageSourceInsert orc i s p c a"
| "image_prog orc (CallImageLastAccessUpdate fp t) = ImageLastAccessUpdate orc fp t"
| "image_prog orc (CallImageLastAccessInit fp) = ImageLastAccessInit orc fp"
| "image_prog orc (CallImageAliasAdd n i s) = ImageAliasAdd orc n i s"
| "image_prog orc (CallImageAliasUpdate j i s) = ImageAliasUpdate orc j i s"
| "image_prog orc (CallImageAliasRename j n) = ImageAliasRename orc j n"
| "image_prog orc (CallImageAliasDelete n) = ImageAliasDelete orc n"
| "image_prog orc (CallImageAliasesMove i j) = ImageAliasesMove orc i j"

fun other_prog :: "'o env_scheme \<Rightarrow> other_call \<Rightarrow> ('a dbworld_scheme, unit) prog" where
  "other_prog orc (CallCertSave c) = CertSave orc c"
| "other_prog orc (CallCertDelete fp) = CertDelete orc fp"
| "other_prog orc (CallCertUpdate fp n t) = CertUpdate orc fp n t"
| "other_prog orc (CallConfigValueSet k v) = ConfigValueSet orc k v"
| "other_prog orc (CallPatchesMarkApplied p) = PatchesMarkApplied orc p"

fun call_prog :: "'o env_scheme \<Rightarrow> db_call \<Rightarrow> ('a dbworld_scheme, unit) prog" where
  "call_prog orc (OnContainers c) = container_prog orc c"
| "call_prog orc (OnProfiles c) = profile_prog orc c"
| "call_prog orc (OnNetworks c) = network_prog orc c"
| "call_prog orc (OnStorage c) = storage_prog orc c"
| "call_prog orc (OnImages c) = image_prog orc c"
| "call_prog orc (OnRest c) = other_prog orc c"

definition call_step :: "'o env_scheme \<Rightarrow> db_call \<Rightarrow> dbworld \<Rightarrow> dbworld option" where
  "call_step orc c w = Some (snd (call_prog orc c w))"

section \<open>Integrity\<close>

lemma keeps_ok_tx: "(\<And>d d'. db_ok d \<Longrightarrow> eff d = Inr d' \<Longrightarrow> db_ok d') \<Longrightarrow> keeps db_ok (tx_Exec orc q eff)"
  by (rule keeps_tx_Exec)

lemmas ok_rules = keeps_intros keeps_tx_Exec [where I = db_ok] keeps_Exec [where I = db_ok]
  keeps_sql [where I = db_ok]

lemma keeps_void: "keeps I p \<Longrightarrow> keeps I (void p)"
  unfolding void_def by (intro keeps_intros)

lemma keeps_DevicesAdd: "keeps db_ok (DevicesAdd orc p i ds)"
  unfolding DevicesAdd_def add_device_def
  by (auto intro!: ok_rules simp: list_all_iff intro: eff_intros)

lemma keeps_config_inserts:
  "keeps db_ok (ContainerConfigInsert orc i m)" "keeps db_ok (ContainerProfilesInsert orc i ps)"
  "keeps db_ok (ProfileConfigAdd orc i m)" "keeps db_ok (NetworkConfigAdd orc i m)"
  "keeps db_ok (StoragePoolConfigAdd orc i m)" "keeps db_ok (StorageVolumeConfigAdd orc i m)"
  unfolding ContainerConfigInsert_def ContainerProfilesInsert_def ProfileConfigAdd_def
    NetworkConfigAdd_def StoragePoolConfigAdd_def StorageVolumeConfigAdd_def
  by (auto intro!: ok_rules simp: list_all_iff intro: eff_intros)

lemma keeps_gets:
  "keeps I (ContainerId orc n)" "keeps I (ProfileGet orc n)" "keeps I (NetworkGet orc n)"
  "keeps I (StoragePoolGet orc n)" "keeps I (StoragePoolVolumeGetType orc n t p)"
proof -
  have devs: "keeps I (devices_rows orc b acc rs)" for acc rs and b
    by (induction rs arbitrary: acc) (auto intro!: keeps_intros simp: dbDeviceConfig_def)
  then have "keeps I (Devices orc n b)" for n b
    unfolding Devices_def by (intro keeps_intros)
  then show "keeps I (ContainerId orc n)" "keeps I (ProfileGet orc n)" "keeps I (NetworkGet orc n)"
    "keeps I (StoragePoolGet orc n)" "keeps I (StoragePoolVolumeGetType orc n t p)"
    unfolding ContainerId_def ProfileGet_def ProfileConfig_def NetworkGet_def NetworkConfigGet_def
      StoragePoolGet_def StoragePoolConfigGet_def StoragePoolVolumeGetType_def
      StoragePoolVolumeGetTypeID_def StorageVolumeConfigGet_def StorageVolumeDescriptionGet_def
    by (auto intro!: keeps_intros)
qed

lemma db_ok_parts:
  "db_ok d \<Longrightarrow> db_ok (d\<lparr>containers_config := t_delete P (containers_config d)\<rparr>)"
  "db_ok d \<Longrightarrow> db_ok (d\<lparr>networks_config := t_delete P (networks_config d)\<rparr>)"
  "db_ok d \<Longrightarrow> db_ok (d\<lparr>storage_pools_config := t_delete P (storage_pools_config d)\<rparr>)"
  "db_ok d \<Longrightarrow> db_ok (d\<lparr>storage_volumes_config := t_delete P (storage_volumes_config d)\<rparr>)"
  "db_ok d \<Longrightarrow> db_ok (d\<lparr>images_properties := t_delete P (images_properties d)\<rparr>)"
  "db_ok d \<Longrightarrow> db_ok (d\<lparr>images_aliases := t_delete Q (images_aliases d)\<rparr>)"
  "db_ok d \<Longrightarrow> db_ok (d\<lparr>certificates := t_delete R (certificates d)\<rparr>)"
  "db_ok d \<Longrightarrow> db_ok (d\<lparr>config := t_delete S (config d)\<rparr>)"
  by (simp_all add: db_ok_def holder_kv_delete entity_kv_delete images_ok_def)

lemmas call_defs = ContainerCreate_def ContainerRemove_def ContainerRename_def ContainerSetState_def
  ContainerConfigRemove_def ContainerSetStateful_def ContainerLastUsedUpdate_def ProfileCreate_def
  ProfileCreateDefault_def ProfileDelete_def ProfileUpdate_def NetworkCreate_def NetworkUpdate_def
  NetworkUpdateDescription_def NetworkConfigClear_def NetworkDelete_def NetworkRename_def
  StoragePoolCreate_def StoragePoolUpdate_def StoragePoolUpdateDescription_def
  StoragePoolConfigClear_def StoragePoolDelete_def StoragePoolVolumeCreate_def
  StoragePoolVolumeUpdate_def StorageVolumeConfigClear_def StorageVolumeDescriptionUpdate_def
  StoragePoolVolumeDelete_def StoragePoolVolumeRename_def ImageInsert_def ImageUpdate_def
  ImageDelete_def ImageSourceInsert_def ImageLastAccessUpdate_def ImageLastAccessInit_def
  ImageAliasAdd_def ImageAliasUpdate_def ImageAliasRename_def ImageAliasDelete_def
  ImageAliasesMove_def CertSave_def CertDelete_def CertUpdate_def ConfigValueSet_def
  PatchesMarkApplied_def

lemma keeps_volume_update:
  assumes "\<And>r. vo_pool (f r) = vo_pool r"
  shows "keeps db_ok (tx_Exec orc q (update_volumes P f))"
  by (rule keeps_tx_Exec) (rule update_volumes_ok [OF _ _ assms])

lemma db_ok_plain:
  "db_ok d \<Longrightarrow> t_insert (Some \<circ> ce_fingerprint) c (certificates d) = Inr (i, t) \<Longrightarrow> db_ok (d\<lparr>certificates := t\<rparr>)"
  "db_ok d \<Longrightarrow> t_update (Some \<circ> ce_fingerprint) P f (certificates d) = Inr t \<Longrightarrow> db_ok (d\<lparr>certificates := t\<rparr>)"
  "db_ok d \<Longrightarrow> t_insert Some p (patches d) = Inr (i, s) \<Longrightarrow> db_ok (d\<lparr>patches := s\<rparr>)"
  by (auto simp: db_ok_def intro: t_ok_insert t_ok_update)

lemma keeps_volume_parts:
  "keeps db_ok (StorageVolumeConfigClear orc i)" "keeps db_ok (StorageVolumeDescriptionUpdate orc i s)"
  unfolding call_defs by (rule keeps_tx_Exec, auto intro: db_ok_parts) (rule keeps_volume_update, simp)

lemma keeps_volume_calls:
  "keeps db_ok (StoragePoolVolumeUpdate orc n t p s cfg)"
  "keeps db_ok (StoragePoolVolumeRename orc n m t p)"
  unfolding StoragePoolVolumeUpdate_def StoragePoolVolumeRename_def
  by (intro keeps_pbind keeps_gets keeps_prod keeps_transaction keeps_seq_all keeps_volume_update;
      simp add: keeps_config_inserts keeps_volume_parts)+

lemma keeps_plain_calls:
  "keeps db_ok (CertSave orc c)" "keeps db_ok (CertUpdate orc fp n s)" "keeps db_ok (PatchesMarkApplied orc p)"
  unfolding call_defs
  by (auto intro!: keeps_intros keeps_tx_Exec simp: ebind_eq_Inr intro: db_ok_plain)

lemma keeps_container_calls:
  "keeps db_ok (ContainerCreate orc args)"
  "keeps db_ok (ContainerRemove orc n1)"
  "keeps db_ok (ContainerRename orc n2 m2)"
  "keeps db_ok (ContainerSetState orc i3 s3)"
  "keeps db_ok (ContainerConfigRemove orc i4 k4)"
  "keeps db_ok (ContainerSetStateful orc i5 b5)"
  "keeps db_ok (ContainerLastUsedUpdate orc i6 t6)"
  unfolding call_defs
  by (auto simp: ebind_eq_Inr list_all_iff split: prod.splits
      intro!: ok_rules keeps_config_inserts keeps_DevicesAdd keeps_gets intro: eff_intros db_ok_parts)

lemma keeps_profile_calls:
  "keeps db_ok (ProfileCreate orc n s cfg devs)"
  "keeps db_ok (ProfileCreateDefault orc)"
  "keeps db_ok (ProfileDelete orc n2)"
  "keeps db_ok (ProfileUpdate orc n3 m3)"
  unfolding call_defs
  by (auto simp: ebind_eq_Inr list_all_iff split: prod.splits
      intro!: ok_rules keeps_config_inserts keeps_DevicesAdd keeps_gets intro: eff_intros db_ok_parts)

lemma keeps_network_calls:
  "keeps db_ok (NetworkCreate orc n s cfg)"
  "keeps db_ok (NetworkUpdate orc n1 s1 cfg1)"
  "keeps db_ok (NetworkDelete orc n2)"
  "keeps db_ok (NetworkRename orc n3 m3)"
  unfolding call_defs
  by (auto simp: ebind_eq_Inr list_all_iff split: prod.splits
      intro!: ok_rules keeps_config_inserts keeps_DevicesAdd keeps_gets intro: eff_intros db_ok_parts)

lemma keeps_storagepool_calls:
  "keeps db_ok (StoragePoolCreate orc n s dr cfg)"
  "keeps db_ok (StoragePoolUpdate orc n1 s1 cfg1)"
  "keeps db_ok (StoragePoolDelete orc n2)"
  "keeps db_ok (StoragePoolVolumeCreate orc n3 s3 t3 p3 cfg3)"
  "keeps db_ok (StoragePoolVolumeDelete orc n4 t4 p4)"
  unfolding call_defs
  by (auto simp: ebind_eq_Inr list_all_iff split: prod.splits
      intro!: ok_rules keeps_config_inserts keeps_DevicesAdd keeps_gets intro: eff_intros db_ok_parts)

lemma keeps_image_calls:
  "keeps db_ok (ImageInsert orc fp f sz pu au ar c e ps)"
  "keeps db_ok (ImageUpdate orc i1 f1 sz1 pu1 au1 ar1 c1 e1 ps1)"
  "keeps db_ok (ImageDelete orc i2)"
  "keeps db_ok (ImageSourceInsert orc i3 s3 p3 c3 a3)"
  "keeps db_ok (ImageLastAccessUpdate orc fp4 t4)"
  "keeps db_ok (ImageLastAccessInit orc fp5)"
  "keeps db_ok (ImageAliasAdd orc n6 i6 s6)"
  "keeps db_ok (ImageAliasUpdate orc j7 i7 s7)"
  "keeps db_ok (ImageAliasRename orc j8 n8)"
  "keeps db_ok (ImageAliasDelete orc n9)"
  "keeps db_ok (ImageAliasesMove orc i10 j10)"
  unfolding call_defs
  by (auto simp: ebind_eq_Inr list_all_iff split: prod.splits
      intro!: ok_rules keeps_config_inserts keeps_DevicesAdd keeps_gets intro: eff_intros db_ok_parts)

lemma keeps_other_calls:
  "keeps db_ok (CertDelete orc fp)"
  "keeps db_ok (ConfigValueSet orc k1 v1)"
  unfolding call_defs
  by (auto simp: ebind_eq_Inr list_all_iff split: prod.splits
      intro!: ok_rules keeps_config_inserts keeps_DevicesAdd keeps_gets intro: eff_intros db_ok_parts)

lemmas call_keeps_rules = keeps_volume_calls keeps_plain_calls keeps_container_calls keeps_profile_calls keeps_network_calls keeps_storagepool_calls keeps_image_calls keeps_other_calls

lemma call_keeps: "keeps db_ok (call_prog orc c)"
proof (cases c)
  case (OnContainers x)
  then show ?thesis by (cases x) (simp_all add: call_keeps_rules keeps_void)
next
  case (OnProfiles x)
  then show ?thesis by (cases x) (simp_all add: call_keeps_rules keeps_void)
next
  case (OnNetworks x)
  then show ?thesis by (cases x) (simp_all add: call_keeps_rules keeps_void)
next
  case (OnStorage x)
  then show ?thesis by (cases x) (simp_all add: call_keeps_rules keeps_void)
next
  case (OnImages x)
  then show ?thesis by (cases x) (simp_all add: call_keeps_rules keeps_void)
next
  case (OnRest x)
  then show ?thesis by (cases x) (simp_all add: call_keeps_rules keeps_void)
qed

interpretation db_machine: machine_invariant "call_step orc" "\<lambda>w. db_ok (w_db w)" for orc :: "'o env_scheme"
  by unfold_locales (auto simp: call_step_def intro: keepsD [OF call_keeps])


text \<open>An outside that lets everything succeed, at a fixed time.\<close>

definition calm :: env where
  "calm = \<lparr>o_run = (\<lambda>_ _. ([], None)), o_exists = (\<lambda>_ _. True), o_read = (\<lambda>_ _. Inr []),
           o_act = (\<lambda>_ _. None), o_now = (\<lambda>_. 1500000000), o_var = ''/var/lib/apollo''\<rparr>"

definition fresh_world :: dbworld where
  "fresh_world = \<lparr>w_hist = [], w_db = db_empty\<rparr>"

lemma quiet_calm [simp]: "quiet calm"
  by (simp add: quiet_def calm_def)

lemma run_calls: "run_actions (call_step orc) cs w = Some (foldl (\<lambda>v c. snd (call_prog orc c v)) w cs)"
  by (induction cs arbitrary: w) (simp_all add: call_step_def)

definition sample_calls :: "db_call list" where
  "sample_calls =
     [OnProfiles CallProfileCreateDefault,
      OnNetworks (CallNetworkCreate ''br0'' ''a bridge'' [(''ipv4.nat'', ''true''), (''ipv6.nat'', [])]),
      OnNetworks (CallNetworkCreate ''br0'' ''again'' []),
      OnStorage (CallStoragePoolCreate ''pool'' [] ''zfs'' [(''size'', ''1GB'')]),
      OnNetworks (CallNetworkDelete ''br0'')]"


section \<open>Failing without a trace\<close>

lemma db_readonly_keeps: "(\<And>I. keeps I p) \<Longrightarrow> db_readonly p"
  by (simp add: db_readonly_iff_keeps)

lemma readonly_gets:
  "db_readonly (ContainerId orc n)" "db_readonly (ProfileGet orc n)" "db_readonly (NetworkGet orc n)"
  "db_readonly (StoragePoolGet orc n)" "db_readonly (StoragePoolVolumeGetType orc n t p)"
  by (intro db_readonly_keeps keeps_gets)+

lemma atomic_void: "atomic p \<Longrightarrow> atomic (void p)"
  unfolding void_def by (rule atomic_then_ret)

lemma atomic_basic: "atomic (ret x)" "atomic (fail e)"
  by (simp_all add: atomic_readonly db_readonly_basic)

lemmas call_atomic_rules = atomic_void atomic_intros db_readonly_attempt readonly_gets
  db_readonly_basic atomic_basic

lemma call_atomic: "atomic (call_prog orc c)"
proof (cases c)
  case (OnContainers x)
  then show ?thesis by (cases x) (auto simp: call_defs Let_def intro!: call_atomic_rules)
next
  case (OnProfiles x)
  then show ?thesis by (cases x) (auto simp: call_defs Let_def intro!: call_atomic_rules)
next
  case (OnNetworks x)
  then show ?thesis by (cases x) (auto simp: call_defs Let_def intro!: call_atomic_rules)
next
  case (OnStorage x)
  then show ?thesis by (cases x) (auto simp: call_defs Let_def intro!: call_atomic_rules)
next
  case (OnImages x)
  then show ?thesis by (cases x) (auto simp: call_defs Let_def intro!: call_atomic_rules)
next
  case (OnRest x)
  then show ?thesis by (cases x) (auto simp: call_defs Let_def intro!: call_atomic_rules)
qed


definition br0_world :: dbworld where
  "br0_world = fresh_world\<lparr>w_db := db_empty\<lparr>networks := \<lparr>t_rows = [(1, \<lparr>na_name = ''br0'', na_description = None\<rparr>)], t_next = 2\<rparr>\<rparr>\<rparr>"

lemma taken: "fst (call_prog calm (OnNetworks (CallNetworkCreate ''br0'' ''again'' [])) br0_world) = Inl constraint_failed"
  by code_simp


end
