(* ===== verification/NetworkProps.thy ===== *)
theory NetworkProps
  imports NetworkBridge DbProps
begin

text \<open>
  What the network code guarantees: validation does not depend on the order in which a
  configuration is visited, an accepted configuration starts with usable names and an MTU its
  protocols can live with, addresses of the fan do not clash, and only dnsmasq is signalled.
\<close>

section \<open>Validation\<close>

lemma tunnels_loop_set: "set (tunnels_loop acc m) =
    set acc \<union> (\<lambda>k. Split (CHR ''.'') k ! 1) ` {k \<in> fst ` set m. HasPrefix k ''tunnel.''}"
  by (induction acc m rule: tunnels_loop.induct) (auto simp: Let_def)

lemma tunnels_set: "set (networkGetTunnels cfg) =
    (\<lambda>k. Split (CHR ''.'') k ! 1) ` {k \<in> dom (map_of cfg). HasPrefix k ''tunnel.''}"
  by (simp add: networkGetTunnels_def tunnels_loop_set dom_map_of_conv_image_fst)

lemma gm_str_map_of: "map_of m = map_of m' \<Longrightarrow> gm_str m k = gm_str m' k"
  by (simp add: gm_str_def)

lemma tunnels_map_of:
  assumes "map_of m = map_of m'"
  shows "(networkGetTunnels m = []) = (networkGetTunnels m' = [])"
proof -
  have "set (networkGetTunnels m) = set (networkGetTunnels m')" by (simp add: tunnels_set assms)
  then show ?thesis by (metis set_empty)
qed

lemma mtu_check_map_of: "map_of m = map_of m' \<Longrightarrow> mtu_check m v = mtu_check m' v"
  unfolding mtu_check_def length_greater_0_conv by (simp only: tunnels_map_of [of m m'] gm_str_map_of [of m m'])

lemma network_key_check_map_of:
  "map_of m = map_of m' \<Longrightarrow> network_key_check name m = network_key_check name m'"
  unfolding network_key_check_def by (simp only: mtu_check_map_of [of m m'] gm_str_map_of [of m m'])

definition map_str :: "(string \<Rightarrow> string option) \<Rightarrow> string \<Rightarrow> string" where
  "map_str m k = (case m k of None \<Rightarrow> [] | Some v \<Rightarrow> v)"

definition network_per_key :: "string \<Rightarrow> (string \<Rightarrow> string option) \<Rightarrow> string \<Rightarrow> string \<Rightarrow> bool" where
  "network_per_key name m k v \<longleftrightarrow> (\<exists>cfg. map_of cfg = m \<and> is_ok (network_key_check name cfg (k, v)))"

lemma network_per_key_eq: "network_per_key name (map_of cfg) k v \<longleftrightarrow> is_ok (network_key_check name cfg (k, v))"
  unfolding network_per_key_def using network_key_check_map_of by metis

interpretation network_validator: map_validator "networkValidateConfig name"
  "\<lambda>m. \<not> (map_str m ''bridge.mode'' = ''fan'' \<and> length name > 11)" "network_per_key name" for name
proof unfold_locales
  fix m :: "string gomap" assume wf: "gm_wf m"
  have "is_ok (check_all (network_key_check name m) m) \<longleftrightarrow>
      (\<forall>k v. map_of m k = Some v \<longrightarrow> is_ok (network_key_check name m (k, v)))"
    using wf by (auto simp: check_all_is_ok gm_wf_def)
  then show "is_ok (networkValidateConfig name m) \<longleftrightarrow>
      \<not> (map_str (map_of m) ''bridge.mode'' = ''fan'' \<and> length name > 11) \<and>
      (\<forall>k v. map_of m k = Some v \<longrightarrow> network_per_key name (map_of m) k v)"
    by (simp add: networkValidateConfig_def network_per_key_eq map_str_def gm_str_def)
qed

text \<open>
  Whether a network configuration is accepted does not depend on the order in which Go visits
  the map.
\<close>
theorem network_validation_order:
  assumes "gm_wf cfg" "gm_wf cfg'" "map_of cfg = map_of cfg'"
  shows "is_ok (networkValidateConfig name cfg) = is_ok (networkValidateConfig name cfg')"
  by (rule network_validator.order_independent [OF assms])

section \<open>What an accepted configuration starts with\<close>

lemma accepted_key_check:
  assumes "gm_wf cfg" "networkValidateConfig name cfg = Inr ()" "map_of cfg k = Some v"
  shows "is_ok (network_key_check name cfg (k, v))"
  using network_validator.accepted_key [OF assms(1) _ assms(3), of name] assms(2)
  by (simp add: network_per_key_eq)

lemma tunnel_not_user: "HasPrefix k ''tunnel.'' \<Longrightarrow> \<not> HasPrefix k ''user.''"
  by (auto simp: HasPrefix_iff)

text \<open>
  The interface of every tunnel of an accepted configuration has a name the kernel takes: at most
  15 characters.
\<close>
theorem tunnel_names_fit:
  assumes "gm_wf cfg" "networkValidateConfig name cfg = Inr ()" "t \<in> set (networkGetTunnels cfg)"
  shows "length (name @ ''-'' @ t) \<le> 15"
proof -
  from assms(3) obtain k v where k: "map_of cfg k = Some v" "HasPrefix k ''tunnel.''" "t = Split (CHR ''.'') k ! 1"
    by (auto simp: tunnels_set)
  from accepted_key_check [OF assms(1,2) k(1)] tunnel_not_user [OF k(2)]
  have "is_ok (table_key name k)"
    by (cases "table_key name k") (auto simp: network_key_check_def)
  with k(2,3) show ?thesis by (auto simp: table_key_def Let_def split: if_splits)
qed

lemma mtu_key: "table_key name ''bridge.mtu'' = Inr ''bridge.mtu''"
  by (simp add: table_key_def HasPrefix_def)

lemma accepted_mtu:
  assumes "gm_wf cfg" "networkValidateConfig name cfg = Inr ()" "gm_str cfg ''bridge.mtu'' \<noteq> []"
  shows "is_ok (mtu_check cfg (gm_str cfg ''bridge.mtu''))"
proof -
  obtain v where v: "map_of cfg ''bridge.mtu'' = Some v" "v = gm_str cfg ''bridge.mtu''"
    using assms(3) by (auto simp: gm_str_def split: option.splits)
  have pre: "\<not> HasPrefix ''bridge.mtu'' ''user.''" "\<not> HasPrefix ''bridge.mtu'' ''ipv4.''"
    "\<not> HasPrefix ''bridge.mtu'' ''ipv6.''" "\<not> HasPrefix ''bridge.mtu'' ''fan.''"
    by (simp_all add: HasPrefix_def)
  have "map_of networkConfigKeys ''bridge.mtu'' = Some IsInt64" by (simp add: networkConfigKeys_def)
  then have "network_key_check name cfg (''bridge.mtu'', v) =
      ebind (IsInt64 v) (\<lambda>_. if v \<noteq> [] then mtu_check cfg v else Inr ())"
    by (simp only: network_key_check_def mtu_key pre prod.case Let_def ebind.simps option.case if_False simp_thms
        refl if_True)
  with accepted_key_check [OF assms(1,2) v(1)] v(2) assms(3) show ?thesis by (cases "IsInt64 v") simp_all
qed

definition effective_mtu :: "string gomap \<Rightarrow> int res" where
  "effective_mtu cfg = ParseInt (default_mtu (bridge_mtu cfg)) 10 64"

lemma default_mtus:
  "ParseInt ''1400'' 10 64 = Inr 1400" "ParseInt ''1480'' 10 64 = Inr 1480"
  "ParseInt ''1450'' 10 64 = Inr 1450" "ParseInt ''1500'' 10 64 = Inr 1500"
  by (simp_all add: ParseInt_def int_of_str_def uint_of_def digit_val_def is_digit_def)

text \<open>
  The MTU a network starts with leaves its tunnels room for their headers, and is at least what
  the configured families of addresses need.
\<close>
theorem effective_mtu_bounds:
  assumes "gm_wf cfg" "networkValidateConfig name cfg = Inr ()"
  shows "\<exists>m. effective_mtu cfg = Inr m \<and>
     (networkGetTunnels cfg \<noteq> [] \<longrightarrow> m \<le> 1400) \<and>
     (gm_str cfg ''bridge.mode'' = ''fan'' \<longrightarrow> m \<le> (if gm_str cfg ''fan.type'' = ''ipip'' then 1480 else 1450)) \<and>
     (is_set (gm_str cfg ''ipv6.address'') \<longrightarrow> 1280 \<le> m) \<and>
     (is_set (gm_str cfg ''ipv4.address'') \<longrightarrow> 68 \<le> m)"
proof (cases "gm_str cfg ''bridge.mtu'' = []")
  case True
  then show ?thesis
    by (auto simp: effective_mtu_def default_mtu_def bridge_mtu_def default_mtus)
next
  case False
  let ?v = "gm_str cfg ''bridge.mtu''"
  from accepted_mtu [OF assms False] obtain m where m: "ParseInt ?v 10 64 = Inr m"
    by (auto simp: mtu_check_def split: sum.splits)
  with accepted_mtu [OF assms False] have "\<not> (is_set (gm_str cfg ''ipv6.address'') \<and> m < 1280)"
    "\<not> (is_set (gm_str cfg ''ipv4.address'') \<and> m < 68)"
    "\<not> (gm_str cfg ''bridge.mode'' = ''fan'' \<and> gm_str cfg ''fan.type'' = ''ipip'' \<and> m > 1480)"
    "\<not> (gm_str cfg ''bridge.mode'' = ''fan'' \<and> gm_str cfg ''fan.type'' \<noteq> ''ipip'' \<and> m > 1450)"
    "\<not> (networkGetTunnels cfg \<noteq> [] \<and> m > 1400)"
    by (auto simp: mtu_check_def Let_def is_set_def split: if_splits)
  with False m show ?thesis by (auto simp: effective_mtu_def default_mtu_def bridge_mtu_def)
qed

section \<open>The fan\<close>

definition in_underlay :: "nat \<Rightarrow> byte list \<Rightarrow> byte list \<Rightarrow> bool" where
  "in_underlay sz net b \<longleftrightarrow> length b = 4 \<and> take (sz div 8) b = take (sz div 8) net"

lemma list4: "length b = 4 \<Longrightarrow> \<exists>b0 b1 b2 b3. b = [b0, b1, b2, b3]"
  by (auto simp: numeral_eq_Suc length_Suc_conv)

text \<open>
  Two hosts of one underlay get different addresses on the overlay, each with the same prefix and
  ending in 1.
\<close>
theorem fan_addresses_distinct:
  assumes "us = 16 \<or> us = 24" "os = 8 \<or> os = 16" "os + (32 - us) + 8 \<le> 32"
    and "in_underlay us net a" "in_underlay us net b" "a \<noteq> b"
  shows "fan_bytes ovl os us a \<noteq> fan_bytes ovl os us b \<and> fan_bytes ovl os us a ! 3 = 1 \<and>
     fan_bytes ovl os us a ! 0 = n_ip ovl ! 0"
proof -
  obtain a0 a1 a2 a3 where a: "a = [a0, a1, a2, a3]"
    using assms(4) list4 unfolding in_underlay_def by blast
  obtain b0 b1 b2 b3 where b: "b = [b0, b1, b2, b3]"
    using assms(5) list4 unfolding in_underlay_def by blast
  have same: "take (us div 8) a = take (us div 8) b" using assms(4,5) by (simp add: in_underlay_def)
  from assms(1-3) consider "us = 16" "os = 8" | "us = 24" "os = 8" | "us = 24" "os = 16" by fastforce
  then show ?thesis
  proof cases
    case 1
    then show ?thesis using same assms(6) a b by (auto simp: fan_bytes_def Let_def)
  next
    case 2
    then show ?thesis using same assms(6) a b by (auto simp: fan_bytes_def Let_def)
  next
    case 3
    then show ?thesis using same assms(6) a b by (auto simp: fan_bytes_def Let_def)
  qed
qed

section \<open>Firewall rules of other networks\<close>

lemma Index_append: "Index s p \<noteq> None \<Longrightarrow> Index (s @ t) p \<noteq> None"
proof (induction s)
  case (Cons c s)
  show ?case
  proof (cases "HasPrefix (c # s) p")
    case True
    then have "HasPrefix ((c # s) @ t) p" by (metis HasPrefix_iff append_assoc)
    then show ?thesis by simp
  next
    case False
    with Cons have "Index (s @ t) p \<noteq> None" by auto
    then show ?thesis by simp
  qed
qed (cases t; auto split: if_splits)

lemma Contains_middle: "Contains (a @ p @ b) p"
proof (induction a)
  case Nil
  have "Index (p @ b) p = Some 0" using HasPrefix_append [of p b] by (cases "p @ b") simp_all
  then show ?case by (simp add: Contains_def)
next
  case (Cons c a)
  then show ?case by (auto simp: Contains_def)
qed

text \<open>
  Clearing the rules of a network also deletes those of every network whose name starts with its
  name: the comment is looked for as a substring.
\<close>
theorem clear_hits_longer_names:
  "\<exists>cmd. clear_line protocol name table (before @ rule_comment (name @ suffix) @ after) = Some cmd"
proof -
  have "Contains (before @ rule_comment name @ (suffix @ after)) (rule_comment name)"
    by (rule Contains_middle)
  then show ?thesis by (simp add: clear_line_def rule_comment_def)
qed

section \<open>Signals\<close>

lemma new_events: "drop (length h) (h @ es) = es"
  by simp

text \<open>C30: 
  A signal is only ever sent to the process of the pid file, and only where that process runs an
  executable called dnsmasq.
\<close>
theorem dnsmasq_only_signalled:
  assumes "networkKillDnsmasq orc name reload w = (r, v)"
    "Signalled p s \<in> set (drop (length (w_hist w)) (w_hist v))"
  shows "\<exists>content cmd. o_read orc (w_hist w) (VarPath orc [''networks'', name, ''dnsmasq.pid'']) = Inr content \<and>
     Atoi (TrimSpace content) = Inr p \<and>
     h_link orc (w_hist w) (''/proc/'' @ TrimSpace content @ ''/exe'') = Inr cmd \<and>
     path_Base (Split (CHR '' '') cmd ! 0) = ''dnsmasq''"
proof -
  have base: "path_Base [] \<noteq> ''dnsmasq''" by (simp add: path_Base_def)
  show ?thesis
    using assms base
    by (auto simp: networkKillDnsmasq_def pbind_def path_exists_def get_world_def ReadFile_def Readlink_def
        attempt_def not_running_def ret_def fail_def os_Remove_def ignoring_def perform_def Let_def of_res_def
        split: if_splits sum.splits option.splits prod.splits)
qed

section \<open>Interfaces of other networks\<close>

lemma for_all_runs:
  assumes "for_all f xs w = (Inr (), v)" "x \<in> set xs"
    and hit: "\<And>w v. f x w = (Inr (), v) \<Longrightarrow> e \<in> set (w_hist v)"
    and grow: "\<And>y w. y \<in> set xs \<Longrightarrow> set (w_hist w) \<subseteq> set (w_hist (snd (f y w)))"
  shows "e \<in> set (w_hist v)"
  using assms(1,2) grow
proof (induction xs arbitrary: w)
  case (Cons y ys)
  obtain r u where u: "f y w = (r, u)" by (cases "f y w")
  with Cons.prems(1) obtain z where r: "r = Inr z" "for_all f ys u = (Inr (), v)"
    by (cases r) (auto simp: for_all_def pbind_def)
  have keep: "set (w_hist u) \<subseteq> set (w_hist v)"
  proof -
    have "for_all f zs u' = (Inr (), v') \<Longrightarrow> set zs \<subseteq> set (y # ys) \<Longrightarrow> set (w_hist u') \<subseteq> set (w_hist v')" for zs u' v'
    proof (induction zs arbitrary: u')
      case (Cons z zs)
      obtain r1 u1 where u1: "f z u' = (r1, u1)" by (cases "f z u'")
      with Cons.prems(1) have "for_all f zs u1 = (Inr (), v')"
        by (cases r1) (auto simp: for_all_def pbind_def)
      from Cons.IH [OF this] Cons.prems(2) have "set (w_hist u1) \<subseteq> set (w_hist v')" by simp
      moreover have "set (w_hist u') \<subseteq> set (w_hist u1)"
        using \<open>\<And>y' w. y' \<in> set (y # ys) \<Longrightarrow> set (w_hist w) \<subseteq> set (w_hist (snd (f y' w)))\<close> [of z u'] u1 Cons.prems(2)
        by simp
      ultimately show ?case by blast
    qed (simp add: for_all_def ret_def)
    from this [OF r(2)] show ?thesis by auto
  qed
  show ?case
  proof (cases "y = x")
    case True
    with hit u r(1) have "e \<in> set (w_hist u)" by (cases z) auto
    with keep show ?thesis by blast
  next
    case False
    with Cons.prems(2) have "x \<in> set ys" by simp
    from Cons.IH [OF r(2) this] Cons.prems(3) show ?thesis by simp
  qed
qed simp

lemma only_grows: "only Q p \<Longrightarrow> set (w_hist w) \<subseteq> set (w_hist (snd (p w)))"
  unfolding only_def by (metis (mono_tags, opaque_lifting) Un_upper1 set_append)

lemma run_cmd_recorded: "run_cmd orc cmd w = (r, v) \<Longrightarrow> Ran cmd \<in> set (w_hist v)"
  by (cases "o_run orc (w_hist w) cmd")
     (auto simp: run_cmd_def RunCommand_def run_output_def pbind_def ret_def fail_def emit_def split: option.splits)

text \<open>
  Starting or stopping a network deletes every interface whose name extends its own with a dash, the
  bridge of another managed network included.
\<close>
theorem tunnel_cleanup_hits_networks:
  assumes "h_ifaces orc (w_hist w) = Inr ifs" "(name @ ''-'' @ suffix, addrs) \<in> set ifs"
    "clean_tunnels orc name w = (Inr (), v)"
  shows "Ran [''ip'', ''link'', ''del'', ''dev'', name @ ''-'' @ suffix] \<in> set (w_hist v)"
proof -
  let ?f = "\<lambda>(i, _). pwhen (HasPrefix i (name @ ''-'')) (run_cmd orc [''ip'', ''link'', ''del'', ''dev'', i])"
  have "for_all ?f ifs w = (Inr (), v)"
    using assms(1,3) by (simp add: clean_tunnels_def Interfaces_def pbind_def)
  then show ?thesis
  proof (rule for_all_runs [OF _ assms(2)])
    fix w v assume "?f (name @ ''-'' @ suffix, addrs) w = (Inr (), v)"
    moreover have "HasPrefix (name @ ''-'' @ suffix) (name @ ''-'')"
      using HasPrefix_append [of "name @ ''-''" suffix] by simp
    ultimately show "Ran [''ip'', ''link'', ''del'', ''dev'', name @ ''-'' @ suffix] \<in> set (w_hist v)"
      by (auto simp: pwhen_def intro: run_cmd_recorded)
  next
    fix y w
    have "only (\<lambda>_. True) (?f y)" by (cases y) (auto intro!: only_intros)
    then show "set (w_hist w) \<subseteq> set (w_hist (snd (?f y w)))" by (rule only_grows)
  qed
qed

section \<open>PATCH\<close>

text \<open>
  A PATCH changes nothing: the handler answers success for a network that exists and panics for one
  that does not.
\<close>
theorem patch_is_inert:
  "w_db (snd (networkPatch orc name w)) = w_db w \<and>
   (case fst (networkPatch orc name w) of
      Inr resp \<Rightarrow> resp = EmptyOk
    | Inl e \<Rightarrow> is_panic e)"
proof -
  obtain r v where g: "NetworkGet orc name w = (r, v)" by (cases "NetworkGet orc name w")
  have "w_db v = w_db w"
    using readonly_gets(3) [of orc name] g unfolding db_readonly_def by (metis snd_conv)
  with g show ?thesis
    by (cases r) (auto simp: networkPatch_def pbind_def attempt_def ret_def fail_def is_panic_def split: go_error.splits)
qed

section \<open>Samples\<close>

definition vxlan_config :: "string gomap" where
  "vxlan_config = [(''ipv6.address'', ''auto''), (''tunnel.lan.protocol'', ''vxlan'')]"

lemma vxlan_config_ok: "networkValidateConfig ''apollobr0'' vxlan_config = Inr ()"
  by code_simp

lemma vxlan_config_wf: "gm_wf vxlan_config"
  by (simp add: gm_wf_def vxlan_config_def)

theorem network_validation_order_witness:
  "is_ok (networkValidateConfig ''apollobr0'' vxlan_config) = is_ok (networkValidateConfig ''apollobr0'' (rev vxlan_config))"
  by (rule network_validation_order) (auto simp: gm_wf_def vxlan_config_def fun_eq_iff)

theorem tunnel_names_fit_witness:
  "StringInSlice ''lan'' (networkGetTunnels vxlan_config) \<and> length (''apollobr0'' @ ''-'' @ ''lan'') \<le> 15"
proof -
  have t: "networkGetTunnels vxlan_config = [''lan'']" by code_simp
  then show ?thesis
    using tunnel_names_fit [OF vxlan_config_wf vxlan_config_ok, of "''lan''"] by simp
qed

theorem effective_mtu_bounds_witness:
  "\<exists>m. effective_mtu vxlan_config = Inr m \<and> 1280 \<le> m \<and> m \<le> 1400"
proof -
  have "networkGetTunnels vxlan_config \<noteq> []" "is_set (gm_str vxlan_config ''ipv6.address'')" by code_simp+
  with effective_mtu_bounds [OF vxlan_config_wf vxlan_config_ok] show ?thesis by auto
qed

theorem fan_addresses_distinct_witness:
  "fan_bytes \<lparr>n_ip = [240, 0, 0, 0], n_mask = [255, 0, 0, 0]\<rparr> 8 16 [172, 16, 3, 4] \<noteq>
   fan_bytes \<lparr>n_ip = [240, 0, 0, 0], n_mask = [255, 0, 0, 0]\<rparr> 8 16 [172, 16, 4, 3]"
  using fan_addresses_distinct [of 16 8 "[172, 16, 0, 0]" "[172, 16, 3, 4]" "[172, 16, 4, 3]"
      "\<lparr>n_ip = [240, 0, 0, 0], n_mask = [255, 0, 0, 0]\<rparr>"]
  by (simp add: in_underlay_def)

definition calm_host :: hostenv where
  "calm_host =
     \<lparr>o_run = (\<lambda>_ _. ([], None)), o_exists = (\<lambda>_ _. True), o_read = (\<lambda>_ _. Inr ''42''), o_act = (\<lambda>_ _. None),
      o_now = (\<lambda>_. 0), o_var = ''/var/lib/apollo'',
      h_ifaces = (\<lambda>_. Inr [(''lo'', Inr [''127.0.0.1/8'']), (''br'', Inr []), (''br-lan'', Inr [])]),
      h_dir = (\<lambda>_ _. Inr []), h_link = (\<lambda>_ _. Inr ''/usr/sbin/dnsmasq''), h_finds = (\<lambda>_ _. True),
      h_user = (\<lambda>_ _. True), h_dial = (\<lambda>_ _. False), h_rand = (\<lambda>_ i. i), h_lxc = (\<lambda>_ _. LxcState ''STOPPED''),
      h_nics = (\<lambda>_ _. []), h_cgroup = (\<lambda>_ _ _. []), h_veths = (\<lambda>_ _. []), h_loopback = (\<lambda>_ n. n = ''lo''),
      h_mock = False, h_log = ''/var/log/apollo''\<rparr>"

definition still :: world where
  "still = \<lparr>w_hist = []\<rparr>"

lemma Atoi_42: "Atoi ''42'' = Inr 42"
  by (simp add: Atoi_def int_of_str_def uint_of_def digit_val_def is_digit_def)

theorem dnsmasq_only_signalled_witness:
  "\<exists>content. o_read calm_host [] (VarPath calm_host [''networks'', ''br0'', ''dnsmasq.pid'']) = Inr content \<and>
     Atoi (TrimSpace content) = Inr 42"
proof -
  have k: "networkKillDnsmasq calm_host ''br0'' True still = (Inr (), \<lparr>w_hist = [Signalled 42 ''SIGHUP'']\<rparr>)"
    by (simp add: networkKillDnsmasq_def pbind_def path_exists_def get_world_def ReadFile_def Readlink_def
        attempt_def of_res_def perform_def emit_def Let_def calm_host_def still_def Atoi_42 TrimSpace_def
        is_space_def path_Base_def)
  show ?thesis
    using dnsmasq_only_signalled [OF k, of 42 "''SIGHUP''"] by (auto simp: still_def)
qed

theorem tunnel_cleanup_hits_networks_witness:
  "networkValidName ''br-lan'' = Inr () \<and>
   Ran [''ip'', ''link'', ''del'', ''dev'', ''br-lan''] \<in> set (w_hist (snd (clean_tunnels calm_host ''br'' still)))"
proof -
  have n: "networkValidName ''br-lan'' = Inr ()" by code_simp
  have c: "clean_tunnels calm_host ''br'' still =
      (Inr (), \<lparr>w_hist = [Ran [''ip'', ''link'', ''del'', ''dev'', ''br-lan'']]\<rparr>)" by code_simp
  have i: "h_ifaces calm_host (w_hist still) = Inr [(''lo'', Inr [''127.0.0.1/8'']), (''br'', Inr []), (''br-lan'', Inr [])]"
    by (simp add: calm_host_def)
  show ?thesis
    using tunnel_cleanup_hits_networks [OF i _ c, of "''lan''"] n c by simp
qed

end
