(* ===== verification/DbReadBack.thy ===== *)
theory DbReadBack
  imports DbProps
begin

text \<open>
  What the database layer reads back: a network and a container as they were created, up to what
  the layer does not store; what a deletion takes along; and how it meets a locked or failing
  database.
\<close>

section \<open>Fresh rows\<close>

definition t_snoc :: "'r \<Rightarrow> 'r table \<Rightarrow> 'r table" where
  "t_snoc r t = t\<lparr>t_rows := t_rows t @ [(t_next t, r)], t_next := t_next t + 1\<rparr>"

lemma t_snoc_simps [simp]:
  "t_ids (t_snoc r t) = t_ids t @ [t_next t]" "t_vals (t_snoc r t) = t_vals t @ [r]"
  "t_where P (t_snoc r t) = t_where P t @ (if P r then [(t_next t, r)] else [])"
  "t_rows (t_snoc r t) = t_rows t @ [(t_next t, r)]"
  by (simp_all add: t_snoc_def t_ids_def t_vals_def t_where_def)

lemma t_insert_fresh: "key r \<notin> key ` set (t_vals t) \<Longrightarrow> t_insert key r t = Inr (t_next t, t_snoc r t)"
  by (simp add: t_insert_def t_snoc_def)

lemma t_next_fresh: "t_ok key t \<Longrightarrow> t_next t \<notin> set (t_ids t)"
  by (auto simp: t_ok_def list_all_iff)

lemma t_where_none: "(\<And>r. r \<in> set (t_vals t) \<Longrightarrow> \<not> P r) \<Longrightarrow> t_where P t = []"
  by (force simp: t_where_def t_vals_def filter_empty_conv)

lemma t_get_snoc_new: "t_next t \<notin> set (t_ids t) \<Longrightarrow> t_get (t_snoc r t) (t_next t) = Some r"
  using map_of_eq_None_iff [of "t_rows t" "t_next t"]
  by (simp add: t_get_def t_ids_def map_add_def)

lemma t_get_snoc_old: "i \<in> set (t_ids t) \<Longrightarrow> t_next t \<notin> set (t_ids t) \<Longrightarrow> t_get (t_snoc r t) i = t_get t i"
  by (auto simp: t_get_def t_ids_def map_add_def split: option.splits) (metis map_of_eq_None_iff image_eqI fst_conv not_None_eq)

section \<open>Networks\<close>

definition nonempty_map :: "string gomap \<Rightarrow> string \<Rightarrow> string option" where
  "nonempty_map m k = (case map_of m k of Some v \<Rightarrow> if v = [] then None else Some v | None \<Rightarrow> None)"

lemma map_of_stored: "gm_wf m \<Longrightarrow> map_of (rows_map (filter (\<lambda>(k, v). v \<noteq> []) m)) = nonempty_map m"
proof (rule ext)
  fix k assume wf: "gm_wf m"
  have "distinct (map fst (filter (\<lambda>(k, v). v \<noteq> []) m))"
    using wf unfolding gm_wf_def by (rule distinct_map_filter)
  then show "map_of (rows_map (filter (\<lambda>(k, v). v \<noteq> []) m)) k = nonempty_map m k"
    by (simp add: map_of_rows_map map_of_nonempty [OF wf] nonempty_map_def)
qed

lemma turns_NetworkConfigAdd:
  assumes "quiet orc" "i \<in> set (t_ids (networks d))" "gm_wf m" "network_kv.rows i d = []"
  shows "\<exists>t. turns (NetworkConfigAdd orc i m :: ('w dbworld_scheme, unit) prog) d () (d\<lparr>networks_config := t\<rparr>) \<and>
     network_kv.rows i (d\<lparr>networks_config := t\<rparr>) = filter (\<lambda>(k, v). v \<noteq> []) m"
proof -
  from network_kv.add_all_rows [OF assms(1) refl assms(2,3,4), of "\<lambda>v. v \<noteq> []" "''INSERT INTO networks_config''"]
  obtain t where t: "turns (for_all (\<lambda>(k, v). pwhen (v \<noteq> []) (tx_Exec orc ''INSERT INTO networks_config''
        (insert_network_config i k v))) m :: ('w dbworld_scheme, unit) prog) d () (d\<lparr>networks_config := t\<rparr>)"
    "network_kv.rows i (d\<lparr>networks_config := t\<rparr>) = filter (\<lambda>(k, v). v \<noteq> []) m" by blast
  have "turns (NetworkConfigAdd orc i m :: ('w dbworld_scheme, unit) prog) d () (d\<lparr>networks_config := t\<rparr>)"
    unfolding NetworkConfigAdd_def
    by (rule turns_seq_Cons [OF turns_Prepare_unchecked [OF assms(1)] turns_seq_Cons [OF t(1) turns_seq_Nil]])
  with t(2) show ?thesis by blast
qed

lemma turns_NetworkGet:
  assumes "quiet orc" "t_where (\<lambda>r. na_name r = name) (networks d) = (i, r) # rs"
  shows "\<exists>cfg. turns (NetworkGet orc name :: ('w dbworld_scheme, int \<times> network) prog) d
      (i, \<lparr>nw_Name = name, nw_Description = (case na_description r of None \<Rightarrow> [] | Some s \<Rightarrow> s),
           nw_Config = cfg\<rparr>) d \<and>
      cfg = rows_map (network_kv.rows i d)"
proof -
  have i: "i \<in> set (t_ids (networks d))" by (rule map_fst_where_ids [OF assms(2)])
  then have ne: "filter (\<lambda>j. j = i) (t_ids (networks d)) \<noteq> []" by (auto simp: filter_empty_conv)
  let ?c = "rows_map (network_kv.rows i d)"
  have "turns (NetworkConfigGet orc i :: ('w dbworld_scheme, string gomap) prog) d ?c d"
    unfolding NetworkConfigGet_def
    apply (rule turns_pbind [OF turns_attempt [OF turns_QueryScan [OF assms(1)]]])
    apply (cases "network_kv.rows i d = []")
     apply (simp add: network_kv.rows_def [symmetric])
     apply (rule turns_pbind [OF turns_QueryScan [OF assms(1)]])
     apply (simp add: ne rows_map_def turns_ret)
    apply (simp add: network_kv.rows_def [symmetric] turns_ret)
    done
  then have "turns (NetworkGet orc name :: ('w dbworld_scheme, int \<times> network) prog) d
      (i, \<lparr>nw_Name = name, nw_Description = (case na_description r of None \<Rightarrow> [] | Some s \<Rightarrow> s),
           nw_Config = ?c\<rparr>) d"
    unfolding NetworkGet_def
    apply -
    apply (rule turns_pbind [where x = "(i, r)" and ?d1.0 = d])
     apply (rule turns_dbQueryRowScan [OF assms(1), where xs = rs])
     apply (rule assms(2))
    apply (simp add: turns_pbind turns_ret)
    done
  then show ?thesis by blast
qed

lemma turns_NetworkCreate:
  assumes "quiet orc" "db_ok d" "name \<notin> na_name ` set (t_vals (networks d))" "gm_wf cfg"
  shows "\<exists>i d'. turns (NetworkCreate orc name desc cfg :: ('w dbworld_scheme, int) prog) d i d' \<and>
     t_where (\<lambda>r. na_name r = name) (networks d') = [(i, \<lparr>na_name = name, na_description = Some desc\<rparr>)] \<and>
     network_kv.rows i d' = filter (\<lambda>(k, v). v \<noteq> []) cfg"
proof -
  let ?r = "\<lparr>na_name = name, na_description = Some desc\<rparr>"
  let ?i = "t_next (networks d)" and ?d = "d\<lparr>networks := t_snoc ?r (networks d)\<rparr>"
  have ok: "t_ok (Some \<circ> na_name) (networks d)" "fk_ok fst (networks_config d) (networks d)"
    using assms(2) by (simp_all add: db_ok_def entity_ok_def)
  have ins: "insert_network name desc d = Inr (?i, ?d)"
    using assms(3) by (simp add: insert_network_def t_insert_fresh image_iff)
  have "network_kv.rows ?i d = []"
    using ok(2) t_next_fresh [OF ok(1)] by (intro network_kv.rows_no_owner) (auto simp: fk_ok_def)
  then have rows: "network_kv.rows ?i ?d = []" by (simp add: network_kv.rows_def)
  from turns_NetworkConfigAdd [OF assms(1) _ assms(4) rows] obtain t where
    t: "turns (NetworkConfigAdd orc ?i cfg :: ('w dbworld_scheme, unit) prog) ?d () (?d\<lparr>networks_config := t\<rparr>)"
    "network_kv.rows ?i (?d\<lparr>networks_config := t\<rparr>) = filter (\<lambda>(k, v). v \<noteq> []) cfg" by auto
  have "turns (NetworkCreate orc name desc cfg :: ('w dbworld_scheme, int) prog) d ?i (?d\<lparr>networks_config := t\<rparr>)"
    unfolding NetworkCreate_def
    by (intro turns_transaction turns_pbind [OF turns_sql [OF assms(1), where x = ?i and d' = ?d]]
          turns_pbind [OF t(1)] turns_ret assms(1) ins)
  moreover have "t_where (\<lambda>r. na_name r = name) (networks d) = []"
    using assms(3) by (intro t_where_none) auto
  ultimately show ?thesis using t(2) by (intro exI [of _ ?i] exI [of _ "?d\<lparr>networks_config := t\<rparr>"]) simp
qed

text \<open>C12: 
  A network that is created under a free name reads back with its name, its description and the
  settings that are not empty.
\<close>
theorem network_round_trip:
  fixes w :: "'w dbworld_scheme"
  assumes "quiet orc" "db_ok (w_db w)" "name \<notin> na_name ` set (t_vals (networks (w_db w)))" "gm_wf cfg"
  shows "\<exists>i v nw u. NetworkCreate orc name desc cfg w = (Inr i, v) \<and> NetworkGet orc name v = (Inr (i, nw), u) \<and>
     nw_Name nw = name \<and> nw_Description nw = desc \<and> map_of (nw_Config nw) = nonempty_map cfg"
proof -
  from turns_NetworkCreate [OF assms] obtain i d' where
    c: "turns (NetworkCreate orc name desc cfg :: ('w dbworld_scheme, int) prog) (w_db w) i d'"
    "t_where (\<lambda>r. na_name r = name) (networks d') = [(i, \<lparr>na_name = name, na_description = Some desc\<rparr>)]"
    "network_kv.rows i d' = filter (\<lambda>(k, v). v \<noteq> []) cfg" by blast
  from turnsD [OF c(1) refl] obtain v where v: "NetworkCreate orc name desc cfg w = (Inr i, v)" "w_db v = d'" by blast
  from turns_NetworkGet [OF assms(1) c(2)] obtain cfg' where
    g: "turns (NetworkGet orc name :: ('w dbworld_scheme, int \<times> network) prog) d'
      (i, \<lparr>nw_Name = name, nw_Description = desc, nw_Config = cfg'\<rparr>) d'" "cfg' = rows_map (network_kv.rows i d')"
    by auto
  from turnsD [OF g(1) v(2)] v(1) g(2) c(3) map_of_stored [OF assms(4)] show ?thesis by auto
qed


section \<open>A locked database\<close>

lemma tx_Exec_refused: "o_act orc (w_hist w) (Stmt q) = Some e \<Longrightarrow> tx_Exec orc q eff w = (Inl e, emit (Stmt q) w)"
  by (simp add: tx_Exec_def sql_def pbind_def perform_def)

lemma tx_Exec_taken:
  "o_act orc (w_hist w) (Stmt q) = None \<Longrightarrow> tx_Exec orc q eff w =
     (case eff (w_db w) of Inl e \<Rightarrow> (Inl e, emit (Stmt q) w)
      | Inr d \<Rightarrow> (Inr (), (emit (Stmt q) w)\<lparr>w_db := d\<rparr>))"
  by (cases "eff (w_db w)") (simp_all add: tx_Exec_def sql_def pbind_def perform_def emit_def)

definition asked :: "nat \<Rightarrow> string \<Rightarrow> 'a dbworld_scheme \<Rightarrow> 'a dbworld_scheme" where
  "asked n q w = w\<lparr>w_hist := w_hist w @ replicate n (Stmt q)\<rparr>"

definition locked_for :: "'o env_scheme \<Rightarrow> string \<Rightarrow> 'a dbworld_scheme \<Rightarrow> nat \<Rightarrow> bool" where
  "locked_for orc q w n \<longleftrightarrow>
     (\<forall>i < n. o_act orc (w_hist w @ replicate i (Stmt q)) (Stmt q) = Some db_locked)"

lemma asked_emit: "asked n q (emit (Stmt q) w) = asked (Suc n) q w"
  by (simp add: asked_def emit_def)

lemma asked_0 [simp]: "asked 0 q w = w"
  by (simp add: asked_def)

lemma locked_for_Suc: "locked_for orc q w (Suc n) \<longleftrightarrow>
    o_act orc (w_hist w) (Stmt q) = Some db_locked \<and> locked_for orc q (emit (Stmt q) w) n"
  by (auto simp: locked_for_def less_Suc_eq_0_disj)

lemma retry_step: "p w = (Inl db_locked, v) \<Longrightarrow> retry (Suc n) p w = retry n p v"
  using locked_no_panic [of db_locked] by (simp add: pbind_def attempt_def IsDbLockedError_def)

lemma retry_stop: "fst (p w) \<noteq> Inl db_locked \<Longrightarrow> retry (Suc n) p w = p w"
  by (cases "p w") (auto simp: pbind_def attempt_def IsDbLockedError_def ret_def fail_def split: sum.splits)

lemma retry_locked:
  "locked_for orc q w n \<Longrightarrow> n \<le> m \<Longrightarrow> retry m (tx_Exec orc q eff) w = retry (m - n) (tx_Exec orc q eff) (asked n q w)"
proof (induction n arbitrary: w m)
  case (Suc n)
  then obtain k where k: "m = Suc k" by (cases m) auto
  from Suc.prems(1) have "o_act orc (w_hist w) (Stmt q) = Some db_locked" "locked_for orc q (emit (Stmt q) w) n"
    by (simp_all add: locked_for_Suc)
  from retry_step [where p = "tx_Exec orc q eff" and n = k, OF tx_Exec_refused, OF this(1)]
    Suc.IH [OF this(2), of k] Suc.prems(2) k
  show ?case by (simp add: asked_emit del: retry.simps)
qed simp

text \<open>C13: 
  A statement against a locked database: asked again until it is taken, or given up after a
  thousand attempts with nothing changed.
\<close>
theorem Exec_locked:
  assumes "locked_for orc q w n" "n < 1000 \<Longrightarrow> o_act orc (w_hist (asked n q w)) (Stmt q) = None"
    "\<And>e. eff (w_db w) = Inl e \<Longrightarrow> e \<noteq> db_locked" "n \<le> 1000"
  shows "Exec orc q eff w =
     (if n < 1000 then
        case eff (w_db w) of
          Inl e \<Rightarrow> (Inl e, asked (Suc n) q w)
        | Inr d \<Rightarrow> (Inr (), (asked (Suc n) q w)\<lparr>w_db := d\<rparr>)
      else (Inl (Errorf ''DB is locked'' []), asked 1000 q w))"
proof -
  have r: "Exec orc q eff w = retry (1000 - n) (tx_Exec orc q eff) (asked n q w)"
    unfolding Exec_def by (rule retry_locked [OF assms(1,4)])
  have e: "emit (Stmt q) (asked n q w) = asked (Suc n) q w"
    by (simp add: asked_def emit_def replicate_append_same)
  show ?thesis
  proof (cases "n < 1000")
    case True
    then obtain k where k: "1000 - n = Suc k" using Suc_diff_Suc by metis
    let ?t = "tx_Exec orc q eff (asked n q w)"
    have t: "?t = (case eff (w_db w) of Inl e \<Rightarrow> (Inl e, asked (Suc n) q w)
        | Inr d \<Rightarrow> (Inr (), (asked (Suc n) q w)\<lparr>w_db := d\<rparr>))"
      using tx_Exec_taken [OF assms(2) [OF True], of eff]
      by (simp only: e) (simp add: asked_def)
    then have "fst ?t \<noteq> Inl db_locked" using assms(3) by (auto split: sum.splits)
    from retry_stop [of "tx_Exec orc q eff", OF this] r k t True show ?thesis by (simp del: retry.simps)
  next
    case False
    with assms(4) r show ?thesis by (simp add: fail_def)
  qed
qed

section \<open>Removing a container\<close>

text \<open>What the database holds of the container with an id.\<close>

definition owned_rows :: "int \<Rightarrow> db \<Rightarrow> kv_row list \<times> device_row list \<times> kv_row list \<times> use_row list" where
  "owned_rows i d =
     (filter (\<lambda>r. fst r = i) (t_vals (containers_config d)),
      filter (\<lambda>r. de_owner r = i) (t_vals (containers_devices d)),
      filter (\<lambda>r. map_option de_owner (t_get (containers_devices d) (fst r)) = Some i)
        (t_vals (containers_devices_config d)),
      filter (\<lambda>r. us_container r = i) (t_vals (containers_profiles d)))"

lemma map_snd_filter: "map snd (filter (\<lambda>(i, r). P r) xs) = filter P (map snd xs)"
  by (induction xs) auto

lemma t_vals_cascade: "t_vals (cascade own p c) = filter (\<lambda>r. own r \<in> set (t_ids p)) (t_vals c)"
  by (simp add: cascade_def t_delete_def t_vals_def map_snd_filter)

lemma t_ids_delete_id: "set (t_ids (t_delete (\<lambda>j _. j = i) t)) = set (t_ids t) - {i}"
  by (auto simp: t_ids_def t_delete_def)

lemma map_of_filter_val: "distinct (map fst xs) \<Longrightarrow> map_of (filter (\<lambda>(i, r). P r) xs) i =
    (case map_of xs i of Some r \<Rightarrow> if P r then Some r else None | None \<Rightarrow> None)"
proof (induction xs)
  case (Cons x xs)
  obtain j r where x: "x = (j, r)" by (cases x)
  with Cons.prems have "map_of xs j = None" by (simp add: map_of_eq_None_iff)
  with Cons x show ?case by (auto split: option.splits)
qed simp

lemma t_get_delete_id: "t_get (t_delete (\<lambda>j _. j = i) t) k = (if k = i then None else t_get t k)"
proof -
  have "map_of (filter (\<lambda>(j, r). j \<noteq> i) xs) k = (if k = i then None else map_of xs k)" for xs
    by (induction xs) auto
  from this [of "t_rows t"] show ?thesis by (simp add: t_get_def t_delete_def)
qed

lemma t_get_cascade: "t_ok key c \<Longrightarrow> t_get (cascade own p c) i =
    (case t_get c i of Some r \<Rightarrow> if own r \<in> set (t_ids p) then Some r else None | None \<Rightarrow> None)"
  by (auto simp: t_get_def cascade_def t_delete_def map_of_filter_val t_ok_def t_ids_def split: option.splits)

lemma t_get_ids: "t_get t i = Some r \<Longrightarrow> i \<in> set (t_ids t) \<and> r \<in> set (t_vals t)"
  by (force simp: t_get_def t_ids_def t_vals_def dest: map_of_SomeD)

lemma t_ids_get: "i \<in> set (t_ids t) \<Longrightarrow> \<exists>r. t_get t i = Some r"
  unfolding t_get_def t_ids_def by (metis map_of_eq_None_iff not_None_eq set_map)

lemma owned_rows_delete:
  assumes "db_ok d"
  shows "owned_rows j (delete_containers (\<lambda>k _. k = i) d) = (if j = i then ([], [], [], []) else owned_rows j d)"
proof -
  let ?cs = "t_delete (\<lambda>k _. k = i) (containers d)" and ?D = "containers_devices d"
  have fk: "fk_ok fst (containers_config d) (containers d)" "fk_ok de_owner ?D (containers d)"
    "fk_ok fst (containers_devices_config d) ?D" "fk_ok us_container (containers_profiles d) (containers d)"
    and ok: "t_ok device_key ?D"
    using assms by (simp_all add: db_ok_def shape_defs)
  have keep: "fk_ok own c (containers d) \<Longrightarrow> filter (\<lambda>r. own r = j) (t_vals (cascade own ?cs c)) =
      (if j = i then [] else filter (\<lambda>r. own r = j) (t_vals c))" for own and c :: "'x table"
    by (auto simp: t_vals_cascade t_ids_delete_id fk_ok_def filter_empty_conv intro!: filter_cong)
  have own: "map_option de_owner (t_get (cascade de_owner ?cs ?D) k) = Some j \<longleftrightarrow>
      j \<noteq> i \<and> map_option de_owner (t_get ?D k) = Some j" for k
    using fk(2) t_get_ids [of ?D k] unfolding t_get_cascade [OF ok]
    by (auto simp: t_ids_delete_id fk_ok_def image_subset_iff split: option.splits)
  have "filter (\<lambda>r. map_option de_owner (t_get (cascade de_owner ?cs ?D) (fst r)) = Some j)
      (t_vals (cascade fst (cascade de_owner ?cs ?D) (containers_devices_config d))) =
      (if j = i then [] else
         filter (\<lambda>r. map_option de_owner (t_get ?D (fst r)) = Some j) (t_vals (containers_devices_config d)))"
    unfolding own by (auto simp: t_vals_cascade filter_empty_conv intro!: filter_cong)
      (metis own t_get_ids option.map_disc_iff option.distinct(1) option.exhaust map_option_eq_Some)
  with keep [OF fk(1)] keep [OF fk(2)] keep [OF fk(4)]
  show ?thesis by (simp add: owned_rows_def delete_containers_def Let_def)
qed

lemma turns_ContainerRemove:
  assumes "quiet orc" "t_where (\<lambda>r. co_name r = name) (containers d) = (i, r) # rs"
  shows "turns (ContainerRemove orc name) d () (delete_containers (\<lambda>j _. j = i) d)"
  unfolding ContainerRemove_def ContainerId_def
  by (rule turns_pbind [where x = i and ?d1.0 = d],
      rule turns_dbQueryRowScan [OF assms(1), where xs = "map fst rs"], simp add: assms(2),
      rule turns_Exec [OF assms(1)], simp)

lemma filter_key_single:
  "distinct (map (key \<circ> snd) xs) \<Longrightarrow> (i, r) \<in> set xs \<Longrightarrow> filter (\<lambda>(i, s). key s = key r) xs = [(i, r)]"
proof (induction xs)
  case (Cons x xs)
  show ?case
  proof (cases "x = (i, r)")
    case True
    with Cons.prems(1) have "\<And>y. y \<in> set xs \<Longrightarrow> key (snd y) \<noteq> key r" by force
    with True show ?thesis by (auto simp: filter_empty_conv)
  next
    case False
    with Cons have "key (snd x) \<noteq> key r" by force
    with Cons False show ?thesis by (cases x) auto
  qed
qed simp

lemma where_key_single:
  assumes "t_ok (Some \<circ> key) t" "(i, r) \<in> set (t_rows t)"
  shows "t_where (\<lambda>s. key s = key r) t = [(i, r)]"
proof -
  have "distinct (map (key \<circ> snd) (t_rows t))"
    using assms(1) by (simp add: t_ok_def t_unique_def t_vals_def comp_assoc distinct_map inj_on_def)
  from filter_key_single [OF this assms(2)] show ?thesis by (simp add: t_where_def)
qed

lemma t_rows_get: "t_ok key t \<Longrightarrow> (i, r) \<in> set (t_rows t) \<longleftrightarrow> t_get t i = Some r"
  by (simp add: t_get_def t_ok_def t_ids_def)

text \<open>C9: Removing a container takes along everything it owns, and nothing of the others.\<close>
theorem container_remove_exact:
  assumes "quiet orc" "db_ok (w_db w)" "t_get (containers (w_db w)) i = Some r" "co_name r = name"
  shows "\<exists>v. ContainerRemove orc name w = (Inr (), v) \<and>
     t_get (containers (w_db v)) i = None \<and> owned_rows i (w_db v) = ([], [], [], []) \<and>
     co_name r \<notin> co_name ` set (t_vals (containers (w_db v))) \<and>
     (\<forall>j. j \<noteq> i \<longrightarrow> t_get (containers (w_db v)) j = t_get (containers (w_db w)) j \<and>
        owned_rows j (w_db v) = owned_rows j (w_db w))"
proof -
  let ?d = "w_db w"
  have ok: "t_ok (Some \<circ> co_name) (containers ?d)" using assms(2) by (simp add: db_ok_def shape_defs)
  then have r: "(i, r) \<in> set (t_rows (containers ?d))" using assms(3) by (simp add: t_rows_get)
  have single: "t_where (\<lambda>s. co_name s = co_name r) (containers ?d) = [(i, r)]"
    by (rule where_key_single [OF ok r])
  then have unique: "(j, s) \<in> set (t_rows (containers ?d)) \<Longrightarrow> co_name s = co_name r \<Longrightarrow> j = i" for j s
  proof -
    assume "(j, s) \<in> set (t_rows (containers ?d))" "co_name s = co_name r"
    then have "(j, s) \<in> set (t_where (\<lambda>s. co_name s = co_name r) (containers ?d))" by (simp add: t_where_def)
    with single show "j = i" by simp
  qed
  from turnsD [OF turns_ContainerRemove [OF assms(1), of name ?d i r "[]"] refl] single assms(4)
  obtain v where v: "ContainerRemove orc name w = (Inr (), v)"
    "w_db v = delete_containers (\<lambda>j _. j = i) ?d" by auto
  have cs: "containers (w_db v) = t_delete (\<lambda>j _. j = i) (containers ?d)"
    by (simp add: v(2) delete_containers_def Let_def)
  have get: "t_get (containers (w_db v)) j = (if j = i then None else t_get (containers ?d) j)" for j
    by (simp add: cs t_get_delete_id)
  have "co_name r \<notin> co_name ` set (t_vals (containers (w_db v)))"
    using unique by (auto simp: cs t_vals_delete)
  with v get show ?thesis by (simp add: owned_rows_delete [OF assms(2)])
qed


section \<open>Samples\<close>

definition sample_db :: db where
  "sample_db =
     db_empty\<lparr>containers := \<lparr>t_rows =
         [(1, \<lparr>co_name = ''c1'', co_description = None, co_architecture = 2, co_type = 0, co_ephemeral = 0,
               co_stateful = 0, co_creation_date = 1, co_last_use_date = Some 0\<rparr>),
          (2, \<lparr>co_name = ''c2'', co_description = None, co_architecture = 2, co_type = 0, co_ephemeral = 1,
               co_stateful = 0, co_creation_date = 5, co_last_use_date = Some 0\<rparr>)], t_next = 3\<rparr>,
       containers_config := \<lparr>t_rows = [(1, 1, ''limits.cpu'', ''2''), (2, 2, ''limits.cpu'', ''4'')], t_next = 3\<rparr>,
       containers_devices := \<lparr>t_rows = [(1, \<lparr>de_owner = 1, de_name = ''eth0'', de_type = 1\<rparr>),
          (2, \<lparr>de_owner = 2, de_name = ''root'', de_type = 2\<rparr>)], t_next = 3\<rparr>,
       containers_devices_config := \<lparr>t_rows = [(1, 1, ''parent'', ''br0''), (2, 2, ''path'', ''/'')], t_next = 3\<rparr>\<rparr>"

lemma sample_db_ok: "db_ok sample_db"
  by code_simp

theorem network_round_trip_witness:
  "\<exists>i v nw u. NetworkCreate calm ''br0'' ''lan'' [(''ipv4.nat'', ''true''), (''ipv6.nat'', [])] fresh_world = (Inr i, v) \<and>
     NetworkGet calm ''br0'' v = (Inr (i, nw), u) \<and> nw_Name nw = ''br0'' \<and> nw_Description nw = ''lan'' \<and>
     map_of (nw_Config nw) = nonempty_map [(''ipv4.nat'', ''true''), (''ipv6.nat'', [])]"
proof (rule network_round_trip [OF quiet_calm])
  show "db_ok (w_db fresh_world)" by (simp add: fresh_world_def db_ok_empty)
qed (simp_all add: fresh_world_def db_empty_def t_empty_def t_vals_def gm_wf_def)

theorem container_remove_exact_witness:
  "\<exists>v. ContainerRemove calm ''c1'' \<lparr>w_hist = [], w_db = sample_db\<rparr> = (Inr (), v) \<and>
     owned_rows 1 (w_db v) = ([], [], [], []) \<and> owned_rows 2 (w_db v) = owned_rows 2 sample_db"
proof -
  have "t_get (containers sample_db) 1 = Some (snd (t_rows (containers sample_db) ! 0))"
    "co_name (snd (t_rows (containers sample_db) ! 0)) = ''c1''" by (simp_all add: sample_db_def t_get_def)
  from container_remove_exact [of calm "\<lparr>w_hist = [], w_db = sample_db\<rparr>", simplified, OF sample_db_ok this]
  obtain v where v: "ContainerRemove calm ''c1'' \<lparr>w_hist = [], w_db = sample_db\<rparr> = (Inr (), v)"
    "owned_rows 1 (w_db v) = ([], [], [], [])" "\<forall>j. j \<noteq> 1 \<longrightarrow> owned_rows j (w_db v) = owned_rows j sample_db"
    by auto
  from v(3) have "owned_rows 2 (w_db v) = owned_rows 2 sample_db" by simp
  with v(1,2) show ?thesis by blast
qed

text \<open>An outside whose database is locked for the first \<open>n\<close> statements.\<close>

definition locked_env :: "nat \<Rightarrow> env" where
  "locked_env n = calm\<lparr>o_act := (\<lambda>h ev. if length h < n then Some db_locked else None)\<rparr>"

theorem Exec_locked_witness:
  "Exec (locked_env 3) ''UPDATE'' no_effect fresh_world = (Inr (), asked 4 ''UPDATE'' fresh_world) \<and>
   locked_for (locked_env 3) ''UPDATE'' fresh_world 3"
proof -
  have l: "locked_for (locked_env 3) ''UPDATE'' fresh_world 3"
    by (simp add: locked_for_def locked_env_def fresh_world_def)
  have "o_act (locked_env 3) (w_hist (asked 3 ''UPDATE'' fresh_world)) (Stmt ''UPDATE'') = None"
    by (simp add: locked_env_def asked_def fresh_world_def)
  from Exec_locked [OF l this, of no_effect] l show ?thesis
    by (simp add: no_effect_def asked_def fresh_world_def)
qed

end
