(* ===== verification/ContainerUpdate.thy ===== *)
theory ContainerUpdate
  imports NetworkHost IdmapAlloc Osarch
begin

text \<open>
  Updating a container: \<open>containerMERCURY.Update\<close> of \<open>apollo/container_mercury.go\<close> with the
  functions it calls. AppArmor, block and character devices, mounts and the storage driver are
  reached through their operations (\<open>Called\<close>), which may fail.
\<close>

section \<open>The daemon\<close>

record nvidia_dev =
  nv_path :: string
  nv_major :: int
  nv_minor :: int

record gpu_dev =
  gp_vendorid :: string
  gp_productid :: string
  gp_id :: string
  gp_pci :: string
  gp_nvidia :: nvidia_dev
  gp_path :: string
  gp_major :: int
  gp_minor :: int

text \<open>
  \<open>dm_json\<close> is \<open>json.Marshal\<close> of an id map, \<open>dm_yaml\<close> the content of the backup file, \<open>dm_soft\<close> the
  nine tenths of a limit that Go computes in floating point, \<open>dm_order\<close> the order of \<open>DeviceNames\<close>.
\<close>

record daemon = hostenv +
  dm_host :: "event list \<Rightarrow> host"
  dm_srt :: "idmap_set \<Rightarrow> idmap_set"
  dm_order :: "devices \<Rightarrow> devices"
  dm_idmap :: "idmap_set option"
  dm_json :: "idmap_set \<Rightarrow> string"
  dm_parse :: "string \<Rightarrow> idmap_set res"
  dm_yaml :: "string \<times> ctr \<Rightarrow> ctr list \<Rightarrow> pool \<Rightarrow> volume \<Rightarrow> string"
  dm_soft :: "int \<Rightarrow> string"
  dm_blkio :: bool
  dm_memory :: bool
  dm_swap :: bool
  dm_cpu :: bool
  dm_pids :: bool
  dm_netprio :: bool
  dm_driver :: "event list \<Rightarrow> string \<Rightarrow> string"
  dm_ready :: "event list \<Rightarrow> string \<Rightarrow> bool"
  dm_ours :: "event list \<Rightarrow> string \<Rightarrow> bool"
  dm_poolid :: "event list \<Rightarrow> string \<Rightarrow> int"
  dm_usbs :: "event list \<Rightarrow> usb_device list res"
  dm_gpus :: "event list \<Rightarrow> (gpu_dev list \<times> nvidia_dev list) res"
  dm_disk_limits :: "event list \<Rightarrow> string \<Rightarrow> (string \<times> int \<times> int \<times> int \<times> int) list res"
  dm_configured :: "event list \<Rightarrow> string \<Rightarrow> string \<Rightarrow> bool"

text \<open>All of them are tried; whether one succeeded.\<close>

fun try_each :: "('x \<Rightarrow> ('w, unit) prog) \<Rightarrow> 'x list \<Rightarrow> ('w, bool) prog" where
  "try_each f [] = ret False"
| "try_each f (x # xs) =
     pbind (attempt (f x)) (\<lambda>r. pbind (try_each f xs) (\<lambda>b. ret (is_ok r \<or> b)))"

definition ask :: "(event list \<Rightarrow> 'r) \<Rightarrow> ('a world_scheme, 'r) prog" where
  "ask f = get_world (\<lambda>w. f (w_hist w))"

text \<open>An operation behind an interface, on the container.\<close>

definition call_on :: "'o env_scheme \<Rightarrow> string \<Rightarrow> string list \<Rightarrow> ('a, unit) action" where
  "call_on orc f args = pbind this (\<lambda>c. perform orc (Called f (ct_name c # args)))"

definition the_host :: "'o daemon_scheme \<Rightarrow> ('a dbworld_scheme, host) prog" where
  "the_host orc =
     get_world (\<lambda>w. (dm_host orc (w_hist w))\<lparr>h_pools := map po_name (t_vals (storage_pools (w_db w)))\<rparr>)"

section \<open>The arguments\<close>

record update_args =
  ua_Architecture :: int
  ua_Config :: "string gomap"
  ua_Description :: string
  ua_Devices :: devices
  ua_Ephemeral :: bool
  ua_Profiles :: "string list"

definition protected_key :: "string \<Rightarrow> go_error option" where
  "protected_key k =
     (if HasPrefix k ''volatile.'' then Some (Errorf ''Volatile keys are read-only.'' [])
      else if HasPrefix k ''image.'' then Some (Errorf ''Image keys are read-only.'' [])
      else None)"

fun protected_check :: "string gomap \<Rightarrow> string gomap \<Rightarrow> unit res" where
  "protected_check other [] = Inr ()"
| "protected_check other ((k, v) # m) =
     (case protected_key k of
        Some e \<Rightarrow> if gm_str other k \<noteq> v then Inl e else protected_check other m
      | None \<Rightarrow> protected_check other m)"

fun profiles_check :: "string \<Rightarrow> string list \<Rightarrow> string list \<Rightarrow> unit res" where
  "profiles_check msg known [] = Inr ()"
| "profiles_check msg known (p # ps) =
     (if \<not> StringInSlice p known then Inl (Errorf msg [p]) else profiles_check msg known ps)"

definition arch_check :: "int \<Rightarrow> unit res" where
  "arch_check a =
     (if a \<noteq> 0 \<and> \<not> is_ok (ArchitectureName a) then Inl (Errorf ''Invalid architecture id: %s'' []) else Inr ())"

definition args_check :: "'o daemon_scheme \<Rightarrow> update_args \<Rightarrow> bool \<Rightarrow> ('a, unit) action" where
  "args_check orc args userRequested =
     pbind this (\<lambda>c.
     pbind (the_host orc) (\<lambda>h.
     seq_all
       [of_res (containerValidConfig h (Some (ua_Config args)) False False),
        of_res (containerValidDevices h (Some (ua_Devices args)) False False),
        pbind (Profiles orc) (\<lambda>ps. of_res (profiles_check ''Profile doesn't exist: %s'' ps (ua_Profiles args))),
        of_res (arch_check (ua_Architecture args)),
        pwhen userRequested
          (seq_all [of_res (protected_check (ct_localConfig c) (ua_Config args)),
                    of_res (protected_check (ua_Config args) (ct_localConfig c))])]))"

definition apply_args :: "update_args \<Rightarrow> ctr \<Rightarrow> ctr" where
  "apply_args args c =
     c\<lparr>ct_description := ua_Description args, ct_architecture := ua_Architecture args,
       ct_ephemeral := ua_Ephemeral args, ct_localConfig := ua_Config args,
       ct_localDevices := ua_Devices args, ct_profiles := ua_Profiles args\<rparr>"

definition changed_keys :: "string gomap \<Rightarrow> string gomap \<Rightarrow> string list" where
  "changed_keys old new =
     add_new [] (filter (\<lambda>k. gm_str old k \<noteq> gm_str new k) (map fst old @ map fst new))"

section \<open>The id map\<close>

definition idmap_keys :: "string list" where
  "idmap_keys = [''security.idmap.isolated'', ''security.idmap.base'', ''security.idmap.size'', ''raw.idmap'',
     ''security.privileged'']"

text \<open>The other containers with their expanded configuration, or the error of loading one.\<close>

fun load_configs :: "'o env_scheme \<Rightarrow> string list \<Rightarrow> ('a dbworld_scheme, (string \<times> string gomap res) list) prog" where
  "load_configs orc [] = ret []"
| "load_configs orc (n # ns) =
     pbind (attempt (containerLoadByName orc n)) (\<lambda>r.
     pbind (load_configs orc ns) (\<lambda>rs.
       ret ((n, ebind r (\<lambda>c. Inr (ct_expandedConfig c))) # rs)))"

definition call_findIdmap :: "'o daemon_scheme \<Rightarrow> string \<Rightarrow> string gomap \<Rightarrow> ('a dbworld_scheme, idmap_set \<times> int) prog" where
  "call_findIdmap orc name conf =
     pbind (attempt (pbind (ContainersList orc CTypeRegular) (load_configs orc))) (\<lambda>ctns.
       of_res (findIdmap (dm_srt orc) (dm_idmap orc) ctns name (gm_str conf ''security.idmap.isolated'')
         (gm_str conf ''security.idmap.base'') (gm_str conf ''security.idmap.size'') (gm_str conf ''raw.idmap'')))"

definition next_idmap :: "'o daemon_scheme \<Rightarrow> ('a, string \<times> int) action" where
  "next_idmap orc =
     pbind this (\<lambda>c.
       if ctr_IsPrivileged c then ret (''[]'', 0)
       else pbind (call_findIdmap orc (ct_name c) (ct_expandedConfig c)) (\<lambda>(m, base). ret (dm_json orc m, base)))"

definition update_idmap :: "'o daemon_scheme \<Rightarrow> string list \<Rightarrow> ('a, unit) action" where
  "update_idmap orc keys =
     pwhen (list_ex (\<lambda>k. StringInSlice k keys) idmap_keys)
       (pbind (next_idmap orc) (\<lambda>(j, base).
          modify_this (\<lambda>c. c\<lparr>ct_localConfig :=
            gm_set (gm_set (ct_localConfig c) ''volatile.idmap.next'' j) ''volatile.idmap.base'' (show_int base)\<rparr>)))"

section \<open>The root disk\<close>

definition local_root :: "devices \<Rightarrow> string \<times> device" where
  "local_root ds = (case containerGetRootDiskDevice ds of Inl _ \<Rightarrow> ([], []) | Inr kd \<Rightarrow> kd)"

definition profile_roots :: "devices \<Rightarrow> string \<Rightarrow> string list" where
  "profile_roots ds local_key = map fst (filter (\<lambda>(k, v). isRootDiskDevice v \<and> k \<noteq> local_key) ds)"

definition device_at :: "devices \<Rightarrow> string \<Rightarrow> device" where
  "device_at ds k = (case map_of ds k of None \<Rightarrow> [] | Some d \<Rightarrow> d)"

text \<open>The keys of the old and of the new root disk, with the checks on the way.\<close>

definition root_disks :: "devices \<Rightarrow> devices \<Rightarrow> devices \<Rightarrow> devices \<Rightarrow> (string \<times> string) res" where
  "root_disks oldLocal oldExpanded newLocal newExpanded =
     (let (oldKey, oldDev) = local_root oldLocal; oldProfile = profile_roots oldExpanded oldKey;
          (newKey, newDev) = local_root newLocal; newProfile = profile_roots newExpanded newKey
      in if gm_str oldDev ''pool'' \<noteq> [] then
           (if gm_str newDev ''pool'' \<noteq> [] then Inr (oldKey, newKey)
            else if newProfile = [] then
              Inl (Errorf ''Update will cause the container to rely on a profile's root disk device but none was found.'' [])
            else if length newProfile > 1 then
              Inl (Errorf ''Update will cause the container to rely on a profile's root disk device but conflicting devices were found.'' [])
            else if gm_str (device_at newExpanded (newProfile ! 0)) ''pool'' \<noteq> gm_str oldDev ''pool'' then
              Inl (Errorf ''Using the profile's root disk device would change the storage pool of the container.'' [])
            else Inr (oldKey, newKey))
         else if gm_str newDev ''pool'' \<noteq> [] then
           (if oldProfile = [] then Inr ([], newKey)
            else if gm_str (device_at oldExpanded (oldProfile ! 0)) ''pool'' \<noteq> gm_str newDev ''pool'' then
              Inl (Errorf ''The new local root disk device would change the storage pool of the container.'' [])
            else Inr (oldProfile ! 0, newKey))
         else if newProfile = [] then
           Inl (Errorf ''Update will cause the container to rely on a profile's root disk device but none was found.'' [])
         else if length newProfile > 1 then
           Inl (Errorf ''Using the profile's root disk device would change the storage pool of the container.'' [])
         else Inr ([], newProfile ! 0))"

definition apply_quota :: "'o daemon_scheme \<Rightarrow> bool \<Rightarrow> string \<Rightarrow> string \<Rightarrow> ('a, unit) action" where
  "apply_quota orc isRunning oldSize newSize =
     pwhen (newSize \<noteq> oldSize)
       (pbind this (\<lambda>c.
        pbind (ask (\<lambda>h. dm_driver orc h (ct_name c))) (\<lambda>driver.
        pbind (ask (\<lambda>h. dm_ready orc h (ct_name c))) (\<lambda>ready.
          if driver = ''lvm'' \<and> isRunning \<or> \<not> ready then
            modify_this (\<lambda>c. c\<lparr>ct_localConfig := gm_set (ct_localConfig c) ''volatile.apply_quota'' newSize\<rparr>)
          else pbind (of_res (ParseByteSizeString newSize)) (\<lambda>sz.
                 call_on orc ''StorageEntitySetQuota'' [show_int sz])))))"

section \<open>Live configuration\<close>

definition disk_weight :: "string \<Rightarrow> int res" where
  "disk_weight diskPriority =
     ebind (if diskPriority \<noteq> [] then Atoi diskPriority else Inr 5) (\<lambda>p.
       let priority = mul64 p 100 in Inr (if priority = 0 then 10 else priority))"

definition go_div :: "int \<Rightarrow> int \<Rightarrow> int" where
  "go_div a b = (if a < 0 then - ((- a) div b) else a div b)"

text \<open>The limit as it is written: \<open>-1\<close>, a percentage of the total, or a size.\<close>

definition memory_value :: "'o env_scheme \<Rightarrow> string \<Rightarrow> ('a world_scheme, string) prog" where
  "memory_value orc memory =
     (if memory = [] then ret ''-1''
      else if HasSuffix memory ''%'' then
        pbind (of_res (ParseInt (TrimSuffix memory ''%'') 10 64)) (\<lambda>percent.
        pbind (ReadFile orc ''/proc/meminfo'') (\<lambda>content.
        pbind (of_res (deviceTotalMemory (Host.read_lines content))) (\<lambda>total.
          ret (show_int (mul64 (go_div total 100) percent)))))
      else pbind (of_res (ParseByteSizeString memory)) (\<lambda>v. ret (show_int v)))"

definition old_limit :: "'o hostenv_scheme \<Rightarrow> string \<Rightarrow> ('a, string) action" where
  "old_limit orc key = pbind (attempt (CGroupGet orc key)) (\<lambda>r. ret (case r of Inl _ \<Rightarrow> [] | Inr v \<Rightarrow> v))"

definition revert_memory :: "'o hostenv_scheme \<Rightarrow> string \<times> string \<times> string \<Rightarrow> ('a, unit) action" where
  "revert_memory orc = (\<lambda>(memsw, hard, soft).
     seq_all
       [pwhen (soft \<noteq> []) (ignoring (CGroupSet orc ''memory.soft_limit_in_bytes'' soft)),
        pwhen (hard \<noteq> []) (ignoring (CGroupSet orc ''memory.limit_in_bytes'' hard)),
        pwhen (memsw \<noteq> []) (ignoring (CGroupSet orc ''memory.memsw.limit_in_bytes'' memsw))])"

text \<open>What may fail between the reading of the old limits and their replacement; a failure reverts.\<close>

definition or_revert :: "'o hostenv_scheme \<Rightarrow> string \<times> string \<times> string \<Rightarrow> ('a, unit) action \<Rightarrow> ('a, unit) action" where
  "or_revert orc old p =
     pbind (attempt p) (\<lambda>r. case r of Inr _ \<Rightarrow> ret () | Inl e \<Rightarrow> pbind (revert_memory orc old) (\<lambda>_. fail e))"

definition write_limits :: "'o daemon_scheme \<Rightarrow> string \<Rightarrow> string \<Rightarrow> string \<Rightarrow> ('a, unit) action" where
  "write_limits orc memory enforce swap =
     (if enforce = ''soft'' then CGroupSet orc ''memory.soft_limit_in_bytes'' memory
      else seq_all
        [CGroupSet orc ''memory.limit_in_bytes'' memory,
         pwhen (dm_swap orc \<and> (swap = [] \<or> IsTrue swap)) (CGroupSet orc ''memory.memsw.limit_in_bytes'' memory),
         pbind (of_res (ParseInt memory 10 64)) (\<lambda>v. CGroupSet orc ''memory.soft_limit_in_bytes'' (dm_soft orc v))])"

definition swappiness :: "'o hostenv_scheme \<Rightarrow> string gomap \<Rightarrow> ('a, unit) action" where
  "swappiness orc conf =
     (let swap = gm_str conf ''limits.memory.swap''; prio = gm_str conf ''limits.memory.swap.priority''
      in if swap \<noteq> [] \<and> \<not> IsTrue swap then CGroupSet orc ''memory.swappiness'' ''0''
         else pbind (of_res (if prio \<noteq> [] then Atoi prio else Inr 0)) (\<lambda>p.
                CGroupSet orc ''memory.swappiness'' (show_int (add64 50 p))))"

definition live_memory :: "'o daemon_scheme \<Rightarrow> string gomap \<Rightarrow> string \<Rightarrow> ('a, unit) action" where
  "live_memory orc conf key =
     pwhen (dm_memory orc)
       (pbind (memory_value orc (gm_str conf ''limits.memory'')) (\<lambda>memory.
        pbind (if dm_swap orc then old_limit orc ''memory.memsw.limit_in_bytes'' else ret []) (\<lambda>memsw.
        pbind (old_limit orc ''memory.limit_in_bytes'') (\<lambda>hard.
        pbind (old_limit orc ''memory.soft_limit_in_bytes'') (\<lambda>soft.
          seq_all
            [or_revert orc (memsw, hard, soft)
               (seq_all
                  [pwhen (dm_swap orc) (CGroupSet orc ''memory.memsw.limit_in_bytes'' ''-1''),
                   CGroupSet orc ''memory.limit_in_bytes'' ''-1'',
                   CGroupSet orc ''memory.soft_limit_in_bytes'' ''-1'',
                   write_limits orc memory (gm_str conf ''limits.memory.enforce'') (gm_str conf ''limits.memory.swap'')]),
             pwhen (key = ''limits.memory.swap'' \<or> key = ''limits.memory.swap.priority'') (swappiness orc conf)])))))"

definition setNetworkPriority :: "'o daemon_scheme \<Rightarrow> ('a, unit) action" where
  "setNetworkPriority orc =
     pbind (ctr_IsRunning orc) (\<lambda>running.
       if \<not> running then fail (Errorf ''Can't set network priority on stopped container'' [])
       else if \<not> dm_netprio orc then ret ()
       else
         pbind this (\<lambda>c.
         let prio = gm_str (ct_expandedConfig c) ''limits.network.priority''
         in pbind (of_res (Atoi (if prio = [] then ''0'' else prio))) (\<lambda>n.
            pbind (Interfaces orc) (\<lambda>ifs.
            pbind (try_each (\<lambda>(i, _). CGroupSet orc ''net_prio.ifpriomap'' (i @ '' '' @ show_int n)) ifs) (\<lambda>success.
              if success then ret () else fail (Errorf ''Failed to set network device priority: %s'' []))))))"


section \<open>Network limits\<close>

fun host_name_of :: "'o hostenv_scheme \<Rightarrow> string \<Rightarrow> devices \<Rightarrow> ('a, string) action" where
  "host_name_of orc name [] = ret []"
| "host_name_of orc name ((k, dev) # ds) =
     (if gm_str dev ''type'' \<noteq> ''nic'' then host_name_of orc name ds
      else pbind (attempt (fillNetworkDevice orc k dev)) (\<lambda>r.
        let m = (case r of Inl _ \<Rightarrow> dev | Inr d \<Rightarrow> d)
        in if gm_str m ''name'' \<noteq> name then host_name_of orc name ds else ret (gm_str m ''host_name'')))"

definition getHostInterface :: "'o daemon_scheme \<Rightarrow> string \<Rightarrow> ('a, string) action" where
  "getHostInterface orc name =
     pbind this (\<lambda>c.
     pbind (ctr_IsRunning orc) (\<lambda>running.
     pbind (ask (\<lambda>h. if running then map_of (filter (\<lambda>(n, v). v \<noteq> []) (h_veths orc h (ct_name c))) name else None)) (\<lambda>veth.
       case veth of
         Some v \<Rightarrow> ret v
       | None \<Rightarrow> host_name_of orc name (dm_order orc (ct_expandedDevices c)))))"

definition apply_max :: "device \<Rightarrow> device" where
  "apply_max m =
     (let mx = gm_str m ''limits.max''
      in if mx \<noteq> [] then gm_set (gm_set m ''limits.ingress'' mx) ''limits.egress'' mx else m)"

definition parse_limit :: "string \<Rightarrow> int res" where
  "parse_limit v = (if v \<noteq> [] then ParseBitSizeString v else Inr 0)"

definition tc_step :: "'o env_scheme \<Rightarrow> string \<Rightarrow> string list \<Rightarrow> ('a world_scheme, unit) prog" where
  "tc_step orc msg cmd =
     pbind (run_output orc cmd) (\<lambda>(out, err). if err = None then ret () else fail (Errorf msg [out]))"

definition ingress_limit :: "'o env_scheme \<Rightarrow> string \<Rightarrow> int \<Rightarrow> ('a world_scheme, unit) prog" where
  "ingress_limit orc veth rate =
     seq_all
       [tc_step orc ''Failed to create root tc qdisc: %s''
          [''tc'', ''qdisc'', ''add'', ''dev'', veth, ''root'', ''handle'', ''1:0'', ''htb'', ''default'', ''10''],
        tc_step orc ''Failed to create limit tc class: %s''
          [''tc'', ''class'', ''add'', ''dev'', veth, ''parent'', ''1:0'', ''classid'', ''1:10'', ''htb'', ''rate'', show_int rate @ ''bit''],
        tc_step orc ''Failed to create tc filter: %s''
          [''tc'', ''filter'', ''add'', ''dev'', veth, ''parent'', ''1:0'', ''protocol'', ''all'', ''u32'', ''match'', ''u32'', ''0'', ''0'',
           ''flowid'', ''1:1'']]"

definition egress_limit :: "'o env_scheme \<Rightarrow> string \<Rightarrow> int \<Rightarrow> ('a world_scheme, unit) prog" where
  "egress_limit orc veth rate =
     seq_all
       [tc_step orc ''Failed to create ingress tc qdisc: %s''
          [''tc'', ''qdisc'', ''add'', ''dev'', veth, ''handle'', ''ffff:0'', ''ingress''],
        tc_step orc ''Failed to create ingress tc qdisc: %s''
          [''tc'', ''filter'', ''add'', ''dev'', veth, ''parent'', ''ffff:0'', ''protocol'', ''all'', ''u32'', ''match'', ''u32'', ''0'', ''0'',
           ''police'', ''rate'', show_int rate @ ''bit'', ''burst'', ''1024k'', ''mtu'', ''64kb'', ''drop'', ''flowid'', '':1'']]"

definition setNetworkLimits :: "'o daemon_scheme \<Rightarrow> string \<Rightarrow> device \<Rightarrow> ('a, unit) action" where
  "setNetworkLimits orc name m0 =
     (if gm_str m0 ''nictype'' \<noteq> ''bridged'' \<and> gm_str m0 ''nictype'' \<noteq> ''p2p''
      then fail (Errorf ''Network limits are only supported on bridged and p2p interfaces'' [])
      else pbind (initMERCURY orc) (\<lambda>_.
        pbind (ctr_IsRunning orc) (\<lambda>running.
        if \<not> running then fail (Errorf ''Can't set network limits on stopped container'' [])
        else pbind (attempt (fillNetworkDevice orc name m0)) (\<lambda>r.
          case r of
            Inl _ \<Rightarrow> ret ()
          | Inr m1 \<Rightarrow>
              pbind (getHostInterface orc (gm_str m1 ''name'')) (\<lambda>veth.
                if veth = [] then fail (Errorf ''MERCURY doesn't now about this device and the host_name property isn't set, can't find host side veth name'' [])
                else let m = apply_max m1 in
                  pbind (of_res (parse_limit (gm_str m ''limits.ingress''))) (\<lambda>ingress.
                  pbind (of_res (parse_limit (gm_str m ''limits.egress''))) (\<lambda>egress.
                    seq_all
                      [ignoring (run_cmd orc [''tc'', ''qdisc'', ''del'', ''dev'', veth, ''root'']),
                       ignoring (run_cmd orc [''tc'', ''qdisc'', ''del'', ''dev'', veth, ''ingress'']),
                       pwhen (gm_str m ''limits.ingress'' \<noteq> []) (ingress_limit orc veth ingress),
                       pwhen (gm_str m ''limits.egress'' \<noteq> []) (egress_limit orc veth egress)])))))))"

section \<open>Live changes\<close>

definition load_modules :: "'o env_scheme \<Rightarrow> string \<Rightarrow> ('a world_scheme, unit) prog" where
  "load_modules orc v =
     for_all (\<lambda>m0. let m = TrimPrefix m0 '' ''
        in pbind (attempt (perform orc (Called ''loadModule'' [m]))) (\<lambda>r.
             case r of Inr _ \<Rightarrow> ret () | Inl _ \<Rightarrow> fail (Errorf ''Failed to load kernel module '%s': %s'' [m])))
       (Split (CHR '','') v)"

definition live_cpu :: "'o hostenv_scheme \<Rightarrow> string gomap \<Rightarrow> ('a, unit) action" where
  "live_cpu orc conf =
     pbind (of_res (deviceParseCPU (gm_str conf ''limits.cpu.allowance'') (gm_str conf ''limits.cpu.priority'')))
       (\<lambda>(shares, quota, period).
         seq_all [CGroupSet orc ''cpu.shares'' shares, CGroupSet orc ''cpu.cfs_period_us'' period,
                  CGroupSet orc ''cpu.cfs_quota_us'' quota])"

definition live_key :: "'o daemon_scheme \<Rightarrow> string gomap \<Rightarrow> string \<Rightarrow> ('a, unit) action" where
  "live_key orc conf key =
     (let v = gm_str conf key in
      if key = ''raw.apparmor'' \<or> key = ''security.nesting'' then call_on orc ''AALoadProfile'' []
      else if key = ''linux.kernel_modules'' \<and> v \<noteq> [] then load_modules orc v
      else if key = ''limits.disk.priority'' then
        pwhen (dm_blkio orc)
          (pbind (of_res (disk_weight (gm_str conf ''limits.disk.priority''))) (\<lambda>p.
             CGroupSet orc ''blkio.weight'' (show_int p)))
      else if key = ''limits.memory'' \<or> HasPrefix key ''limits.memory.'' then live_memory orc conf key
      else if key = ''limits.network.priority'' then setNetworkPriority orc
      else if key = ''limits.cpu'' then
        pbind this (\<lambda>c. deviceTaskSchedulerTrigger ''container'' (ct_name c) ''changed'')
      else if key = ''limits.cpu.priority'' \<or> key = ''limits.cpu.allowance'' then pwhen (dm_cpu orc) (live_cpu orc conf)
      else if key = ''limits.processes'' then
        pwhen (dm_pids orc)
          (if v = [] then CGroupSet orc ''pids.max'' ''max''
           else pbind (of_res (ParseInt v 10 64)) (\<lambda>n. CGroupSet orc ''pids.max'' (show_int n)))
      else ret ())"

definition unix_num :: "'o env_scheme \<Rightarrow> string \<Rightarrow> int \<Rightarrow> int \<Rightarrow> string \<Rightarrow> ('a, unit) action" where
  "unix_num orc f major minor path = call_on orc f [show_int major, show_int minor, path]"

definition usb_selected :: "device \<Rightarrow> usb_device \<Rightarrow> bool" where
  "usb_selected m usb \<longleftrightarrow> \<not> (usb_vendor usb \<noteq> gm_str m ''vendorid'' \<or>
     (gm_str m ''productid'' \<noteq> [] \<and> usb_product usb \<noteq> gm_str m ''productid''))"

definition gpu_wanted :: "device \<Rightarrow> gpu_dev \<Rightarrow> bool" where
  "gpu_wanted m g \<longleftrightarrow> \<not> ((gm_str m ''vendorid'' \<noteq> [] \<and> gp_vendorid g \<noteq> gm_str m ''vendorid'') \<or>
     (gm_str m ''pci'' \<noteq> [] \<and> gp_pci g \<noteq> gm_str m ''pci'') \<or>
     (gm_str m ''productid'' \<noteq> [] \<and> gp_productid g \<noteq> gm_str m ''productid'') \<or>
     (gm_str m ''id'' \<noteq> [] \<and> gp_id g \<noteq> gm_str m ''id''))"

text \<open>The nodes of a GPU: its own, and the card of the nvidia driver where it has one.\<close>

definition gpu_nodes :: "gpu_dev \<Rightarrow> nvidia_dev list" where
  "gpu_nodes g =
     \<lparr>nv_path = gp_path g, nv_major = gp_major g, nv_minor = gp_minor g\<rparr> #
     (if nv_path (gp_nvidia g) = [] then [] else [gp_nvidia g])"

definition on_nodes :: "'o env_scheme \<Rightarrow> string \<Rightarrow> nvidia_dev list \<Rightarrow> ('a, unit) action" where
  "on_nodes orc f ns = for_all (\<lambda>n. unix_num orc f (nv_major n) (nv_minor n) (nv_path n)) ns"

definition device_node :: "'o env_scheme \<Rightarrow> ctr \<Rightarrow> string \<Rightarrow> string" where
  "device_node orc c path =
     VarPath orc [''devices'', ct_name c,
       ''unix.'' @ map (\<lambda>ch. if ch = CHR ''/'' then CHR ''-'' else ch) (TrimPrefix path ''/'')]"

definition deviceExists :: "'o env_scheme \<Rightarrow> string \<Rightarrow> ('a, bool) action" where
  "deviceExists orc path = pbind this (\<lambda>c. path_exists orc (device_node orc c path))"

definition shared_nodes :: "'o env_scheme \<Rightarrow> string \<Rightarrow> bool \<Rightarrow> nvidia_dev list \<Rightarrow> ('a, unit) action" where
  "shared_nodes orc f present ns =
     for_all (\<lambda>n. pbind (deviceExists orc (nv_path n)) (\<lambda>ex. pwhen (ex = present) (on_nodes orc f [n]))) ns"

text \<open>The devices are read from the host when they are first needed, and kept.\<close>

type_synonym live_cache = "usb_device list option \<times> (gpu_dev list \<times> nvidia_dev list) option"

definition load_usbs :: "'o daemon_scheme \<Rightarrow> live_cache \<Rightarrow> ('a world_scheme, usb_device list) prog" where
  "load_usbs orc cache =
     (case fst cache of Some us \<Rightarrow> ret us | None \<Rightarrow> (\<lambda>w. (dm_usbs orc (w_hist w), w)))"

definition load_gpus :: "'o daemon_scheme \<Rightarrow> live_cache \<Rightarrow> ('a world_scheme, gpu_dev list \<times> nvidia_dev list) prog" where
  "load_gpus orc cache =
     (case snd cache of Some gs \<Rightarrow> ret gs | None \<Rightarrow> (\<lambda>w. (dm_gpus orc (w_hist w), w)))"

fun thread :: "('c \<Rightarrow> 'x \<Rightarrow> ('w, 'c) prog) \<Rightarrow> 'x list \<Rightarrow> 'c \<Rightarrow> ('w, 'c) prog" where
  "thread step [] c = ret c"
| "thread step (x # xs) c = pbind (step c x) (thread step xs)"

definition remove_gpu :: "'o env_scheme \<Rightarrow> device \<Rightarrow> gpu_dev list \<Rightarrow> nvidia_dev list \<Rightarrow> ('a, unit) action" where
  "remove_gpu orc m gpus nvidia =
     pbind (for_all (\<lambda>g. on_nodes orc ''removeUnixDeviceNum'' (gpu_nodes g)) (filter (gpu_wanted m) gpus)) (\<lambda>_.
     pbind this (\<lambda>c.
     pbind (ask (\<lambda>h. list_ex (\<lambda>g. nv_path (gp_nvidia g) \<noteq> [] \<and>
              o_exists orc h (device_node orc c (gp_path g))) gpus)) (\<lambda>nvidiaExists.
       pwhen (\<not> nvidiaExists) (shared_nodes orc ''removeUnixDeviceNum'' True nvidia))))"

definition insert_gpu :: "'o env_scheme \<Rightarrow> device \<Rightarrow> gpu_dev list \<Rightarrow> nvidia_dev list \<Rightarrow> ('a, unit) action" where
  "insert_gpu orc m gpus nvidia =
     (let wanted = filter (gpu_wanted m) gpus
      in seq_all
           [for_all (\<lambda>g. on_nodes orc ''insertUnixDeviceNum'' (gpu_nodes g)) wanted,
            pwhen (list_ex (\<lambda>g. nv_path (gp_nvidia g) \<noteq> []) wanted) (shared_nodes orc ''insertUnixDeviceNum'' False nvidia),
            if wanted = [] then fail (Errorf ''Failed to detect requested GPU device'' []) else ret ()])"

definition is_unix :: "device \<Rightarrow> bool" where
  "is_unix m \<longleftrightarrow> StringInSlice (gm_str m ''type'') [''unix-char'', ''unix-block'']"

definition live_remove :: "'o daemon_scheme \<Rightarrow> live_cache \<Rightarrow> string \<times> device \<Rightarrow> ('a, live_cache) action" where
  "live_remove orc cache = (\<lambda>(k, m).
     let t = gm_str m ''type'' in
     if is_unix m then seq_ret cache [call_on orc ''removeUnixDevice'' [gm_str m ''path'']]
     else if t = ''disk'' \<and> gm_str m ''path'' \<noteq> ''/'' then seq_ret cache [call_on orc ''removeDiskDevice'' [k]]
     else if t = ''nic'' then seq_ret cache [removeNetworkDevice orc k m]
     else if t = ''usb'' then
       pbind (load_usbs orc cache) (\<lambda>usbs. seq_ret (Some usbs, snd cache)
         [for_all (\<lambda>u. unix_num orc ''removeUnixDeviceNum'' (usb_major u) (usb_minor u) (usb_path u))
            (filter (usb_selected m) usbs)])
     else if t = ''gpu'' then
       pbind (load_gpus orc cache) (\<lambda>(gpus, nvidia).
         seq_ret (fst cache, if gpus = [] then None else Some (gpus, nvidia)) [remove_gpu orc m gpus nvidia])
     else ret cache)"

text \<open>A USB device that cannot be inserted is only logged; the disks wait for \<open>addDiskDevices\<close>.\<close>

definition live_add :: "'o daemon_scheme \<Rightarrow> live_cache \<Rightarrow> string \<times> device \<Rightarrow> ('a, live_cache) action" where
  "live_add orc cache = (\<lambda>(k, m).
     let t = gm_str m ''type'' in
     if is_unix m then seq_ret cache [call_on orc ''insertUnixDevice'' [gm_str m ''path'']]
     else if t = ''disk'' \<and> gm_str m ''path'' \<noteq> ''/'' then ret cache
     else if t = ''nic'' then seq_ret cache [insertNetworkDevice orc k m]
     else if t = ''usb'' then
       pbind (load_usbs orc cache) (\<lambda>usbs. seq_ret (Some usbs, snd cache)
         [for_all (\<lambda>u. ignoring (unix_num orc ''insertUnixDeviceNum'' (usb_major u) (usb_minor u) (usb_path u)))
            (filter (usb_selected m) usbs)])
     else if t = ''gpu'' then
       pbind (load_gpus orc cache) (\<lambda>(gpus, nvidia).
         seq_ret (fst cache, if gpus = [] then None else Some (gpus, nvidia)) [insert_gpu orc m gpus nvidia])
     else ret cache)"

definition by_path :: "device \<Rightarrow> device \<Rightarrow> bool" where
  "by_path a b \<longleftrightarrow> gm_str a ''path'' < gm_str b ''path''"

text \<open>\<open>addDiskDevices\<close> mounts in the order of the paths, so a directory comes before what lies in it.\<close>

definition addDiskDevices :: "(string \<times> device \<Rightarrow> ('w, unit) prog) \<Rightarrow> devices \<Rightarrow> ('w, unit) prog" where
  "addDiskDevices handler ds =
     for_all (\<lambda>d. handler (gm_str d ''path'', d)) (insertion_sort by_path (map snd ds))"

definition live_disks :: "'o env_scheme \<Rightarrow> devices \<Rightarrow> ('a, unit) action" where
  "live_disks orc ds =
     addDiskDevices (\<lambda>(name, d). call_on orc ''insertDiskDevice'' [name])
       (filter (\<lambda>(k, m). gm_str m ''type'' = ''disk'' \<and> gm_str m ''path'' \<noteq> ''/'') ds)"

definition write_disk_limits :: "'o daemon_scheme \<Rightarrow> ('a, unit) action" where
  "write_disk_limits orc =
     pbind this (\<lambda>c.
     pbind (\<lambda>w. (dm_disk_limits orc (w_hist w) (ct_name c), w)) (\<lambda>limits.
       for_all (\<lambda>(block, readBps, readIops, writeBps, writeIops).
         let put = (\<lambda>k v. CGroupSet orc (''blkio.throttle.'' @ k) (block @ '' '' @ show_int v))
         in seq_all [put ''read_bps_device'' readBps, put ''read_iops_device'' readIops,
                     put ''write_bps_device'' writeBps, put ''write_iops_device'' writeIops]) limits))"

definition live_update :: "'o daemon_scheme \<Rightarrow> devices \<Rightarrow> ('a, unit) action" where
  "live_update orc ds =
     seq_all
       [for_all (\<lambda>(k, m). pwhen (gm_str m ''type'' = ''nic'') (setNetworkLimits orc k m)) ds,
        pwhen (list_ex (\<lambda>(k, m). gm_str m ''type'' = ''disk'') ds \<and> dm_blkio orc) (write_disk_limits orc)]"

definition live_changes :: "'o daemon_scheme \<Rightarrow> string list \<Rightarrow> devices \<times> devices \<times> devices \<Rightarrow> ('a, unit) action" where
  "live_changes orc keys = (\<lambda>(rm, add, upd).
     pbind this (\<lambda>c.
     seq_all
       [for_all (live_key orc (ct_expandedConfig c)) keys,
        pbind (thread (live_remove orc) rm (None, None)) (\<lambda>cache. pbind (thread (live_add orc) add cache) (\<lambda>_. ret ())),
        live_disks orc add,
        live_update orc upd]))"

section \<open>Leftover volatile keys\<close>

definition nic_names :: "devices \<Rightarrow> string list" where
  "nic_names ds = map fst (filter (\<lambda>(k, v). gm_str v ''type'' = ''nic'') ds)"

definition leftover_key :: "devices \<Rightarrow> string \<Rightarrow> bool" where
  "leftover_key ds k \<longleftrightarrow> HasPrefix k ''volatile.'' \<and>
     (case SplitN3 (CHR ''.'') k of
        [_, dev, key] \<Rightarrow>
          StringInSlice key [''name'', ''hwaddr'', ''host_name''] \<and>
          \<not> (StringInSlice dev (nic_names ds) \<and> gm_str (device_at ds dev) key = [])
      | _ \<Rightarrow> False)"

definition drop_leftovers :: "ctr \<Rightarrow> ctr" where
  "drop_leftovers c =
     (let gone = filter (leftover_key (ct_expandedDevices c)) (map fst (ct_localConfig c))
      in c\<lparr>ct_localConfig := foldl gm_del (ct_localConfig c) gone,
           ct_expandedConfig := foldl gm_del (ct_expandedConfig c) gone\<rparr>)"

section \<open>The backup file\<close>

definition Render :: "'o hostenv_scheme \<Rightarrow> ('a, string \<times> ctr) action" where
  "Render orc =
     pbind (initMERCURY orc) (\<lambda>_.
     pbind this (\<lambda>c.
       if ctr_IsSnapshot c then ret ([], c)
       else pbind (get_world (\<lambda>w. h_lxc orc (w_hist w) (ct_name c))) (\<lambda>s.
         case s of LxcState st \<Rightarrow> ret (st, c) | _ \<Rightarrow> fail (Errorf ''Monitor is hung'' []))))"

fun render_all :: "'o hostenv_scheme \<Rightarrow> ctr list \<Rightarrow> ('a dbworld_scheme, unit) prog" where
  "render_all orc [] = ret ()"
| "render_all orc (s # ss) = pbind (on_container s (Render orc)) (\<lambda>_. render_all orc ss)"

definition ctr_Path :: "'o env_scheme \<Rightarrow> ctr \<Rightarrow> string" where
  "ctr_Path orc c = VarPath orc [if ctr_IsSnapshot c then ''snapshots'' else ''containers'', ct_name c]"

definition writeBackupFile :: "'o daemon_scheme \<Rightarrow> ('a, unit) action" where
  "writeBackupFile orc =
     pbind this (\<lambda>c.
     if ctr_IsSnapshot c then ret ()
     else pbind (path_exists orc (ctr_Path orc c)) (\<lambda>ex.
       if \<not> ex then fail NotExist
       else pbind (path_exists orc (ctr_Path orc c @ ''/rootfs'')) (\<lambda>mounted.
         if \<not> mounted then ret ()
         else
           pbind (Render orc) (\<lambda>ci.
           pbind (Snapshots orc (ct_name c)) (\<lambda>snaps.
           pbind (render_all orc snaps) (\<lambda>_.
           pbind (ContainerPool orc (ct_name c)) (\<lambda>poolName.
           pbind (StoragePoolGet orc poolName) (\<lambda>(poolID, p).
           pbind (StoragePoolVolumeGetType orc (ct_name c) StoragePoolVolumeTypeContainer poolID) (\<lambda>(_, v).
             let f = VarPath orc [''containers'', ct_name c, ''backup.yaml'']
             in seq_all
                  [perform orc (Created f),
                   perform orc (Called ''Chmod'' [f, ''0400'']),
                   perform orc (Wrote f (dm_yaml orc ci snaps p v))]))))))))) "

section \<open>Update\<close>

text \<open>A deferred function that runs unless the call came through.\<close>

definition undo_with :: "('w, unit) prog \<Rightarrow> ('w, 'r) prog \<Rightarrow> ('w, 'r) prog" where
  "undo_with h p = (\<lambda>w. case p w of (Inl e, w') \<Rightarrow> (Inl e, snd (h w')) | (Inr x, w') \<Rightarrow> (Inr x, w'))"

definition restore_from :: "ctr \<Rightarrow> ctr \<Rightarrow> ctr" where
  "restore_from old c =
     c\<lparr>ct_description := ct_description old, ct_architecture := ct_architecture old,
       ct_ephemeral := ct_ephemeral old, ct_expandedConfig := ct_expandedConfig old,
       ct_expandedDevices := ct_expandedDevices old, ct_localConfig := ct_localConfig old,
       ct_localDevices := ct_localDevices old, ct_profiles := ct_profiles old\<rparr>"

definition undo_update :: "'o hostenv_scheme \<Rightarrow> ctr \<Rightarrow> ('a, unit) action" where
  "undo_update orc old =
     seq_all
       [modify_this (restore_from old), ignoring (initMERCURY orc),
        pbind this (\<lambda>c. deviceTaskSchedulerTrigger ''container'' (ct_name c) ''changed'')]"

definition check_update :: "'o daemon_scheme \<Rightarrow> string list \<Rightarrow> ('a, unit) action" where
  "check_update orc keys =
     pbind this (\<lambda>c.
     pbind (the_host orc) (\<lambda>h.
     seq_all
       [of_res (containerValidConfig h (Some (ct_expandedConfig c)) False True),
        of_res (containerValidDevices h (Some (ct_expandedDevices c)) False True),
        initMERCURY orc,
        call_on orc ''initStorage'' [],
        pwhen (StringInSlice ''raw.apparmor'' keys \<or> StringInSlice ''security.nesting'' keys)
          (call_on orc ''AAParseProfile'' [])]))"

definition store_update :: "'o daemon_scheme \<Rightarrow> ('a, unit) action" where
  "store_update orc =
     pbind this (\<lambda>c.
       transaction orc (seq_all
         [ContainerConfigClear orc (ct_id c),
          ContainerConfigInsert orc (ct_id c) (ct_localConfig c),
          ContainerProfilesInsert orc (ct_id c) (ct_profiles c),
          DevicesAdd orc False (ct_id c) (ct_localDevices c),
          ContainerUpdate orc (ct_id c) (ct_description c) (ct_architecture c) (ct_ephemeral c)]))"

text \<open>The missing directory of a container that is being created is no error.\<close>

definition backup_update :: "'o daemon_scheme \<Rightarrow> ('a, unit) action" where
  "backup_update orc =
     pbind this (\<lambda>c.
     pbind (ask (\<lambda>h. dm_ready orc h (ct_name c))) (\<lambda>ready.
       pwhen ready
         (pbind (attempt (writeBackupFile orc)) (\<lambda>r.
            case r of Inr _ \<Rightarrow> ret () | Inl e \<Rightarrow> if e = NotExist then ret () else fail e))))"

definition bridged_nic :: "device \<Rightarrow> bool" where
  "bridged_nic m \<longleftrightarrow> gm_str m ''type'' = ''nic'' \<and> gm_str m ''nictype'' = ''bridged''"

definition update_rest :: "'o daemon_scheme \<Rightarrow> ctr \<Rightarrow> ('a, unit) action" where
  "update_rest orc old =
     pbind (ctr_init orc) (\<lambda>_.
     pbind this (\<lambda>c.
     let keys = changed_keys (ct_expandedConfig old) (ct_expandedConfig c);
         (rm, add, upd) = devices_Update (ct_expandedDevices old) (ct_expandedDevices c)
     in
     pbind (check_update orc keys) (\<lambda>_.
     pbind (update_idmap orc keys) (\<lambda>_.
     pbind (of_res (root_disks (ct_localDevices old) (ct_expandedDevices old)
              (ct_localDevices c) (ct_expandedDevices c))) (\<lambda>(oldKey, newKey).
     pbind (ctr_IsRunning orc) (\<lambda>running.
     seq_all
       [apply_quota orc running (gm_str (device_at (ct_expandedDevices old) oldKey) ''size'')
          (gm_str (device_at (ct_expandedDevices c) newKey) ''size''),
        pwhen running (live_changes orc keys (rm, add, upd)),
        modify_this drop_leftovers,
        store_update orc,
        backup_update orc,
        pwhen (list_ex (\<lambda>(k, m). bridged_nic m) upd) (ignoring (networkUpdateStatic orc []))]))))))"

definition update_body :: "'o daemon_scheme \<Rightarrow> update_args \<Rightarrow> ctr \<Rightarrow> ('a, unit) action" where
  "update_body orc args old = pbind (modify_this (apply_args args)) (\<lambda>_. update_rest orc old)"

definition default_args :: "ctr \<Rightarrow> update_args \<Rightarrow> update_args" where
  "default_args c args =
     (if ua_Architecture args = 0 then args\<lparr>ua_Architecture := ct_architecture c\<rparr> else args)"

definition ctr_Update :: "'o daemon_scheme \<Rightarrow> update_args \<Rightarrow> bool \<Rightarrow> ('a, unit) action" where
  "ctr_Update orc args0 userRequested =
     pbind this (\<lambda>old.
     let args = default_args old args0
     in pbind (args_check orc args userRequested) (\<lambda>_.
          undo_with (undo_update orc old) (update_body orc args old)))"

definition ConfigKeySet :: "'o daemon_scheme \<Rightarrow> string \<Rightarrow> string \<Rightarrow> ('a, unit) action" where
  "ConfigKeySet orc key v =
     pbind (modify_this (\<lambda>c. c\<lparr>ct_localConfig := gm_set (ct_localConfig c) key v\<rparr>)) (\<lambda>_.
     pbind this (\<lambda>c.
       ctr_Update orc
         \<lparr>ua_Architecture = ct_architecture c, ua_Config = ct_localConfig c, ua_Description = [],
          ua_Devices = ct_localDevices c, ua_Ephemeral = ct_ephemeral c, ua_Profiles = ct_profiles c\<rparr> False))"

end
