(* ===== verification/ContainerFrame.thy ===== *)
theory ContainerFrame
  imports ContainerUpdate
begin

text \<open>
  What an operation leaves alone. \<open>spares f p\<close>: the part \<open>f\<close> of the world is the same after \<open>p\<close>,
  whatever it returns. The rules follow the combinators, so that the operations are settled by
  unfolding them once.
\<close>

section \<open>Rules\<close>

definition spares :: "('w \<Rightarrow> 'x) \<Rightarrow> ('w, 'r) prog \<Rightarrow> bool" where
  "spares f p \<longleftrightarrow> (\<forall>w. f (snd (p w)) = f w)"

named_theorems spares_intros \<open>rules for what a program leaves alone\<close>

lemma sparesI: "(\<And>w. f (snd (p w)) = f w) \<Longrightarrow> spares f p"
  by (simp add: spares_def)

lemma sparesD: "spares f p \<Longrightarrow> p w = (r, w') \<Longrightarrow> f w' = f w"
  by (metis spares_def snd_conv)

lemma spares_basic [spares_intros]:
  "spares f (ret x)" "spares f (fail e)" "spares f (of_res r)" "spares f (get_world g)"
  "spares f (\<lambda>w. (h w, w))"
  by (simp_all add: spares_def prog_defs)

lemma spares_pbind [spares_intros]:
  assumes "spares f p" "\<And>x. spares f (g x)"
  shows "spares f (pbind p g)"
  using assms by (auto simp: spares_def pbind_def split: prod.splits sum.splits) (metis snd_conv)+

lemma spares_if [spares_intros]: "(b \<Longrightarrow> spares f p) \<Longrightarrow> (\<not> b \<Longrightarrow> spares f q) \<Longrightarrow> spares f (if b then p else q)"
  by simp

lemma spares_let [spares_intros]: "(\<And>x. spares f (p x)) \<Longrightarrow> spares f (let x = a in p x)"
  by simp

lemma spares_cases [spares_intros]:
  "(\<And>x. spares f (p x)) \<Longrightarrow> (\<And>y. spares f (q y)) \<Longrightarrow> spares f (case s of Inl x \<Rightarrow> p x | Inr y \<Rightarrow> q y)"
  "spares f a \<Longrightarrow> (\<And>z. spares f (b z)) \<Longrightarrow> spares f (case u of None \<Rightarrow> a | Some z \<Rightarrow> b z)"
  "(\<And>i j. spares f (g i j)) \<Longrightarrow> spares f (case v of (i, j) \<Rightarrow> g i j)"
  "spares f c \<Longrightarrow> (\<And>k l. spares f (d k l)) \<Longrightarrow> spares f (case xs of [] \<Rightarrow> c | k # l \<Rightarrow> d k l)"
  by (simp_all split: sum.splits option.splits prod.splits list.splits)

lemma spares_pwhen [spares_intros]: "spares f p \<Longrightarrow> spares f (pwhen b p)"
  by (simp add: pwhen_def spares_basic)

lemma spares_seq_nil [spares_intros]: "spares f (seq_all [])"
  by (simp add: spares_basic)

lemma spares_seq_cons [spares_intros]: "spares f p \<Longrightarrow> spares f (seq_all ps) \<Longrightarrow> spares f (seq_all (p # ps))"
  by (auto intro: spares_pbind)

lemma spares_for_all [spares_intros]: "(\<And>x. spares f (g x)) \<Longrightarrow> spares f (for_all g xs)"
  unfolding for_all_def by (induction xs) (auto intro: spares_intros)

lemma spares_attempt [spares_intros]: "spares f p \<Longrightarrow> spares f (attempt p)"
  by (simp add: spares_def)

lemma spares_ignoring [spares_intros]: "spares f p \<Longrightarrow> spares f (ignoring p)"
  unfolding ignoring_def by (intro spares_intros)

lemma spares_try_each [spares_intros]: "(\<And>x. spares f (g x)) \<Longrightarrow> spares f (try_each g xs)"
  by (induction xs) (auto intro!: spares_intros)

lemma spares_retry [spares_intros]: "spares f p \<Longrightarrow> spares f (retry n p)"
  by (induction n) (auto intro!: spares_intros)

lemma spares_undo_with [spares_intros]: "spares f h \<Longrightarrow> spares f p \<Longrightarrow> spares f (undo_with h p)"
  by (auto simp: spares_def undo_with_def split: prod.splits sum.splits) (metis snd_conv)+

section \<open>The outside and the tables\<close>

text \<open>\<open>blind\<close>: a part of the world apart from the history and the tables.\<close>

definition blind :: "('a dbworld_scheme \<Rightarrow> 'x) \<Rightarrow> bool" where
  "blind f \<longleftrightarrow> (\<forall>h d w. f (w\<lparr>w_hist := h, w_db := d\<rparr>) = f w)"

lemma blindD: "blind f \<Longrightarrow> f (emit ev w) = f w" "blind f \<Longrightarrow> f (w\<lparr>w_db := d\<rparr>) = f w"
proof -
  assume b: "blind f"
  have "f (w\<lparr>w_hist := w_hist w @ [ev], w_db := w_db w\<rparr>) = f w" using b unfolding blind_def by blast
  then show "f (emit ev w) = f w" by (simp add: emit_def)
  have "f (w\<lparr>w_hist := w_hist w, w_db := d\<rparr>) = f w" using b unfolding blind_def by blast
  then show "f (w\<lparr>w_db := d\<rparr>) = f w" by simp
qed

lemma blind_more: "blind dbworld.more" "blind cworld.more" "blind (\<lambda>w. g (w_ctr w))"
  by (simp_all add: blind_def)

lemma spares_world [spares_intros]:
  assumes "blind f"
  shows "spares f (perform orc ev)" "spares f (notify ev)" "spares f (run_output orc cmd)"
  by (simp_all add: spares_def perform_def notify_def put_world_def run_output_def blindD [OF assms])

lemma spares_io [spares_intros]:
  assumes "blind f"
  shows "spares f (RunCommand orc cmd)" "spares f (run_cmd orc cmd)" "spares f (path_exists orc p)"
    "spares f (ReadFile orc p)"
  unfolding RunCommand_def run_cmd_def path_exists_def ReadFile_def using assms by (intro spares_intros; simp)+

lemma spares_try_run [spares_intros]: "blind f \<Longrightarrow> spares f (try_run n orc cmd l)"
  by (induction n arbitrary: l) (auto intro!: spares_intros)

lemma spares_sql [spares_intros]: "blind f \<Longrightarrow> spares f (sql orc q eff)"
  unfolding sql_def
  by (rule spares_pbind, rule spares_world, assumption)
    (auto intro: sparesI simp: blindD split: sum.splits prod.splits)

lemma spares_statements [spares_intros]:
  assumes "blind f"
  shows "spares f (tx_Exec orc q e)" "spares f (Exec orc q e)" "spares f (QueryScan orc q g)"
    "spares f (dbQueryRowScan orc q k)" "spares f (Begin orc)" "spares f (TxCommit orc)"
    "spares f (Prepare orc q)" "spares f (Prepare_unchecked orc q)"
  unfolding tx_Exec_def Exec_def QueryScan_def dbQueryRowScan_def Begin_def TxCommit_def Prepare_def
    Prepare_unchecked_def
  using assms by (intro spares_intros; simp)+

lemma spares_transaction [spares_intros]:
  assumes "blind f" "spares f p"
  shows "spares f (transaction orc p)"
proof -
  have b: "spares f (pbind p (\<lambda>x. pbind (TxCommit orc) (\<lambda>_. ret x)))"
    using assms by (intro spares_intros)
  show ?thesis
    unfolding transaction_def
    by (rule spares_pbind)
      (use assms(1) in \<open>auto intro: spares_intros sparesI simp: blindD sparesD [OF b] split: prod.splits sum.splits\<close>)
qed

lemma blind_frame:
  assumes "blind f" "dbworld.more w = dbworld.more w'"
  shows "f w = f w'"
proof -
  have e: "w\<lparr>w_hist := w_hist w', w_db := w_db w'\<rparr> = w'"
    using assms(2) by (cases w, cases w') simp
  have "f w = f (w\<lparr>w_hist := w_hist w', w_db := w_db w'\<rparr>)"
    by (rule assms(1) [unfolded blind_def, rule_format, symmetric])
  also have "\<dots> = f w'" by (rule arg_cong [OF e])
  finally show ?thesis .
qed

lemma spares_on_container [spares_intros]:
  assumes "blind f" "spares cworld.more p"
  shows "spares f (on_container c p)"
proof (rule sparesI)
  fix w
  obtain r v where p: "p (enter c w) = (r, v)" by (cases "p (enter c w)")
  have "cworld.more v = dbworld.more w"
    using sparesD [OF assms(2) p] by (simp add: enter_def)
  then have "dbworld.more (leave v) = dbworld.more w" by (simp add: leave_def)
  then have "f (leave v) = f w" by (rule blind_frame [OF assms(1)])
  moreover have "snd (on_container c p w) = leave v" by (simp add: on_container_def p)
  ultimately show "f (snd (on_container c p w)) = f w" by simp
qed

section \<open>The object\<close>

lemma spares_this [spares_intros]: "spares f this" "spares f (ask g)"
  by (simp_all add: this_def ask_def spares_basic)

lemma spares_modify [spares_intros]: "spares cworld.more (modify_this g)"
  by (simp add: spares_def modify_this_def put_world_def)

lemma spares_modify_ctr: "(\<And>c. k (g c) = k c) \<Longrightarrow> spares (\<lambda>w. k (w_ctr w)) (modify_this g)"
  by (simp add: spares_def modify_this_def put_world_def)

section \<open>The database\<close>

lemma spares_db_reads [spares_intros]:
  assumes "blind f"
  shows "spares f (Profiles o0)"
    "spares f (ContainersList o1 t)"
    "spares f (ContainerConfig o2 i)"
    "spares f (ContainerProfiles o3 i)"
    "spares f (ContainerConfigGet o4 i key)"
    "spares f (ContainerName o5 i)"
    "spares f (ContainerGetSnapshots o6 name)"
    "spares f (dbDeviceConfig o7 i p)"
    "spares f (ProfileConfig o8 pn)"
    "spares f (ContainerPool o9 n)"
    "spares f (StoragePoolConfigGet o10 i)"
    "spares f (Networks o11)"
    "spares f (NetworkConfigGet o12 i)"
    "spares f (StorageVolumeConfigGet o13 i)"
    "spares f (StorageVolumeDescriptionGet o14 i)"
    "spares f (StoragePoolVolumeGetTypeID o15 n ty i)"
  unfolding Profiles_def ContainersList_def ContainerConfig_def ContainerProfiles_def ContainerConfigGet_def ContainerName_def ContainerGetSnapshots_def dbDeviceConfig_def ProfileConfig_def ContainerPool_def StoragePoolConfigGet_def Networks_def NetworkConfigGet_def StorageVolumeConfigGet_def StorageVolumeDescriptionGet_def StoragePoolVolumeGetTypeID_def
  using assms by (intro spares_intros; simp)+

lemma spares_devices_rows [spares_intros]: "blind f \<Longrightarrow> spares f (devices_rows orc p acc rows)"
  by (induction rows arbitrary: acc) (auto intro!: spares_intros)

lemma spares_db_gets [spares_intros]:
  assumes "blind f"
  shows "spares f (Devices o0 q p)"
    "spares f (ContainerGet o1 n)"
    "spares f (StoragePoolGet o2 n)"
    "spares f (NetworkGet o3 n)"
    "spares f (StoragePoolVolumeGetType o4 n ty i)"
  unfolding Devices_def ContainerGet_def StoragePoolGet_def NetworkGet_def StoragePoolVolumeGetType_def
  using assms by (intro spares_intros; simp)+

lemma spares_db_writes [spares_intros]:
  assumes "blind f"
  shows "spares f (add_device o0 p i kd)"
    "spares f (DevicesAdd o1 p i ds)"
    "spares f (ContainerConfigInsert o2 i m)"
    "spares f (ContainerProfilesInsert o3 i ps)"
    "spares f (ContainerConfigClear o4 i)"
    "spares f (ContainerUpdate o5 i d a e)"
  unfolding add_device_def DevicesAdd_def ContainerConfigInsert_def ContainerProfilesInsert_def ContainerConfigClear_def ContainerUpdate_def
  using assms by (intro spares_intros; simp)+

section \<open>Loading\<close>

lemma spares_overlays [spares_intros]:
  "(\<And>p. spares f (g p)) \<Longrightarrow> spares f (profile_overlays g ps acc)"
  by (induction ps arbitrary: acc) (auto intro!: spares_intros)

lemma spares_ctr_init [spares_intros]: "spares cworld.more (ctr_init orc)"
  unfolding ctr_init_def ctr_expandConfig_def ctr_expandDevices_def
  by (intro spares_intros blind_more)

lemma spares_load [spares_intros]:
  assumes "blind f"
  shows "spares f (containerMERCURYLoad o0 a)"
    "spares f (containerLoadByName o1 n)"
  unfolding containerMERCURYLoad_def containerLoadByName_def
  using assms by (intro spares_intros; simp?)+

lemma spares_load_all [spares_intros]: "blind f \<Longrightarrow> spares f (load_all orc ns)"
  by (induction ns) (auto intro!: spares_intros)

lemma spares_load_configs [spares_intros]: "blind f \<Longrightarrow> spares f (load_configs orc ns)"
  by (induction ns) (auto intro!: spares_intros)

lemma spares_snapshots [spares_intros]:
  assumes "blind f"
  shows "spares f (Snapshots o0 n)"
    "spares f (call_findIdmap o1 n m)"
  unfolding Snapshots_def call_findIdmap_def
  using assms by (intro spares_intros; simp)+

section \<open>The host\<close>

lemma spares_host [spares_intros]:
  assumes "blind f"
  shows "spares f (Interfaces o0)"
    "spares f (InterfaceByName o1 n)"
    "spares f (LookPath o2 c)"
    "spares f (Readlink o3 lp)"
    "spares f (os_Remove o4 rp)"
    "spares f (deviceNextVeth o5 k)"
    "spares f (networkAttachInterface o6 nn dn)"
    "spares f (networkSysctl o7 sp v)"
    "spares f (networkGetHostDevice o8 pa vl)"
    "spares f (deviceRemoveInterface o9 nic)"
  unfolding Interfaces_def InterfaceByName_def LookPath_def Readlink_def os_Remove_def deviceNextVeth_def networkAttachInterface_def networkSysctl_def networkGetHostDevice_def deviceRemoveInterface_def
  using assms by (intro spares_intros; simp)+

lemma spares_lxc [spares_intros]: "spares f a \<Longrightarrow> spares f b \<Longrightarrow> (\<And>st. spares f (g st)) \<Longrightarrow>
    spares f (case s of InitFails \<Rightarrow> a | MonitorFails \<Rightarrow> b | LxcState st \<Rightarrow> g st)"
  by (cases s) simp_all

lemma spares_state [spares_intros]:
  assumes "blind f"
  shows "spares f (initMERCURY o0)"
    "spares f (ctr_State o1)"
    "spares f (ctr_IsRunning o2)"
    "spares f (CGroupGet o3 k)"
    "spares f (CGroupSet o4 k v)"
    "spares f (deviceTaskSchedulerTrigger a b c)"
    "spares f (Render o6)"
    "spares f (the_host o7)"
    "spares f (call_on o8 fn args)"
  unfolding initMERCURY_def ctr_State_def ctr_IsRunning_def CGroupGet_def CGroupSet_def deviceTaskSchedulerTrigger_def Render_def the_host_def call_on_def
  using assms by (intro spares_intros; simp)+

lemma spares_devices [spares_intros]:
  assumes "blind f"
  shows "spares f (createNetworkFilter o0 n b h)"
    "spares f (removeNetworkFilter o1 h b)"
    "spares f (veth_pair o2 m n)"
    "spares f (vlan_device o3 m)"
    "spares f (or_remove o4 n l b)"
    "spares f (createNetworkDevice o5 n m)"
    "spares f (new_hwaddr o6)"
    "spares f (nextInterfaceName o7)"
    "spares f (updateKey o8 n b)"
  unfolding createNetworkFilter_def removeNetworkFilter_def veth_pair_def vlan_device_def or_remove_def createNetworkDevice_def new_hwaddr_def nextInterfaceName_def updateKey_def seq_ret_def
  using assms by (intro spares_intros; simp)+

section \<open>Volatile settings\<close>

text \<open>A part of the world apart from the two configurations of the object as well.\<close>

definition tame :: "('a cworld_scheme \<Rightarrow> 'x) \<Rightarrow> bool" where
  "tame f \<longleftrightarrow> blind f \<and>
     (\<forall>l e w. f (w\<lparr>w_ctr := (w_ctr w)\<lparr>ct_localConfig := l, ct_expandedConfig := e\<rparr>\<rparr>) = f w)"

lemma tame_blind: "tame f \<Longrightarrow> blind f"
  by (simp add: tame_def)

lemma tame_more: "tame cworld.more"
  by (simp add: tame_def blind_more)

lemma tame_ctr:
  assumes "\<And>c l e. g (c\<lparr>ct_localConfig := l, ct_expandedConfig := e\<rparr>) = g c"
  shows "tame (\<lambda>w. g (w_ctr w))"
  using assms by (simp add: tame_def blind_more)

lemma spares_modify_config:
  fixes f :: "'a cworld_scheme \<Rightarrow> 'x"
  assumes "tame f" "\<And>c. \<exists>l e. g c = c\<lparr>ct_localConfig := l, ct_expandedConfig := e\<rparr>"
  shows "spares f (modify_this g)"
proof (rule sparesI)
  fix w :: "'a cworld_scheme"
  obtain l e where "g (w_ctr w) = (w_ctr w)\<lparr>ct_localConfig := l, ct_expandedConfig := e\<rparr>"
    using assms(2) by blast
  then show "f (snd (modify_this g w)) = f w"
    using assms(1) by (simp add: modify_this_def put_world_def tame_def)
qed

lemma spares_modify_local:
  "tame f \<Longrightarrow> (\<And>c. \<exists>l. g c = c\<lparr>ct_localConfig := l\<rparr>) \<Longrightarrow> spares f (modify_this g)"
  by (rule spares_modify_config, assumption) (metis ctr.surjective ctr.update_convs(10))

lemma spares_set_volatile [spares_intros]: "tame f \<Longrightarrow> spares f (set_volatile k v)"
  unfolding set_volatile_def by (rule spares_modify_config) auto

lemma spares_volatile [spares_intros]:
  assumes "tame f"
  shows "spares f (volatile_value o0 k (nextInterfaceName o0))"
    "spares f (volatile_value o1 k (new_hwaddr o1))"
    "spares f (fillNetworkDevice o2 n m)"
    "spares f (insertNetworkDevice o3 n m)"
    "spares f (removeNetworkDevice o4 n m)"
  unfolding volatile_value_def fillNetworkDevice_def insertNetworkDevice_def removeNetworkDevice_def
  using assms tame_blind [OF assms] by (intro spares_intros; simp)+

section \<open>Leases\<close>

lemma spares_dnsmasq [spares_intros]:
  assumes "blind f"
  shows "spares f (not_running nr)"
    "spares f (networkKillDnsmasq o1 n r)"
  unfolding not_running_def networkKillDnsmasq_def
  using assms by (intro spares_intros; simp)+

lemma spares_update_hosts [spares_intros]:
  assumes "blind f"
  shows "spares f (update_hosts o0 es n)"
  unfolding update_hosts_def
  using assms by (intro spares_intros; simp)+

lemma spares_device_entries [spares_intros]: "tame f \<Longrightarrow> spares f (device_entries orc nets ds es)"
  by (induction ds arbitrary: es) (auto intro!: spares_intros simp: tame_blind)

lemma spares_container_entries [spares_intros]: "blind f \<Longrightarrow> spares f (container_entries orc nets ns es)"
  by (induction ns arbitrary: es) (auto intro!: spares_intros tame_more)

lemma spares_networkUpdateStatic [spares_intros]: "blind f \<Longrightarrow> spares f (networkUpdateStatic orc n)"
  unfolding networkUpdateStatic_def by (intro spares_intros)

section \<open>Updating\<close>

lemma spares_checks [spares_intros]:
  assumes "blind f"
  shows "spares f (args_check o0 args u)"
    "spares f (next_idmap o1)"
  unfolding args_check_def next_idmap_def
  using assms by (intro spares_intros; simp)+

lemma spares_host_name_of [spares_intros]: "tame f \<Longrightarrow> spares f (host_name_of orc n ds)"
  by (induction ds) (auto intro!: spares_intros simp: tame_blind)

lemma spares_local_set [spares_intros]:
  "tame f \<Longrightarrow> spares f (modify_this (\<lambda>c. c\<lparr>ct_localConfig := gm_set (ct_localConfig c) k v\<rparr>))"
  "tame f \<Longrightarrow> spares f (modify_this (\<lambda>c. c\<lparr>ct_localConfig := gm_set (gm_set (ct_localConfig c) k v) l u\<rparr>))"
  by (rule spares_modify_local; blast)+

lemma spares_update_local [spares_intros]:
  assumes "tame f"
  shows "spares f (update_idmap o0 ks)"
    "spares f (apply_quota o1 b s1 s2)"
  unfolding update_idmap_def apply_quota_def
  using assms tame_blind [OF assms] by (intro spares_intros; simp)+

lemma spares_memory [spares_intros]:
  assumes "blind f"
  shows "spares f (memory_value o0 m)"
    "spares f (old_limit o1 k)"
    "spares f (revert_memory o2 old)"
    "spares f (swappiness o3 conf)"
    "spares f (write_limits o4 m e s)"
  unfolding memory_value_def old_limit_def revert_memory_def swappiness_def write_limits_def
  using assms by (intro spares_intros; simp)+

lemma spares_or_revert [spares_intros]: "blind f \<Longrightarrow> spares f p \<Longrightarrow> spares f (or_revert orc old p)"
  unfolding or_revert_def by (intro spares_intros)

lemma spares_live_memory [spares_intros]:
  assumes "blind f"
  shows "spares f (live_memory o0 m k)"
    "spares f (setNetworkPriority o1)"
    "spares f (tc_step o2 msg cmd)"
    "spares f (load_modules o3 v)"
    "spares f (live_cpu o4 m)"
  unfolding live_memory_def setNetworkPriority_def tc_step_def load_modules_def live_cpu_def
  using assms by (intro spares_intros; simp)+

lemma spares_tc [spares_intros]:
  assumes "blind f"
  shows "spares f (ingress_limit o0 n r)"
    "spares f (egress_limit o1 n r)"
    "spares f (live_key o2 m k)"
  unfolding ingress_limit_def egress_limit_def live_key_def
  using assms by (intro spares_intros; simp)+

lemma spares_limits [spares_intros]:
  assumes "tame f"
  shows "spares f (getHostInterface o0 n)"
    "spares f (setNetworkLimits o1 n m)"
  unfolding getHostInterface_def setNetworkLimits_def
  using assms tame_blind [OF assms] by (intro spares_intros; simp)+

lemma spares_nodes [spares_intros]:
  assumes "blind f"
  shows "spares f (unix_num o0 fn a b c)"
    "spares f (on_nodes o1 fn ns)"
    "spares f (deviceExists o2 n)"
    "spares f (shared_nodes o3 fn b2 ns)"
  unfolding unix_num_def on_nodes_def deviceExists_def shared_nodes_def
  using assms by (intro spares_intros; simp)+

lemma spares_gpu0 [spares_intros]:
  assumes "blind f"
  shows "spares f (remove_gpu o0 m gs ns)"
    "spares f (insert_gpu o1 m gs ns)"
    "spares f (live_disks o2 ds)"
  unfolding remove_gpu_def insert_gpu_def live_disks_def addDiskDevices_def
  using assms by (intro spares_intros; simp)+

lemma spares_disk_limits [spares_intros]: "blind f \<Longrightarrow> spares f (write_disk_limits orc)"
  unfolding write_disk_limits_def Let_def by (intro spares_intros)

lemma spares_thread [spares_intros]: "(\<And>c x. spares f (step c x)) \<Longrightarrow> spares f (thread step xs c)"
  by (induction xs arbitrary: c) (auto intro!: spares_intros)

lemma spares_loads [spares_intros]: "spares f (load_usbs o0 cache)" "spares f (load_gpus o1 cache)"
  unfolding load_usbs_def load_gpus_def by (intro spares_intros)+

lemma spares_live [spares_intros]:
  assumes "tame f"
  shows "spares f (live_remove o0 c0 kd)"
    "spares f (live_add o1 c1 kd)"
    "spares f (live_update o2 ds)"
    "spares f (live_changes o3 ks rau)"
  unfolding live_remove_def live_add_def live_update_def live_changes_def seq_ret_def
  using assms tame_blind [OF assms] by (intro spares_intros; simp)+

lemma spares_render_all [spares_intros]: "blind f \<Longrightarrow> spares f (render_all orc ss)"
  by (induction ss) (auto intro!: spares_intros blind_more)

lemma spares_store [spares_intros]:
  assumes "blind f"
  shows "spares f (writeBackupFile o0)"
    "spares f (backup_update o1)"
    "spares f (store_update o2)"
    "spares f (check_update o3 ks)"
  unfolding writeBackupFile_def backup_update_def store_update_def check_update_def
  using assms by (intro spares_intros; simp)+

lemma spares_drop_leftovers [spares_intros]: "tame f \<Longrightarrow> spares f (modify_this drop_leftovers)"
  by (rule spares_modify_config) (auto simp: drop_leftovers_def Let_def)

end
