(* ===== verification/Runs.thy ===== *)
theory Runs
  imports ContainerUpdate
begin

text \<open>
  Running a program on a concrete world inside the kernel: equations that take one step at a time,
  and congruences that keep the simplifier out of what has not been reached yet.
\<close>

definition continue :: "'a res \<times> 'w \<Rightarrow> ('a \<Rightarrow> ('w, 'b) prog) \<Rightarrow> 'b res \<times> 'w" where
  "continue r f = (case r of (Inl e, w) \<Rightarrow> (Inl e, w) | (Inr x, w) \<Rightarrow> f x w)"

definition resume :: "'s \<Rightarrow> ('s \<Rightarrow> 'b) \<Rightarrow> 'b" where
  "resume r f = f r"

named_theorems runs \<open>steps of a run\<close>

lemma continue_simps [runs]: "continue (Inl e, w) f = (Inl e, w)" "continue (Inr x, w) f = f x w"
  by (simp_all add: continue_def)

lemma run_basic [runs]:
  "ret x w = (Inr x, w)" "fail e w = (Inl e, w)" "of_res r w = (r, w)" "get_world g w = (Inr (g w), w)"
  "put_world h w = (Inr (), h w)" "pwhen b p w = (if b then p w else (Inr (), w))"
  "pbind q k w = continue (q w) k" "seq_all [] w = (Inr (), w)"
  "seq_all (s # ps) w = continue (s w) (\<lambda>_. seq_all ps)"
  "for_all a [] w = (Inr (), w)" "for_all a (y # ys) w = continue (a y w) (\<lambda>_. for_all a ys)"
  by (simp_all add: prog_defs continue_def split: prod.splits sum.splits)

lemma run_attempt [runs]:
  "attempt p w = resume (p w) (\<lambda>(r, w'). case r of
     Inl e \<Rightarrow> (if is_panic e then Inl e else Inr (Inl e), w') | Inr x \<Rightarrow> (Inr (Inr x), w'))"
  "ignoring p w = continue (attempt p w) (\<lambda>_. ret ())"
  by (simp_all add: prog_defs continue_def resume_def split: prod.splits sum.splits)

lemma run_retry:
  "retry (Suc n) p w = resume (p w) (\<lambda>(r, w'). case r of
     Inr x \<Rightarrow> (Inr x, w')
   | Inl e \<Rightarrow> if is_panic e then (Inl e, w') else if IsDbLockedError (Some e) then retry n p w' else (Inl e, w'))"
  by (auto simp: pbind_def attempt_def ret_def fail_def resume_def IsDbLockedError_def split: prod.splits sum.splits)

lemmas run_retry_1000 [runs] = run_retry [of 999, simplified]

lemma run_sql [runs]:
  "sql orc q eff w = (case o_act orc (w_hist w) (Stmt q) of
     Some e \<Rightarrow> (Inl e, emit (Stmt q) w)
   | None \<Rightarrow> resume (eff (w_db w)) (\<lambda>r. case r of
       Inl e \<Rightarrow> (Inl e, emit (Stmt q) w) | Inr (x, d) \<Rightarrow> (Inr x, (emit (Stmt q) w)\<lparr>w_db := d\<rparr>)))"
  by (auto simp: sql_def perform_def pbind_def emit_def resume_def split: option.splits sum.splits)

lemma run_transaction [runs]:
  "transaction orc p w = continue (Begin orc w) (\<lambda>_ v. resume (p v) (\<lambda>(r, u). case r of
     Inl e \<Rightarrow> (Inl e, u\<lparr>w_db := w_db v\<rparr>)
   | Inr x \<Rightarrow> resume (TxCommit orc u) (\<lambda>(r, u'). case r of
       Inl e \<Rightarrow> (Inl e, u'\<lparr>w_db := w_db v\<rparr>) | Inr _ \<Rightarrow> (Inr x, u'))))"
  by (auto simp: transaction_def pbind_def ret_def continue_def resume_def split: prod.splits sum.splits)

lemma run_undo_with [runs]:
  "undo_with h p w = resume (p w) (\<lambda>(r, w'). case r of Inl e \<Rightarrow> (Inl e, snd (h w')) | Inr x \<Rightarrow> (Inr x, w'))"
  by (simp add: undo_with_def resume_def split: prod.splits sum.splits)

lemma run_on_container [runs]: "on_container c p w = resume (p (enter c w)) (\<lambda>(r, v). (r, leave v))"
  by (simp add: on_container_def resume_def)

lemma run_world [runs]:
  "perform orc ev w = (case o_act orc (w_hist w) ev of None \<Rightarrow> Inr () | Some e \<Rightarrow> Inl e, emit ev w)"
  "notify ev w = (Inr (), emit ev w)" "ask g w = (Inr (g (w_hist w)), w)"
  "run_output orc cmd w = (Inr (o_run orc (w_hist w) cmd), emit (Ran cmd) w)"
  "path_exists orc path w = (Inr (o_exists orc (w_hist w) path), w)"
  "ReadFile orc path w = (o_read orc (w_hist w) path, w)"
  by (simp_all add: perform_def notify_def put_world_def ask_def get_world_def run_output_def path_exists_def
      ReadFile_def)

lemma run_this [runs]:
  "this v = (Inr (w_ctr v), v)" "modify_this g v = (Inr (), v\<lparr>w_ctr := g (w_ctr v)\<rparr>)"
  by (simp_all add: this_def get_world_def modify_this_def put_world_def)

lemmas [runs] = Begin_def [THEN fun_cong] TxCommit_def [THEN fun_cong] Prepare_def [THEN fun_cong]
  Prepare_unchecked_def [THEN fun_cong] tx_Exec_def [THEN fun_cong] Exec_def [THEN fun_cong]
  QueryScan_def [THEN fun_cong] dbQueryRowScan_def [THEN fun_cong] no_effect_def emit_def

lemma resume_pair [runs]: "resume (r, w) f = f (r, w)"
  by (simp add: resume_def)

lemma resume_sum [runs]: "resume (Inl e) f = f (Inl e)" "resume (Inr x) g = g (Inr x)"
  by (simp_all add: resume_def)

lemma run_congs:
  "w = w' \<Longrightarrow> pbind p f w = pbind p f w'" 
  "r = r' \<Longrightarrow> continue r f = continue r' f"
  "s = s' \<Longrightarrow> resume s k = resume s' k"
  "w = w' \<Longrightarrow> attempt p w = attempt p w'"
  "w = w' \<Longrightarrow> ignoring p w = ignoring p w'"
  "w = w' \<Longrightarrow> retry n p w = retry n p w'"
  "tw = tw' \<Longrightarrow> transaction to tq tw = transaction to tq tw'"
  "w = w' \<Longrightarrow> undo_with h p w = undo_with h p w'"
  "ow = ow' \<Longrightarrow> on_container c oq ow = on_container c oq ow'"
  "b = b' \<Longrightarrow> w = w' \<Longrightarrow> pwhen b u w = pwhen b' u w'"
  "w = w' \<Longrightarrow> seq_all ps w = seq_all ps w'"
  "xs = ys \<Longrightarrow> w = w' \<Longrightarrow> for_all g xs w = for_all g ys w'"
  "u1 = u2 \<Longrightarrow> sql orc s1 eff u1 = sql orc s1 eff u2"
  by simp_all

end
