(* ===== verification/ContainerUpdateProps.thy ===== *)
theory ContainerUpdateProps
  imports ContainerFrame Runs
begin

text \<open>
  What an update promises: what a failure leaves behind, what a success has taken over, and which
  keys and storage pools it lets a user change.
\<close>

section \<open>The object\<close>

definition identity :: "ctr \<Rightarrow> int \<times> string \<times> int \<times> int \<times> int \<times> bool" where
  "identity c = (ct_id c, ct_name c, ct_cType c, ct_creationDate c, ct_lastUsedDate c, ct_stateful c)"

definition same_identity :: "ctr \<Rightarrow> ctr \<Rightarrow> bool" where
  "same_identity c c' \<longleftrightarrow> identity c = identity c'"

lemma tame_identity: "tame (\<lambda>w. identity (w_ctr w))"
  by (rule tame_ctr) (simp add: identity_def)

lemma spares_identity_init [spares_intros]: "spares (\<lambda>w. identity (w_ctr w)) (ctr_init orc)"
  unfolding ctr_init_def ctr_expandConfig_def ctr_expandDevices_def
  by (intro spares_intros blind_more spares_modify_ctr) (simp_all add: identity_def)

lemma spares_identity_update: "spares (\<lambda>w. identity (w_ctr w)) (update_body orc args old)"
  unfolding update_body_def update_rest_def
  by (intro spares_intros tame_identity tame_blind spares_modify_ctr)
    (simp_all add: identity_def apply_args_def)

lemma restore_identity: "identity c = identity old \<Longrightarrow> restore_from old c = old"
  by (cases c, cases old) (simp add: identity_def restore_from_def)

lemma undo_with_err:
  assumes "undo_with h p w = (Inl e, w')"
  obtains v where "p w = (Inl e, v)" "w' = snd (h v)"
  using assms by (auto simp: undo_with_def split: prod.splits sum.splits)

lemma undo_with_ok: "undo_with h p w = (Inr x, w') \<longleftrightarrow> p w = (Inr x, w')"
  by (auto simp: undo_with_def split: prod.splits sum.splits)

lemma pbind_err:
  assumes "pbind p f w = (Inl e, w')"
  obtains "p w = (Inl e, w')" | x v where "p w = (Inr x, v)" "f x v = (Inl e, w')"
  using assms by (auto simp: pbind_def split: prod.splits sum.splits)

lemma pbind_okE:
  assumes "pbind p f w = (Inr y, w')"
  obtains x v where "p w = (Inr x, v)" "f x v = (Inr y, w')"
  using assms by (auto simp: pbind_def split: prod.splits sum.splits)

lemma seq_all_ok: "seq_all ps w = (Inr x, w') \<Longrightarrow> of_res r \<in> set ps \<Longrightarrow> is_ok r"
  by (induction ps arbitrary: w) (auto elim!: pbind_okE simp: of_res_def split: sum.splits)

lemma undo_update_restores:
  fixes v :: "'a cworld_scheme"
  assumes "identity (w_ctr v) = identity old"
  shows "w_ctr (snd (undo_update orc old v)) = old"
proof -
  define v1 where "v1 = v\<lparr>w_ctr := restore_from old (w_ctr v)\<rparr>"
  have m: "modify_this (restore_from old) v = (Inr (), v1)"
    by (simp add: modify_this_def put_world_def v1_def)
  have k: "spares (w_ctr :: 'a cworld_scheme \<Rightarrow> ctr) (seq_all [ignoring (initMERCURY orc),
        pbind this (\<lambda>c. deviceTaskSchedulerTrigger ''container'' (ct_name c) ''changed'')])"
    by (intro spares_intros) (simp_all add: blind_def)
  have "w_ctr (snd (undo_update orc old v)) = w_ctr v1"
    using k unfolding undo_update_def seq_all.simps(2) [of "modify_this _"]
    by (simp add: m spares_def pbind_def [of "modify_this _"] del: seq_all.simps)
  then show ?thesis by (simp add: v1_def restore_identity [OF assms])
qed

lemma spares_ctr_args_check: "spares w_ctr (args_check orc args u)"
  by (intro spares_intros) (simp add: blind_def)

text \<open>Both ways an update can end.\<close>

lemma Update_failed:
  fixes w :: "'a cworld_scheme"
  assumes "ctr_Update orc args userRequested w = (Inl e, w')"
  shows "w_ctr w' = w_ctr w"
proof -
  let ?args = "default_args (w_ctr w) args"
  have upd: "pbind (args_check orc ?args userRequested)
      (\<lambda>_. undo_with (undo_update orc (w_ctr w)) (update_body orc ?args (w_ctr w))) w = (Inl e, w')"
    using assms by (simp add: ctr_Update_def pbind_def this_def get_world_def Let_def)
  from upd show ?thesis
  proof (cases rule: pbind_err)
    case 1
    then show ?thesis by (rule sparesD [OF spares_ctr_args_check])
  next
    case (2 x v)
    have v: "w_ctr v = w_ctr w" by (rule sparesD [OF spares_ctr_args_check 2(1)])
    from 2(2) show ?thesis
    proof (rule undo_with_err)
      fix u assume body: "update_body orc ?args (w_ctr w) v = (Inl e, u)"
        and w': "w' = snd (undo_update orc (w_ctr w) u)"
      have "identity (w_ctr u) = identity (w_ctr w)"
        using sparesD [OF spares_identity_update body] v by simp
      then show ?thesis using w' undo_update_restores by simp
    qed
  qed
qed

definition taken_over :: "ctr \<Rightarrow> string \<times> int \<times> bool \<times> devices \<times> string list" where
  "taken_over c = (ct_description c, ct_architecture c, ct_ephemeral c, ct_localDevices c, ct_profiles c)"

lemma tame_taken: "tame (\<lambda>w. taken_over (w_ctr w))"
  by (rule tame_ctr) (simp add: taken_over_def)

lemma spares_taken_init [spares_intros]: "spares (\<lambda>w. taken_over (w_ctr w)) (ctr_init orc)"
  unfolding ctr_init_def ctr_expandConfig_def ctr_expandDevices_def
  by (intro spares_intros blind_more spares_modify_ctr) (simp_all add: taken_over_def)

lemma spares_taken_rest: "spares (\<lambda>w. taken_over (w_ctr w)) (update_rest orc old)"
  unfolding update_rest_def by (intro spares_intros tame_taken tame_blind)

lemma update_body_takes:
  fixes w :: "'a cworld_scheme"
  assumes "update_body orc args old w = (r, w')"
  shows "taken_over (w_ctr w') =
    (ua_Description args, ua_Architecture args, ua_Ephemeral args, ua_Devices args, ua_Profiles args)"
proof -
  define v where "v = w\<lparr>w_ctr := apply_args args (w_ctr w)\<rparr>"
  have m: "modify_this (apply_args args) w = (Inr (), v)"
    by (simp add: modify_this_def put_world_def v_def)
  have "update_rest orc old v = (r, w')" using assms by (simp add: update_body_def pbind_def m)
  from sparesD [OF spares_taken_rest this] show ?thesis by (simp add: v_def taken_over_def apply_args_def)
qed

text \<open>A successful update has taken over everything it was given, the architecture unless it was left
  out; the id, the name, the type and the dates are the old ones.\<close>

lemma Update_done:
  fixes w :: "'a cworld_scheme"
  assumes "ctr_Update orc args userRequested w = (Inr (), w')"
  shows "taken_over (w_ctr w') =
      (ua_Description args,
       if ua_Architecture args = 0 then ct_architecture (w_ctr w) else ua_Architecture args,
       ua_Ephemeral args, ua_Devices args, ua_Profiles args) \<and>
    same_identity (w_ctr w') (w_ctr w)"
proof -
  let ?args = "default_args (w_ctr w) args"
  have "pbind (args_check orc ?args userRequested)
      (\<lambda>_. undo_with (undo_update orc (w_ctr w)) (update_body orc ?args (w_ctr w))) w = (Inr (), w')"
    using assms by (simp add: ctr_Update_def pbind_def this_def get_world_def Let_def)
  then obtain x v where chk: "args_check orc ?args userRequested w = (Inr x, v)"
    and body: "update_body orc ?args (w_ctr w) v = (Inr (), w')"
    by (auto elim!: pbind_okE simp: undo_with_ok)
  have v: "w_ctr v = w_ctr w" by (rule sparesD [OF spares_ctr_args_check chk])
  note t = update_body_takes [OF body]
  from t sparesD [OF spares_identity_update body] v show ?thesis
    by (simp add: same_identity_def default_args_def)
qed


lemma protected_checked:
  assumes "is_ok (protected_check other m)" "map_of m k = Some v" "protected_key k \<noteq> None"
  shows "gm_str other k = v"
  using assms by (induction m) (auto split: if_splits option.splits)

lemma protected_both:
  assumes "is_ok (protected_check old new)" "is_ok (protected_check new old)" "protected_key k \<noteq> None"
  shows "gm_str new k = gm_str old k"
proof (cases "map_of new k")
  case None
  show ?thesis
  proof (cases "map_of old k")
    case None
    with \<open>map_of new k = None\<close> show ?thesis by (simp add: gm_str_def)
  next
    case (Some v)
    then show ?thesis using protected_checked [OF assms(2) Some assms(3)] by (simp add: gm_str_def)
  qed
next
  case (Some v)
  then show ?thesis using protected_checked [OF assms(1) Some assms(3)] by (simp add: gm_str_def)
qed

text \<open>C10: A failed update leaves the object as it was: whatever stage fails, and whatever was done to the
  running container by then, every field is again the one of before the call.\<close>
theorem update_failure_restores:
  fixes w :: "'a cworld_scheme"
  assumes "ctr_Update orc args userRequested w = (Inl e, w')"
  shows "w_ctr w' = w_ctr w"
  using assms by (rule Update_failed)

text \<open>C11: An update that a user asked for, once it went through, has not touched the keys that are the
  daemon's own: none of \<open>volatile.\<close> or \<open>image.\<close> was added, changed or removed by the new configuration.\<close>
theorem user_update_protected:
  fixes w :: "'a cworld_scheme"
  assumes "ctr_Update orc args True w = (Inr (), w')" "protected_key k \<noteq> None"
  shows "gm_str (ua_Config args) k = gm_str (ct_localConfig (w_ctr w)) k"
proof -
  let ?args = "default_args (w_ctr w) args"
  have "pbind (args_check orc ?args True)
      (\<lambda>_. undo_with (undo_update orc (w_ctr w)) (update_body orc ?args (w_ctr w))) w = (Inr (), w')"
    using assms by (simp add: ctr_Update_def pbind_def this_def get_world_def Let_def)
  then obtain v where "args_check orc ?args True w = (Inr (), v)"
    by (auto elim!: pbind_okE)
  then have "is_ok (protected_check (ct_localConfig (w_ctr w)) (ua_Config ?args))"
    "is_ok (protected_check (ua_Config ?args) (ct_localConfig (w_ctr w)))"
    unfolding args_check_def by (auto elim!: pbind_okE simp: prog_defs this_def get_world_def the_host_def
      split: sum.splits prod.splits if_splits)
  then have "gm_str (ua_Config ?args) k = gm_str (ct_localConfig (w_ctr w)) k"
    by (rule protected_both [OF _ _ assms(2)])
  then show ?thesis by (simp add: default_args_def split: if_splits)
qed

section \<open>Setting one key\<close>


section \<open>The storage pool\<close>

definition root_pool :: "devices \<Rightarrow> devices \<Rightarrow> string" where
  "root_pool local expanded =
     (let (k, d) = local_root local; ps = profile_roots expanded k
      in if gm_str d ''pool'' \<noteq> [] then gm_str d ''pool''
         else if ps = [] then [] else gm_str (device_at expanded (ps ! 0)) ''pool'')"

definition has_local_root :: "devices \<Rightarrow> bool" where
  "has_local_root local \<longleftrightarrow> gm_str (snd (local_root local)) ''pool'' \<noteq> []"

text \<open>C16: An accepted update spares the container on its storage pool when its root disk moves from the
  container to a profile or back. Where both root disks are the container's own, or both a profile's, the
  pools are not compared at all.\<close>
theorem root_pool_checked:
  assumes "root_disks oldLocal oldExpanded newLocal newExpanded = Inr r"
    and "root_pool oldLocal oldExpanded \<noteq> []"
    and "root_pool newLocal newExpanded \<noteq> root_pool oldLocal oldExpanded"
  shows "has_local_root oldLocal = has_local_root newLocal"
  using assms
  by (auto simp: root_disks_def root_pool_def has_local_root_def Let_def split: if_splits prod.splits)

section \<open>A container on a calm host\<close>

definition web_daemon :: "bool \<Rightarrow> daemon" where
  "web_daemon ready =
     \<lparr>o_run = (\<lambda>_ _. ([], None)), o_exists = (\<lambda>_ _. True), o_read = (\<lambda>_ _. Inr []), o_act = (\<lambda>_ _. None),
      o_now = (\<lambda>_. 0), o_var = ''/var/lib/apollo'',
      h_ifaces = (\<lambda>_. Inr []), h_dir = (\<lambda>_ _. Inr []), h_link = (\<lambda>_ _. Inr []), h_finds = (\<lambda>_ _. True),
      h_user = (\<lambda>_ _. True), h_dial = (\<lambda>_ _. False), h_rand = (\<lambda>_ i. i), h_lxc = (\<lambda>_ _. LxcState ''STOPPED''),
      h_nics = (\<lambda>_ _. []), h_cgroup = (\<lambda>_ _ _. []), h_veths = (\<lambda>_ _. []), h_loopback = (\<lambda>_ _. False),
      h_mock = False, h_log = ''/var/log/apollo'',
      dm_host = (\<lambda>_. \<lparr>h_architectures = [2], h_idmap = True, h_lxc21 = True, h_is_dir = (\<lambda>_. False),
        h_exists = (\<lambda>_. True), h_dev_type = (\<lambda>_. Inr ''c''), h_pools = []\<rparr>),
      dm_srt = (\<lambda>m. m), dm_order = (\<lambda>d. d), dm_idmap = None, dm_json = (\<lambda>_. ''[]''), dm_parse = (\<lambda>_. Inl NotExist),
      dm_yaml = (\<lambda>_ _ _ _. []), dm_soft = (\<lambda>_. []), dm_blkio = True, dm_memory = True, dm_swap = True,
      dm_cpu = True, dm_pids = True, dm_netprio = True, dm_driver = (\<lambda>_ _. ''dir''), dm_ready = (\<lambda>_ _. ready),
      dm_ours = (\<lambda>_ _. True), dm_poolid = (\<lambda>_ _. 1), dm_usbs = (\<lambda>_. Inr []), dm_gpus = (\<lambda>_. Inr ([], [])),
      dm_disk_limits = (\<lambda>_ _. Inr []), dm_configured = (\<lambda>_ _ _. False)\<rparr>"

definition web_root :: device where
  "web_root = [(''type'', ''disk''), (''path'', ''/''), (''pool'', ''default'')]"

definition web_db :: db where
  "web_db =
     db_empty\<lparr>containers := \<lparr>t_rows =
         [(1, \<lparr>co_name = ''web'', co_description = Some ''the site'', co_architecture = 2, co_type = 0, co_ephemeral = 0,
               co_stateful = 0, co_creation_date = 1, co_last_use_date = Some 0\<rparr>)], t_next = 2\<rparr>,
       containers_config := \<lparr>t_rows = [(1, 1, ''user.note'', ''a'')], t_next = 2\<rparr>,
       containers_devices := \<lparr>t_rows = [(1, \<lparr>de_owner = 1, de_name = ''root'', de_type = 2\<rparr>)], t_next = 2\<rparr>,
       containers_devices_config :=
         \<lparr>t_rows = [(1, 1, ''path'', ''/''), (2, 1, ''pool'', ''default'')], t_next = 3\<rparr>,
       storage_pools :=
         \<lparr>t_rows = [(1, \<lparr>po_name = ''default'', po_description = None, po_driver = ''dir''\<rparr>)], t_next = 2\<rparr>\<rparr>"

definition web_ctr :: ctr where
  "web_ctr =
     \<lparr>ct_architecture = 2, ct_cType = 0, ct_creationDate = 1, ct_lastUsedDate = 0, ct_ephemeral = False, ct_id = 1,
      ct_name = ''web'', ct_description = ''the site'', ct_stateful = False,
      ct_expandedConfig = [(''user.note'', ''a'')], ct_expandedDevices = [(''root'', web_root)],
      ct_localConfig = [(''user.note'', ''a'')], ct_localDevices = [(''root'', web_root)], ct_profiles = []\<rparr>"

definition web_host :: host where
  "web_host = \<lparr>h_architectures = [2], h_idmap = True, h_lxc21 = True, h_is_dir = (\<lambda>_. False),
        h_exists = (\<lambda>_. True), h_dev_type = (\<lambda>_. Inr ''c''), h_pools = [''default'']\<rparr>"

lemma valid_web:
  "containerValidConfig web_host (Some [(''user.note'', ''b'')]) False False = Inr ()"
  "containerValidConfig web_host (Some [(''user.note'', ''b'')]) False True = Inr ()"
  "containerValidDevices web_host (Some [(''root'', web_root)]) False False = Inr ()"
  "containerValidDevices web_host (Some [(''root'', web_root)]) False True = Inr ()"
  by code_simp+

lemma the_host_runs:
  "the_host orc w =
     (Inr ((dm_host orc (w_hist w))\<lparr>h_pools := map po_name (t_vals (storage_pools (w_db w)))\<rparr>), w)"
  by (simp add: the_host_def get_world_def)

lemma host_web: "(dm_host (web_daemon ready) h)\<lparr>h_pools := [''default'']\<rparr> = web_host"
  by (simp add: web_daemon_def web_host_def)

lemma devices_web: "devices_Update [(''root'', web_root)] [(''root'', web_root)] = ([], [], [])" 
  "root_disks [(''root'', web_root)] [(''root'', web_root)] [(''root'', web_root)] [(''root'', web_root)] = Inr (''root'', ''root'')"
  "changed_keys [(''user.note'', ''b'')] [(''user.note'', ''b'')] = []"
  "changed_keys [(''user.note'', ''a'')] [(''user.note'', ''b'')] = [''user.note'']"
  "gm_set [(''user.note'', ''a'')] ''user.note'' ''b'' = [(''user.note'', ''b'')]"
  "overlay [] [(''user.note'', ''b'')] = [(''user.note'', ''b'')]"
  "overlay [] [(''root'', web_root)] = [(''root'', web_root)]"
  "arch_check 2 = Inr ()"
  "gm_str (device_at [(''root'', web_root)] ''root'') ''size'' = []"
  by code_simp+

lemma web_answers [simp]:
  "o_act (web_daemon ready) = (\<lambda>_ _. None)" "h_lxc (web_daemon ready) = (\<lambda>_ _. LxcState ''STOPPED'')"
  "o_exists (web_daemon ready) = (\<lambda>_ _. True)" "dm_ready (web_daemon ready) = (\<lambda>_ _. ready)"
  by (simp_all add: web_daemon_def)



definition web_args :: update_args where
  "web_args = \<lparr>ua_Architecture = 2, ua_Config = [(''user.note'', ''b'')], ua_Description = [],
          ua_Devices = [(''root'', web_root)], ua_Ephemeral = False, ua_Profiles = []\<rparr>"

definition web1 :: ctr where "web1 = web_ctr\<lparr>ct_localConfig := [(''user.note'', ''b'')]\<rparr>"
definition web2 :: ctr where "web2 = web1\<lparr>ct_description := []\<rparr>"
definition web3 :: ctr where "web3 = web2\<lparr>ct_expandedConfig := [(''user.note'', ''b'')]\<rparr>"

lemma web_fields:
  "ct_name web1 = ''web''" "ct_name web2 = ''web''" "ct_name web3 = ''web''" "ct_id web3 = 1"
  "ctr_IsSnapshot web3 = False" "ctr_IsSnapshot web1 = False"
  "ct_localConfig web2 = [(''user.note'', ''b'')]" "ct_localDevices web2 = [(''root'', web_root)]"
  "ct_localConfig web3 = [(''user.note'', ''b'')]" "ct_localDevices web3 = [(''root'', web_root)]"
  "ct_expandedConfig web3 = [(''user.note'', ''b'')]" "ct_expandedDevices web3 = [(''root'', web_root)]"
  "ct_expandedConfig web1 = [(''user.note'', ''a'')]" "ct_expandedDevices web1 = [(''root'', web_root)]"
  "ct_localDevices web1 = [(''root'', web_root)]" "ct_localConfig web1 = [(''user.note'', ''b'')]"
  "ct_profiles web2 = []" "ct_profiles web3 = []" "ct_description web3 = []" "ct_architecture web3 = 2"
  "ct_ephemeral web3 = False" "apply_args web_args web1 = web2"
  "web2\<lparr>ct_expandedConfig := [(''user.note'', ''b'')], ct_expandedDevices := [(''root'', web_root)]\<rparr> = web3"
  by (simp_all add: web3_def web2_def web1_def web_ctr_def ctr_IsSnapshot_def CTypeSnapshot_def apply_args_def web_args_def)

lemma drop_web: "drop_leftovers web3 = web3" 
  by (simp add: drop_leftovers_def web_fields leftover_key_def HasPrefix_def Let_def) 

lemma pools_web: "map po_name (t_vals (storage_pools web_db)) = [''default'']" "map na_name (t_vals (profiles web_db)) = []"
  by (simp_all add: web_db_def db_empty_def t_empty_def t_vals_def)

lemma same_db:
  "w_db v = d \<Longrightarrow> v\<lparr>w_db := d\<rparr> = v" "w_db v = d \<Longrightarrow> v\<lparr>w_hist := h, w_db := d\<rparr> = v\<lparr>w_hist := h\<rparr>"
  by auto

lemma same_ctr: "w_ctr v = c \<Longrightarrow> v\<lparr>w_db := d, w_ctr := c, w_hist := h\<rparr> = v\<lparr>w_db := d, w_hist := h\<rparr>"
  by auto

lemmas web_runs = runs the_host_runs host_web valid_web devices_web web_fields pools_web

lemma args_check_web:
  assumes "w_db v = web_db" "w_ctr v = web1"
  shows "args_check (web_daemon ready) web_args u v = (Inr (), emit (Stmt ''SELECT name FROM profiles'') v)"
  using assms by (cases u) (simp_all add: web_runs args_check_def [THEN fun_cong] Profiles_def [THEN fun_cong]
      web_args_def protected_key_def HasPrefix_def gm_str_def same_db cong: run_congs)

lemma ctr_init_no_profiles:
  "ct_profiles (w_ctr v) = [] \<Longrightarrow> ctr_init orc v =
     (Inr (), v\<lparr>w_ctr := (w_ctr v)\<lparr>ct_expandedConfig := overlay [] (ct_localConfig (w_ctr v)),
        ct_expandedDevices := overlay [] (ct_localDevices (w_ctr v))\<rparr>\<rparr>)"
  by (simp add: runs ctr_init_def [THEN fun_cong] ctr_expandConfig_def [THEN fun_cong]
      ctr_expandDevices_def [THEN fun_cong] cong: run_congs)

lemma lxc_web: "initMERCURY (web_daemon ready) v = (Inr (), v)" "ctr_IsRunning (web_daemon ready) v = (Inr False, v)"
  by (simp_all add: runs initMERCURY_def [THEN fun_cong] ctr_IsRunning_def [THEN fun_cong]
      ctr_State_def [THEN fun_cong] cong: run_congs)

lemma check_update_web:
  assumes "w_db v = web_db" "w_ctr v = web3"
  shows "check_update (web_daemon ready) [''user.note''] v = (Inr (), emit (Called ''initStorage'' [''web'']) v)"
  using assms by (simp add: web_runs lxc_web check_update_def [THEN fun_cong] call_on_def [THEN fun_cong]
      cong: run_congs)

lemma update_idmap_web: "update_idmap (web_daemon ready) [''user.note''] v = (Inr (), v)"
  by (simp add: runs update_idmap_def [THEN fun_cong] idmap_keys_def cong: run_congs)

text \<open>The tables after the update: the note is the new one, and the description is gone.\<close>

definition web_db2 :: db where
  "web_db2 =
     web_db\<lparr>containers := \<lparr>t_rows =
         [(1, \<lparr>co_name = ''web'', co_description = Some [], co_architecture = 2, co_type = 0, co_ephemeral = 0,
               co_stateful = 0, co_creation_date = 1, co_last_use_date = Some 0\<rparr>)], t_next = 2\<rparr>,
       containers_config := \<lparr>t_rows = [(2, 1, ''user.note'', ''b'')], t_next = 3\<rparr>,
       containers_devices := \<lparr>t_rows = [(2, \<lparr>de_owner = 1, de_name = ''root'', de_type = 2\<rparr>)], t_next = 3\<rparr>,
       containers_devices_config :=
         \<lparr>t_rows = [(3, 2, ''path'', ''/''), (4, 2, ''pool'', ''default'')], t_next = 5\<rparr>\<rparr>"

lemmas store_runs = store_update_def [THEN fun_cong] ContainerConfigClear_def [THEN fun_cong]
  ContainerConfigInsert_def [THEN fun_cong] ContainerProfilesInsert_def [THEN fun_cong]
  DevicesAdd_def [THEN fun_cong] ContainerUpdate_def [THEN fun_cong] add_device_def dbDeviceTypeToInt_def

lemmas table_runs = t_delete_def cascade_def t_get_def insert_container_config_def kv_insert_def t_insert_def
  t_ids_def t_vals_def insert_device_def insert_device_config_def devices_of_def devices_config_of_def
  t_update_def update_containers_def t_unique_def kv_key_def device_key_def

lemma store_update_web:
  assumes "w_db v = web_db" "w_ctr v = web3"
  shows "\<exists>h. store_update (web_daemon ready) v = (Inr (), v\<lparr>w_db := web_db2, w_hist := h\<rparr>)"
  using assms
  by (simp add: web_runs store_runs table_runs web_root_def gm_str_def web_db_def db_empty_def t_empty_def
      web_db2_def cong: run_congs) blast

lemma web_db2_tables:
  "t_rows (storage_pools web_db2) = [(1, \<lparr>po_name = ''default'', po_description = None, po_driver = ''dir''\<rparr>)]"
  "t_rows (storage_volumes web_db2) = []" "t_where (\<lambda>r. co_type r = 1 \<and> P r) (containers web_db2) = []"
  by (simp_all add: web_db2_def web_db_def db_empty_def t_empty_def t_where_def)

lemma t_where_empty: "t_rows t = [] \<Longrightarrow> t_where P t = []"
  by (simp add: t_where_def)

lemmas backup_runs = backup_update_def [THEN fun_cong] writeBackupFile_def [THEN fun_cong]
  Render_def [THEN fun_cong] Snapshots_def [THEN fun_cong] ContainerGetSnapshots_def [THEN fun_cong]
  ContainerPool_def [THEN fun_cong]

text \<open>The storage volume has no row: there is nothing to write into the backup file.\<close>

lemma backup_update_web:
  assumes "w_db v = web_db2" "w_ctr v = web3"
  shows "\<exists>h. backup_update (web_daemon True) v = (Inl NoSuchObjectError, v\<lparr>w_hist := h\<rparr>)"
    and "backup_update (web_daemon False) v = (Inr (), v)"
proof -
  show "\<exists>h. backup_update (web_daemon True) v = (Inl NoSuchObjectError, v\<lparr>w_hist := h\<rparr>)"
    using assms by (simp add: web_runs backup_runs lxc_web Let_def CTypeSnapshot_def t_where_empty web_db2_tables
        same_db NoSuchObjectError_def NotExist_def ErrNoRows_def IsDbLockedError_def db_locked_def is_panic_def
        cong: run_congs) blast
  show "backup_update (web_daemon False) v = (Inr (), v)"
    by (simp add: web_runs backup_runs cong: run_congs)
qed

lemma update_body_web:
  assumes "w_db v = web_db" "w_ctr v = web1"
  shows "\<exists>h. update_body (web_daemon ready) web_args web1 v =
    (if ready then Inl NoSuchObjectError else Inr (), v\<lparr>w_ctr := web3, w_db := web_db2, w_hist := h\<rparr>)"
proof -
  define v1 where "v1 = v\<lparr>w_hist := w_hist v @ [Called ''initStorage'' [''web'']], w_ctr := web3\<rparr>"
  obtain h where st: "store_update (web_daemon ready) v1 = (Inr (), v1\<lparr>w_db := web_db2, w_hist := h\<rparr>)"
    using store_update_web [of v1 ready] assms by (auto simp: v1_def)
  let ?v2 = "v1\<lparr>w_db := web_db2, w_hist := h\<rparr>"
  have v2: "w_db ?v2 = web_db2" "w_ctr ?v2 = web3" by (simp_all add: v1_def)
  obtain h2 where bk: "backup_update (web_daemon ready) ?v2 =
      (if ready then Inl NoSuchObjectError else Inr (), ?v2\<lparr>w_hist := h2\<rparr>)"
    using backup_update_web [OF v2] by (cases ready) auto
  have "update_body (web_daemon ready) web_args web1 v =
      continue (store_update (web_daemon ready) v1) (\<lambda>_. seq_all [backup_update (web_daemon ready), ret ()])"
    by (simp add: web_runs update_body_def [THEN fun_cong] update_rest_def [THEN fun_cong] assms
        ctr_init_no_profiles check_update_web update_idmap_web lxc_web apply_quota_def [THEN fun_cong] drop_web
        emit_def Let_def v1_def cong: run_congs) (simp add: runs pwhen_def)
  also have "\<dots> = (if ready then Inl NoSuchObjectError else Inr (), ?v2\<lparr>w_hist := h2\<rparr>)"
    by (simp add: st runs bk cong: run_congs)
  finally show ?thesis by (simp add: v1_def) blast
qed

lemma ctr_Update_web:
  assumes "w_db v = web_db" "w_ctr v = web1"
  shows "\<exists>h. ctr_Update (web_daemon ready) web_args u v =
    (if ready then (Inl NoSuchObjectError, v\<lparr>w_db := web_db2, w_hist := h\<rparr>)
     else (Inr (), v\<lparr>w_ctr := web3, w_db := web_db2, w_hist := h\<rparr>))"
proof -
  let ?v1 = "emit (Stmt ''SELECT name FROM profiles'') v"
  have v1: "w_db ?v1 = web_db" "w_ctr ?v1 = web1" using assms by (simp_all add: emit_def)
  obtain h where b: "update_body (web_daemon ready) web_args web1 ?v1 =
      (if ready then Inl NoSuchObjectError else Inr (), ?v1\<lparr>w_ctr := web3, w_db := web_db2, w_hist := h\<rparr>)"
    using update_body_web [OF v1] by blast
  have d: "default_args web1 web_args = web_args" by (simp add: default_args_def web_args_def)
  have "restore_from web1 web3 = web1"
    by (rule restore_identity) (simp add: identity_def web3_def web2_def web1_def)
  with assms b [unfolded emit_def] show ?thesis
    by (cases ready) (auto simp: web_runs ctr_Update_def [THEN fun_cong] d args_check_web emit_def
        undo_update_def [THEN fun_cong] lxc_web deviceTaskSchedulerTrigger_def same_ctr cong: run_congs)
qed

definition web_world :: cworld where
  "web_world = \<lparr>w_hist = [], w_db = web_db, w_ctr = web_ctr\<rparr>"

lemma ConfigKeySet_web:
  "\<exists>h. ConfigKeySet (web_daemon ready) ''user.note'' ''b'' web_world =
    (if ready then (Inl NoSuchObjectError, \<lparr>w_hist = h, w_db = web_db2, w_ctr = web1\<rparr>)
     else (Inr (), \<lparr>w_hist = h, w_db = web_db2, w_ctr = web3\<rparr>))"
proof -
  let ?v = "\<lparr>w_hist = [], w_db = web_db, w_ctr = web1\<rparr>"
  have "ConfigKeySet (web_daemon ready) ''user.note'' ''b'' web_world = ctr_Update (web_daemon ready) web_args False ?v"
    by (simp add: runs ConfigKeySet_def [THEN fun_cong] web_world_def web_args_def web1_def web_ctr_def devices_web
        cong: run_congs)
  with ctr_Update_web [of ?v ready False] show ?thesis by auto
qed


section \<open>Witnesses\<close>

definition web_world1 :: cworld where
  "web_world1 = web_world\<lparr>w_ctr := web1\<rparr>"

lemma Update_web1:
  "\<exists>v. ctr_Update (web_daemon ready) web_args True web_world1 = (if ready then Inl NoSuchObjectError else Inr (), v)"
  using ctr_Update_web [of web_world1 ready True] by (auto simp: web_world1_def web_world_def)

theorem update_failure_restores_witness:
  "\<exists>v. ctr_Update (web_daemon True) web_args True web_world1 = (Inl NoSuchObjectError, v) \<and> w_ctr v = web1"
proof -
  obtain v where v: "ctr_Update (web_daemon True) web_args True web_world1 = (Inl NoSuchObjectError, v)"
    using Update_web1 [of True] by auto
  from update_failure_restores [OF v] v show ?thesis by (auto simp: web_world1_def)
qed

theorem user_update_protected_witness:
  "\<exists>v. ctr_Update (web_daemon False) web_args True web_world1 = (Inr (), v) \<and>
     gm_str (ua_Config web_args) ''volatile.eth0.hwaddr'' = gm_str (ct_localConfig (w_ctr web_world1)) ''volatile.eth0.hwaddr''"
proof -
  obtain v where v: "ctr_Update (web_daemon False) web_args True web_world1 = (Inr (), v)"
    using Update_web1 [of False] by auto
  have "protected_key ''volatile.eth0.hwaddr'' \<noteq> None" by (simp add: protected_key_def HasPrefix_def)
  from user_update_protected [OF v this] v show ?thesis by blast
qed


definition pool_disk :: "string \<Rightarrow> device" where
  "pool_disk p = [(''type'', ''disk''), (''path'', ''/''), (''pool'', p)]"

theorem root_pool_checked_witness:
  "root_disks [(''root'', pool_disk ''fast'')] [(''root'', pool_disk ''fast'')]
     [(''root'', pool_disk ''slow'')] [(''root'', pool_disk ''slow'')] = Inr (''root'', ''root'') \<and>
   has_local_root [(''root'', pool_disk ''fast'')] = has_local_root [(''root'', pool_disk ''slow'')]"
proof -
  have r: "root_disks [(''root'', pool_disk ''fast'')] [(''root'', pool_disk ''fast'')]
     [(''root'', pool_disk ''slow'')] [(''root'', pool_disk ''slow'')] = Inr (''root'', ''root'')" by code_simp
  moreover have "root_pool [(''root'', pool_disk ''fast'')] [(''root'', pool_disk ''fast'')] = ''fast''"
    "root_pool [(''root'', pool_disk ''slow'')] [(''root'', pool_disk ''slow'')] = ''slow''" by code_simp+
  ultimately show ?thesis using root_pool_checked [OF r] by simp
qed

end
