(* ===== verification/StorageConfig.thy ===== *)
theory StorageConfig
  imports ConfigKeys DbStorage "HOL-Library.Word"
begin

text \<open>
  Configuration of storage pools and volumes: \<open>apollo/storage_pools_config.go\<close>,
  \<open>storage_volumes_config.go\<close>, the pure part of \<open>storage_utils.go\<close> and the names of
  \<open>storage.go\<close> and \<open>storage_volumes_utils.go\<close>.
\<close>

section \<open>Drivers and volume types\<close>

datatype storage_type =
    storageTypeBtrfs
  | storageTypeCeph
  | storageTypeDir
  | storageTypeLvm
  | storageTypeMock
  | storageTypeZfs

definition supportedStoragePoolDrivers :: "string list" where
  "supportedStoragePoolDrivers = [''btrfs'', ''ceph'', ''dir'', ''lvm'', ''zfs'']"

fun storageTypeToString :: "storage_type \<Rightarrow> string res" where
  "storageTypeToString storageTypeBtrfs = Inr ''btrfs''"
| "storageTypeToString storageTypeCeph = Inr ''ceph''"
| "storageTypeToString storageTypeDir = Inr ''dir''"
| "storageTypeToString storageTypeLvm = Inr ''lvm''"
| "storageTypeToString storageTypeMock = Inr ''mock''"
| "storageTypeToString storageTypeZfs = Inr ''zfs''"

definition storageStringToType :: "string \<Rightarrow> storage_type res" where
  "storageStringToType s =
     (if s = ''btrfs'' then Inr storageTypeBtrfs
      else if s = ''ceph'' then Inr storageTypeCeph
      else if s = ''dir'' then Inr storageTypeDir
      else if s = ''lvm'' then Inr storageTypeLvm
      else if s = ''mock'' then Inr storageTypeMock
      else if s = ''zfs'' then Inr storageTypeZfs
      else Inl (Errorf ''invalid storage type name'' []))"

definition storagePoolVolumeTypeNameToType :: "string \<Rightarrow> int res" where
  "storagePoolVolumeTypeNameToType s =
     (if s = ''container'' then Inr StoragePoolVolumeTypeContainer
      else if s = ''image'' then Inr StoragePoolVolumeTypeImage
      else if s = ''custom'' then Inr StoragePoolVolumeTypeCustom
      else Inl (Errorf ''invalid storage volume type name'' []))"

definition storagePoolVolumeTypeNameToAPIEndpoint :: "string \<Rightarrow> string res" where
  "storagePoolVolumeTypeNameToAPIEndpoint s =
     (if s = ''container'' then Inr ''containers''
      else if s = ''image'' then Inr ''images''
      else if s = ''custom'' then Inr ''custom''
      else Inl (Errorf ''invalid storage volume type name'' []))"

definition storagePoolVolumeTypeToAPIEndpoint :: "int \<Rightarrow> string res" where
  "storagePoolVolumeTypeToAPIEndpoint t =
     (if t = StoragePoolVolumeTypeContainer then Inr ''containers''
      else if t = StoragePoolVolumeTypeImage then Inr ''images''
      else if t = StoragePoolVolumeTypeCustom then Inr ''custom''
      else Inl (Errorf ''invalid storage volume type'' []))"

definition supportedVolumeTypes :: "int list" where
  "supportedVolumeTypes =
     [StoragePoolVolumeTypeContainer, StoragePoolVolumeTypeImage, StoragePoolVolumeTypeCustom]"

section \<open>Mount points\<close>

text \<open>\<open>var\<close> is the state directory.\<close>

text \<open>\<open>filepath.Clean\<close> on the parts of a path (the parts so far are in reverse), and \<open>filepath.Join\<close>.\<close>

fun clean_parts :: "bool \<Rightarrow> string list \<Rightarrow> string list \<Rightarrow> string list" where
  "clean_parts rooted acc [] = rev acc"
| "clean_parts rooted acc (p # ps) =
     (if p = [] \<or> p = ''.'' then clean_parts rooted acc ps
      else if p = ''..'' then
        (case acc of
           [] \<Rightarrow> if rooted then clean_parts rooted [] ps else clean_parts rooted [p] ps
         | a # as \<Rightarrow> if a = ''..'' then clean_parts rooted (p # acc) ps else clean_parts rooted as ps)
      else clean_parts rooted (p # acc) ps)"

definition path_Clean :: "string \<Rightarrow> string" where
  "path_Clean p =
     (let rooted = HasPrefix p ''/''; parts = clean_parts rooted [] (Split (CHR ''/'') p)
      in if rooted then ''/'' @ Join ''/'' parts else if parts = [] then ''.'' else Join ''/'' parts)"

definition path_Join :: "string list \<Rightarrow> string" where
  "path_Join parts =
     (let ps = filter (\<lambda>p. p \<noteq> []) parts in if ps = [] then [] else path_Clean (Join ''/'' ps))"

definition pool_path :: "string \<Rightarrow> string \<Rightarrow> string list \<Rightarrow> string" where
  "pool_path var pool parts = path_Join (var # ''storage-pools'' # pool # parts)"

definition getStoragePoolMountPoint :: "string \<Rightarrow> string \<Rightarrow> string" where
  "getStoragePoolMountPoint var pool = pool_path var pool []"

definition getContainerMountPoint :: "string \<Rightarrow> string \<Rightarrow> string \<Rightarrow> string" where
  "getContainerMountPoint var pool c = pool_path var pool [''containers'', c]"

definition getSnapshotMountPoint :: "string \<Rightarrow> string \<Rightarrow> string \<Rightarrow> string" where
  "getSnapshotMountPoint var pool s = pool_path var pool [''snapshots'', s]"

definition getImageMountPoint :: "string \<Rightarrow> string \<Rightarrow> string \<Rightarrow> string" where
  "getImageMountPoint var pool i = pool_path var pool [''images'', i]"

definition getStoragePoolVolumeMountPoint :: "string \<Rightarrow> string \<Rightarrow> string \<Rightarrow> string" where
  "getStoragePoolVolumeMountPoint var pool v = pool_path var pool [''custom'', v]"

definition storageValidName :: "string \<Rightarrow> unit res" where
  "storageValidName name = Inr ()"

section \<open>Lock ids\<close>

definition getPoolMountLockID :: "string \<Rightarrow> string" where
  "getPoolMountLockID pool = ''mount/pool/'' @ pool"

definition getPoolUmountLockID :: "string \<Rightarrow> string" where
  "getPoolUmountLockID pool = ''umount/pool/'' @ pool"

definition getImageCreateLockID :: "string \<Rightarrow> string \<Rightarrow> string" where
  "getImageCreateLockID pool fingerprint = ''create/image/'' @ pool @ ''/'' @ fingerprint"

definition getContainerMountLockID :: "string \<Rightarrow> string \<Rightarrow> string" where
  "getContainerMountLockID pool c = ''mount/container/'' @ pool @ ''/'' @ c"

definition getContainerUmountLockID :: "string \<Rightarrow> string \<Rightarrow> string" where
  "getContainerUmountLockID pool c = ''umount/container/'' @ pool @ ''/'' @ c"

definition getCustomMountLockID :: "string \<Rightarrow> string \<Rightarrow> string" where
  "getCustomMountLockID pool v = ''mount/custom/'' @ pool @ ''/'' @ v"

definition getCustomUmountLockID :: "string \<Rightarrow> string \<Rightarrow> string" where
  "getCustomUmountLockID pool v = ''umount/custom/'' @ pool @ ''/'' @ v"

section \<open>Volumes\<close>

definition size_checker :: checker where
  "size_checker v = (if v = [] then Inr () else ebind (ParseByteSizeString v) (\<lambda>_. Inr ()))"

definition filesystem_checker :: checker where
  "filesystem_checker v = IsOneOf v [''ext4'', ''xfs'']"

definition storageVolumeConfigKeys :: "(string \<times> checker) list" where
  "storageVolumeConfigKeys =
     [(''block.mount_options'', IsAny), (''block.filesystem'', filesystem_checker), (''size'', size_checker),
      (''zfs.use_refquota'', IsBool), (''zfs.remove_snapshots'', IsBool),
      (''volatile.idmap.last'', IsAny), (''volatile.idmap.next'', IsAny)]"

definition refuse_if :: "string gomap \<Rightarrow> (string \<times> string) list \<Rightarrow> unit res" where
  "refuse_if cfg ks =
     (case filter (\<lambda>(k, msg). gm_str cfg k \<noteq> []) ks of [] \<Rightarrow> Inr () | (k, msg) # _ \<Rightarrow> Inl (Errorf msg []))"

definition volume_driver_check :: "string gomap \<Rightarrow> string \<Rightarrow> unit res" where
  "volume_driver_check cfg driver =
     ebind (if driver \<noteq> ''zfs'' \<or> driver = ''dir'' then
              refuse_if cfg
                [(''zfs.use_refquota'', ''the key volume.zfs.use_refquota cannot be used with non zfs storage volumes''),
                 (''zfs.remove_snapshots'', ''the key volume.zfs.remove_snapshots cannot be used with non zfs storage volumes'')]
            else Inr ()) (\<lambda>_.
     if driver = ''dir'' then
       refuse_if cfg
         [(''block.mount_options'', ''the key block.mount_options cannot be used with dir storage volumes''),
          (''block.filesystem'', ''the key block.filesystem cannot be used with dir storage volumes''),
          (''size'', ''the key size cannot be used with dir storage volumes'')]
     else Inr ())"

definition volume_key_check :: "string gomap \<Rightarrow> string \<Rightarrow> string \<Rightarrow> string \<Rightarrow> unit res" where
  "volume_key_check cfg driver k v =
     (case map_of storageVolumeConfigKeys k of
        None \<Rightarrow> Inl (Errorf ''Invalid storage volume configuration key: %s'' [k])
      | Some validator \<Rightarrow> ebind (validator v) (\<lambda>_. volume_driver_check cfg driver))"

fun volume_keys :: "string gomap \<Rightarrow> string \<Rightarrow> string gomap \<Rightarrow> unit res" where
  "volume_keys cfg driver [] = Inr ()"
| "volume_keys cfg driver ((k, v) # m) =
     (if HasPrefix k ''user.'' then volume_keys cfg driver m
      else ebind (volume_key_check cfg driver k v) (\<lambda>_. volume_keys cfg driver m))"

definition storageVolumeValidateConfig :: "string \<Rightarrow> string gomap \<Rightarrow> pool \<Rightarrow> unit res" where
  "storageVolumeValidateConfig name cfg p = volume_keys cfg (sp_Driver p) cfg"

text \<open>\<open>if config[k] is empty then config[k] = v\<close>.\<close>

definition or_else_set :: "string gomap \<Rightarrow> string \<Rightarrow> string \<Rightarrow> string gomap" where
  "or_else_set cfg k v = (if gm_str cfg k = [] then gm_set cfg k v else cfg)"

definition unsized :: "string gomap \<Rightarrow> bool" where
  "unsized cfg \<longleftrightarrow> gm_str cfg ''size'' = ''0'' \<or> gm_str cfg ''size'' = []"

definition block_defaults :: "string gomap \<Rightarrow> string gomap \<Rightarrow> string gomap" where
  "block_defaults parent cfg0 =
     (let c1 = or_else_set (or_else_set cfg0 ''block.filesystem'' (gm_str parent ''volume.block.filesystem''))
                 ''block.filesystem'' ''ext4'';
          c2 = or_else_set (or_else_set c1 ''block.mount_options'' (gm_str parent ''volume.block.mount_options''))
                 ''block.mount_options'' ''discard'';
          c3 = (if unsized c2 then gm_set c2 ''size'' (gm_str parent ''volume.size'') else c2)
      in if unsized c3 then gm_set c3 ''size'' ''10GB'' else c3)"

definition storageVolumeFillDefault :: "string \<Rightarrow> string gomap \<Rightarrow> pool \<Rightarrow> string gomap res" where
  "storageVolumeFillDefault name cfg p =
     (if sp_Driver p = ''dir'' \<or> sp_Driver p = ''ceph'' then Inr (gm_set cfg ''size'' [])
      else if sp_Driver p = ''lvm'' \<or> sp_Driver p = ''ceph'' then Inr (block_defaults (sp_Config p) cfg)
      else if gm_str cfg ''size'' \<noteq> [] then ebind (ParseByteSizeString (gm_str cfg ''size'')) (\<lambda>_. Inr cfg)
      else Inr (gm_set cfg ''size'' ''10GB''))"

section \<open>Pools\<close>

definition storagePoolConfigKeys :: "(string \<times> checker) list" where
  "storagePoolConfigKeys =
     [(''btrfs.mount_options'', IsAny), (''ceph.cluster_name'', IsAny), (''ceph.osd.pool_name'', IsAny),
      (''ceph.osd.pg_num'', size_checker), (''ceph.rbd.clone_copy'', IsBool), (''ceph.user.name'', IsAny),
      (''lvm.thinpool_name'', IsAny), (''lvm.use_thinpool'', IsBool), (''lvm.vg_name'', IsAny),
      (''size'', size_checker), (''source'', IsAny), (''volatile.pool.pristine'', IsAny),
      (''volatile.initial_source'', IsAny), (''volume.block.filesystem'', filesystem_checker),
      (''volume.block.mount_options'', IsAny), (''volume.size'', size_checker),
      (''volume.zfs.remove_snapshots'', IsBool), (''volume.zfs.use_refquota'', IsBool),
      (''zfs.clone_copy'', IsBool), (''zfs.pool_name'', IsAny), (''rsync.bwlimit'', IsAny)]"

definition wrong_driver :: "string \<Rightarrow> string \<Rightarrow> bool" where
  "wrong_driver driver k \<longleftrightarrow>
     ((driver = ''dir'' \<or> driver = ''ceph'') \<and> k = ''size'') \<or>
     (driver \<noteq> ''lvm'' \<and> driver \<noteq> ''ceph'' \<and>
       (HasPrefix k ''lvm.'' \<or> HasPrefix k ''volume.block.'' \<or> k = ''volume.size'')) \<or>
     (driver \<noteq> ''zfs'' \<and> (HasPrefix k ''volume.zfs.'' \<or> HasPrefix k ''zfs.''))"

definition pool_key_check :: "string \<Rightarrow> string \<Rightarrow> string \<Rightarrow> unit res" where
  "pool_key_check driver k v =
     (if wrong_driver driver k then Inl (Errorf ''the key %s cannot be used with %s storage pools'' [k, ToUpper driver])
      else case map_of storagePoolConfigKeys k of
             None \<Rightarrow> Inl (Errorf ''Invalid storage pool configuration key: %s'' [k])
           | Some validator \<Rightarrow> validator v)"

fun pool_keys :: "string \<Rightarrow> string gomap \<Rightarrow> unit res" where
  "pool_keys driver [] = Inr ()"
| "pool_keys driver ((k, v) # m) =
     (if HasPrefix k ''user.'' then pool_keys driver m
      else ebind (pool_key_check driver k v) (\<lambda>_. pool_keys driver m))"

definition thinpool_check :: "string \<Rightarrow> string gomap \<Rightarrow> unit res" where
  "thinpool_check driver cfg =
     (case map_of cfg ''lvm.use_thinpool'' of
        Some v \<Rightarrow>
          if driver = ''lvm'' \<and> \<not> IsTrue v \<and> gm_str cfg ''lvm.thinpool_name'' \<noteq> [] then
            Inl (Errorf ''the key \"lvm.use_thinpool\" cannot be set to a false value when \"lvm.thinpool_name\" is set for LVM storage pools'' [])
          else Inr ()
      | None \<Rightarrow> Inr ())"

definition storagePoolValidateConfig :: "string \<Rightarrow> string \<Rightarrow> string gomap \<Rightarrow> unit res" where
  "storagePoolValidateConfig name driver cfg =
     ebind (IsOneOf driver supportedStoragePoolDrivers) (\<lambda>_.
     ebind (thinpool_check driver cfg) (\<lambda>_.
     ebind (size_checker (gm_str cfg ''rsync.bwlimit'')) (\<lambda>_. pool_keys driver cfg)))"

text \<open>
  A fifth of the disk in whole gigabytes, between 15 and 100; the fragment size times the number of
  blocks is a 64-bit product.
\<close>

definition default_pool_size :: "64 word \<Rightarrow> 64 word \<Rightarrow> 64 word" where
  "default_pool_size frsize blocks =
     (let size = frsize * blocks div (1024 * 1024 * 1024) div 5
      in if size > 100 then 100 else if size < 15 then 15 else size)"

definition size_default :: "(64 word \<times> 64 word) res \<Rightarrow> string \<Rightarrow> string gomap \<Rightarrow> string gomap res" where
  "size_default statfs driver cfg =
     (if driver = ''dir'' \<or> driver = ''ceph'' then
        (if gm_str cfg ''size'' \<noteq> [] then
           Inl (Errorf ''the \"size\" property does not apply to %s storage pools'' [driver])
         else Inr cfg)
      else if gm_str cfg ''size'' = [] then
        (case statfs of
           Inl e \<Rightarrow> Inl (Errorf ''couldn't statfs %s: %s'' [])
         | Inr (frsize, blocks) \<Rightarrow>
             Inr (gm_set cfg ''size'' (show_nat (unat (default_pool_size frsize blocks)) @ ''GB'')))
      else ebind (ParseByteSizeString (gm_str cfg ''size'')) (\<lambda>_. Inr cfg))"

definition thinpool_default :: "string \<Rightarrow> string gomap \<Rightarrow> string gomap" where
  "thinpool_default driver cfg =
     (if driver = ''lvm'' then
        (let u = gm_str cfg ''lvm.use_thinpool''; useThinpool = (if u \<noteq> [] then IsTrue u else True)
         in if useThinpool \<and> gm_str cfg ''lvm.thinpool_name'' = []
            then gm_set cfg ''lvm.thinpool_name'' ''APOLLOThinpool'' else cfg)
      else cfg)"

definition storagePoolFillDefault :: "(64 word \<times> 64 word) res \<Rightarrow> string \<Rightarrow> string \<Rightarrow> string gomap \<Rightarrow> string gomap res" where
  "storagePoolFillDefault statfs name driver cfg =
     ebind (size_default statfs driver cfg) (\<lambda>c1.
     let c2 = thinpool_default driver c1
     in ebind (if driver = ''lvm'' \<or> driver = ''ceph'' then size_checker (gm_str c2 ''volume.size'') else Inr ())
          (\<lambda>_. Inr c2))"

section \<open>Differences\<close>

definition diff_keys :: "string gomap \<Rightarrow> string gomap \<Rightarrow> string list" where
  "diff_keys old new =
     foldl (\<lambda>acc k. if gm_str old k \<noteq> gm_str new k \<and> \<not> StringInSlice k acc then acc @ [k] else acc) []
       (map fst old @ map fst new)"

definition storageConfigDiff :: "string gomap \<Rightarrow> string gomap \<Rightarrow> string list \<times> bool" where
  "storageConfigDiff old new =
     (let ks = diff_keys old new
      in if ks = [] then ([], False) else (ks, list_all (\<lambda>k. HasPrefix k ''user.'') ks))"

section \<open>Mount options\<close>

record mount_option =
  mo_capture :: bool
  mo_flag :: "64 word"

definition mo :: "bool \<Rightarrow> 64 word \<Rightarrow> mount_option" where
  "mo c f = \<lparr>mo_capture = c, mo_flag = f\<rparr>"

definition MS_RDONLY :: "64 word" where "MS_RDONLY = 1"
definition MS_NOSUID :: "64 word" where "MS_NOSUID = 2"
definition MS_NODEV :: "64 word" where "MS_NODEV = 4"
definition MS_NOEXEC :: "64 word" where "MS_NOEXEC = 8"
definition MS_SYNCHRONOUS :: "64 word" where "MS_SYNCHRONOUS = 16"
definition MS_REMOUNT :: "64 word" where "MS_REMOUNT = 32"
definition MS_MANDLOCK :: "64 word" where "MS_MANDLOCK = 64"
definition MS_DIRSYNC :: "64 word" where "MS_DIRSYNC = 128"
definition MS_NOATIME :: "64 word" where "MS_NOATIME = 1024"
definition MS_NODIRATIME :: "64 word" where "MS_NODIRATIME = 2048"
definition MS_BIND :: "64 word" where "MS_BIND = 4096"
definition MS_REC :: "64 word" where "MS_REC = 16384"
definition MS_RELATIME :: "64 word" where "MS_RELATIME = 2097152"
definition MS_STRICTATIME :: "64 word" where "MS_STRICTATIME = 16777216"
definition MS_LAZYTIME :: "64 word" where "MS_LAZYTIME = 33554432"

definition MountOptions :: "(string \<times> mount_option) list" where
  "MountOptions =
     [(''async'', mo False MS_SYNCHRONOUS), (''atime'', mo False MS_NOATIME), (''bind'', mo True MS_BIND),
      (''defaults'', mo True 0), (''dev'', mo False MS_NODEV), (''diratime'', mo False MS_NODIRATIME),
      (''dirsync'', mo True MS_DIRSYNC), (''exec'', mo False MS_NOEXEC), (''lazytime'', mo True MS_LAZYTIME),
      (''mand'', mo True MS_MANDLOCK), (''noatime'', mo True MS_NOATIME), (''nodev'', mo True MS_NODEV),
      (''nodiratime'', mo True MS_NODIRATIME), (''noexec'', mo True MS_NOEXEC), (''nomand'', mo False MS_MANDLOCK),
      (''norelatime'', mo False MS_RELATIME), (''nostrictatime'', mo False MS_STRICTATIME),
      (''nosuid'', mo True MS_NOSUID), (''rbind'', mo True (or MS_BIND MS_REC)), (''relatime'', mo True MS_RELATIME),
      (''remount'', mo True MS_REMOUNT), (''ro'', mo True MS_RDONLY), (''rw'', mo False MS_RDONLY),
      (''strictatime'', mo True MS_STRICTATIME), (''suid'', mo False MS_NOSUID), (''sync'', mo True MS_SYNCHRONOUS)]"

definition apply_option :: "mount_option \<Rightarrow> 64 word \<Rightarrow> 64 word" where
  "apply_option m flags = (if mo_capture m then or flags (mo_flag m) else and flags (not (mo_flag m)))"

text \<open>
  The loop removes a known option from the slice and steps back; \<open>tmp\<close> is the slice, \<open>i\<close> the index.
\<close>

function resolve_loop :: "string list \<Rightarrow> nat \<Rightarrow> 64 word \<Rightarrow> 64 word \<times> string list" where
  "resolve_loop tmp i flags =
     (if i < length tmp then
        (case map_of MountOptions (tmp ! i) of
           None \<Rightarrow> resolve_loop tmp (i + 1) flags
         | Some m \<Rightarrow> resolve_loop (take i tmp @ drop (i + 1) tmp) i (apply_option m flags))
      else (flags, tmp))"
  by pat_completeness auto
termination
  by (relation "measure (\<lambda>(tmp, i, flags). length tmp - i)") auto

definition apolloResolveMountoptions :: "string \<Rightarrow> 64 word \<times> string" where
  "apolloResolveMountoptions options =
     (let (flags, rest) = resolve_loop (Split (CHR '','') options) 0 0 in (flags, Join '','' rest))"

end
