(* ===== verification/StorageDir.thy ===== *)
theory StorageDir
  imports StorageConfig ContainerUpdate NetworkBridge
begin

text \<open>
  The storage driver interface (\<open>apollo/storage.go\<close>) and the directory driver
  (\<open>apollo/storage_dir.go\<close>, \<open>storage_shared.go\<close>). A driver is a record of operations on the
  storage object; the drivers that are not modelled are operations of the outside. \<open>Removed p\<close> is
  \<open>os.Remove\<close>, the other calls that change files are \<open>Called\<close> with the name of the function.
\<close>

section \<open>Files\<close>

definition os_RemoveAll :: "'o env_scheme \<Rightarrow> string \<Rightarrow> ('a world_scheme, unit) prog" where
  "os_RemoveAll orc p = perform orc (Called ''RemoveAll'' [p])"

definition os_Symlink :: "'o env_scheme \<Rightarrow> string \<Rightarrow> string \<Rightarrow> ('a world_scheme, unit) prog" where
  "os_Symlink orc target link = perform orc (Called ''Symlink'' [target, link])"

definition os_Chmod :: "'o env_scheme \<Rightarrow> string \<Rightarrow> string \<Rightarrow> ('a world_scheme, unit) prog" where
  "os_Chmod orc p mode = perform orc (Called ''Chmod'' [p, mode])"

definition os_MkdirAll :: "'o env_scheme \<Rightarrow> string \<Rightarrow> ('a world_scheme, unit) prog" where
  "os_MkdirAll orc p = perform orc (MadeDir p)"

definition os_Rename :: "'o env_scheme \<Rightarrow> string \<Rightarrow> string \<Rightarrow> ('a world_scheme, unit) prog" where
  "os_Rename orc a b = perform orc (Renamed a b)"

definition if_exists :: "'o env_scheme \<Rightarrow> string \<Rightarrow> ('a world_scheme, unit) prog \<Rightarrow> ('a world_scheme, unit) prog" where
  "if_exists orc p act = pbind (path_exists orc p) (\<lambda>ex. pwhen ex act)"

definition unless_exists :: "'o env_scheme \<Rightarrow> string \<Rightarrow> ('a world_scheme, unit) prog \<Rightarrow> ('a world_scheme, unit) prog" where
  "unless_exists orc p act = pbind (path_exists orc p) (\<lambda>ex. pwhen (\<not> ex) act)"

definition remove_existing :: "'o env_scheme \<Rightarrow> string \<Rightarrow> ('a world_scheme, unit) prog" where
  "remove_existing orc p = if_exists orc p (perform orc (Removed p))"

definition PathIsEmpty :: "'o hostenv_scheme \<Rightarrow> string \<Rightarrow> ('a world_scheme, bool) prog" where
  "PathIsEmpty orc p = pbind (ReadDir orc p) (\<lambda>ns. ret (ns = []))"

text \<open>The answer with its error dropped: \<open>false\<close>.\<close>

definition seems_empty :: "'o hostenv_scheme \<Rightarrow> string \<Rightarrow> ('a world_scheme, bool) prog" where
  "seems_empty orc p = pbind (attempt (PathIsEmpty orc p)) (\<lambda>r. ret (r = Inr True))"

section \<open>Mount points\<close>

definition createContainerMountpoint :: "'o env_scheme \<Rightarrow> string \<Rightarrow> string \<Rightarrow> bool \<Rightarrow> ('a world_scheme, unit) prog" where
  "createContainerMountpoint orc mountPoint symlink privileged =
     pbind (path_exists orc symlink) (\<lambda>linked.
     pbind (path_exists orc mountPoint) (\<lambda>made.
       seq_all
         [pwhen (\<not> made) (os_MkdirAll orc mountPoint),
          os_Chmod orc mountPoint (if privileged then ''0700'' else ''0755''),
          pwhen (\<not> linked) (os_Symlink orc mountPoint symlink)]))"

definition deleteContainerMountpoint :: "'o env_scheme \<Rightarrow> string \<Rightarrow> string \<Rightarrow> string \<Rightarrow> ('a world_scheme, unit) prog" where
  "deleteContainerMountpoint orc mountPoint symlink typeName =
     seq_all
       [remove_existing orc symlink, remove_existing orc mountPoint,
        pwhen (typeName \<noteq> []) (remove_existing orc (symlink @ ''.'' @ typeName))]"

definition renameContainerMountpoint :: "'o env_scheme \<Rightarrow> string \<Rightarrow> string \<Rightarrow> string \<Rightarrow> string \<Rightarrow> ('a world_scheme, unit) prog" where
  "renameContainerMountpoint orc oldMount oldLink newMount newLink =
     seq_all
       [if_exists orc oldMount (os_Rename orc oldMount newMount), remove_existing orc oldLink,
        os_Symlink orc newMount newLink]"

definition createSnapshotMountpoint :: "'o env_scheme \<Rightarrow> string \<Rightarrow> string \<Rightarrow> string \<Rightarrow> ('a world_scheme, unit) prog" where
  "createSnapshotMountpoint orc mountPoint target symlink =
     pbind (path_exists orc mountPoint) (\<lambda>made.
     pbind (path_exists orc symlink) (\<lambda>linked.
       seq_all
         [pwhen (\<not> made) (os_MkdirAll orc mountPoint),
          pwhen (\<not> linked) (os_Symlink orc target symlink)]))"

definition deleteSnapshotMountpoint :: "'o env_scheme \<Rightarrow> string \<Rightarrow> string \<Rightarrow> string \<Rightarrow> ('a world_scheme, unit) prog" where
  "deleteSnapshotMountpoint orc mountPoint target symlink =
     pbind (remove_existing orc mountPoint) (\<lambda>_.
     pbind (path_exists orc target) (\<lambda>ex.
     pbind (if ex then pbind (attempt (perform orc (Removed target))) (\<lambda>r. ret (is_ok r)) else ret False) (\<lambda>couldRemove.
       pwhen couldRemove (remove_existing orc symlink))))"

section \<open>The storage object and its driver\<close>

record store =
  so_type :: storage_type
  so_poolID :: int
  so_pool :: pool
  so_volume :: volume

definition pool_name :: "store \<Rightarrow> string" where
  "pool_name s = sp_Name (so_pool s)"

definition volume_name :: "store \<Rightarrow> string" where
  "volume_name s = sv_Name (so_volume s)"

definition pool_key :: "store \<Rightarrow> string \<Rightarrow> string" where
  "pool_key s k = gm_str (sp_Config (so_pool s)) k"

definition set_pool_key :: "string \<Rightarrow> string \<Rightarrow> store \<Rightarrow> store" where
  "set_pool_key k v s = s\<lparr>so_pool := (so_pool s)\<lparr>sp_Config := gm_set (sp_Config (so_pool s)) k v\<rparr>\<rparr>"

record 'w driver =
  dr_PoolInit :: "store \<Rightarrow> ('w, unit) prog"
  dr_PoolCheck :: "store \<Rightarrow> ('w, unit) prog"
  dr_PoolCreate :: "store \<Rightarrow> ('w, store) prog"
  dr_PoolDelete :: "store \<Rightarrow> ('w, unit) prog"
  dr_PoolUpdate :: "store \<Rightarrow> string gomap \<Rightarrow> string list \<Rightarrow> ('w, unit) prog"
  dr_VolumeCreate :: "store \<Rightarrow> ('w, unit) prog"
  dr_VolumeDelete :: "store \<Rightarrow> ('w, unit) prog"
  dr_VolumeMount :: "store \<Rightarrow> ('w, bool) prog"
  dr_VolumeUmount :: "store \<Rightarrow> ('w, bool) prog"
  dr_VolumeUpdate :: "store \<Rightarrow> string gomap \<Rightarrow> string list \<Rightarrow> ('w, unit) prog"
  dr_ImageDelete :: "store \<Rightarrow> string \<Rightarrow> ('w, unit) prog"
  dr_ContainerCreate :: "store \<Rightarrow> ctr \<Rightarrow> ('w, unit) prog"
  dr_ContainerCreateFromImage :: "store \<Rightarrow> ctr \<Rightarrow> string \<Rightarrow> ('w, unit) prog"
  dr_ContainerDelete :: "store \<Rightarrow> ctr \<Rightarrow> ('w, unit) prog"
  dr_ContainerRename :: "store \<Rightarrow> ctr \<Rightarrow> string \<Rightarrow> ('w, unit) prog"
  dr_SnapshotDelete :: "store \<Rightarrow> ctr \<Rightarrow> ('w, unit) prog"
  dr_SnapshotRename :: "store \<Rightarrow> ctr \<Rightarrow> string \<Rightarrow> ('w, unit) prog"

text \<open>
  The daemon with what the storage code asks of the outside: flags of the process, the sizes of a
  file system (fragment size, blocks, free blocks, block size), the configuration a driver leaves
  in the pool it created, and whether a mount was the driver's.
\<close>

record sdaemon = daemon +
  sd_debug :: bool
  sd_userns :: bool
  sd_statfs :: "event list \<Rightarrow> string \<Rightarrow> (64 word \<times> 64 word \<times> 64 word \<times> 64 word) res"
  sd_left :: "event list \<Rightarrow> string \<Rightarrow> string gomap"
  sd_mounts :: "event list \<Rightarrow> string \<Rightarrow> bool"

definition drive :: "'o env_scheme \<Rightarrow> store \<Rightarrow> string \<Rightarrow> string list \<Rightarrow> ('a world_scheme, unit) prog" where
  "drive orc s op args = perform orc (Called op (sp_Driver (so_pool s) # pool_name s # volume_name s # args))"

definition drive_mount :: "'o sdaemon_scheme \<Rightarrow> store \<Rightarrow> string \<Rightarrow> ('a world_scheme, bool) prog" where
  "drive_mount orc s op = pbind (drive orc s op []) (\<lambda>_. ask (\<lambda>h. sd_mounts orc h (pool_name s)))"

definition outside_driver :: "'o sdaemon_scheme \<Rightarrow> 'a dbworld_scheme driver" where
  "outside_driver orc =
     \<lparr>dr_PoolInit = (\<lambda>s. drive orc s ''StoragePoolInit'' []),
      dr_PoolCheck = (\<lambda>s. drive orc s ''StoragePoolCheck'' []),
      dr_PoolCreate = (\<lambda>s. pbind (drive orc s ''StoragePoolCreate'' []) (\<lambda>_.
        pbind (ask (\<lambda>h. sd_left orc h (pool_name s))) (\<lambda>cfg.
          ret (s\<lparr>so_pool := (so_pool s)\<lparr>sp_Config := cfg\<rparr>\<rparr>)))),
      dr_PoolDelete = (\<lambda>s. drive orc s ''StoragePoolDelete'' []),
      dr_PoolUpdate = (\<lambda>s cfg ks. drive orc s ''StoragePoolUpdate'' ks),
      dr_VolumeCreate = (\<lambda>s. drive orc s ''StoragePoolVolumeCreate'' []),
      dr_VolumeDelete = (\<lambda>s. drive orc s ''StoragePoolVolumeDelete'' []),
      dr_VolumeMount = (\<lambda>s. drive_mount orc s ''StoragePoolVolumeMount''),
      dr_VolumeUmount = (\<lambda>s. drive_mount orc s ''StoragePoolVolumeUmount''),
      dr_VolumeUpdate = (\<lambda>s cfg ks. drive orc s ''StoragePoolVolumeUpdate'' ks),
      dr_ImageDelete = (\<lambda>s fp. drive orc s ''ImageDelete'' [fp]),
      dr_ContainerCreate = (\<lambda>s c. drive orc s ''ContainerCreate'' [ct_name c]),
      dr_ContainerCreateFromImage = (\<lambda>s c fp. drive orc s ''ContainerCreateFromImage'' [ct_name c, fp]),
      dr_ContainerDelete = (\<lambda>s c. drive orc s ''ContainerDelete'' [ct_name c]),
      dr_ContainerRename = (\<lambda>s c new. drive orc s ''ContainerRename'' [ct_name c, new]),
      dr_SnapshotDelete = (\<lambda>s c. drive orc s ''ContainerSnapshotDelete'' [ct_name c]),
      dr_SnapshotRename = (\<lambda>s c new. drive orc s ''ContainerSnapshotRename'' [ct_name c, new])\<rparr>"

section \<open>Id maps of a container\<close>

definition idmapsetFromString :: "'o daemon_scheme \<Rightarrow> string \<Rightarrow> idmap_set option res" where
  "idmapsetFromString orc j = ebind (dm_parse orc j) (\<lambda>m. Inr (if m = [] then None else Some m))"

definition idmapsetToJSON :: "'o daemon_scheme \<Rightarrow> idmap_set \<Rightarrow> string" where
  "idmapsetToJSON orc m = dm_json orc m"

definition NextIdmapSet :: "'o daemon_scheme \<Rightarrow> ctr \<Rightarrow> idmap_set option res" where
  "NextIdmapSet orc c =
     (let j = gm_str (ct_localConfig c) ''volatile.idmap.next''
      in if j \<noteq> [] then idmapsetFromString orc j
         else if ctr_IsPrivileged c then Inr None
         else case dm_idmap orc of
                Some m \<Rightarrow> Inr (Some m)
              | None \<Rightarrow> Inl (Errorf ''Unable to determine the idmap'' []))"

definition IdmapSet :: "'o daemon_scheme \<Rightarrow> ctr \<Rightarrow> idmap_set option res" where
  "IdmapSet orc c = (if ctr_IsPrivileged c then Inr None else NextIdmapSet orc c)"

definition LastIdmapSet :: "'o daemon_scheme \<Rightarrow> ctr \<Rightarrow> idmap_set option res" where
  "LastIdmapSet orc c =
     (let j = gm_str (ct_localConfig c) ''volatile.last_state.idmap''
      in if j = [] then IdmapSet orc c else idmapsetFromString orc j)"

definition ctr_RootfsPath :: "'o env_scheme \<Rightarrow> ctr \<Rightarrow> string" where
  "ctr_RootfsPath orc c = ctr_Path orc c @ ''/rootfs''"

definition setUnprivUserACL :: "'o daemon_scheme \<Rightarrow> ctr \<Rightarrow> string \<Rightarrow> ('a world_scheme, unit) prog" where
  "setUnprivUserACL orc c destPath =
     pbind (of_res (IdmapSet orc c)) (\<lambda>idmapset.
       case idmapset of
         None \<Rightarrow> ret ()
       | Some m \<Rightarrow>
           let uid = fst (ShiftIntoNs m 0 0)
           in if uid = -1 then fail (Errorf ''Container doesn't have a uid 0 in its map'' [])
              else if uid = 0 then ret ()
              else pbind (attempt (run_cmd orc [''setfacl'', ''-m'', show_int uid @ '':rx'', destPath])) (\<lambda>r.
                     case r of
                       Inr _ \<Rightarrow> ret ()
                     | Inl _ \<Rightarrow> run_cmd orc [''chmod'', ''+x'', destPath]))"

definition shiftRootfs :: "'o daemon_scheme \<Rightarrow> ctr \<Rightarrow> ('a world_scheme, unit) prog" where
  "shiftRootfs orc c =
     pbind (of_res (IdmapSet orc c)) (\<lambda>idmapset.
       case idmapset of
         None \<Rightarrow> fail (Errorf ''IdmapSet of container '%s' is nil'' [ct_name c])
       | Some m \<Rightarrow>
           seq_all [perform orc (Called ''ShiftRootfs'' [ctr_RootfsPath orc c, dm_json orc m]),
                    setUnprivUserACL orc c (ctr_Path orc c)])"

section \<open>Image volumes\<close>

definition deleteImageDbPoolVolume :: "'o env_scheme \<Rightarrow> store \<Rightarrow> string \<Rightarrow> ('a dbworld_scheme, unit) prog" where
  "deleteImageDbPoolVolume orc s fingerprint =
     StoragePoolVolumeDelete orc fingerprint StoragePoolVolumeTypeImage (so_poolID s)"

definition createImageDbPoolVolume :: "'o env_scheme \<Rightarrow> store \<Rightarrow> string \<Rightarrow> ('a dbworld_scheme, unit) prog" where
  "createImageDbPoolVolume orc s fingerprint =
     pbind (of_res (storageVolumeFillDefault fingerprint [] (so_pool s))) (\<lambda>cfg.
     pbind (attempt (StoragePoolVolumeCreate orc fingerprint [] StoragePoolVolumeTypeImage (so_poolID s) cfg)) (\<lambda>r.
       case r of
         Inr _ \<Rightarrow> ret ()
       | Inl e \<Rightarrow> pbind (ignoring (deleteImageDbPoolVolume orc s fingerprint)) (\<lambda>_. fail e)))"

section \<open>Unpacking and copying\<close>

definition rsyncLocalCopy :: "'o sdaemon_scheme \<Rightarrow> string \<Rightarrow> string \<Rightarrow> string \<Rightarrow> ('a world_scheme, string \<times> go_error option) prog" where
  "rsyncLocalCopy orc source dest bwlimit =
     pbind (attempt (os_MkdirAll orc dest)) (\<lambda>r.
       case r of
         Inl e \<Rightarrow> ret ([], Some e)
       | Inr _ \<Rightarrow>
           pbind (of_res (AddSlash source)) (\<lambda>src.
           run_output orc
             [''rsync'', ''-a'', ''-HAX'', ''--sparse'', ''--devices'', ''--delete'', ''--checksum'', ''--numeric-ids'',
              ''--bwlimit'', if bwlimit = [] then ''0'' else bwlimit,
              if sd_debug orc then ''-vi'' else ''-q'', src, dest]))"

text \<open>The copy with its error wrapped by the caller.\<close>

definition rsync_container :: "'o sdaemon_scheme \<Rightarrow> string \<Rightarrow> string \<Rightarrow> string \<Rightarrow> ('a world_scheme, unit) prog" where
  "rsync_container orc source dest bwlimit =
     pbind (rsyncLocalCopy orc source dest bwlimit) (\<lambda>(out, err).
       if err = None then ret () else fail (Errorf ''failed to rsync container: %s: %s'' [out]))"

definition file_header :: "string \<Rightarrow> string" where
  "file_header content = take 263 (content @ replicate 263 (CHR 0x00))"

definition slice :: "nat \<Rightarrow> nat \<Rightarrow> 'a list \<Rightarrow> 'a list" where
  "slice i j xs = take (j - i) (drop i xs)"

definition compression_of :: "string \<Rightarrow> (string list \<times> string) res" where
  "compression_of h =
     (if slice 0 2 h = ''BZ'' then Inr ([''-jxf''], ''.tar.bz2'')
      else if slice 0 2 h = [CHR 0x1F, CHR 0x8B] then Inr ([''-zxf''], ''.tar.gz'')
      else if slice 1 5 h = ''7zXZ'' \<and> h ! 0 = CHR 0xFD then Inr ([''-Jxf''], ''.tar.xz'')
      else if slice 1 5 h = ''7zXZ'' \<and> h ! 0 \<noteq> CHR 0xFD then Inr ([''--lzma'', ''-xf''], ''.tar.lzma'')
      else if slice 0 3 h = [CHR 0x5D, CHR 0x00, CHR 0x00] then Inr ([''--lzma'', ''-xf''], ''.tar.lzma'')
      else if slice 257 262 h = ''ustar'' then Inr ([''-xf''], ''.tar'')
      else if slice 0 4 h = ''hsqs'' then Inr ([[]], ''.squashfs'')
      else Inl (Errorf ''Unsupported compression'' []))"

text \<open>Reading an empty file is an error (\<open>io.EOF\<close>).\<close>

definition detectCompression :: "'o env_scheme \<Rightarrow> string \<Rightarrow> ('a world_scheme, string list \<times> string) prog" where
  "detectCompression orc fname =
     pbind (ReadFile orc fname) (\<lambda>content.
       if content = [] then fail (OsError ''EOF'') else of_res (compression_of (file_header content)))"

definition unpack_failed :: "'o sdaemon_scheme \<Rightarrow> string \<Rightarrow> storage_type \<Rightarrow> string \<Rightarrow> ('a world_scheme, unit) prog" where
  "unpack_failed orc path sType out =
     pbind (ask (\<lambda>h. sd_statfs orc h path)) (\<lambda>fs.
       case fs of
         Inl e \<Rightarrow> fail e
       | Inr (frsize, blocks, bfree, bsize) \<Rightarrow>
           if sint bfree < sint (2 * bsize) then
             fail (Errorf (if sType = storageTypeLvm
                then ''Unable to unpack image, run out of disk space (consider increasing your pool's volume.size).''
                else ''Unable to unpack image, run out of disk space.'') [])
           else fail (Errorf ''Unpack failed, %s.  %s'' [hd (Split (CHR 10) out)]))"

definition total_memory :: "'o env_scheme \<Rightarrow> ('a world_scheme, int res) prog" where
  "total_memory orc =
     pbind (attempt (ReadFile orc ''/proc/meminfo'')) (\<lambda>r.
       ret (ebind r (\<lambda>content. deviceTotalMemory (Host.read_lines content))))"

definition unpack_command :: "'o sdaemon_scheme \<Rightarrow> string \<Rightarrow> string \<Rightarrow> string list \<Rightarrow> string \<Rightarrow> ('a world_scheme, string list) prog" where
  "unpack_command orc fl path extractArgs extension =
     (if HasPrefix extension ''.tar'' then
        ret (''tar'' #
          (if sd_userns orc then [''--wildcards'', ''--exclude=dev/*'', ''--exclude=./dev/*'', ''--exclude=rootfs/dev/*'',
                                ''--exclude=rootfs/./dev/*''] else []) @
          [''-C'', path, ''--numeric-owner''] @ extractArgs @ [fl])
      else if HasPrefix extension ''.squashfs'' then
        pbind (total_memory orc) (\<lambda>r.
          ret ([''unsquashfs'', ''-f'', ''-d'', path, ''-n''] @
            (case r of
               Inr bytes \<Rightarrow>
                 let mem = go_div (go_div (go_div bytes 1024) 1024) 10
                 in if mem < 256 then [''-da'', show_int mem, ''-fr'', show_int mem, ''-p'', ''1''] else []
             | Inl _ \<Rightarrow> []) @ [fl]))
      else fail (Errorf ''Unsupported image format: %s'' [extension]))"

definition unpack :: "'o sdaemon_scheme \<Rightarrow> string \<Rightarrow> string \<Rightarrow> storage_type \<Rightarrow> ('a world_scheme, unit) prog" where
  "unpack orc fl path sType =
     pbind (detectCompression orc fl) (\<lambda>(extractArgs, extension).
     pbind (unpack_command orc fl path extractArgs extension) (\<lambda>cmd.
     pbind (run_output orc cmd) (\<lambda>(out, err).
       if err = None then ret () else unpack_failed orc path sType out)))"

definition unpackImage :: "'o sdaemon_scheme \<Rightarrow> string \<Rightarrow> string \<Rightarrow> storage_type \<Rightarrow> ('a world_scheme, unit) prog" where
  "unpackImage orc fname dest sType =
     pbind (unpack orc fname dest sType) (\<lambda>_.
     let rootfs = dest @ ''/rootfs''
     in pbind (path_exists orc (fname @ ''.rootfs'')) (\<lambda>split.
        pbind (if split
               then pbind (attempt (os_MkdirAll orc rootfs)) (\<lambda>r.
                      case r of
                        Inl _ \<Rightarrow> fail (Errorf ''Error creating rootfs directory'' [])
                      | Inr _ \<Rightarrow> unpack orc (fname @ ''.rootfs'') rootfs sType)
               else ret ()) (\<lambda>_.
        pbind (path_exists orc rootfs) (\<lambda>ex.
          if ex then ret () else fail (Errorf ''Image is missing a rootfs: %s'' [fname])))))"

section \<open>The directory driver: pools and custom volumes\<close>

definition no_source :: go_error where
  "no_source = Errorf ''no \"source\" property found for the storage pool'' []"

definition need_source :: "store \<Rightarrow> ('w, 'r) prog \<Rightarrow> ('w, 'r) prog" where
  "need_source s p = (if pool_key s ''source'' = [] then fail no_source else p)"

definition dir_source :: "string \<Rightarrow> store \<Rightarrow> store res" where
  "dir_source var s =
     (let source = pool_key s ''source''; s1 = set_pool_key ''volatile.initial_source'' source s;
          mnt = getStoragePoolMountPoint var (pool_name s)
      in if source = [] then Inr (set_pool_key ''source'' (path_Join [path_Join [var, ''storage-pools''], pool_name s]) s1)
         else if HasPrefix (path_Clean source) (path_Join [var]) \<and> path_Clean source \<noteq> mnt then
           Inl (Errorf ''DIR storage pool requests in APOLLO directory \"%s\" are only valid under \"%s\" (e.g. source=%s)'' [path_Join [var], path_Join [var, ''storage-pools''], mnt])
         else Inr s1)"

definition dir_link :: "'o env_scheme \<Rightarrow> store \<Rightarrow> ('a world_scheme, unit) prog" where
  "dir_link orc s =
     pwhen (\<not> HasPrefix (pool_key s ''source'') (path_Join [o_var orc, ''storage-pools'']))
       (os_Symlink orc (pool_key s ''source'') (getStoragePoolMountPoint (o_var orc) (pool_name s)))"

text \<open>The directory it made is removed again when the link cannot be created.\<close>

definition dir_StoragePoolCreate :: "'o env_scheme \<Rightarrow> store \<Rightarrow> ('a world_scheme, store) prog" where
  "dir_StoragePoolCreate orc s0 =
     pbind (of_res (dir_source (o_var orc) s0)) (\<lambda>s.
     let source = pool_key s ''source''
     in pbind (path_exists orc source) (\<lambda>ex.
        pbind (if ex then dir_link orc s
               else pbind (os_MkdirAll orc source) (\<lambda>_.
                      undo_with (ignoring (perform orc (Removed source))) (dir_link orc s))) (\<lambda>_.
        ret s)))"

definition dir_StoragePoolDelete :: "'o env_scheme \<Rightarrow> store \<Rightarrow> ('a world_scheme, unit) prog" where
  "dir_StoragePoolDelete orc s =
     need_source s
       (let source = pool_key s ''source''; link = getStoragePoolMountPoint (o_var orc) (pool_name s)
        in seq_all
             [if_exists orc source (os_RemoveAll orc source),
              pwhen (\<not> HasPrefix source (path_Join [o_var orc, ''storage-pools''])) (remove_existing orc link)])"

definition dir_StoragePoolUpdate :: "store \<Rightarrow> string gomap \<Rightarrow> string list \<Rightarrow> ('w, unit) prog" where
  "dir_StoragePoolUpdate s cfg ks =
     (if StringInSlice ''rsync.bwlimit'' ks then ret ()
      else fail (Errorf ''storage property cannot be changed'' []))"

definition volume_path :: "'o env_scheme \<Rightarrow> store \<Rightarrow> string" where
  "volume_path orc s = getStoragePoolVolumeMountPoint (o_var orc) (pool_name s) (volume_name s)"

definition dir_StoragePoolVolumeCreate :: "'o env_scheme \<Rightarrow> store \<Rightarrow> ('a world_scheme, unit) prog" where
  "dir_StoragePoolVolumeCreate orc s = need_source s (os_MkdirAll orc (volume_path orc s))"

text \<open>A volume without a directory keeps its row; a row that cannot be deleted is only logged.\<close>

definition dir_StoragePoolVolumeDelete :: "'o env_scheme \<Rightarrow> store \<Rightarrow> ('a dbworld_scheme, unit) prog" where
  "dir_StoragePoolVolumeDelete orc s =
     need_source s
       (pbind (path_exists orc (volume_path orc s)) (\<lambda>ex.
          if \<not> ex then ret ()
          else seq_all
            [os_RemoveAll orc (volume_path orc s),
             ignoring (StoragePoolVolumeDelete orc (volume_name s) StoragePoolVolumeTypeCustom (so_poolID s))]))"

definition dir_StoragePoolVolumeUpdate :: "store \<Rightarrow> string gomap \<Rightarrow> string list \<Rightarrow> ('w, unit) prog" where
  "dir_StoragePoolVolumeUpdate s cfg ks = fail (Errorf ''dir storage properties cannot be changed'' [])"

text \<open>Mounting is nothing to do, and always done.\<close>

definition dir_mount :: "store \<Rightarrow> ('w, bool) prog" where
  "dir_mount s = ret True"

definition dir_StorageEntitySetQuota :: "int \<Rightarrow> int \<Rightarrow> unit res" where
  "dir_StorageEntitySetQuota volumeType v = Inl (Errorf ''the directory container backend doesn't support quotas'' [])"

section \<open>The directory driver: containers\<close>

definition container_mount :: "'o env_scheme \<Rightarrow> store \<Rightarrow> string \<Rightarrow> string" where
  "container_mount orc s name = getContainerMountPoint (o_var orc) (pool_name s) name"

definition snapshot_mount :: "'o env_scheme \<Rightarrow> store \<Rightarrow> string \<Rightarrow> string" where
  "snapshot_mount orc s name = getSnapshotMountPoint (o_var orc) (pool_name s) name"

definition snapshots_link :: "'o env_scheme \<Rightarrow> string \<Rightarrow> string" where
  "snapshots_link orc name = path_Join [o_var orc, ''snapshots'', name]"

definition containers_link :: "'o env_scheme \<Rightarrow> string \<Rightarrow> string" where
  "containers_link orc name = path_Join [o_var orc, ''containers'', name]"

definition TemplateApply :: "'o env_scheme \<Rightarrow> ctr \<Rightarrow> string \<Rightarrow> ('a world_scheme, unit) prog" where
  "TemplateApply orc c trigger = perform orc (Called ''TemplateApply'' [ct_name c, trigger])"

definition dir_ContainerStorageReady :: "'o hostenv_scheme \<Rightarrow> store \<Rightarrow> string \<Rightarrow> ('a world_scheme, bool) prog" where
  "dir_ContainerStorageReady orc s name =
     pbind (seems_empty orc (container_mount orc s name)) (\<lambda>ok. ret (\<not> ok))"

definition dir_ContainerCreate :: "'o env_scheme \<Rightarrow> store \<Rightarrow> ctr \<Rightarrow> ('a world_scheme, unit) prog" where
  "dir_ContainerCreate orc s c =
     need_source s
       (let mnt = container_mount orc s (ct_name c)
        in pbind (createContainerMountpoint orc mnt (ctr_Path orc c) (ctr_IsPrivileged c)) (\<lambda>_.
           undo_with (ignoring (deleteContainerMountpoint orc mnt (ctr_Path orc c) ''dir''))
             (TemplateApply orc c ''create'')))"

definition remove_tree :: "'o env_scheme \<Rightarrow> string \<Rightarrow> ('a world_scheme, unit) prog" where
  "remove_tree orc p =
     pbind (attempt (os_RemoveAll orc p)) (\<lambda>r.
       case r of
         Inr _ \<Rightarrow> ret ()
       | Inl _ \<Rightarrow>
           pbind (run_output orc [''rm'', ''-Rf'', p]) (\<lambda>(out, err).
             if err = None then ret () else fail (Errorf ''error removing %s: %s'' [p, out])))"

definition dir_ContainerDelete :: "'o env_scheme \<Rightarrow> store \<Rightarrow> ctr \<Rightarrow> ('a world_scheme, unit) prog" where
  "dir_ContainerDelete orc s c =
     need_source s
       (let mnt = container_mount orc s (ct_name c); snaps = snapshot_mount orc s (ct_name c)
        in seq_all
             [if_exists orc mnt (remove_tree orc mnt),
              deleteContainerMountpoint orc mnt (ctr_Path orc c) ''dir'',
              if_exists orc snaps (os_RemoveAll orc snaps),
              remove_existing orc (snapshots_link orc (ct_name c))])"

definition dir_ContainerCreateFromImage :: "'o sdaemon_scheme \<Rightarrow> store \<Rightarrow> ctr \<Rightarrow> string \<Rightarrow> ('a world_scheme, unit) prog" where
  "dir_ContainerCreateFromImage orc s c fingerprint =
     need_source s
       (let mnt = container_mount orc s (ct_name c)
        in pbind (createContainerMountpoint orc mnt (ctr_Path orc c) (ctr_IsPrivileged c)) (\<lambda>_.
           undo_with (ignoring (dir_ContainerDelete orc s c))
             (seq_all
               [unpackImage orc (path_Join [o_var orc, ''images'', fingerprint]) mnt storageTypeDir,
                pwhen (\<not> ctr_IsPrivileged c) (shiftRootfs orc c),
                TemplateApply orc c ''create''])))"

definition copyContainer :: "'o sdaemon_scheme \<Rightarrow> store \<Rightarrow> ctr \<Rightarrow> ctr \<Rightarrow> ('a world_scheme, unit) prog" where
  "copyContainer orc s target source =
     (let from = (if ctr_IsSnapshot source then snapshot_mount else container_mount) orc s (ct_name source);
          into = container_mount orc s (ct_name target)
      in seq_all
           [createContainerMountpoint orc into (ctr_Path orc target) (ctr_IsPrivileged target),
            rsync_container orc from into (pool_key s ''rsync.bwlimit''),
            setUnprivUserACL orc source into,
            TemplateApply orc target ''copy''])"

definition copySnapshot :: "'o sdaemon_scheme \<Rightarrow> store \<Rightarrow> ctr \<Rightarrow> ctr \<Rightarrow> ('a world_scheme, unit) prog" where
  "copySnapshot orc s target source =
     (let parent = fst (containerGetParentAndSnapshotName (ct_name target))
      in seq_all
           [createSnapshotMountpoint orc (snapshot_mount orc s parent)
              (path_Join [o_var orc, ''storage-pools'', pool_name s, ''snapshots'', parent]) (snapshots_link orc parent),
            rsync_container orc (snapshot_mount orc s (ct_name source)) (snapshot_mount orc s (ct_name target))
              (pool_key s ''rsync.bwlimit'')])"

fun copy_snapshots :: "'o sdaemon_scheme \<Rightarrow> store \<Rightarrow> ctr \<Rightarrow> ctr list \<Rightarrow> ('a dbworld_scheme, unit) prog" where
  "copy_snapshots orc s target [] = ret ()"
| "copy_snapshots orc s target (snap # snaps) =
     pbind (containerLoadByName orc (ct_name snap)) (\<lambda>sourceSnapshot.
     pbind (containerLoadByName orc
              (ct_name target @ ''/'' @ fst (snd (containerGetParentAndSnapshotName (ct_name snap))))) (\<lambda>targetSnapshot.
     pbind (copySnapshot orc s targetSnapshot sourceSnapshot) (\<lambda>_. copy_snapshots orc s target snaps)))"

text \<open>\<open>StorageStart\<close> of the source, whether it mounted, and the names of the two pools are the outside's.\<close>

definition StorageStart :: "'o daemon_scheme \<Rightarrow> ctr \<Rightarrow> ('a world_scheme, bool) prog" where
  "StorageStart orc c =
     pbind (perform orc (Called ''StorageStart'' [ct_name c])) (\<lambda>_. ask (\<lambda>h. dm_ours orc h (ct_name c)))"

definition with_started :: "'o daemon_scheme \<Rightarrow> ctr \<Rightarrow> ('a world_scheme, unit) prog \<Rightarrow> ('a world_scheme, unit) prog" where
  "with_started orc c p =
     pbind (StorageStart orc c) (\<lambda>ours.
       if ours then deferred (ignoring (perform orc (Called ''StorageStop'' [ct_name c]))) p else p)"

definition dir_ContainerCopy :: "'o sdaemon_scheme \<Rightarrow> store \<Rightarrow> ctr \<Rightarrow> string \<Rightarrow> ctr \<Rightarrow> string \<Rightarrow> bool \<Rightarrow> ('a dbworld_scheme, unit) prog" where
  "dir_ContainerCopy orc s target targetPool source sourcePool containerOnly =
     with_started orc source
       (if sourcePool \<noteq> targetPool then
          fail (Errorf ''copying containers between different storage pools is not implemented'' [])
        else pbind (copyContainer orc s target source) (\<lambda>_.
          if containerOnly then ret ()
          else pbind (Snapshots orc (ct_name source)) (copy_snapshots orc s target)))"

definition dir_ContainerRename :: "'o env_scheme \<Rightarrow> store \<Rightarrow> ctr \<Rightarrow> string \<Rightarrow> ('a world_scheme, unit) prog" where
  "dir_ContainerRename orc s c newName =
     need_source s
       (let oldSnaps = snapshot_mount orc s (ct_name c); newSnaps = snapshot_mount orc s newName;
            oldLink = snapshots_link orc (ct_name c)
        in seq_all
             [renameContainerMountpoint orc (container_mount orc s (ct_name c)) (containers_link orc (ct_name c))
                (container_mount orc s newName) (containers_link orc newName),
              if_exists orc oldSnaps (os_Rename orc oldSnaps newSnaps),
              if_exists orc oldLink
                (seq_all [perform orc (Removed oldLink), os_Symlink orc newSnaps (snapshots_link orc newName)])])"

definition dir_ContainerRestore :: "'o sdaemon_scheme \<Rightarrow> store \<Rightarrow> ctr \<Rightarrow> ctr \<Rightarrow> ('a world_scheme, unit) prog" where
  "dir_ContainerRestore orc s c source =
     seq_all
       [rsync_container orc (ctr_Path orc source) (ctr_Path orc c) (pool_key s ''rsync.bwlimit''),
        setUnprivUserACL orc source (ctr_Path orc c)]"

definition link_snapshots :: "'o env_scheme \<Rightarrow> string \<Rightarrow> string \<Rightarrow> ('a world_scheme, unit) prog" where
  "link_snapshots orc name target = unless_exists orc (snapshots_link orc name) (os_Symlink orc target (snapshots_link orc name))"

definition snapshot_rsync :: "'o sdaemon_scheme \<Rightarrow> store \<Rightarrow> ctr \<Rightarrow> string \<Rightarrow> string \<Rightarrow> ('a world_scheme, unit) prog" where
  "snapshot_rsync orc s snap from into =
     pbind (rsyncLocalCopy orc from into (pool_key s ''rsync.bwlimit'')) (\<lambda>(out, err).
       if err = None then ret ()
       else pbind (ignoring (dir_ContainerDelete orc s snap)) (\<lambda>_. fail (Errorf ''failed to rsync: %s: %s'' [out])))"

text \<open>A running source is copied again while frozen, unless freezing fails.\<close>

definition dir_ContainerSnapshotCreate :: "'o sdaemon_scheme \<Rightarrow> store \<Rightarrow> ctr \<Rightarrow> ctr \<Rightarrow> string \<Rightarrow> ('a dbworld_scheme, unit) prog" where
  "dir_ContainerSnapshotCreate orc s snap source sourcePool =
     (let into = snapshot_mount orc s (ct_name snap);
          from = getContainerMountPoint (o_var orc) sourcePool (ct_name source);
          copy = snapshot_rsync orc s snap from into;
          link = link_snapshots orc (ct_name source) (getSnapshotMountPoint (o_var orc) sourcePool (ct_name source))
      in pbind (os_MkdirAll orc into) (\<lambda>_.
         with_started orc source
           (pbind copy (\<lambda>_.
            pbind (on_container source (ctr_IsRunning orc)) (\<lambda>running.
              if \<not> running then link
              else pbind (attempt (perform orc (Called ''Freeze'' [ct_name source]))) (\<lambda>r.
                     case r of
                       Inl _ \<Rightarrow> link
                     | Inr _ \<Rightarrow> deferred (ignoring (perform orc (Called ''Unfreeze'' [ct_name source])))
                                 (pbind copy (\<lambda>_. link))))))))"

definition dir_ContainerSnapshotDelete :: "'o hostenv_scheme \<Rightarrow> store \<Rightarrow> ctr \<Rightarrow> ('a world_scheme, unit) prog" where
  "dir_ContainerSnapshotDelete orc s snap =
     need_source s
       (let mnt = snapshot_mount orc s (ct_name snap);
            parent = fst (containerGetParentAndSnapshotName (ct_name snap)); dir = snapshot_mount orc s parent
        in pbind (if_exists orc mnt (os_RemoveAll orc mnt)) (\<lambda>_.
           pbind (seems_empty orc dir) (\<lambda>emp.
             pwhen emp (seq_all [perform orc (Removed dir), remove_existing orc (snapshots_link orc parent)]))))"

definition dir_ContainerSnapshotCreateEmpty :: "'o hostenv_scheme \<Rightarrow> store \<Rightarrow> ctr \<Rightarrow> ('a world_scheme, unit) prog" where
  "dir_ContainerSnapshotCreateEmpty orc s snap =
     (let parent = fst (containerGetParentAndSnapshotName (ct_name snap))
      in pbind (os_MkdirAll orc (snapshot_mount orc s (ct_name snap))) (\<lambda>_.
         undo_with (ignoring (dir_ContainerSnapshotDelete orc s snap))
           (link_snapshots orc parent (snapshot_mount orc s parent))))"

definition dir_ContainerSnapshotRename :: "'o env_scheme \<Rightarrow> store \<Rightarrow> ctr \<Rightarrow> string \<Rightarrow> ('a world_scheme, unit) prog" where
  "dir_ContainerSnapshotRename orc s snap newName =
     os_Rename orc (snapshot_mount orc s (ct_name snap)) (snapshot_mount orc s newName)"

definition dir_ImageDelete :: "'o env_scheme \<Rightarrow> store \<Rightarrow> string \<Rightarrow> ('a dbworld_scheme, unit) prog" where
  "dir_ImageDelete orc s fingerprint = deleteImageDbPoolVolume orc s fingerprint"

definition dir_driver :: "'o sdaemon_scheme \<Rightarrow> 'a dbworld_scheme driver" where
  "dir_driver orc =
     \<lparr>dr_PoolInit = (\<lambda>s. ret ()), dr_PoolCheck = (\<lambda>s. ret ()),
      dr_PoolCreate = dir_StoragePoolCreate orc, dr_PoolDelete = dir_StoragePoolDelete orc,
      dr_PoolUpdate = dir_StoragePoolUpdate, dr_VolumeCreate = dir_StoragePoolVolumeCreate orc,
      dr_VolumeDelete = dir_StoragePoolVolumeDelete orc, dr_VolumeMount = dir_mount, dr_VolumeUmount = dir_mount,
      dr_VolumeUpdate = dir_StoragePoolVolumeUpdate, dr_ImageDelete = dir_ImageDelete orc,
      dr_ContainerCreate = dir_ContainerCreate orc,
      dr_ContainerCreateFromImage = dir_ContainerCreateFromImage orc,
      dr_ContainerDelete = dir_ContainerDelete orc, dr_ContainerRename = dir_ContainerRename orc,
      dr_SnapshotDelete = dir_ContainerSnapshotDelete orc, dr_SnapshotRename = dir_ContainerSnapshotRename orc\<rparr>"

definition driver_of :: "'o sdaemon_scheme \<Rightarrow> storage_type \<Rightarrow> 'a dbworld_scheme driver" where
  "driver_of orc t = (if t = storageTypeDir then dir_driver orc else outside_driver orc)"

end
