(* ===== verification/StoragePools.thy ===== *)
theory StoragePools
  imports StorageDir DbImages
begin

text \<open>
  Storage pools and volumes above the database: \<open>apollo/storage.go\<close>, \<open>storage_pools_utils.go\<close>,
  \<open>storage_volumes_utils.go\<close> and the handlers of \<open>storage_pools.go\<close> and \<open>storage_volumes.go\<close>. What
  the drivers do on disk is reached through their interface.
\<close>

section \<open>The storage object\<close>

definition no_volume :: volume where
  "no_volume = \<lparr>sv_Type = [], sv_Name = [], sv_Description = [], sv_Config = []\<rparr>"

definition storageInit :: "'o sdaemon_scheme \<Rightarrow> string \<Rightarrow> string \<Rightarrow> int \<Rightarrow> ('a dbworld_scheme, store) prog" where
  "storageInit orc poolName volumeName volumeType =
     pbind (StoragePoolGet orc poolName) (\<lambda>(poolID, p).
       if sp_Driver p = [] then fail (Errorf ''no storage driver was provided'' [])
       else
         pbind (if volumeName \<noteq> [] \<and> volumeType \<ge> 0
                then pbind (StoragePoolVolumeGetType orc volumeName volumeType poolID) (\<lambda>(_, v). ret v)
                else ret no_volume) (\<lambda>v.
         pbind (of_res (storageStringToType (sp_Driver p))) (\<lambda>t.
         let s = \<lparr>so_type = t, so_poolID = poolID, so_pool = p, so_volume = v\<rparr>
         in pbind (dr_PoolInit (driver_of orc t) s) (\<lambda>_. ret s))))"

definition storagePoolInit :: "'o sdaemon_scheme \<Rightarrow> string \<Rightarrow> ('a dbworld_scheme, store) prog" where
  "storagePoolInit orc poolName = storageInit orc poolName [] (-1)"

definition storagePoolVolumeInit :: "'o sdaemon_scheme \<Rightarrow> string \<Rightarrow> string \<Rightarrow> int \<Rightarrow> ('a dbworld_scheme, store) prog" where
  "storagePoolVolumeInit orc poolName volumeName volumeType = storageInit orc poolName volumeName volumeType"

definition storagePoolVolumeImageInit :: "'o sdaemon_scheme \<Rightarrow> string \<Rightarrow> string \<Rightarrow> ('a dbworld_scheme, store) prog" where
  "storagePoolVolumeImageInit orc poolName fingerprint =
     storagePoolVolumeInit orc poolName fingerprint StoragePoolVolumeTypeImage"

definition storagePoolVolumeContainerCreateInit :: "'o sdaemon_scheme \<Rightarrow> string \<Rightarrow> string \<Rightarrow> ('a dbworld_scheme, store) prog" where
  "storagePoolVolumeContainerCreateInit orc poolName containerName =
     storagePoolVolumeInit orc poolName containerName StoragePoolVolumeTypeContainer"

definition storagePoolVolumeContainerLoadInit :: "'o sdaemon_scheme \<Rightarrow> string \<Rightarrow> ('a dbworld_scheme, store) prog" where
  "storagePoolVolumeContainerLoadInit orc containerName =
     pbind (ContainerPool orc containerName) (\<lambda>poolName.
       storagePoolVolumeInit orc poolName containerName StoragePoolVolumeTypeContainer)"

section \<open>Who uses a pool or a volume\<close>

text \<open>The profiles with a disk device that \<open>uses\<close>; one entry for each such device.\<close>

fun profiles_with :: "'o env_scheme \<Rightarrow> (device \<Rightarrow> bool) \<Rightarrow> string list \<Rightarrow> ('a dbworld_scheme, string list) prog" where
  "profiles_with orc uses [] = ret []"
| "profiles_with orc uses (p # ps) =
     pbind (ProfileGet orc p) (\<lambda>(_, pr).
     pbind (profiles_with orc uses ps) (\<lambda>rest.
       ret (map (\<lambda>_. p) (filter (\<lambda>(k, d). gm_str d ''type'' = ''disk'' \<and> uses d) (pr_Devices pr)) @ rest)))"

definition profilesUsingPoolGetNames :: "'o env_scheme \<Rightarrow> string \<Rightarrow> ('a dbworld_scheme, string list) prog" where
  "profilesUsingPoolGetNames orc poolName =
     pbind (Profiles orc) (profiles_with orc (\<lambda>d. gm_str d ''pool'' = poolName))"

definition names_volume :: "string \<Rightarrow> string \<Rightarrow> string \<Rightarrow> bool" where
  "names_volume volumeName typeName source \<longleftrightarrow>
     path_Clean source = volumeName \<or> path_Clean source = typeName @ ''/'' @ volumeName"

definition profilesUsingPoolVolumeGetNames :: "'o env_scheme \<Rightarrow> string \<Rightarrow> string \<Rightarrow> ('a dbworld_scheme, string list) prog" where
  "profilesUsingPoolVolumeGetNames orc volumeName volumeType =
     pbind (Profiles orc) (profiles_with orc (\<lambda>d.
       \<not> HasPrefix (gm_str d ''source'') ''/'' \<and> names_volume volumeName volumeType (gm_str d ''source'')))"

fun containers_with :: "'o env_scheme \<Rightarrow> string \<Rightarrow> string \<Rightarrow> string list \<Rightarrow> ('a dbworld_scheme, string list) prog" where
  "containers_with orc volumeName typeName [] = ret []"
| "containers_with orc volumeName typeName (ct # cts) =
     pbind (attempt (containerLoadByName orc ct)) (\<lambda>r.
     pbind (containers_with orc volumeName typeName cts) (\<lambda>rest.
       case r of
         Inl _ \<Rightarrow> ret rest
       | Inr c \<Rightarrow>
           ret (map (\<lambda>_. ct) (filter (\<lambda>(k, d). gm_str d ''type'' = ''disk'' \<and>
                  names_volume volumeName typeName (gm_str d ''source'')) (ct_localDevices c)) @ rest)))"

definition storagePoolVolumeUsedByContainersGet :: "'o env_scheme \<Rightarrow> string \<Rightarrow> string \<Rightarrow> ('a dbworld_scheme, string list) prog" where
  "storagePoolVolumeUsedByContainersGet orc volumeName volumeTypeName =
     pbind (ContainersList orc CTypeRegular) (containers_with orc volumeName volumeTypeName)"

definition container_url :: "string \<Rightarrow> string" where
  "container_url name = ''/1.0/containers/'' @ name"

definition snapshot_url :: "string \<Rightarrow> string \<Rightarrow> string" where
  "snapshot_url c s = ''/1.0/containers/'' @ c @ ''/snapshots/'' @ s"

definition profile_url :: "string \<Rightarrow> string" where
  "profile_url name = ''/1.0/profiles/'' @ name"

definition image_url :: "string \<Rightarrow> string" where
  "image_url fingerprint = ''/1.0/images/'' @ fingerprint"

definition storagePoolVolumeUsedByGet :: "'o env_scheme \<Rightarrow> string \<Rightarrow> string \<Rightarrow> ('a dbworld_scheme, string list) prog" where
  "storagePoolVolumeUsedByGet orc volumeName volumeTypeName =
     (if volumeTypeName = ''container'' then
        (case containerGetParentAndSnapshotName volumeName of
           (cName, sName, snap) \<Rightarrow> ret [if snap then snapshot_url cName sName else container_url cName])
      else if volumeTypeName = ''image'' then ret [image_url volumeName]
      else
        pbind (storagePoolVolumeUsedByContainersGet orc volumeName volumeTypeName) (\<lambda>cts.
        pbind (profilesUsingPoolVolumeGetNames orc volumeName volumeTypeName) (\<lambda>ps.
          ret (map container_url cts @ map profile_url ps))))"

definition volume_user :: "string \<Rightarrow> volume \<Rightarrow> string res" where
  "volume_user poolName v =
     (case storagePoolVolumeTypeNameToAPIEndpoint (sv_Type v) of
        Inl _ \<Rightarrow> Inl (Errorf ''invalid storage type for storage volume \"%s\"'' [sv_Name v])
      | Inr ep \<Rightarrow>
          if ep = ''containers'' then
            (case containerGetParentAndSnapshotName (sv_Name v) of
               (p, s, _) \<Rightarrow>
                 if Contains (sv_Name v) [SnapshotDelimiter] \<and> \<not> HasPrefix (sv_Name v) [SnapshotDelimiter]
                 then Inr (snapshot_url p s) else Inr (container_url (sv_Name v)))
          else if ep = ''images'' then Inr (image_url (sv_Name v))
          else Inr (''/1.0/storage-pools/'' @ poolName @ ''/volumes/'' @ sv_Type v @ ''/'' @ sv_Name v))"

fun all_users :: "string \<Rightarrow> volume list \<Rightarrow> string list res" where
  "all_users poolName [] = Inr []"
| "all_users poolName (v # vs) =
     ebind (volume_user poolName v) (\<lambda>u. ebind (all_users poolName vs) (\<lambda>us. Inr (u # us)))"

definition storagePoolUsedByGet :: "'o env_scheme \<Rightarrow> int \<Rightarrow> string \<Rightarrow> ('a dbworld_scheme, string list) prog" where
  "storagePoolUsedByGet orc poolID poolName =
     pbind (or_none (StoragePoolVolumesGet orc poolID supportedVolumeTypes)) (\<lambda>volumes.
     pbind (of_res volumes) (\<lambda>vs.
     pbind (profilesUsingPoolGetNames orc poolName) (\<lambda>ps.
     pbind (of_res (all_users poolName vs)) (\<lambda>users.
       ret (users @ map profile_url ps)))))"

section \<open>Pools\<close>

text \<open>The names of the drivers in use are cached by the process.\<close>

record sworld = dbworld +
  w_drivers :: "string list"

definition add_driver :: "string \<Rightarrow> string list \<Rightarrow> string list" where
  "add_driver d ds = (if StringInSlice d ds then ds else ds @ [d])"

text \<open>The last one takes the place of the first that has the name.\<close>

fun driver_index :: "string \<Rightarrow> string list \<Rightarrow> nat option" where
  "driver_index d [] = None"
| "driver_index d (x # xs) = (if x = d then Some 0 else map_option Suc (driver_index d xs))"

definition drop_driver :: "string \<Rightarrow> string list \<Rightarrow> string list" where
  "drop_driver d ds = (case driver_index d ds of None \<Rightarrow> ds | Some i \<Rightarrow> butlast (ds[i := last ds]))"

definition update_cache :: "(string list \<Rightarrow> string list) \<Rightarrow> ('a sworld_scheme, unit) prog" where
  "update_cache f = put_world (\<lambda>w. w\<lparr>w_drivers := f (w_drivers w)\<rparr>)"

definition dbStoragePoolCreateAndUpdateCache :: "'o env_scheme \<Rightarrow> string \<Rightarrow> string \<Rightarrow> string \<Rightarrow> string gomap
    \<Rightarrow> ('a sworld_scheme, int) prog" where
  "dbStoragePoolCreateAndUpdateCache orc poolName description driver cfg =
     pbind (StoragePoolCreate orc poolName description driver cfg) (\<lambda>i.
     pbind (update_cache (add_driver driver)) (\<lambda>_. ret i))"

definition dbStoragePoolDeleteAndUpdateCache :: "'o env_scheme \<Rightarrow> string \<Rightarrow> ('a sworld_scheme, unit) prog" where
  "dbStoragePoolDeleteAndUpdateCache orc poolName =
     pbind (StoragePoolDelete orc poolName) (\<lambda>p. update_cache (drop_driver (sp_Driver p)))"

definition pool_statfs :: "'o sdaemon_scheme \<Rightarrow> event list \<Rightarrow> (64 word \<times> 64 word) res" where
  "pool_statfs orc h =
     ebind (sd_statfs orc h (path_Join [o_var orc])) (\<lambda>(frsize, blocks, _, _). Inr (frsize, blocks))"

text \<open>The result is the configuration as the caller sees it: the map it passed, with its defaults.\<close>

definition storagePoolDBCreate :: "'o sdaemon_scheme \<Rightarrow> string \<Rightarrow> string \<Rightarrow> string \<Rightarrow> string gomap option
    \<Rightarrow> ('a sworld_scheme, string gomap) prog" where
  "storagePoolDBCreate orc poolName description driver config0 =
     pbind (of_res (storageValidName poolName)) (\<lambda>_.
     pbind (attempt (StoragePoolGetID orc poolName)) (\<lambda>r.
       if is_ok r then fail (Errorf ''The storage pool already exists'' [])
       else
         let cfg = (case config0 of None \<Rightarrow> [] | Some m \<Rightarrow> m)
         in pbind (of_res (storagePoolValidateConfig poolName driver cfg)) (\<lambda>_.
            pbind (ask (pool_statfs orc)) (\<lambda>fs.
            pbind (of_res (storagePoolFillDefault fs poolName driver cfg)) (\<lambda>full.
            pbind (attempt (dbStoragePoolCreateAndUpdateCache orc poolName description driver full)) (\<lambda>q.
              case q of
                Inl _ \<Rightarrow> fail (Errorf ''Error inserting %s into database: %s'' [poolName])
              | Inr _ \<Rightarrow> ret (case config0 of None \<Rightarrow> [] | Some _ \<Rightarrow> full)))))))"

definition driver_call :: "'o sdaemon_scheme \<Rightarrow> store \<Rightarrow> ('a dbworld_scheme driver \<Rightarrow> store \<Rightarrow> 'r) \<Rightarrow> 'r" where
  "driver_call orc s f = f (driver_of orc (so_type s)) s"

definition storagePoolCreateInternal :: "'o sdaemon_scheme \<Rightarrow> string \<Rightarrow> string \<Rightarrow> string \<Rightarrow> string gomap option
    \<Rightarrow> ('a sworld_scheme, unit) prog" where
  "storagePoolCreateInternal orc poolName description driver config0 =
     pbind (storagePoolDBCreate orc poolName description driver config0) (\<lambda>cfg.
       undo_with (ignoring (dbStoragePoolDeleteAndUpdateCache orc poolName))
         (pbind (storagePoolInit orc poolName) (\<lambda>s.
          pbind (driver_call orc s dr_PoolCreate) (\<lambda>s'.
            undo_with (ignoring (driver_call orc s' dr_PoolDelete))
              (pwhen (fst (storageConfigDiff cfg (sp_Config (so_pool s'))) \<noteq> [])
                (pbind (attempt (StoragePoolUpdate orc poolName description (sp_Config (so_pool s')))) (\<lambda>r.
                   case r of
                     Inr _ \<Rightarrow> ret ()
                   | Inl _ \<Rightarrow> fail (Errorf ''Error inserting %s into database: %s'' [poolName]))))))))"

definition storagePoolUpdate :: "'o sdaemon_scheme \<Rightarrow> string \<Rightarrow> string \<Rightarrow> string gomap \<Rightarrow> ('a dbworld_scheme, unit) prog" where
  "storagePoolUpdate orc poolName newDescription newConfig =
     pbind (storagePoolInit orc poolName) (\<lambda>s.
     let (ks, userOnly) = storageConfigDiff (sp_Config (so_pool s)) newConfig
     in seq_all
          [pwhen (ks \<noteq> [] \<and> \<not> userOnly)
             (if StringInSlice ''driver'' ks then
                fail (Errorf ''the \"driver\" property of a storage pool cannot be changed'' [])
              else driver_call orc s dr_PoolUpdate newConfig ks),
           pwhen (ks \<noteq> [] \<or> newDescription \<noteq> sp_Description (so_pool s))
             (StoragePoolUpdate orc poolName newDescription newConfig)])"

section \<open>Volumes\<close>

definition storagePoolVolumeUpdate :: "'o sdaemon_scheme \<Rightarrow> string \<Rightarrow> string \<Rightarrow> int \<Rightarrow> string \<Rightarrow> string gomap
    \<Rightarrow> ('a dbworld_scheme, unit) prog" where
  "storagePoolVolumeUpdate orc poolName volumeName volumeType newDescription newConfig =
     pbind (storagePoolVolumeInit orc poolName volumeName volumeType) (\<lambda>s.
     let v = so_volume s; ks = diff_keys (sv_Config v) newConfig;
         userOnly = list_all (\<lambda>k. HasPrefix k ''user.'') ks
     in pbind (pwhen (ks \<noteq> [] \<and> \<not> userOnly) (driver_call orc s dr_VolumeUpdate newConfig ks)) (\<lambda>_.
        pbind (StoragePoolGetID orc poolName) (\<lambda>poolID.
          pwhen (ks \<noteq> [] \<or> newDescription \<noteq> sv_Description v)
            (StoragePoolVolumeUpdate orc volumeName volumeType poolID newDescription newConfig))))"

definition storagePoolVolumeDBCreate :: "'o env_scheme \<Rightarrow> string \<Rightarrow> string \<Rightarrow> string \<Rightarrow> string \<Rightarrow> string gomap option
    \<Rightarrow> ('a dbworld_scheme, unit) prog" where
  "storagePoolVolumeDBCreate orc poolName volumeName description volumeTypeName config0 =
     pbind (of_res (storageValidName volumeName)) (\<lambda>_.
     pbind (of_res (storagePoolVolumeTypeNameToType volumeTypeName)) (\<lambda>t.
       if t \<noteq> StoragePoolVolumeTypeCustom then
         fail (Errorf ''currently not allowed to create storage volumes of type %s'' [volumeTypeName])
       else
         pbind (StoragePoolGet orc poolName) (\<lambda>(poolID, p).
         pbind (attempt (StoragePoolVolumeGetTypeID orc volumeName t poolID)) (\<lambda>r.
           if (case r of Inr i \<Rightarrow> i > 0 | Inl _ \<Rightarrow> False) then
             fail (Errorf ''a storage volume of type %s does already exist'' [volumeTypeName])
           else
             let cfg = (case config0 of None \<Rightarrow> [] | Some m \<Rightarrow> m)
             in pbind (of_res (storageVolumeValidateConfig poolName cfg p)) (\<lambda>_.
                pbind (of_res (storageVolumeFillDefault poolName cfg p)) (\<lambda>full.
                pbind (attempt (StoragePoolVolumeCreate orc volumeName description t poolID full)) (\<lambda>q.
                  case q of
                    Inl _ \<Rightarrow> fail (Errorf ''Error inserting %s of type %s into database: %s'' [poolName, volumeTypeName])
                  | Inr _ \<Rightarrow> ret ())))))))"

definition storagePoolVolumeCreateInternal :: "'o sdaemon_scheme \<Rightarrow> string \<Rightarrow> string \<Rightarrow> string \<Rightarrow> string
    \<Rightarrow> string gomap option \<Rightarrow> ('a dbworld_scheme, unit) prog" where
  "storagePoolVolumeCreateInternal orc poolName volumeName description volumeTypeName config0 =
     pbind (storagePoolVolumeDBCreate orc poolName volumeName description volumeTypeName config0) (\<lambda>_.
     pbind (of_res (storagePoolVolumeTypeNameToType volumeTypeName)) (\<lambda>t.
     pbind (storagePoolVolumeInit orc poolName volumeName t) (\<lambda>s.
       undo_with (ignoring (StoragePoolVolumeDelete orc volumeName t (so_poolID s)))
         (driver_call orc s dr_VolumeCreate))))"

section \<open>Attaching a volume to a container\<close>

fun same_idmaps :: "'o daemon_scheme \<Rightarrow> idmap_set option \<Rightarrow> string list \<Rightarrow> ('a dbworld_scheme, unit) prog" where
  "same_idmaps orc next [] = ret ()"
| "same_idmaps orc next (ct # cts) =
     pbind (attempt (containerLoadByName orc ct)) (\<lambda>r.
       case r of
         Inl _ \<Rightarrow> same_idmaps orc next cts
       | Inr c \<Rightarrow>
           (case IdmapSet orc c of
              Inl _ \<Rightarrow> fail (Errorf ''Failed to retrieve idmap of container'' [])
            | Inr m \<Rightarrow>
                if m \<noteq> next then fail (Errorf ''Idmaps of container %v and storage volume %v are not identical'' [])
                else same_idmaps orc next cts))"

definition idmap_json :: "'o daemon_scheme \<Rightarrow> idmap_set option \<Rightarrow> string" where
  "idmap_json orc m = (case m of None \<Rightarrow> ''[]'' | Some s \<Rightarrow> idmapsetToJSON orc s)"

definition shift_by :: "'o daemon_scheme \<Rightarrow> string \<Rightarrow> string \<Rightarrow> idmap_set option \<Rightarrow> ('a world_scheme, unit) prog" where
  "shift_by orc f path m =
     (case m of None \<Rightarrow> ret () | Some s \<Rightarrow> perform orc (Called f [path, dm_json orc s]))"

definition shift_volume :: "'o sdaemon_scheme \<Rightarrow> store \<Rightarrow> ctr \<Rightarrow> string \<Rightarrow> string \<Rightarrow> idmap_set option \<Rightarrow> idmap_set option
    \<Rightarrow> ('a dbworld_scheme, unit) prog" where
  "shift_volume orc s c volumeName typeName last_map next_map =
     (let path = getStoragePoolVolumeMountPoint (o_var orc) (pool_name s) volumeName
      in pbind (storagePoolVolumeUsedByContainersGet orc volumeName typeName) (\<lambda>users.
         pbind (if length users > 1 then same_idmaps orc next_map users
                else if length users = 1 \<and> hd users \<noteq> ct_name c then
                  fail (Errorf ''idmaps of container and storage volume are not identical'' [])
                else ret ()) (\<lambda>_.
         pbind (driver_call orc s dr_VolumeMount) (\<lambda>ours.
         let shift = seq_all [shift_by orc ''UnshiftRootfs'' path last_map, shift_by orc ''ShiftRootfs'' path next_map]
         in if ours then deferred (ignoring (driver_call orc s dr_VolumeUmount)) shift else shift))))"

definition storagePoolVolumeAttachInit :: "'o sdaemon_scheme \<Rightarrow> string \<Rightarrow> string \<Rightarrow> int \<Rightarrow> ctr \<Rightarrow> ('a dbworld_scheme, store) prog" where
  "storagePoolVolumeAttachInit orc poolName volumeName volumeType c =
     pbind (storageInit orc poolName volumeName volumeType) (\<lambda>s.
     let cfg = sv_Config (so_volume s); j = gm_str cfg ''volatile.idmap.last''
     in pbind (of_res (if j \<noteq> [] then idmapsetFromString orc j else Inr None)) (\<lambda>last_map.
        pbind (of_res (IdmapSet orc c)) (\<lambda>next_map.
        pbind (of_res (StoragePoolVolumeTypeToName volumeType)) (\<lambda>typeName.
        pbind (pwhen (next_map \<noteq> last_map) (shift_volume orc s c volumeName typeName last_map next_map)) (\<lambda>_.
        let cfg' = gm_set (gm_set cfg ''volatile.idmap.next'' (idmap_json orc next_map))
                     ''volatile.idmap.last'' (idmap_json orc next_map)
        in pbind (StoragePoolGetID orc poolName) (\<lambda>poolID.
           pbind (StoragePoolVolumeUpdate orc volumeName volumeType poolID (sv_Description (so_volume s)) cfg')
             (\<lambda>_. ret (s\<lparr>so_volume := (so_volume s)\<lparr>sv_Config := cfg'\<rparr>\<rparr>))))))))"

section \<open>Starting up\<close>

fun check_pools :: "'o sdaemon_scheme \<Rightarrow> string list \<Rightarrow> ('a dbworld_scheme, unit) prog" where
  "check_pools orc [] = ret ()"
| "check_pools orc (p # ps) =
     pbind (attempt (storagePoolInit orc p)) (\<lambda>r.
       case r of
         Inl _ \<Rightarrow> check_pools orc ps
       | Inr s \<Rightarrow> pbind (driver_call orc s dr_PoolCheck) (\<lambda>_. check_pools orc ps))"

text \<open>\<open>initialized\<close>: the cache was filled before.\<close>

definition SetupStorageDriver :: "'o sdaemon_scheme \<Rightarrow> bool \<Rightarrow> bool \<Rightarrow> ('a sworld_scheme, unit) prog" where
  "SetupStorageDriver orc initialized forceCheck =
     pbind (attempt (StoragePools orc)) (\<lambda>r.
       case r of
         Inl e \<Rightarrow> if e = NoSuchObjectError then ret () else fail e
       | Inr pools \<Rightarrow>
           pbind (if pools \<noteq> [] \<and> \<not> forceCheck
                  then pbind (Patches orc) (\<lambda>ps. ret (StringInSlice ''storage_api'' ps)) else ret True) (\<lambda>usable.
           if \<not> usable then ret ()
           else
             pbind (check_pools orc pools) (\<lambda>_.
               if initialized then ret ()
               else pbind (or_none (StoragePoolsGetDrivers orc)) (\<lambda>q.
                      case q of Inl _ \<Rightarrow> ret () | Inr ds \<Rightarrow> update_cache (\<lambda>_. ds)))))"

end
