(* ===== verification/StorageHandlers.thy ===== *)
theory StorageHandlers
  imports StoragePools
begin

text \<open>
  The REST handlers of \<open>apollo/storage_pools.go\<close> and \<open>apollo/storage_volumes.go\<close>. A request comes
  decoded: the variables of its path, the \<open>recursion\<close> parameter, and its body or the error of
  decoding it; \<open>etag\<close> is the check of \<open>If-Match\<close> against the object.
\<close>

definition recursive :: "string \<Rightarrow> bool" where
  "recursive recursionStr \<longleftrightarrow> (case Atoi recursionStr of Inl _ \<Rightarrow> False | Inr n \<Rightarrow> n \<noteq> 0)"

text \<open>A list whose absence is an empty list, any other error answered by \<open>resp\<close>.\<close>

definition list_or :: "(go_error \<Rightarrow> response) \<Rightarrow> ('w, 'a list) prog \<Rightarrow> ('a list \<Rightarrow> ('w, response) prog)
    \<Rightarrow> ('w, response) prog" where
  "list_or resp p f = pbind (or_none p) (\<lambda>r. case r of Inl e \<Rightarrow> ret (resp e) | Inr xs \<Rightarrow> f xs)"

section \<open>Pools\<close>

definition pool_url :: "string \<Rightarrow> string" where
  "pool_url name = ''/1.0/storage-pools/'' @ name"

text \<open>A pool that cannot be read is skipped; its users must be found.\<close>

fun pools_with_users :: "'o env_scheme \<Rightarrow> string list \<Rightarrow> (pool \<times> string list) list \<Rightarrow> ('a dbworld_scheme, response) prog" where
  "pools_with_users orc [] acc = ret (OkPools acc)"
| "pools_with_users orc (name # names) acc =
     pbind (attempt (StoragePoolGet orc name)) (\<lambda>r.
       case r of
         Inl _ \<Rightarrow> pools_with_users orc names acc
       | Inr (i, p) \<Rightarrow>
           or_respond SmartError (storagePoolUsedByGet orc i name) (\<lambda>users.
             pools_with_users orc names (acc @ [(p, users)])))"

definition storagePoolsGet :: "'o env_scheme \<Rightarrow> string \<Rightarrow> ('a dbworld_scheme, response) prog" where
  "storagePoolsGet orc recursionStr =
     list_or SmartError (StoragePools orc) (\<lambda>pools.
       if \<not> recursive recursionStr then ret (OkString (map pool_url pools))
       else pools_with_users orc pools [])"

text \<open>The request: name, description, driver and configuration.\<close>

definition storagePoolsPost :: "'o sdaemon_scheme \<Rightarrow> (string \<times> string \<times> string \<times> string gomap option) res
    \<Rightarrow> ('a sworld_scheme, response) prog" where
  "storagePoolsPost orc req =
     or_respond BadRequest (of_res req) (\<lambda>(name, description, driver, cfg).
       if name = [] then ret (BadRequest (Errorf ''No name provided'' []))
       else if driver = [] then ret (BadRequest (Errorf ''No driver provided'' []))
       else or_respond InternalError (storagePoolCreateInternal orc name description driver cfg) (\<lambda>_.
              ret (OkLocation (pool_url name))))"

definition storagePoolGet :: "'o env_scheme \<Rightarrow> string \<Rightarrow> ('a dbworld_scheme, response) prog" where
  "storagePoolGet orc poolName =
     or_respond SmartError (StoragePoolGet orc poolName) (\<lambda>(poolID, p).
     list_or SmartError (storagePoolUsedByGet orc poolID poolName) (\<lambda>users. ret (OkPool p users)))"

definition storagePoolPut :: "'o sdaemon_scheme \<Rightarrow> string \<Rightarrow> (pool \<Rightarrow> unit res) \<Rightarrow> (string \<times> string gomap) res
    \<Rightarrow> ('a dbworld_scheme, response) prog" where
  "storagePoolPut orc poolName etag req =
     or_respond SmartError (StoragePoolGet orc poolName) (\<lambda>(_, dbInfo).
     or_respond PreconditionFailed (of_res (etag dbInfo)) (\<lambda>_.
     or_respond BadRequest (of_res req) (\<lambda>(description, cfg).
     or_respond BadRequest (of_res (storagePoolValidateConfig poolName (sp_Driver dbInfo) cfg)) (\<lambda>_.
     or_respond InternalError (storagePoolUpdate orc poolName description cfg) (\<lambda>_. ret EmptyOk)))))"

definition stack_config :: "string gomap \<Rightarrow> string gomap \<Rightarrow> string gomap" where
  "stack_config cfg stored = foldl (\<lambda>m (k, v). if gm_has m k then m else gm_set m k v) cfg stored"

text \<open>
  The test is \<open>dbInfo != nil\<close>, not \<open>err != nil\<close>: a pool that exists is answered by \<open>SmartError(nil)\<close>,
  and the rest, which is never reached, would read through a nil pointer.
\<close>

definition storagePoolPatch :: "'o sdaemon_scheme \<Rightarrow> string \<Rightarrow> (pool \<Rightarrow> unit res) \<Rightarrow> (string \<times> string gomap) res
    \<Rightarrow> ('a dbworld_scheme, response) prog" where
  "storagePoolPatch orc poolName etag req =
     pbind (attempt (StoragePoolGet orc poolName)) (\<lambda>r.
       case r of
         Inr _ \<Rightarrow> ret EmptyOk
       | Inl _ \<Rightarrow> fail (Panic ''invalid memory address or nil pointer dereference''))"

definition storagePoolDelete :: "'o sdaemon_scheme \<Rightarrow> string \<Rightarrow> ('a sworld_scheme, response) prog" where
  "storagePoolDelete orc poolName =
     or_respond (\<lambda>_. NotFound) (StoragePoolGetID orc poolName) (\<lambda>poolID.
     pbind (attempt (StoragePoolVolumesGetNames orc poolID)) (\<lambda>volumes.
       if (case volumes of Inr n \<Rightarrow> n > 0 | Inl _ \<Rightarrow> False) then
         ret (BadRequest (Errorf ''storage pool \"%s\" has volumes attached to it'' [poolName]))
       else
         or_respond SmartError (profilesUsingPoolGetNames orc poolName) (\<lambda>ps.
           if ps \<noteq> [] then
             ret (BadRequest (Errorf ''Storage pool \"%s\" has profiles using it: %s'' [poolName, Join [CHR 10] ps]))
           else
             or_respond InternalError (storagePoolInit orc poolName) (\<lambda>s.
             or_respond InternalError (driver_call orc s dr_PoolDelete) (\<lambda>_.
             or_respond SmartError (dbStoragePoolDeleteAndUpdateCache orc poolName) (\<lambda>_. ret EmptyOk))))))"

section \<open>Volumes\<close>

definition volume_url :: "string \<Rightarrow> string \<Rightarrow> string \<Rightarrow> string" where
  "volume_url poolName ep name = ''/1.0/storage-pools/'' @ poolName @ ''/volumes/'' @ ep @ ''/'' @ name"

fun volume_urls :: "string \<Rightarrow> volume list \<Rightarrow> string list res" where
  "volume_urls poolName [] = Inr []"
| "volume_urls poolName (v # vs) =
     ebind (storagePoolVolumeTypeNameToAPIEndpoint (sv_Type v)) (\<lambda>ep.
     ebind (volume_urls poolName vs) (\<lambda>us. Inr (volume_url poolName ep (sv_Name v) # us)))"

fun volumes_with_users :: "'o env_scheme \<Rightarrow> volume list \<Rightarrow> (volume \<times> string list) list \<Rightarrow> ('a dbworld_scheme, response) prog" where
  "volumes_with_users orc [] acc = ret (OkVolumes acc)"
| "volumes_with_users orc (v # vs) acc =
     or_respond InternalError (of_res (storagePoolVolumeTypeNameToAPIEndpoint (sv_Type v))) (\<lambda>_.
     or_respond InternalError (storagePoolVolumeUsedByGet orc (sv_Name v) (sv_Type v)) (\<lambda>users.
       volumes_with_users orc vs (acc @ [(v, users)])))"

definition storagePoolVolumesGet :: "'o env_scheme \<Rightarrow> string \<Rightarrow> string \<Rightarrow> ('a dbworld_scheme, response) prog" where
  "storagePoolVolumesGet orc poolName recursionStr =
     or_respond SmartError (StoragePoolGetID orc poolName) (\<lambda>poolID.
     list_or SmartError (StoragePoolVolumesGet orc poolID supportedVolumeTypes) (\<lambda>vs.
       if \<not> recursive recursionStr then
         or_respond InternalError (of_res (volume_urls poolName vs)) (\<lambda>us. ret (OkString us))
       else volumes_with_users orc vs []))"

text \<open>The checks of a volume type that open most of the handlers.\<close>

definition with_volume_type :: "string \<Rightarrow> (int \<Rightarrow> ('w, response) prog) \<Rightarrow> ('w, response) prog" where
  "with_volume_type typeName f =
     or_respond BadRequest (of_res (storagePoolVolumeTypeNameToType typeName)) (\<lambda>t.
       if t \<notin> set supportedVolumeTypes then
         ret (BadRequest (Errorf ''invalid storage volume type %s'' [typeName]))
       else f t)"

fun typed_volumes :: "'o env_scheme \<Rightarrow> int \<Rightarrow> int \<Rightarrow> string list \<Rightarrow> (volume \<times> string list) list
    \<Rightarrow> ('a dbworld_scheme, response) prog" where
  "typed_volumes orc t poolID [] acc = ret (OkVolumes acc)"
| "typed_volumes orc t poolID (name # names) acc =
     pbind (attempt (StoragePoolVolumeGetType orc name t poolID)) (\<lambda>r.
       case r of
         Inl _ \<Rightarrow> typed_volumes orc t poolID names acc
       | Inr (_, v) \<Rightarrow>
           or_respond SmartError (storagePoolVolumeUsedByGet orc (sv_Name v) (sv_Type v)) (\<lambda>users.
             typed_volumes orc t poolID names (acc @ [(v, users)])))"

definition storagePoolVolumesTypeGet :: "'o env_scheme \<Rightarrow> string \<Rightarrow> string \<Rightarrow> string \<Rightarrow> ('a dbworld_scheme, response) prog" where
  "storagePoolVolumesTypeGet orc poolName typeName recursionStr =
     with_volume_type typeName (\<lambda>t.
     or_respond SmartError (StoragePoolGetID orc poolName) (\<lambda>poolID.
     or_respond SmartError (StoragePoolVolumesGetType orc t poolID) (\<lambda>names.
       if recursive recursionStr then typed_volumes orc t poolID names []
       else if names = [] then ret (OkString [])
       else or_respond InternalError (of_res (storagePoolVolumeTypeToAPIEndpoint t)) (\<lambda>ep.
              ret (OkString (map (volume_url poolName ep) names))))))"

text \<open>The request: name, description, type and configuration.\<close>

definition storagePoolVolumesTypePost :: "'o sdaemon_scheme \<Rightarrow> string \<Rightarrow> (string \<times> string \<times> string \<times> string gomap option) res
    \<Rightarrow> ('a dbworld_scheme, response) prog" where
  "storagePoolVolumesTypePost orc poolName req =
     or_respond BadRequest (of_res req) (\<lambda>(name, description, typeName, cfg).
       if name = [] then ret (BadRequest (Errorf ''No name provided'' []))
       else if typeName = [] then
         ret (BadRequest (Errorf ''you must provide a storage volume type of the storage volume'' []))
       else
         or_respond InternalError (storagePoolVolumeCreateInternal orc poolName name description typeName cfg) (\<lambda>_.
         or_respond InternalError (of_res (storagePoolVolumeTypeNameToAPIEndpoint typeName)) (\<lambda>ep.
           ret (OkLocation (''/1.0/storage-pools/'' @ poolName @ ''/volumes/'' @ ep)))))"

definition storagePoolVolumeTypeGet :: "'o env_scheme \<Rightarrow> string \<Rightarrow> string \<Rightarrow> string \<Rightarrow> ('a dbworld_scheme, response) prog" where
  "storagePoolVolumeTypeGet orc poolName typeName volumeName =
     with_volume_type typeName (\<lambda>t.
     or_respond SmartError (StoragePoolGetID orc poolName) (\<lambda>poolID.
     or_respond SmartError (StoragePoolVolumeGetType orc volumeName t poolID) (\<lambda>(_, v).
     or_respond SmartError (storagePoolVolumeUsedByGet orc (sv_Name v) (sv_Type v)) (\<lambda>users.
       ret (OkVolume v users)))))"

text \<open>Put and patch differ in the configuration they make of the request and the stored one.\<close>

definition change_volume :: "'o sdaemon_scheme \<Rightarrow> string \<Rightarrow> string \<Rightarrow> string \<Rightarrow> (volume \<Rightarrow> unit res)
    \<Rightarrow> (string \<times> string gomap) res \<Rightarrow> (string gomap \<Rightarrow> volume \<Rightarrow> string gomap) \<Rightarrow> ('a dbworld_scheme, response) prog" where
  "change_volume orc poolName typeName volumeName etag req merge =
     with_volume_type typeName (\<lambda>t.
     or_respond SmartError (StoragePoolGet orc poolName) (\<lambda>(poolID, p).
     or_respond SmartError (StoragePoolVolumeGetType orc volumeName t poolID) (\<lambda>(_, v).
     or_respond PreconditionFailed (of_res (etag v)) (\<lambda>_.
     or_respond BadRequest (of_res req) (\<lambda>(description, cfg0).
     let cfg = merge cfg0 v
     in or_respond BadRequest (of_res (storageVolumeValidateConfig volumeName cfg p)) (\<lambda>_.
        or_respond SmartError (storagePoolVolumeUpdate orc poolName volumeName t description cfg) (\<lambda>_.
          ret EmptyOk)))))))"

definition storagePoolVolumeTypePut :: "'o sdaemon_scheme \<Rightarrow> string \<Rightarrow> string \<Rightarrow> string \<Rightarrow> (volume \<Rightarrow> unit res)
    \<Rightarrow> (string \<times> string gomap) res \<Rightarrow> ('a dbworld_scheme, response) prog" where
  "storagePoolVolumeTypePut orc poolName typeName volumeName etag req =
     change_volume orc poolName typeName volumeName etag req (\<lambda>cfg v. cfg)"

definition storagePoolVolumeTypePatch :: "'o sdaemon_scheme \<Rightarrow> string \<Rightarrow> string \<Rightarrow> string \<Rightarrow> (volume \<Rightarrow> unit res)
    \<Rightarrow> (string \<times> string gomap) res \<Rightarrow> ('a dbworld_scheme, response) prog" where
  "storagePoolVolumeTypePatch orc poolName typeName volumeName etag req =
     change_volume orc poolName typeName volumeName etag req (\<lambda>cfg v. stack_config cfg (sv_Config v))"

definition storagePoolVolumeTypeDelete :: "'o sdaemon_scheme \<Rightarrow> string \<Rightarrow> string \<Rightarrow> string \<Rightarrow> ('a dbworld_scheme, response) prog" where
  "storagePoolVolumeTypeDelete orc poolName typeName volumeName =
     with_volume_type typeName (\<lambda>t.
       if t \<noteq> StoragePoolVolumeTypeCustom \<and> t \<noteq> StoragePoolVolumeTypeImage then
         ret (BadRequest (Errorf ''storage volumes of type \"%s\" cannot be deleted with the storage api'' [typeName]))
       else
         or_respond SmartError (storagePoolVolumeUsedByGet orc volumeName typeName) (\<lambda>users.
           if users \<noteq> [] \<and> \<not> (t = StoragePoolVolumeTypeImage \<and> users = [image_url volumeName]) then
             ret (BadRequest (Errorf ''The storage volume is still in use by containers or profiles'' []))
           else
             or_respond (\<lambda>_. NotFound) (storagePoolVolumeInit orc poolName volumeName t) (\<lambda>s.
             or_respond SmartError
               (if t = StoragePoolVolumeTypeCustom then driver_call orc s dr_VolumeDelete
                else dr_ImageDelete (driver_of orc (so_type s)) s volumeName) (\<lambda>_.
               ret EmptyOk))))"

end
