(* ===== verification/StorageConfigProps.thy ===== *)
theory StorageConfigProps
  imports StorageConfig UtilProps
begin

text \<open>
  What the configuration of pools and volumes guarantees: defaults are within their bounds and
  still valid, mount options are resolved in one pass, mount points of different pools are apart.
\<close>

section \<open>Mount options\<close>

definition known_option :: "string \<Rightarrow> bool" where
  "known_option opt \<longleftrightarrow> map_of MountOptions opt \<noteq> None"

definition option_flags :: "string \<Rightarrow> 64 word \<Rightarrow> 64 word" where
  "option_flags opt flags = (case map_of MountOptions opt of None \<Rightarrow> flags | Some m \<Rightarrow> apply_option m flags)"

lemma option_flags_simps:
  "map_of MountOptions opt = None \<Longrightarrow> option_flags opt flags = flags"
  "map_of MountOptions opt = Some m \<Longrightarrow> option_flags opt flags = apply_option m flags"
  by (simp_all add: option_flags_def)

declare resolve_loop.simps [simp del]

lemma resolve_loop_spec:
  "i \<le> length tmp \<Longrightarrow> resolve_loop tmp i flags =
     (fold option_flags (drop i tmp) flags, take i tmp @ filter (\<lambda>o'. \<not> known_option o') (drop i tmp))"
proof (induction tmp i flags rule: resolve_loop.induct)
  case (1 tmp i flags)
  show ?case
  proof (cases "i < length tmp")
    case False
    with 1(3) show ?thesis by (simp add: resolve_loop.simps)
  next
    case True
    let ?x = "tmp ! i"
    have drop: "drop i tmp = ?x # drop (Suc i) tmp" using True by (simp add: Cons_nth_drop_Suc)
    show ?thesis
    proof (cases "map_of MountOptions ?x")
      case None
      with 1(1) [OF True None] True show ?thesis
        by (subst resolve_loop.simps)
          (simp add: drop option_flags_simps known_option_def take_Suc_conv_app_nth)
    next
      case (Some m)
      let ?r = "take i tmp @ drop (i + 1) tmp"
      have "drop i ?r = drop (Suc i) tmp" "take i ?r = take i tmp" "i \<le> length ?r"
        using True by simp_all
      with 1(2) [OF True Some] True Some show ?thesis
        by (subst resolve_loop.simps) (simp add: drop option_flags_simps known_option_def)
    qed
  qed
qed

text \<open>C40: 
  Resolving mount options gives the flags of the known options, applied from left to right, and
  keeps the unknown ones in their order: the loop that shrinks the slice it walks over skips none.\<close>
theorem mount_options_resolved:
  "apolloResolveMountoptions options =
     (fold option_flags (Split (CHR '','') options) 0,
      Join '','' (filter (\<lambda>opt. map_of MountOptions opt = None) (Split (CHR '','') options)))"
  by (simp add: apolloResolveMountoptions_def resolve_loop_spec known_option_def)

section \<open>Sizes\<close>

lemma default_pool_size_range: "15 \<le> unat (default_pool_size a b)" "unat (default_pool_size a b) \<le> 100"
proof -
  define s where "s = a * b div (1024 * 1024 * 1024) div 5"
  have "default_pool_size a b = (if s > 100 then 100 else if s < 15 then 15 else s)"
    by (simp add: default_pool_size_def s_def Let_def)
  moreover have "\<not> s > 100 \<Longrightarrow> unat s \<le> 100" "\<not> s < 15 \<Longrightarrow> 15 \<le> unat s"
    by (simp_all add: word_less_nat_alt not_less)
  ultimately show "15 \<le> unat (default_pool_size a b)" "unat (default_pool_size a b) \<le> 100" by auto
qed

lemma GB_parse:
  assumes "n \<le> 100"
  shows "ParseByteSizeString (show_nat n @ ''GB'') = Inr (int n * 1024 ^ 3)"
  by (rule byte_parser.parse_exact) (use assms in \<open>auto simp: byte_units_def\<close>)

lemma gm_str_set: "gm_str (gm_set m k v) k' = (if k' = k then v else gm_str m k')"
  by (simp add: gm_str_def)

lemma thinpool_keeps_size: "gm_str (thinpool_default driver cfg) ''size'' = gm_str cfg ''size''"
  by (simp add: thinpool_default_def gm_str_def Let_def)

text \<open>
  A pool of a driver with a size that is created without one gets a size the parser reads back as
  15 to 100 gigabytes, whatever the file system reports (the product of its fragment size and its
  blocks may wrap around).\<close>
theorem default_size_bounds:
  assumes "storagePoolFillDefault statfs name driver cfg = Inr full"
    and "driver \<noteq> ''dir''" "driver \<noteq> ''ceph''" "gm_str cfg ''size'' = []"
  shows "\<exists>n. ParseByteSizeString (gm_str full ''size'') = Inr n \<and> 15 * 1024 ^ 3 \<le> n \<and> n \<le> 100 * 1024 ^ 3"
proof -
  from assms obtain a b where
    g: "gm_str full ''size'' = show_nat (unat (default_pool_size a b)) @ ''GB''"
    by (auto simp: storagePoolFillDefault_def size_default_def Let_def thinpool_keeps_size res_elims
        gm_str_set split: sum.splits prod.splits if_splits)
  obtain n where n: "unat (default_pool_size a b) = n" "15 \<le> n" "n \<le> 100"
    using default_pool_size_range [of a b] by blast
  show ?thesis unfolding g n(1) using n(2,3) GB_parse [of n] by auto
qed

theorem default_size_bounds_witness:
  "\<exists>n. ParseByteSizeString (gm_str [(''size'', show_nat (unat (default_pool_size 4096 (2 ^ 60))) @ ''GB'')] ''size'') = Inr n \<and>
     15 * 1024 ^ 3 \<le> n \<and> n \<le> 100 * 1024 ^ 3"
  by (rule default_size_bounds [where statfs = "Inr (4096, 2 ^ 60)" and name = "''p''" and driver = "''zfs''" and cfg = "[]"])
    (simp_all add: storagePoolFillDefault_def size_default_def thinpool_default_def gm_str_def Let_def)

section \<open>Completed configurations\<close>

lemma set_gm_set: "kv \<in> set (gm_set m k v) \<Longrightarrow> kv = (k, v) \<or> kv \<in> set m"
  by (induction m k v rule: gm_set.induct) (auto split: if_splits)

lemma gm_str_entry: "gm_str m k \<noteq> [] \<Longrightarrow> (k, gm_str m k) \<in> set m"
  by (auto simp: gm_str_def dest: map_of_SomeD split: option.splits)

lemma pool_keys_iff:
  "pool_keys driver m = Inr () \<longleftrightarrow> (\<forall>(k, v) \<in> set m. HasPrefix k ''user.'' \<or> pool_key_check driver k v = Inr ())"
proof (induction m)
  case (Cons kv m)
  then show ?case by (cases kv) (simp add: res_elims)
qed simp

lemma volume_keys_iff:
  "volume_keys cfg driver m = Inr () \<longleftrightarrow>
     (\<forall>(k, v) \<in> set m. HasPrefix k ''user.'' \<or> volume_key_check cfg driver k v = Inr ())"
proof (induction m)
  case (Cons kv m)
  then show ?case by (cases kv) (simp add: res_elims)
qed simp

lemma pool_keys_set:
  "pool_keys driver m = Inr () \<Longrightarrow> pool_key_check driver k v = Inr () \<Longrightarrow> pool_keys driver (gm_set m k v) = Inr ()"
  by (auto simp: pool_keys_iff dest!: set_gm_set)

lemma size_GB_ok: "n \<le> 100 \<Longrightarrow> size_checker (show_nat n @ ''GB'') = Inr ()"
  by (simp add: size_checker_def GB_parse)

lemma size_key_ok:
  assumes "driver \<noteq> ''dir''" "driver \<noteq> ''ceph''" "size_checker v = Inr ()"
  shows "pool_key_check driver ''size'' v = Inr ()"
  using assms by (simp add: pool_key_check_def wrong_driver_def storagePoolConfigKeys_def HasPrefix_def)

lemma thinpool_key_ok: "pool_key_check ''lvm'' ''lvm.thinpool_name'' v = Inr ()"
  by (simp add: pool_key_check_def wrong_driver_def storagePoolConfigKeys_def HasPrefix_def IsAny_def)

lemma size_default_ok:
  assumes "size_default statfs driver cfg = Inr c" "pool_keys driver cfg = Inr ()"
  shows "pool_keys driver c = Inr () \<and> (\<forall>k. k \<noteq> ''size'' \<longrightarrow> map_of c k = map_of cfg k)"
  using assms default_pool_size_range(2)
  by (auto simp: size_default_def res_elims intro!: pool_keys_set size_key_ok size_GB_ok
      split: if_splits sum.splits prod.splits)

lemma thinpool_default_ok:
  assumes "pool_keys driver c = Inr ()"
  shows "pool_keys driver (thinpool_default driver c) = Inr () \<and>
    (\<forall>k. k \<noteq> ''lvm.thinpool_name'' \<longrightarrow> map_of (thinpool_default driver c) k = map_of c k)"
  using assms by (auto simp: thinpool_default_def Let_def intro!: pool_keys_set thinpool_key_ok)

lemma thinpool_check_ok:
  assumes "thinpool_check driver c = Inr ()" "map_of c ''lvm.use_thinpool'' \<noteq> Some []"
  shows "thinpool_check driver (thinpool_default driver c) = Inr ()"
  using assms
  by (auto simp: thinpool_check_def thinpool_default_def Let_def gm_str_def split: option.splits if_splits)

text \<open>C37: 
  Filling in the defaults of a valid pool configuration leaves it valid, so a pool that was created can
  be updated to the configuration it has; the setting \<open>lvm.use_thinpool\<close> must not be given as empty.\<close>
theorem pool_defaults_stay_valid:
  assumes "storagePoolValidateConfig name driver cfg = Inr ()"
    and "storagePoolFillDefault statfs name driver cfg = Inr full"
    and "map_of cfg ''lvm.use_thinpool'' \<noteq> Some []"
  shows "storagePoolValidateConfig name driver full = Inr ()"
proof -
  from assms(1) have v: "IsOneOf driver supportedStoragePoolDrivers = Inr ()" "thinpool_check driver cfg = Inr ()"
    "size_checker (gm_str cfg ''rsync.bwlimit'') = Inr ()" "pool_keys driver cfg = Inr ()"
    by (auto simp: storagePoolValidateConfig_def res_elims)
  from assms(2) obtain c where c: "size_default statfs driver cfg = Inr c" "full = thinpool_default driver c"
    by (auto simp: storagePoolFillDefault_def res_elims Let_def)
  note s = size_default_ok [OF c(1) v(4)]
  note t = thinpool_default_ok [of driver c]
  have keys: "pool_keys driver full = Inr ()" using s t c(2) by simp
  have "thinpool_check driver c = Inr ()"
    using v(2) s by (auto simp: thinpool_check_def gm_str_def split: option.splits)
  then have thin: "thinpool_check driver full = Inr ()"
    using thinpool_check_ok s assms(3) c(2) by simp
  have "gm_str full ''rsync.bwlimit'' = gm_str cfg ''rsync.bwlimit''"
    using s t c(2) by (simp add: gm_str_def)
  with v keys thin show ?thesis by (simp add: storagePoolValidateConfig_def)
qed

text \<open>A pool configuration that sets the key to be set, and one that leaves everything to the defaults.\<close>

theorem pool_defaults_stay_valid_witness:
  "storagePoolValidateConfig ''p'' ''lvm''
     (gm_set [(''size'', ''20GB'')] ''lvm.thinpool_name'' ''APOLLOThinpool'') = Inr ()"
proof (rule pool_defaults_stay_valid [where statfs = "Inr (0, 0)" and cfg = "[(''size'', ''20GB'')]"])
  have "show_nat 20 = ''20''" by code_simp
  then have p: "ParseByteSizeString ''20GB'' = Inr 21474836480" using GB_parse [of 20] by simp
  show "storagePoolValidateConfig ''p'' ''lvm'' [(''size'', ''20GB'')] = Inr ()"
    by (simp add: storagePoolValidateConfig_def IsOneOf_def supportedStoragePoolDrivers_def
        thinpool_check_def size_checker_def gm_str_def pool_key_check_def wrong_driver_def HasPrefix_def
        storagePoolConfigKeys_def p)
  show "storagePoolFillDefault (Inr (0, 0)) ''p'' ''lvm'' [(''size'', ''20GB'')] =
      Inr (gm_set [(''size'', ''20GB'')] ''lvm.thinpool_name'' ''APOLLOThinpool'')"
    by (simp add: storagePoolFillDefault_def size_default_def thinpool_default_def gm_str_def Let_def size_checker_def p)
qed simp

lemma checked_volume_entry:
  assumes "volume_keys cfg driver cfg = Inr ()" "gm_str cfg k \<noteq> []" "\<not> HasPrefix k ''user.''"
  shows "volume_driver_check cfg driver = Inr ()"
  using assms gm_str_entry [OF assms(2)] unfolding volume_keys_iff
  by (fastforce simp: volume_key_check_def res_elims split: option.splits)

lemma refuse_if_ok: "refuse_if cfg ks = Inr () \<longleftrightarrow> (\<forall>(k, msg) \<in> set ks. gm_str cfg k = [])"
proof (induction ks)
  case (Cons km ks)
  then show ?case by (cases km) (auto simp: refuse_if_def split: list.splits)
qed (simp add: refuse_if_def)

lemma driver_check_iff:
  "volume_driver_check cfg driver = Inr () \<longleftrightarrow>
     (driver \<noteq> ''zfs'' \<longrightarrow> gm_str cfg ''zfs.use_refquota'' = [] \<and> gm_str cfg ''zfs.remove_snapshots'' = []) \<and>
     (driver = ''dir'' \<longrightarrow> gm_str cfg ''block.mount_options'' = [] \<and> gm_str cfg ''block.filesystem'' = [] \<and>
        gm_str cfg ''size'' = [])"
  by (auto simp: volume_driver_check_def res_elims refuse_if_ok)

lemma volume_keys_check:
  assumes "volume_keys cfg driver cfg = Inr ()"
  shows "volume_driver_check cfg driver = Inr ()"
proof (rule ccontr)
  assume no: "volume_driver_check cfg driver \<noteq> Inr ()"
  then have "gm_str cfg ''zfs.use_refquota'' \<noteq> [] \<or> gm_str cfg ''zfs.remove_snapshots'' \<noteq> [] \<or>
      gm_str cfg ''block.mount_options'' \<noteq> [] \<or> gm_str cfg ''block.filesystem'' \<noteq> [] \<or> gm_str cfg ''size'' \<noteq> []"
    unfolding driver_check_iff by auto
  then show False
    using no by (elim disjE; use checked_volume_entry [OF assms] in \<open>force simp: HasPrefix_def\<close>)
qed

text \<open>An entry is acceptable by itself.\<close>

definition entry_ok :: "string \<times> string \<Rightarrow> bool" where
  "entry_ok kv \<longleftrightarrow> HasPrefix (fst kv) ''user.'' \<or>
     (\<exists>chk. map_of storageVolumeConfigKeys (fst kv) = Some chk \<and> chk (snd kv) = Inr ())"

definition entries_ok :: "string gomap \<Rightarrow> bool" where
  "entries_ok m \<longleftrightarrow> (\<forall>kv \<in> set m. entry_ok kv)"

lemma volume_keys_ok:
  "volume_keys cfg driver cfg = Inr () \<longleftrightarrow>
     entries_ok cfg \<and> volume_driver_check cfg driver = Inr ()"
proof
  assume l: "volume_keys cfg driver cfg = Inr ()"
  show "entries_ok cfg \<and> volume_driver_check cfg driver = Inr ()"
    unfolding entries_ok_def
  proof (intro conjI ballI volume_keys_check l)
    fix kv assume "kv \<in> set cfg"
    then show "entry_ok kv"
      using l unfolding volume_keys_iff
      by (cases kv) (auto simp: volume_key_check_def entry_ok_def res_elims split: option.splits)
  qed
next
  assume r: "entries_ok cfg \<and> volume_driver_check cfg driver = Inr ()"
  show "volume_keys cfg driver cfg = Inr ()"
    unfolding volume_keys_iff
  proof (intro ballI)
    fix kv assume "kv \<in> set cfg"
    then show "case kv of (k, v) \<Rightarrow> HasPrefix k ''user.'' \<or> volume_key_check cfg driver k v = Inr ()"
      using r by (cases kv) (auto simp: volume_key_check_def entry_ok_def entries_ok_def)
  qed
qed

lemma entries_set: "entries_ok m \<Longrightarrow> entry_ok (k, v) \<Longrightarrow> entries_ok (gm_set m k v)"
  unfolding entries_ok_def by (auto dest: set_gm_set)

lemma entry_keys:
  "entry_ok (''size'', v) \<longleftrightarrow> size_checker v = Inr ()"
  "entry_ok (''block.filesystem'', v) \<longleftrightarrow> filesystem_checker v = Inr ()"
  "entry_ok (''block.mount_options'', v)"
  by (simp_all add: entry_ok_def storageVolumeConfigKeys_def HasPrefix_def IsAny_def)

lemma entries_or_else: "entries_ok m \<Longrightarrow> entry_ok (k, v) \<Longrightarrow> entries_ok (or_else_set m k v)"
  unfolding or_else_set_def by (simp add: entries_set)

lemma GB10: "size_checker ''10GB'' = Inr ()"
proof -
  have "show_nat 10 = ''10''" by code_simp
  then show ?thesis using size_GB_ok [of 10] by simp
qed

lemma pool_entry_ok:
  assumes "storagePoolValidateConfig pname driver m = Inr ()"
  shows "filesystem_checker (gm_str m ''volume.block.filesystem'') = Inr ()"
    and "size_checker (gm_str m ''volume.size'') = Inr ()"
proof -
  have ok: "pool_key_check driver k (gm_str m k) = Inr ()" if "gm_str m k \<noteq> []" "\<not> HasPrefix k ''user.''" for k
    using assms gm_str_entry [OF that(1)] that(2)
    by (auto simp: storagePoolValidateConfig_def res_elims pool_keys_iff)
  show "filesystem_checker (gm_str m ''volume.block.filesystem'') = Inr ()"
  proof (cases "gm_str m ''volume.block.filesystem'' = []")
    case False
    then show ?thesis using ok [of "''volume.block.filesystem''"]
      by (auto simp: pool_key_check_def storagePoolConfigKeys_def HasPrefix_def split: if_splits)
  qed (simp add: filesystem_checker_def IsOneOf_def)
  show "size_checker (gm_str m ''volume.size'') = Inr ()"
  proof (cases "gm_str m ''volume.size'' = []")
    case False
    then show ?thesis using ok [of "''volume.size''"]
      by (auto simp: pool_key_check_def storagePoolConfigKeys_def HasPrefix_def split: if_splits)
  qed (simp add: size_checker_def)
qed

lemma block_defaults_entries:
  assumes "entries_ok cfg" "storagePoolValidateConfig pname driver parent = Inr ()"
  shows "entries_ok (block_defaults parent cfg)"
proof -
  note p = pool_entry_ok [OF assms(2)]
  have ext4: "filesystem_checker ''ext4'' = Inr ()" by (simp add: filesystem_checker_def IsOneOf_def)
  define c2 where "c2 = or_else_set (or_else_set (or_else_set (or_else_set cfg
      ''block.filesystem'' (gm_str parent ''volume.block.filesystem'')) ''block.filesystem'' ''ext4'')
      ''block.mount_options'' (gm_str parent ''volume.block.mount_options'')) ''block.mount_options'' ''discard''"
  define c3 where "c3 = (if unsized c2 then gm_set c2 ''size'' (gm_str parent ''volume.size'') else c2)"
  have "entries_ok c2"
    unfolding c2_def by (intro entries_or_else assms(1)) (simp_all add: entry_keys p ext4)
  then have "entries_ok c3" unfolding c3_def by (simp add: entries_set entry_keys p)
  moreover have "block_defaults parent cfg = (if unsized c3 then gm_set c3 ''size'' ''10GB'' else c3)"
    unfolding block_defaults_def Let_def c3_def c2_def by (rule refl)
  ultimately show ?thesis by (simp add: entries_set entry_keys GB10)
qed

lemma block_defaults_zfs:
  "gm_str (block_defaults parent cfg) ''zfs.use_refquota'' = gm_str cfg ''zfs.use_refquota''"
  "gm_str (block_defaults parent cfg) ''zfs.remove_snapshots'' = gm_str cfg ''zfs.remove_snapshots''"
  by (simp_all add: block_defaults_def Let_def or_else_set_def gm_str_set)

text \<open>C36: 
  The defaults of a volume, taken from its pool where the pool has some, leave a valid volume
  configuration valid, for every driver.\<close>
theorem volume_defaults_stay_valid:
  assumes "storageVolumeValidateConfig name cfg p = Inr ()"
    and "storagePoolValidateConfig pname (sp_Driver p) (sp_Config p) = Inr ()"
    and "storageVolumeFillDefault name cfg p = Inr full"
  shows "storageVolumeValidateConfig name full p = Inr ()"
proof -
  let ?d = "sp_Driver p"
  have v: "entries_ok cfg" "volume_driver_check cfg ?d = Inr ()"
    using assms(1) by (simp_all add: storageVolumeValidateConfig_def volume_keys_ok)
  note zfs = v(2) [unfolded driver_check_iff]
  have "entries_ok full \<and> volume_driver_check full ?d = Inr ()"
  proof (cases "?d = ''dir'' \<or> ?d = ''ceph''")
    case True
    then have "full = gm_set cfg ''size'' []" using assms(3) by (simp add: storageVolumeFillDefault_def)
    with v(1) zfs show ?thesis
      by (auto simp: entries_set entry_keys size_checker_def driver_check_iff gm_str_set)
  next
    case nodir: False
    show ?thesis
    proof (cases "?d = ''lvm''")
      case True
      then have "full = block_defaults (sp_Config p) cfg" using assms(3) by (simp add: storageVolumeFillDefault_def)
      with v(1) zfs True block_defaults_entries [OF v(1) assms(2)] show ?thesis
        by (simp add: driver_check_iff block_defaults_zfs)
    next
      case False
      with nodir assms(3) have "full = cfg \<or> full = gm_set cfg ''size'' ''10GB''"
        by (auto simp: storageVolumeFillDefault_def res_elims split: if_splits)
      with v nodir show ?thesis by (auto simp: entries_set entry_keys GB10 driver_check_iff gm_str_set)
    qed
  qed
  then show ?thesis by (simp add: storageVolumeValidateConfig_def volume_keys_ok)
qed

theorem volume_defaults_stay_valid_witness:
  "storageVolumeValidateConfig ''v''
     [(''block.filesystem'', ''xfs''), (''block.mount_options'', ''discard''), (''size'', ''10GB'')]
     \<lparr>sp_Name = ''p'', sp_Driver = ''lvm'', sp_Description = [], sp_Config = [(''volume.block.filesystem'', ''xfs'')]\<rparr>
   = Inr ()"
  by (rule volume_defaults_stay_valid [where cfg = "[]" and pname = "''p''"])
    (simp_all add: storageVolumeValidateConfig_def storagePoolValidateConfig_def storageVolumeFillDefault_def
      block_defaults_def or_else_set_def unsized_def gm_str_def Let_def IsOneOf_def supportedStoragePoolDrivers_def
      thinpool_check_def size_checker_def pool_key_check_def wrong_driver_def HasPrefix_def storagePoolConfigKeys_def
      filesystem_checker_def)

section \<open>Mount points\<close>

definition plain :: "string \<Rightarrow> bool" where
  "plain s \<longleftrightarrow> s \<noteq> [] \<and> s \<noteq> ''.'' \<and> s \<noteq> ''..'' \<and> CHR ''/'' \<notin> set s"

definition absolute :: "string \<Rightarrow> bool" where
  "absolute p \<longleftrightarrow> (\<exists>ps. ps \<noteq> [] \<and> list_all plain ps \<and> p = ''/'' @ Join ''/'' ps)"

lemma clean_parts_plain: "list_all plain ps \<Longrightarrow> clean_parts r acc ps = rev acc @ ps"
  by (induction ps arbitrary: acc) (auto simp: plain_def)

lemma Split_plain_Join: "list_all plain ps \<Longrightarrow> ps \<noteq> [] \<Longrightarrow> Split (CHR ''/'') (Join ''/'' ps) = ps"
proof (induction ps)
  case (Cons p ps)
  then have n: "CHR ''/'' \<notin> set p" by (simp add: plain_def)
  show ?case
  proof (cases ps)
    case Nil
    with n show ?thesis by (simp add: Split_no_sep)
  next
    case (Cons q qs)
    with n Cons.IH Cons.prems show ?thesis by (simp add: Split_sep)
  qed
qed simp

lemma Join_append: "ps \<noteq> [] \<Longrightarrow> qs \<noteq> [] \<Longrightarrow> Join c (ps @ qs) = Join c ps @ c @ Join c qs"
proof (induction ps)
  case (Cons p ps)
  show ?case
  proof (cases ps)
    case Nil
    with Cons.prems show ?thesis by (cases qs) simp_all
  next
    case (Cons q rs)
    with Cons.IH Cons.prems show ?thesis by simp
  qed
qed simp

lemma path_Clean_plain:
  assumes "list_all plain ps" "ps \<noteq> []"
  shows "path_Clean (''/'' @ Join ''/'' ps) = ''/'' @ Join ''/'' ps"
  using clean_parts_plain [OF assms(1)] Split_plain_Join [OF assms]
  by (simp add: path_Clean_def Let_def HasPrefix_def)

lemma pool_path_plain:
  assumes "absolute var" "list_all plain (pool # parts)"
  shows "pool_path var pool parts = var @ ''/storage-pools/'' @ Join ''/'' (pool # parts)"
proof -
  obtain ps where ps: "ps \<noteq> []" "list_all plain ps" "var = ''/'' @ Join ''/'' ps"
    using assms(1) by (auto simp: absolute_def)
  let ?all = "ps @ ''storage-pools'' # pool # parts"
  have sp: "plain ''storage-pools''" by (simp add: plain_def)
  have plain_all: "list_all plain ?all" using ps(2) assms(2) sp by simp
  have "filter (\<lambda>p. p \<noteq> []) (var # ''storage-pools'' # pool # parts) = var # ''storage-pools'' # pool # parts"
    using ps(3) assms(2) by (auto simp: plain_def list_all_iff)
  moreover have "Join ''/'' (var # ''storage-pools'' # pool # parts) = ''/'' @ Join ''/'' ?all"
    using ps(1,3) Join_append [of ps "''storage-pools'' # pool # parts" "''/''"] by simp
  moreover have "path_Clean (''/'' @ Join ''/'' ?all) = ''/'' @ Join ''/'' ?all"
    by (rule path_Clean_plain [OF plain_all]) simp
  moreover have "Join ''/'' ?all = Join ''/'' ps @ ''/'' @ Join ''/'' (''storage-pools'' # pool # parts)"
    using ps(1) by (intro Join_append) auto
  ultimately show ?thesis using ps(3) by (simp add: pool_path_def path_Join_def)
qed

lemma slash_prefix:
  assumes "HasPrefix (p @ ''/'' @ r) (q @ ''/'')" "CHR ''/'' \<notin> set p" "CHR ''/'' \<notin> set q"
  shows "p = q"
proof -
  from assms(1) obtain t where "p @ CHR ''/'' # r = q @ CHR ''/'' # t" by (auto simp: HasPrefix_iff)
  then have "Split (CHR ''/'') (p @ CHR ''/'' # r) = Split (CHR ''/'') (q @ CHR ''/'' # t)" by simp
  then show ?thesis using assms(2,3) by (simp add: Split_sep)
qed

text \<open>C38: 
  What the daemon keeps of a container, a snapshot directory, an image or a volume lies below the mount point of
  its own pool and below that of no other pool, when the names are plain path elements.\<close>
theorem pools_apart:
  assumes "absolute var" "plain pool" "plain other" "plain name"
    and "path \<in> {getContainerMountPoint var pool name, getSnapshotMountPoint var pool name,
                  getImageMountPoint var pool name, getStoragePoolVolumeMountPoint var pool name}"
  shows "HasPrefix path (getStoragePoolMountPoint var other @ ''/'') \<longleftrightarrow> pool = other"
proof -
  obtain kind where "kind \<in> {''containers'', ''snapshots'', ''images'', ''custom''}"
    and path: "path = pool_path var pool [kind, name]"
    using assms(5) unfolding getContainerMountPoint_def getSnapshotMountPoint_def getImageMountPoint_def
      getStoragePoolVolumeMountPoint_def by blast
  then have "plain kind" by (auto simp: plain_def)
  with path have k: "path = var @ ''/storage-pools/'' @ pool @ ''/'' @ kind @ ''/'' @ name"
    using pool_path_plain [OF assms(1), of pool "[kind, name]"] assms(2,4) by simp
  have m: "getStoragePoolMountPoint var other = var @ ''/storage-pools/'' @ other"
    using pool_path_plain [OF assms(1), of other "[]"] assms(3) by (simp add: getStoragePoolMountPoint_def)
  show ?thesis
  proof
    assume "HasPrefix path (getStoragePoolMountPoint var other @ ''/'')"
    then have "HasPrefix (pool @ ''/'' @ kind @ ''/'' @ name) (other @ ''/'')"
      unfolding k m by (auto simp: HasPrefix_iff)
    then show "pool = other" using assms(2,3) by (intro slash_prefix) (auto simp: plain_def)
  next
    assume "pool = other"
    then show "HasPrefix path (getStoragePoolMountPoint var other @ ''/'')"
      unfolding k m by (auto simp: HasPrefix_iff)
  qed
qed

theorem pools_apart_witness:
  "\<not> HasPrefix (getContainerMountPoint ''/var/lib/apollo'' ''ssd'' ''web'')
       (getStoragePoolMountPoint ''/var/lib/apollo'' ''ssd2'' @ ''/'')"
proof -
  have "absolute ''/var/lib/apollo''"
    unfolding absolute_def by (intro exI [of _ "[''var'', ''lib'', ''apollo'']"]) (simp add: plain_def)
  from pools_apart [OF this, of "''ssd''" "''ssd2''" "''web''"] show ?thesis by (simp add: plain_def)
qed

lemma Split_append: "Split c (a @ c # s) = Split c a @ Split c s"
proof (induction a)
  case (Cons x a)
  then show ?case by (cases "Split c a") auto
qed simp



end
