(* ===== verification/StorageProps.thy ===== *)
theory StorageProps
  imports StorageHandlers StorageConfigProps DbReadBack ContainerFrame Runs
begin

text \<open>
  What pools and volumes guarantee: a calculus for how a program ends, the contract of a driver as a
  locale, the rollback of a failed creation, the cache of drivers, and what the handlers do and refuse.
\<close>

section \<open>How a program ends\<close>

text \<open>From tables satisfying \<open>P\<close> the program ends with a result and tables satisfying \<open>Q\<close>.\<close>

definition ends :: "(db \<Rightarrow> bool) \<Rightarrow> ('a dbworld_scheme, 'r) prog \<Rightarrow> ('r res \<Rightarrow> db \<Rightarrow> bool) \<Rightarrow> bool" where
  "ends P p Q \<longleftrightarrow> (\<forall>w. P (w_db w) \<longrightarrow> Q (fst (p w)) (w_db (snd (p w))))"

lemma endsI: "(\<And>w. P (w_db w) \<Longrightarrow> Q (fst (p w)) (w_db (snd (p w)))) \<Longrightarrow> ends P p Q"
  by (simp add: ends_def)

lemma endsD: "ends P p Q \<Longrightarrow> P (w_db w) \<Longrightarrow> Q (fst (p w)) (w_db (snd (p w)))"
  by (simp add: ends_def)

lemma endsD': "ends P p Q \<Longrightarrow> p w = (r, v) \<Longrightarrow> P (w_db w) \<Longrightarrow> Q r (w_db v)"
  by (metis endsD fst_conv snd_conv)

lemma ends_basic:
  "(\<And>d. P d \<Longrightarrow> Q (Inr x) d) \<Longrightarrow> ends P (ret x) Q"
  "(\<And>d. P d \<Longrightarrow> Q (Inl e) d) \<Longrightarrow> ends P (fail e) Q"
  "(\<And>d. P d \<Longrightarrow> Q r d) \<Longrightarrow> ends P (of_res r) Q"
  by (simp_all add: ends_def prog_defs)

lemma ends_pbind:
  assumes "ends P p R" "\<And>x. ends (R (Inr x)) (f x) Q" "\<And>e d. R (Inl e) d \<Longrightarrow> Q (Inl e) d"
  shows "ends P (pbind p f) Q"
proof (rule endsI)
  fix w :: "'a dbworld_scheme" assume "P (w_db w)"
  then have r: "R (fst (p w)) (w_db (snd (p w)))" by (rule endsD [OF assms(1)])
  show "Q (fst (pbind p f w)) (w_db (snd (pbind p f w)))"
  proof (cases "fst (p w)")
    case (Inl e)
    with r assms(3) show ?thesis by (cases "p w") (simp add: pbind_def)
  next
    case (Inr x)
    then have "pbind p f w = f x (snd (p w))" by (cases "p w") (simp add: pbind_def)
    with r Inr endsD [OF assms(2)] show ?thesis by simp
  qed
qed

lemma ends_weaken: "ends P p R \<Longrightarrow> (\<And>r d. R r d \<Longrightarrow> Q r d) \<Longrightarrow> ends P p Q"
  by (simp add: ends_def)

lemma ends_pre: "ends P p Q \<Longrightarrow> (\<And>d. P' d \<Longrightarrow> P d) \<Longrightarrow> ends P' p Q"
  by (simp add: ends_def)

lemma ends_readonly: "db_readonly p \<Longrightarrow> ends P p (\<lambda>r. P)"
  by (simp add: ends_def db_readonly_def)

lemma ends_keeps: "keeps I p \<Longrightarrow> ends I p (\<lambda>r. I)"
  by (simp add: ends_def keeps_def)

lemma ends_attempt:
  assumes "ends P p R" "\<And>x d. R (Inr x) d \<Longrightarrow> Q (Inr (Inr x)) d"
    and "\<And>e d. R (Inl e) d \<Longrightarrow> Q (if is_panic e then Inl e else Inr (Inl e)) d"
  shows "ends P (attempt p) Q"
proof (rule endsI)
  fix w :: "'a dbworld_scheme" assume "P (w_db w)"
  from endsD [OF assms(1) this] show "Q (fst (attempt p w)) (w_db (snd (attempt p w)))"
    using assms(3) by (cases "p w"; cases "fst (p w)") (auto simp: attempt_def intro: assms(2))
qed

lemma ends_sql:
  assumes "\<And>d x d'. P d \<Longrightarrow> eff d = Inr (x, d') \<Longrightarrow> Q (Inr x) d'" "\<And>d e. P d \<Longrightarrow> Q (Inl e) d"
  shows "ends P (sql orc q eff) Q"
  using assms
  by (auto simp: ends_def sql_def perform_def pbind_def split: option.splits sum.splits prod.splits)

lemma ends_transaction:
  assumes "ends (\<lambda>d. d = d0) body (\<lambda>r d. case r of Inl e \<Rightarrow> True | Inr x \<Rightarrow> Q (Inr x) d)" "\<And>e. Q (Inl e) d0"
  shows "ends (\<lambda>d. d = d0) (transaction orc body) Q"
proof (rule endsI)
  fix w :: "'a dbworld_scheme" assume w: "w_db w = d0"
  have b: "w_db (snd (Begin orc w)) = d0"
    using w db_readonly_query(3) [unfolded db_readonly_def] by metis
  let ?all = "pbind body (\<lambda>x. pbind (TxCommit orc) (\<lambda>_. ret x))"
  have "ends (\<lambda>d. d = d0) ?all (\<lambda>r d. case r of Inl e \<Rightarrow> True | Inr x \<Rightarrow> Q (Inr x) d)"
    by (rule ends_pbind [OF assms(1)], rule ends_pbind [OF ends_keeps [OF keeps_plain(2)]])
      (auto intro: ends_basic)
  from endsD [OF this, of "snd (Begin orc w)"] b
  have a: "case fst (?all (snd (Begin orc w))) of Inl e \<Rightarrow> True
     | Inr x \<Rightarrow> Q (Inr x) (w_db (snd (?all (snd (Begin orc w)))))" by simp
  show "Q (fst (transaction orc body w)) (w_db (snd (transaction orc body w)))"
  proof (cases "fst (Begin orc w)")
    case (Inl e)
    then show ?thesis using b assms(2) by (cases "Begin orc w") (simp add: transaction_def pbind_def)
  next
    case (Inr u)
    obtain r v where rv: "?all (snd (Begin orc w)) = (r, v)" by (cases "?all (snd (Begin orc w))")
    have "transaction orc body w = (case (r, v) of (Inl e, w') \<Rightarrow> (Inl e, w'\<lparr>w_db := d0\<rparr>) | (Inr x, w') \<Rightarrow> (Inr x, w'))"
      using Inr b rv by (cases "Begin orc w"; cases r) (simp_all add: transaction_def pbind_def [of "Begin orc"])
    with a rv assms(2) show ?thesis by (cases r) simp_all
  qed
qed

lemma ends_undo_with:
  assumes "ends P p R" "\<And>x d. R (Inr x) d \<Longrightarrow> Q (Inr x) d" "\<And>e. ends (R (Inl e)) h (\<lambda>_. Q (Inl e))"
  shows "ends P (undo_with h p) Q"
proof (rule endsI)
  fix w :: "'a dbworld_scheme" assume "P (w_db w)"
  from endsD [OF assms(1) this] show "Q (fst (undo_with h p w)) (w_db (snd (undo_with h p w)))"
    by (cases "p w"; cases "fst (p w)") (auto simp: undo_with_def intro: assms(2) endsD [OF assms(3)])
qed

lemma ends_turns: "turns p d x d' \<Longrightarrow> Q (Inr x) d' \<Longrightarrow> ends (\<lambda>e. e = d) p Q"
  by (rule endsI) (metis turnsD fst_conv snd_conv)

lemma ends_ignoring:
  assumes "ends P p (\<lambda>r. Q)"
  shows "ends P (ignoring p) (\<lambda>r. Q)"
  unfolding ignoring_def
  by (rule ends_pbind [OF ends_attempt [OF assms, where Q = "\<lambda>r. Q"]]) (auto intro: ends_basic)

section \<open>What a driver promises\<close>

text \<open>The operations on pools, mounts and volumes that the code undoes by itself leave the tables alone.\<close>

locale pool_driver =
  fixes D :: "'a dbworld_scheme driver"
  assumes init_reads: "db_readonly (dr_PoolInit D s)"
    and check_reads: "db_readonly (dr_PoolCheck D s)"
    and create_reads: "db_readonly (dr_PoolCreate D s)"
    and delete_reads: "db_readonly (dr_PoolDelete D s)"
    and update_reads: "db_readonly (dr_PoolUpdate D s cfg ks)"
    and volume_create_reads: "db_readonly (dr_VolumeCreate D s)"
    and mount_reads: "db_readonly (dr_VolumeMount D s)"
    and umount_reads: "db_readonly (dr_VolumeUmount D s)"
    and volume_update_reads: "db_readonly (dr_VolumeUpdate D s cfg ks)"
begin

lemmas driver_reads = init_reads check_reads create_reads delete_reads update_reads volume_create_reads
  mount_reads umount_reads volume_update_reads

lemma undo_create_reads: "db_readonly (ignoring (dr_PoolDelete D s))"
  using delete_reads unfolding db_readonly_iff_keeps by (blast intro: keeps_ignoring)

end

lemma db_readonly_spares: "db_readonly p \<longleftrightarrow> spares w_db p"
  by (simp add: db_readonly_def spares_def)

lemma spares_db_world:
  "spares w_db (perform orc ev)" "spares w_db (run_output orc cmd)" "spares w_db (path_exists orc p)"
  "spares w_db (ask g)" "spares w_db (RunCommand orc cmd)" "spares w_db (run_cmd orc cmd)"
  by (simp_all add: spares_def perform_def run_output_def path_exists_def get_world_def ask_def RunCommand_def
      run_cmd_def pbind_def ret_def fail_def split: option.splits sum.splits prod.splits)

lemmas file_defs = os_RemoveAll_def os_Symlink_def os_Chmod_def os_MkdirAll_def os_Rename_def if_exists_def
  unless_exists_def remove_existing_def

lemmas dir_defs = dir_driver_def dir_StoragePoolCreate_def dir_StoragePoolDelete_def dir_StoragePoolUpdate_def
  dir_StoragePoolVolumeCreate_def dir_mount_def dir_StoragePoolVolumeUpdate_def dir_link_def need_source_def

lemmas db_spares = spares_basic spares_pbind spares_if spares_let spares_cases spares_pwhen spares_seq_nil
  spares_seq_cons spares_for_all spares_attempt spares_ignoring spares_undo_with spares_db_world

lemma spares_files:
  "spares w_db (os_RemoveAll orc p)" "spares w_db (os_Symlink orc p q)" "spares w_db (os_Chmod orc p q)"
  "spares w_db (os_MkdirAll orc p)" "spares w_db (os_Rename orc p q)" "spares w_db (remove_existing orc p)"
  unfolding file_defs by (intro db_spares)+

lemma spares_if_exists: "spares w_db p \<Longrightarrow> spares w_db (if_exists orc q p)"
  unfolding if_exists_def by (intro db_spares)

lemma spares_drive: "spares w_db (drive orc s op args)" "spares w_db (drive_mount orc s op)"
  unfolding drive_def drive_mount_def by (intro db_spares)+

lemmas driver_spares = db_spares spares_files spares_if_exists spares_drive

interpretation outside: pool_driver "outside_driver orc" for orc
  by unfold_locales (unfold outside_driver_def db_readonly_spares driver.simps, (intro driver_spares)+)

interpretation dir: pool_driver "dir_driver orc" for orc
  by unfold_locales (unfold dir_defs db_readonly_spares driver.simps, (intro driver_spares)+)

interpretation known: pool_driver "driver_of orc t" for orc t
  by (cases "t = storageTypeDir") (simp_all add: driver_of_def outside.pool_driver_axioms dir.pool_driver_axioms)

section \<open>Creating and deleting the row of a pool\<close>

definition pool_made :: "pool_row \<Rightarrow> db \<Rightarrow> int \<Rightarrow> db \<Rightarrow> bool" where
  "pool_made row d i d' \<longleftrightarrow>
     i = t_next (storage_pools d) \<and> po_name row \<notin> po_name ` set (t_vals (storage_pools d)) \<and>
     (\<exists>c. d' = d\<lparr>storage_pools := t_snoc row (storage_pools d), storage_pools_config := c\<rparr> \<and>
        filter (\<lambda>(j, r). fst r \<noteq> i) (t_rows c) = filter (\<lambda>(j, r). fst r \<noteq> i) (t_rows (storage_pools_config d)))"

lemma keeps_pool_made: "keeps (pool_made row d i) (StoragePoolConfigAdd orc i cfg)"
proof -
  have "pool_made row d i x'" if "pool_made row d i x" "insert_pool_config i k v x = Inr x'" for x x' k v
    using that by (auto simp: pool_made_def insert_pool_config_def kv_insert_def res_elims t_insert_def split: if_splits)
  then show ?thesis
    unfolding StoragePoolConfigAdd_def
    by (auto intro!: keeps_pbind keeps_basic keeps_plain keeps_for_all keeps_pwhen keeps_tx_Exec)
qed

lemma ends_PoolCreate:
  "ends (\<lambda>e. e = d) (StoragePoolCreate orc name desc driver cfg)
     (\<lambda>r d'. case r of Inl e \<Rightarrow> d' = d | Inr i \<Rightarrow> pool_made \<lparr>po_name = name, po_description = Some desc, po_driver = driver\<rparr> d i d')"
proof -
  let ?made = "\<lambda>r d'. case r of Inl e \<Rightarrow> True | Inr i \<Rightarrow> pool_made \<lparr>po_name = name, po_description = Some desc, po_driver = driver\<rparr> d i d'"
  have ins: "pool_made \<lparr>po_name = name, po_description = Some desc, po_driver = driver\<rparr> d i d'" if "insert_pool name desc driver d = Inr (i, d')" for i d'
    using that
    by (auto simp: insert_pool_def pool_made_def res_elims t_insert_def t_snoc_def comp_def image_iff
        intro!: exI [of _ "storage_pools_config d"] split: if_splits)
  have "ends (\<lambda>e. e = d) (pbind (sql orc ''INSERT INTO storage_pools'' (insert_pool name desc driver))
      (\<lambda>i. pbind (StoragePoolConfigAdd orc i cfg) (\<lambda>_. ret i))) ?made"
  proof (rule ends_pbind [where R = ?made])
    show "ends (\<lambda>e. e = d) (sql orc ''INSERT INTO storage_pools'' (insert_pool name desc driver)) ?made"
      by (rule ends_sql) (auto intro: ins)
    show "ends (?made (Inr i)) (pbind (StoragePoolConfigAdd orc i cfg) (\<lambda>_. ret i)) ?made" for i
      by (rule ends_pbind [where R = "\<lambda>r. pool_made \<lparr>po_name = name, po_description = Some desc, po_driver = driver\<rparr> d i"])
        (auto intro: ends_keeps [OF keeps_pool_made] ends_basic)
  qed simp
  then show ?thesis
    unfolding StoragePoolCreate_def
    by (intro ends_transaction) (auto elim!: ends_weaken split: sum.splits)
qed

text \<open>Tables with the same rows; only the ids to come may differ.\<close>

definition same_rows :: "db \<Rightarrow> db \<Rightarrow> bool" where
  "same_rows d d' \<longleftrightarrow> (\<exists>n m. d' = d\<lparr>storage_pools := (storage_pools d)\<lparr>t_next := n\<rparr>,
     storage_pools_config := (storage_pools_config d)\<lparr>t_next := m\<rparr>\<rparr>)"

lemma same_rows_refl [simp]: "same_rows d d"
  unfolding same_rows_def
  by (rule exI [of _ "t_next (storage_pools d)"], rule exI [of _ "t_next (storage_pools_config d)"]) simp

lemma t_delete_none: "(\<And>i r. (i, r) \<in> set (t_rows t) \<Longrightarrow> \<not> P i r) \<Longrightarrow> t_delete P t = t"
  by (simp add: t_delete_def filter_True split_beta)

lemma rows_in: "(i, r) \<in> set (t_rows t) \<Longrightarrow> i \<in> set (t_ids t) \<and> r \<in> set (t_vals t)"
  by (force simp: t_ids_def t_vals_def)

lemma cascade_all: "fk_ok own c p \<Longrightarrow> set (t_ids p) \<subseteq> set (t_ids q) \<Longrightarrow> cascade own q c = c"
  unfolding cascade_def by (rule t_delete_none) (auto simp: fk_ok_def dest!: rows_in)

lemma delete_snoc:
  assumes "t_next t \<notin> set (t_ids t)"
  shows "t_delete (\<lambda>j _. j = t_next t) (t_snoc r t) = t\<lparr>t_next := t_next t + 1\<rparr>"
proof -
  have "filter (\<lambda>(j, x). j \<noteq> t_next t) (t_rows t) = t_rows t"
    using assms by (intro filter_True) (auto dest: rows_in)
  then show ?thesis by (simp add: t_delete_def t_snoc_def)
qed

lemma delete_made:
  assumes "pool_made row d i d'" "db_ok d"
  shows "same_rows d (delete_pools (\<lambda>j _. j = i) d')"
proof -
  from assms(1) obtain c where i: "i = t_next (storage_pools d)"
    and d': "d' = d\<lparr>storage_pools := t_snoc row (storage_pools d), storage_pools_config := c\<rparr>"
    and c: "filter (\<lambda>(j, r). fst r \<noteq> i) (t_rows c) = filter (\<lambda>(j, r). fst r \<noteq> i) (t_rows (storage_pools_config d))"
    unfolding pool_made_def by blast
  have ok: "t_ok (Some \<circ> po_name) (storage_pools d)" "fk_ok fst (storage_pools_config d) (storage_pools d)"
    "fk_ok vo_pool (storage_volumes d) (storage_pools d)" "fk_ok fst (storage_volumes_config d) (storage_volumes d)"
    using assms(2) by (simp_all add: db_ok_def entity_ok_def)
  have fresh: "t_next (storage_pools d) \<notin> set (t_ids (storage_pools d))" by (rule t_next_fresh [OF ok(1)])
  let ?ps = "(storage_pools d)\<lparr>t_next := i + 1\<rparr>"
  have ps: "t_delete (\<lambda>j _. j = i) (storage_pools d') = ?ps" using delete_snoc [OF fresh] by (simp add: d' i)
  have ids: "t_ids ?ps = t_ids (storage_pools d)" by (simp add: t_ids_def)
  have fresh': "i \<notin> set (t_ids ?ps)" unfolding ids unfolding i by (rule fresh)
  have "filter (\<lambda>(j, r). fst r \<noteq> i) (t_rows (storage_pools_config d)) = t_rows (storage_pools_config d)"
    using ok(2) fresh by (intro filter_True) (auto simp: i fk_ok_def dest!: rows_in)
  then have rows: "filter (\<lambda>(j, r). fst r \<noteq> i) (t_rows c) = t_rows (storage_pools_config d)" using c by simp
  have "filter (\<lambda>(j, r). fst r \<in> set (t_ids ?ps)) (t_rows c) = t_rows (storage_pools_config d)"
  proof -
    have "filter (\<lambda>(j, r). fst r \<in> set (t_ids ?ps)) (t_rows c) =
        filter (\<lambda>(j, r). fst r \<in> set (t_ids ?ps)) (filter (\<lambda>(j, r). fst r \<noteq> i) (t_rows c))"
      using fresh' by (auto intro!: filter_cong)
    also have "\<dots> = t_rows (storage_pools_config d)"
      unfolding rows using ok(2) by (intro filter_True) (auto simp: ids fk_ok_def dest!: rows_in)
    finally show ?thesis .
  qed
  then have "cascade fst ?ps c = (storage_pools_config d)\<lparr>t_next := t_next c\<rparr>"
    by (simp add: cascade_def t_delete_def split_beta)
  moreover have "cascade vo_pool ?ps (storage_volumes d) = storage_volumes d"
    using ok(3) by (rule cascade_all) (simp add: ids)
  moreover have "cascade fst (storage_volumes d) (storage_volumes_config d) = storage_volumes_config d"
    using ok(4) by (rule cascade_all) simp
  ultimately have "delete_pools (\<lambda>j _. j = i) d' = d\<lparr>storage_pools := ?ps,
      storage_pools_config := (storage_pools_config d)\<lparr>t_next := t_next c\<rparr>\<rparr>"
    unfolding delete_pools_def ps Let_def by (simp add: d')
  then show ?thesis unfolding same_rows_def by blast
qed

lemma turns_StoragePoolGet:
  assumes "quiet orc" "t_where (\<lambda>r. po_name r = name) (storage_pools d) = (i, r) # rs"
  shows "turns (StoragePoolGet orc name :: ('w dbworld_scheme, int \<times> pool) prog) d
     (i, \<lparr>sp_Name = name, sp_Driver = po_driver r,
          sp_Description = (case po_description r of None \<Rightarrow> [] | Some s \<Rightarrow> s),
          sp_Config = rows_map (pool_kv.rows i d)\<rparr>) d"
proof -
  have "turns (StoragePoolConfigGet orc i :: ('w dbworld_scheme, string gomap) prog) d (rows_map (pool_kv.rows i d)) d"
    unfolding StoragePoolConfigGet_def
    by (rule turns_pbind [OF turns_QueryScan [OF assms(1)]]) (simp add: pool_kv.rows_def turns_ret)
  then show ?thesis
    unfolding StoragePoolGet_def
    apply -
    apply (rule turns_pbind [OF turns_attempt])
     apply (rule turns_dbQueryRowScan [OF assms(1), where xs = rs])
     apply (rule assms(2))
    apply (simp add: turns_pbind turns_ret)
    done
qed

lemma turns_PoolDelete:
  assumes "quiet orc" "t_where (\<lambda>r. po_name r = name) (storage_pools d) = (i, r) # rs"
  shows "\<exists>p. turns (StoragePoolDelete orc name) d p (delete_pools (\<lambda>j _. j = i) d) \<and> sp_Driver p = po_driver r"
  unfolding StoragePoolDelete_def
  by (intro exI conjI, rule turns_pbind [OF turns_StoragePoolGet [OF assms]], simp,
      rule turns_pbind [OF turns_Exec [OF assms(1)]], simp, rule turns_ret, simp)

section \<open>A creation that fails\<close>

lemma ends_update_cache: "ends P (update_cache f) (\<lambda>r d. r = Inr () \<and> P d)"
  by (simp add: ends_def update_cache_def put_world_def)

lemma db_readonly_ask: "db_readonly (ask g)"
  by (simp add: ask_def db_readonly_basic)

lemma StoragePoolGetID_reads: "db_readonly (StoragePoolGetID orc name)"
  unfolding StoragePoolGetID_def by (intro db_readonly_intros)

lemma storageInit_reads: "db_readonly (storageInit orc poolName volumeName t)"
  unfolding storageInit_def Let_def
  by (intro db_readonly_intros readonly_gets known.init_reads)

lemma storagePoolInit_reads: "db_readonly (storagePoolInit orc poolName)"
  unfolding storagePoolInit_def by (rule storageInit_reads)

abbreviation unless_error :: "db \<Rightarrow> (db \<Rightarrow> bool) \<Rightarrow> 'r res \<Rightarrow> db \<Rightarrow> bool" where
  "unless_error d Q \<equiv> (\<lambda>r d'. case r of Inl e \<Rightarrow> d' = d | Inr x \<Rightarrow> Q d')"

lemma ends_CreateAndUpdateCache:
  "ends (\<lambda>e. e = d) (dbStoragePoolCreateAndUpdateCache orc name desc driver cfg)
     (unless_error d (\<lambda>d'. \<exists>i. pool_made \<lparr>po_name = name, po_description = Some desc, po_driver = driver\<rparr> d i d'))"
  unfolding dbStoragePoolCreateAndUpdateCache_def
  by (rule ends_pbind [OF ends_PoolCreate], rule ends_pbind [OF ends_update_cache])
    (auto intro!: ends_basic)

text \<open>The row of the pool and what the caller gets; a failure before or in the insertion changes nothing.\<close>

lemma ends_DBCreate:
  "ends (\<lambda>e. e = d) (storagePoolDBCreate orc name desc driver config0)
     (unless_error d (\<lambda>d'. \<exists>i. pool_made \<lparr>po_name = name, po_description = Some desc, po_driver = driver\<rparr> d i d'))"
  (is "ends ?at _ ?Q")
proof -
  let ?made = "\<lambda>d'. \<exists>i. pool_made \<lparr>po_name = name, po_description = Some desc, po_driver = driver\<rparr> d i d'"
  have read: "ends ?at (pbind p f) ?Q" if "db_readonly p" "\<And>x. ends ?at (f x) ?Q" for p :: "('a sworld_scheme, 'x) prog" and f
    by (rule ends_pbind [OF ends_readonly [OF that(1)]]) (use that(2) in auto)
  have made: "ends ?at (attempt (dbStoragePoolCreateAndUpdateCache orc name desc driver full))
      (\<lambda>r d'. case r of Inl e \<Rightarrow> d' = d | Inr (Inl e) \<Rightarrow> d' = d | Inr (Inr i) \<Rightarrow> ?made d')" for full
    by (rule ends_attempt [OF ends_CreateAndUpdateCache]) auto
  have body: "ends ?at (pbind (attempt (dbStoragePoolCreateAndUpdateCache orc name desc driver full)) (\<lambda>q.
        case q of Inl e \<Rightarrow> fail (Errorf ''Error inserting %s into database: %s'' [name]) | Inr i \<Rightarrow> ret (g full))) ?Q"
    for full and g :: "string gomap \<Rightarrow> string gomap"
    by (rule ends_pbind [OF made]) (auto intro: ends_basic split: sum.splits)
  have refuse: "ends ?at (if c then fail e else p) ?Q" if "ends ?at p ?Q" for c e and p :: "('a sworld_scheme, string gomap) prog"
    using that by (simp add: ends_basic)
  then show ?thesis
    unfolding storagePoolDBCreate_def Let_def
    by (intro read refuse body db_readonly_basic db_readonly_attempt StoragePoolGetID_reads db_readonly_ask)
qed

lemma made_where:
  assumes "pool_made row d i d'"
  shows "t_where (\<lambda>r. po_name r = po_name row) (storage_pools d') = [(i, row)]"
proof -
  have "t_where (\<lambda>r. po_name r = po_name row) (storage_pools d) = []"
    using assms by (intro t_where_none) (auto simp: pool_made_def image_iff)
  then show ?thesis using assms by (auto simp: pool_made_def)
qed

lemma StoragePoolUpdate_atomic: "atomic (StoragePoolUpdate orc name desc cfg)"
  unfolding StoragePoolUpdate_def by (intro atomic_intros readonly_gets)

lemma ends_atomic: "atomic p \<Longrightarrow> ends (\<lambda>e. e = d) p (\<lambda>r d'. case r of Inl e \<Rightarrow> d' = d | Inr x \<Rightarrow> True)"
  by (auto simp: ends_def atomic_def split: sum.splits)

text \<open>
  The steps after the row: what fails there leaves the tables as the row left them, before the undo.\<close>

lemma ends_create_rest:
  "ends (\<lambda>e. e = d) (pbind (storagePoolInit orc poolName) (\<lambda>s.
      pbind (driver_call orc s dr_PoolCreate) (\<lambda>s'.
        undo_with (ignoring (driver_call orc s' dr_PoolDelete))
          (pwhen (c s') (pbind (attempt (StoragePoolUpdate orc poolName description (g s'))) (\<lambda>r.
               case r of Inr y \<Rightarrow> ret () | Inl z \<Rightarrow> fail err))))))
     (\<lambda>r d'. case r of Inl e \<Rightarrow> d' = d | Inr x \<Rightarrow> True)"
  (is "ends ?at _ ?Q")
proof -
  have upd: "ends ?at (pwhen (c s') (pbind (attempt (StoragePoolUpdate orc poolName description (g s'))) (\<lambda>r.
      case r of Inr y \<Rightarrow> ret () | Inl z \<Rightarrow> fail err))) ?Q" for s'
  proof -
    have "ends ?at (attempt (StoragePoolUpdate orc poolName description (g s')))
        (\<lambda>r d'. case r of Inl e \<Rightarrow> d' = d | Inr (Inl e) \<Rightarrow> d' = d | Inr (Inr x) \<Rightarrow> True)"
      by (rule ends_attempt [OF ends_atomic [OF StoragePoolUpdate_atomic]]) auto
    then have "ends ?at (pbind (attempt (StoragePoolUpdate orc poolName description (g s'))) (\<lambda>r.
        case r of Inr y \<Rightarrow> ret () | Inl z \<Rightarrow> fail err)) ?Q"
      by (rule ends_pbind) (auto intro: ends_basic split: sum.splits)
    then show ?thesis
      by (cases "c s'") (simp_all only: pwhen_def if_True if_False, simp add: ends_basic)
  qed
  have undo: "ends ?at (undo_with (ignoring (driver_call orc s' dr_PoolDelete))
      (pwhen (c s') (pbind (attempt (StoragePoolUpdate orc poolName description (g s'))) (\<lambda>r.
        case r of Inr y \<Rightarrow> ret () | Inl z \<Rightarrow> fail err)))) ?Q" for s'
    by (rule ends_undo_with [OF upd])
      (auto intro: ends_readonly known.undo_create_reads simp: driver_call_def)
  show ?thesis
    by (rule ends_pbind [OF ends_readonly [OF storagePoolInit_reads]],
        rule ends_pbind [OF ends_readonly], simp add: driver_call_def known.create_reads, rule undo) auto
qed

lemma ends_undo_create:
  assumes "quiet orc" "db_ok d" "pool_made row d i d'"
  shows "ends (\<lambda>e. e = d') (ignoring (dbStoragePoolDeleteAndUpdateCache orc (po_name row)) :: ('w sworld_scheme, unit) prog)
    (\<lambda>_. same_rows d)"
proof -
  let ?del = "StoragePoolDelete orc (po_name row) :: ('w sworld_scheme, pool) prog"
  from turns_PoolDelete [OF assms(1) made_where [OF assms(3)]] obtain p where
    "turns ?del d' p (delete_pools (\<lambda>j _. j = i) d')" by blast
  then have "ends (\<lambda>e. e = d') ?del (\<lambda>_. same_rows d)"
    by (rule ends_turns) (rule delete_made [OF assms(3,2)])
  then have "ends (\<lambda>e. e = d')
      (dbStoragePoolDeleteAndUpdateCache orc (po_name row) :: ('w sworld_scheme, unit) prog) (\<lambda>_. same_rows d)"
    unfolding dbStoragePoolDeleteAndUpdateCache_def
    by (rule ends_pbind) (auto intro: ends_weaken [OF ends_update_cache])
  then show ?thesis by (rule ends_ignoring)
qed

text \<open>C31: 
  When the creation of a pool fails, at whatever step and for whatever reason, the tables hold the same
  rows as before, provided that the database itself works: the row is taken back with its configuration,
  and no other pool, volume or setting is touched. Only the ids that will be given next may differ.\<close>
theorem failed_pool_creation_undone:
  assumes "quiet orc" "db_ok (w_db w)"
    and "storagePoolCreateInternal orc name description driver cfg w = (Inl e, w')"
  shows "same_rows (w_db w) (w_db w')"
proof -
  let ?row = "\<lparr>po_name = name, po_description = Some description, po_driver = driver\<rparr>" and ?d = "w_db w"
  have "ends (\<lambda>e. e = ?d) (storagePoolCreateInternal orc name description driver cfg)
      (\<lambda>r d'. case r of Inl e \<Rightarrow> same_rows ?d d' | Inr x \<Rightarrow> True)"
    unfolding storagePoolCreateInternal_def
  proof (rule ends_pbind [OF ends_DBCreate])
    fix full
    let ?rest = "pbind (storagePoolInit orc name) (\<lambda>s. pbind (driver_call orc s dr_PoolCreate) (\<lambda>s'.
        undo_with (ignoring (driver_call orc s' dr_PoolDelete))
          (pwhen (fst (storageConfigDiff full (sp_Config (so_pool s'))) \<noteq> [])
            (pbind (attempt (StoragePoolUpdate orc name description (sp_Config (so_pool s')))) (\<lambda>r.
               case r of Inl x \<Rightarrow> fail (Errorf ''Error inserting %s into database: %s'' [name]) | Inr _ \<Rightarrow> ret ())))))"
    have one: "ends (\<lambda>e. e = d') (undo_with (ignoring (dbStoragePoolDeleteAndUpdateCache orc name)) ?rest)
        (\<lambda>r d''. case r of Inl e \<Rightarrow> same_rows ?d d'' | Inr x \<Rightarrow> True)" if "pool_made ?row ?d i d'" for i d'
      by (rule ends_undo_with [OF ends_create_rest])
        (use ends_undo_create [OF assms(1,2) that] in simp_all)
    then show "ends (unless_error ?d (\<lambda>d'. \<exists>i. pool_made ?row ?d i d') (Inr full))
        (undo_with (ignoring (dbStoragePoolDeleteAndUpdateCache orc name)) ?rest)
        (\<lambda>r d''. case r of Inl e \<Rightarrow> same_rows ?d d'' | Inr x \<Rightarrow> True)"
      unfolding ends_def by auto
  qed auto
  from endsD' [OF this assms(3)] show ?thesis by simp
qed

section \<open>The cache of drivers\<close>

definition drivers_of :: "db \<Rightarrow> string list" where
  "drivers_of d = map po_driver (t_vals (storage_pools d))"

definition cache_ok :: "'a sworld_scheme \<Rightarrow> bool" where
  "cache_ok w \<longleftrightarrow> distinct (w_drivers w) \<and> set (w_drivers w) = set (drivers_of (w_db w))"

lemma blind_drivers: "blind (w_drivers :: 'a sworld_scheme \<Rightarrow> string list)"
  by (simp add: blind_def)

lemma spares_drivers:
  "spares (w_drivers :: 'a sworld_scheme \<Rightarrow> string list) (StoragePoolCreate orc name desc driver cfg)"
  "spares (w_drivers :: 'a sworld_scheme \<Rightarrow> string list) (StoragePoolDelete orc name)"
  unfolding StoragePoolCreate_def StoragePoolConfigAdd_def StoragePoolDelete_def StoragePoolGet_def StoragePoolConfigGet_def
  by (intro spares_intros blind_drivers)+

lemma drop_driver_set:
  assumes "distinct ds"
  shows "distinct (drop_driver x ds) \<and> set (drop_driver x ds) = set ds - {x}"
proof -
  have idx: "driver_index x ds = (if x \<in> set ds then Some i else None)" if "x \<in> set ds \<Longrightarrow> i < length ds \<and> ds ! i = x" for i
    using assms that
  proof (induction ds arbitrary: i)
    case (Cons y ys)
    show ?case
    proof (cases "y = x")
      case True
      then have "i = 0" using Cons.prems by (cases i) auto
      with True show ?thesis by simp
    next
      case False
      then show ?thesis
      proof (cases "x \<in> set ys")
        case True
        with False Cons.prems obtain j where "i = Suc j" by (cases i) auto
        with True False Cons show ?thesis by auto
      qed (use Cons False in \<open>auto dest: Cons.IH [of 0]\<close>)
    qed
  qed simp
  show ?thesis
  proof (cases "x \<in> set ds")
    case False
    with idx [of 0] assms show ?thesis by (simp add: drop_driver_def)
  next
    case True
    then obtain i where i: "i < length ds" "ds ! i = x" by (metis in_set_conv_nth)
    have drop: "drop_driver x ds = butlast (ds[i := last ds])"
      using idx [of i] i True by (simp add: drop_driver_def)
    obtain xs y where ds: "ds = xs @ [y]" using i(1) by (cases ds rule: rev_cases) auto
    show ?thesis
    proof (cases "i = length xs")
      case True
      then have "drop_driver x ds = xs" using drop ds by simp
      with True show ?thesis using assms i ds by (auto simp: nth_append)
    next
      case False
      then have l: "i < length xs" "xs ! i = x" using i ds by (auto simp: nth_append split: if_splits)
      then have "butlast (ds[i := last ds]) = xs[i := y]" by (simp add: ds list_update_append)
      moreover have "distinct (xs[i := y])"
        using assms ds by (intro distinct_list_update) auto
      moreover have "set (xs[i := y]) = set ds - {x}"
        using assms l ds by (auto simp: set_update_distinct)
      ultimately show ?thesis by (simp add: drop)
    qed
  qed
qed

lemma cache_created:
  assumes "cache_ok w" "dbStoragePoolCreateAndUpdateCache orc name desc driver cfg w = (Inr i, v)"
  shows "cache_ok v"
proof -
  obtain u where u: "StoragePoolCreate orc name desc driver cfg w = (Inr i, u)"
    and v: "v = u\<lparr>w_drivers := add_driver driver (w_drivers u)\<rparr>"
    using assms(2)
    by (auto simp: dbStoragePoolCreateAndUpdateCache_def pbind_def update_cache_def put_world_def ret_def
        split: prod.splits sum.splits)
  have "w_drivers u = w_drivers w" using sparesD [OF spares_drivers(1) u] .
  moreover have "pool_made \<lparr>po_name = name, po_description = Some desc, po_driver = driver\<rparr> (w_db w) i (w_db u)"
    using endsD' [OF ends_PoolCreate u refl] by simp
  then have "drivers_of (w_db u) = drivers_of (w_db w) @ [driver]"
    by (auto simp: pool_made_def drivers_of_def)
  ultimately show ?thesis
    using assms(1) v by (auto simp: cache_ok_def add_driver_def)
qed

text \<open>C34: 
  The cached list of the drivers in use stays exact when a pool is created, and stays exact when a pool is
  deleted just in case no other pool has the driver of that pool: otherwise the deletion drops a driver that is
  still in use, although the list is meant to say which ones are.\<close>
theorem driver_cache_exact:
  fixes w :: "'a sworld_scheme"
  assumes "quiet orc" "db_ok (w_db w)" "cache_ok w"
    and "t_where (\<lambda>r. po_name r = gone) (storage_pools (w_db w)) = [(j, r)]"
  shows "(dbStoragePoolCreateAndUpdateCache orc name desc driver cfg w = (Inr i, v) \<longrightarrow> cache_ok v) \<and>
    (\<exists>u. dbStoragePoolDeleteAndUpdateCache orc gone w = (Inr (), u) \<and>
         (cache_ok u \<longleftrightarrow> po_driver r \<notin> set (drivers_of (w_db u))))"
proof (intro conjI impI)
  assume "dbStoragePoolCreateAndUpdateCache orc name desc driver cfg w = (Inr i, v)"
  then show "cache_ok v" by (rule cache_created [OF assms(3)])
next
  let ?del = "StoragePoolDelete orc gone :: ('a sworld_scheme, pool) prog" and ?d = "w_db w"
  from turns_PoolDelete [OF assms(1,4)] obtain p where
    p: "turns ?del ?d p (delete_pools (\<lambda>k _. k = j) ?d)" "sp_Driver p = po_driver r" by blast
  from turnsD [OF p(1) refl] obtain u where
    u: "?del w = (Inr p, u)" "w_db u = delete_pools (\<lambda>k _. k = j) ?d" by blast
  let ?u = "u\<lparr>w_drivers := drop_driver (po_driver r) (w_drivers u)\<rparr>"
  have run: "dbStoragePoolDeleteAndUpdateCache orc gone w = (Inr (), ?u)"
    using u(1) p(2) by (simp add: dbStoragePoolDeleteAndUpdateCache_def pbind_def update_cache_def put_world_def)
  have w: "w_drivers u = w_drivers w" using sparesD [OF spares_drivers(2) u(1)] .
  have vals: "t_vals (storage_pools (w_db u)) = map snd (filter (\<lambda>(k, x). k \<noteq> j) (t_rows (storage_pools ?d)))"
    by (simp add: u(2) delete_pools_def t_vals_delete Let_def)
  have row: "(j, r) \<in> set (t_rows (storage_pools ?d))"
    using assms(4) unfolding t_where_def by (metis (mono_tags, lifting) list.set_intros(1) mem_Collect_eq set_filter)
  have dist: "distinct (map fst (t_rows (storage_pools ?d)))"
    using assms(2) by (simp add: db_ok_def entity_ok_def t_ok_def t_ids_def)
  have split: "set (drivers_of ?d) = insert (po_driver r) (set (drivers_of (w_db u)))"
  proof -
    have "snd ` set (t_rows (storage_pools ?d)) =
        insert r (snd ` set (filter (\<lambda>(k, x). k \<noteq> j) (t_rows (storage_pools ?d))))"
      using row dist by (force simp: distinct_map inj_on_def image_iff)
    then have "po_driver ` snd ` set (t_rows (storage_pools ?d)) =
        insert (po_driver r) (po_driver ` snd ` set (filter (\<lambda>(k, x). k \<noteq> j) (t_rows (storage_pools ?d))))"
      by simp
    then show ?thesis unfolding drivers_of_def vals by (simp only: t_vals_def set_map)
  qed
  have "cache_ok ?u \<longleftrightarrow> po_driver r \<notin> set (drivers_of (w_db u))"
    using drop_driver_set [of "w_drivers w" "po_driver r"] assms(3) split
    by (auto simp: cache_ok_def w)
  with run show "\<exists>u. dbStoragePoolDeleteAndUpdateCache orc gone w = (Inr (), u) \<and>
      (cache_ok u \<longleftrightarrow> po_driver r \<notin> set (drivers_of (w_db u)))" by auto
qed

section \<open>The storage object\<close>

lemma pbind_result: "pbind p f w = (Inr y, v) \<Longrightarrow> \<exists>x u. p w = (Inr x, u) \<and> f x u = (Inr y, v)"
  by (auto simp: pbind_def split: prod.splits sum.splits)

lemma string_type: "storageStringToType s = Inr t \<Longrightarrow> storageTypeToString t = Inr s"
  by (auto simp: storageStringToType_def split: if_splits)

lemma type_name: "StoragePoolVolumeTypeToName t = Inr s \<Longrightarrow> storagePoolVolumeTypeNameToType s = Inr t"
  by (auto simp: StoragePoolVolumeTypeToName_def storagePoolVolumeTypeNameToType_def split: if_splits)

lemma StoragePoolGet_name: "StoragePoolGet orc name w = (Inr (i, p), v) \<Longrightarrow> sp_Name p = name"
  by (auto simp: StoragePoolGet_def ret_def fail_def dest!: pbind_result split: sum.splits prod.splits)

lemma VolumeGetType_typed:
  "StoragePoolVolumeGetType orc name t poolID w = (Inr (i, vol), v) \<Longrightarrow>
   sv_Name vol = name \<and> storagePoolVolumeTypeNameToType (sv_Type vol) = Inr t"
  by (auto simp: StoragePoolVolumeGetType_def ret_def of_res_def dest!: pbind_result dest: type_name)


section \<open>Updates\<close>

lemma atomic_driver: "db_readonly p \<Longrightarrow> (\<And>x. atomic (f x)) \<Longrightarrow> atomic (pbind p f)"
  by (rule atomic_after_read)

lemma db_readonly_pwhen: "db_readonly p \<Longrightarrow> db_readonly (pwhen c p)"
  by (simp add: pwhen_def db_readonly_basic)

lemma atomic_pwhen: "atomic p \<Longrightarrow> atomic (pwhen c p)"
  by (simp add: pwhen_def atomic_basic)

lemma StoragePoolVolumeUpdate_atomic: "atomic (StoragePoolVolumeUpdate orc n t p s cfg)"
  unfolding StoragePoolVolumeUpdate_def by (intro atomic_intros readonly_gets)

lemma seq_pair: "seq_all [p, q] = pbind p (\<lambda>_. q)"
proof
  fix w show "seq_all [p, q] w = pbind p (\<lambda>_. q) w"
    by (auto simp: pbind_def ret_def split: prod.splits sum.splits)
qed

lemma storagePoolUpdate_atomic: "atomic (storagePoolUpdate orc name desc cfg)"
  unfolding storagePoolUpdate_def Let_def seq_pair
  by (intro atomic_driver storagePoolInit_reads atomic_prod db_readonly_pwhen atomic_pwhen StoragePoolUpdate_atomic
      db_readonly_if db_readonly_basic)
    (simp add: driver_call_def known.update_reads)

lemma storagePoolVolumeUpdate_atomic: "atomic (storagePoolVolumeUpdate orc pool name t desc cfg)"
  unfolding storagePoolVolumeUpdate_def Let_def storagePoolVolumeInit_def
  by (intro atomic_driver storageInit_reads db_readonly_pwhen atomic_pwhen StoragePoolVolumeUpdate_atomic
      StoragePoolGetID_reads)
    (simp add: driver_call_def known.volume_update_reads)


section \<open>Handlers\<close>

text \<open>What was done outside the database.\<close>

definition outside_history :: "'a dbworld_scheme \<Rightarrow> event list" where
  "outside_history w = filter (\<lambda>ev. \<nexists>q. ev = Stmt q) (w_hist w)"

lemma spares_outside_sql: "spares outside_history (sql orc q eff)"
  by (rule sparesI)
    (auto simp: sql_def perform_def pbind_def outside_history_def emit_def split: option.splits sum.splits prod.splits)

lemma spares_outside_calls:
  "spares outside_history (StoragePoolGetID orc name)" "spares outside_history (StoragePoolVolumesGetNames orc i)"
  "spares outside_history (StoragePoolGet orc name)"
  unfolding StoragePoolGetID_def StoragePoolVolumesGetNames_def StoragePoolGet_def StoragePoolConfigGet_def
    QueryScan_def dbQueryRowScan_def
  by (intro spares_basic spares_pbind spares_attempt spares_retry spares_cases spares_if spares_outside_sql)+


text \<open>
  A pool that has volumes is not deleted: the request is refused, the tables are as they were, and neither the
  driver nor anything else outside the database was touched.\<close>
theorem pool_with_volumes_kept:
  fixes w :: "'a sworld_scheme"
  assumes "quiet orc" "t_where (\<lambda>r. po_name r = name) (storage_pools (w_db w)) = (i, r) # rs"
    and "t_where (\<lambda>r. vo_pool r = i) (storage_volumes (w_db w)) \<noteq> []"
  shows "\<exists>v. storagePoolDelete orc name w =
      (Inr (BadRequest (Errorf ''storage pool \"%s\" has volumes attached to it'' [name])), v) \<and>
    w_db v = w_db w \<and> outside_history v = outside_history w"
proof -
  let ?d = "w_db w" and ?n = "int (length (t_where (\<lambda>r. vo_pool r = i) (storage_volumes (w_db w))))"
  have "turns (StoragePoolGetID orc name :: ('a sworld_scheme, int) prog) ?d i ?d"
    unfolding StoragePoolGetID_def
    by (rule turns_pbind [where x = "Inr i" and ?d1.0 = ?d], rule turns_attempt,
        rule turns_dbQueryRowScan [OF assms(1), where xs = "map fst rs"]) (simp_all add: assms(2) turns_ret)
  from turnsD [OF this refl] obtain u where u: "StoragePoolGetID orc name w = (Inr i, u)" "w_db u = ?d" by blast
  have "turns (StoragePoolVolumesGetNames orc i :: ('a sworld_scheme, int) prog) ?d ?n ?d"
    unfolding StoragePoolVolumesGetNames_def
    by (rule turns_pbind [OF turns_QueryScan [OF assms(1)]]) (simp add: turns_ret)
  from turnsD [OF this u(2)] obtain v where v: "StoragePoolVolumesGetNames orc i u = (Inr ?n, v)" "w_db v = ?d" by blast
  have "0 < ?n" using assms(3) by simp
  then have "storagePoolDelete orc name w =
      (Inr (BadRequest (Errorf ''storage pool \"%s\" has volumes attached to it'' [name])), v)"
    using u(1) v(1) by (simp add: storagePoolDelete_def or_respond_def pbind_def attempt_def ret_def)
  moreover have "outside_history v = outside_history w"
    using sparesD [OF spares_outside_calls(1) u(1)] sparesD [OF spares_outside_calls(2) v(1)] by simp
  ultimately show ?thesis using v(2) by blast
qed

text \<open>
  Deleting a custom volume of a directory pool whose directory is gone reports success without deleting
  anything, so the volume stays in the database and cannot be created again.\<close>
theorem lost_volume_stays:
  assumes "pool_key s ''source'' \<noteq> []" "\<not> o_exists orc (w_hist w) (volume_path orc s)"
  shows "dr_VolumeDelete (dir_driver orc) s w = (Inr (), w)"
  using assms
  by (simp add: dir_driver_def dir_StoragePoolVolumeDelete_def need_source_def pbind_def path_exists_def
      get_world_def ret_def)

section \<open>A host with a directory pool\<close>

definition pool_daemon :: sdaemon where
  "pool_daemon =
     \<lparr>o_run = (\<lambda>_ _. ([], None)), o_exists = (\<lambda>_ _. False), o_read = (\<lambda>_ _. Inr []), o_act = (\<lambda>_ _. None),
      o_now = (\<lambda>_. 0), o_var = ''/var/lib/apollo'',
      h_ifaces = (\<lambda>_. Inr []), h_dir = (\<lambda>_ _. Inr []), h_link = (\<lambda>_ _. Inr []), h_finds = (\<lambda>_ _. True),
      h_user = (\<lambda>_ _. True), h_dial = (\<lambda>_ _. False), h_rand = (\<lambda>_ i. i), h_lxc = (\<lambda>_ _. LxcState ''STOPPED''),
      h_nics = (\<lambda>_ _. []), h_cgroup = (\<lambda>_ _ _. []), h_veths = (\<lambda>_ _. []), h_loopback = (\<lambda>_ _. False),
      h_mock = False, h_log = ''/var/log/apollo'',
      dm_host = (\<lambda>_. \<lparr>h_architectures = [2], h_idmap = True, h_lxc21 = True, h_is_dir = (\<lambda>_. False),
        h_exists = (\<lambda>_. True), h_dev_type = (\<lambda>_. Inr ''c''), h_pools = []\<rparr>),
      dm_srt = (\<lambda>m. m), dm_order = (\<lambda>d. d), dm_idmap = None, dm_json = (\<lambda>_. ''[]''), dm_parse = (\<lambda>_. Inl NotExist),
      dm_yaml = (\<lambda>_ _ _ _. []), dm_soft = (\<lambda>_. []), dm_blkio = True, dm_memory = True, dm_swap = True,
      dm_cpu = True, dm_pids = True, dm_netprio = True, dm_driver = (\<lambda>_ _. ''dir''), dm_ready = (\<lambda>_ _. True),
      dm_ours = (\<lambda>_ _. True), dm_poolid = (\<lambda>_ _. 1), dm_usbs = (\<lambda>_. Inr []), dm_gpus = (\<lambda>_. Inr ([], [])),
      dm_disk_limits = (\<lambda>_ _. Inr []), dm_configured = (\<lambda>_ _ _. False),
      sd_debug = False, sd_userns = False, sd_statfs = (\<lambda>_ _. Inr (4096, 1000000, 500000, 4096)),
      sd_left = (\<lambda>_ _. []), sd_mounts = (\<lambda>_ _. True)\<rparr>"

lemma pool_daemon_simps [simp]:
  "o_act pool_daemon = (\<lambda>_ _. None)" "o_exists pool_daemon = (\<lambda>_ _. False)" "o_var pool_daemon = ''/var/lib/apollo''"
  "sd_statfs pool_daemon = (\<lambda>_ _. Inr (4096, 1000000, 500000, 4096))" "quiet pool_daemon"
  by (simp_all add: pool_daemon_def quiet_def)

text \<open>Two pools of the directory driver, one with a volume.\<close>

definition two_pools :: db where
  "two_pools =
     db_empty\<lparr>storage_pools := \<lparr>t_rows =
         [(1, \<lparr>po_name = ''default'', po_description = None, po_driver = ''dir''\<rparr>),
          (2, \<lparr>po_name = ''spare'', po_description = None, po_driver = ''dir''\<rparr>)], t_next = 3\<rparr>,
       storage_volumes := \<lparr>t_rows =
         [(1, \<lparr>vo_name = ''data'', vo_description = None, vo_pool = 1, vo_type = 2\<rparr>)], t_next = 2\<rparr>\<rparr>"

definition pool_world :: sworld where
  "pool_world = \<lparr>w_hist = [], w_db = two_pools, w_drivers = [''dir'']\<rparr>"

lemma two_pools_ok: "db_ok two_pools"
  by code_simp

lemma pool_world_simps [simp]: "w_db pool_world = two_pools" "w_drivers pool_world = [''dir'']" "w_hist pool_world = []"
  by (simp_all add: pool_world_def)

theorem driver_cache_exact_witness:
  "\<exists>u. dbStoragePoolDeleteAndUpdateCache pool_daemon ''spare'' pool_world = (Inr (), u) \<and>
     (cache_ok u \<longleftrightarrow> ''dir'' \<notin> set (drivers_of (w_db u)))"
proof -
  have ok: "cache_ok pool_world" by (simp add: cache_ok_def drivers_of_def two_pools_def t_vals_def)
  have row: "t_where (\<lambda>r. po_name r = ''spare'') (storage_pools (w_db pool_world)) =
      [(2, \<lparr>po_name = ''spare'', po_description = None, po_driver = ''dir''\<rparr>)]"
    by (simp add: two_pools_def t_where_def)
  from driver_cache_exact [OF _ _ ok row, of pool_daemon "[]" "[]" "[]" "[]" 0 pool_world] two_pools_ok
  show ?thesis by simp
qed

lemmas volume_runs = runs StoragePoolGet_def [THEN fun_cong]
  StoragePoolConfigGet_def [THEN fun_cong] StoragePoolVolumeGetType_def [THEN fun_cong]
  StoragePoolVolumeGetTypeID_def [THEN fun_cong] StorageVolumeConfigGet_def [THEN fun_cong]
  StorageVolumeDescriptionGet_def [THEN fun_cong] storagePoolInit_def storagePoolVolumeInit_def
  StoragePoolGetID_def [THEN fun_cong]

lemmas storage_runs = volume_runs storageInit_def [THEN fun_cong]

lemma two_pools_tables:
  "t_rows (storage_pools two_pools) = [(1, \<lparr>po_name = ''default'', po_description = None, po_driver = ''dir''\<rparr>),
      (2, \<lparr>po_name = ''spare'', po_description = None, po_driver = ''dir''\<rparr>)]"
  "t_rows (storage_volumes two_pools) = [(1, \<lparr>vo_name = ''data'', vo_description = None, vo_pool = 1, vo_type = 2\<rparr>)]"
  "t_rows (storage_pools_config two_pools) = []" "t_rows (storage_volumes_config two_pools) = []"
  by (simp_all add: two_pools_def db_empty_def t_empty_def)

lemma init_data:
  "\<exists>v s. storageInit pool_daemon ''default'' ''data'' 2 pool_world = (Inr s, v) \<and> w_db v = two_pools"
  by (simp add: storage_runs t_where_def two_pools_tables rows_map_def t_ids_def StoragePoolVolumeTypeToName_def
      StoragePoolVolumeTypeContainer_def StoragePoolVolumeTypeImage_def StoragePoolVolumeTypeCustom_def
      storageStringToType_def driver_of_def dir_driver_def cong: run_congs)


lemma init_default:
  "\<exists>v s. storageInit pool_daemon ''default'' [] (-1) pool_world = (Inr s, v) \<and> so_type s = storageTypeDir \<and>
     sp_Config (so_pool s) = []"
  by (simp add: storage_runs t_where_def two_pools_tables rows_map_def
      storageStringToType_def driver_of_def dir_driver_def no_volume_def cong: run_congs)


theorem pool_with_volumes_kept_witness:
  "\<exists>v. storagePoolDelete pool_daemon ''default'' pool_world =
      (Inr (BadRequest (Errorf ''storage pool \"%s\" has volumes attached to it'' [''default''])), v) \<and>
    w_db v = two_pools \<and> outside_history v = []"
proof -
  have "t_where (\<lambda>r. po_name r = ''default'') (storage_pools two_pools) =
      [(1, \<lparr>po_name = ''default'', po_description = None, po_driver = ''dir''\<rparr>)]"
    "t_where (\<lambda>r. vo_pool r = 1) (storage_volumes two_pools) \<noteq> []"
    by (simp_all add: t_where_def two_pools_tables)
  with pool_with_volumes_kept [of pool_daemon "''default''" pool_world] show ?thesis
    by (simp add: outside_history_def)
qed

text \<open>A directory pool is refused below the state directory, after its row was written.\<close>

lemma refused_source:
  "dir_source ''/var/lib/apollo'' s = Inl e"
  if "pool_key s ''source'' = ''/var/lib/apollo/containers''" "pool_name s = ''bad''"
    "e = Errorf ''DIR storage pool requests in APOLLO directory \"%s\" are only valid under \"%s\" (e.g. source=%s)''
       [''/var/lib/apollo'', ''/var/lib/apollo/storage-pools'', ''/var/lib/apollo/storage-pools/bad'']"
proof -
  have "path_Clean ''/var/lib/apollo/containers'' = ''/var/lib/apollo/containers''"
    "path_Join [''/var/lib/apollo''] = ''/var/lib/apollo''"
    "path_Join [''/var/lib/apollo'', ''storage-pools''] = ''/var/lib/apollo/storage-pools''"
    "getStoragePoolMountPoint ''/var/lib/apollo'' ''bad'' = ''/var/lib/apollo/storage-pools/bad''"
    by code_simp+
  then show ?thesis using that by (simp add: dir_source_def Let_def HasPrefix_def)
qed

definition bad_config :: "string gomap" where
  "bad_config = [(''source'', ''/var/lib/apollo/containers'')]"

lemma bad_config_ok:
  "storagePoolValidateConfig ''bad'' ''dir'' bad_config = Inr ()"
  "storagePoolFillDefault fs ''bad'' ''dir'' bad_config = Inr bad_config"
  by (simp_all add: bad_config_def storagePoolValidateConfig_def IsOneOf_def supportedStoragePoolDrivers_def
      thinpool_check_def size_checker_def gm_str_def pool_key_check_def wrong_driver_def HasPrefix_def
      storagePoolConfigKeys_def IsAny_def storagePoolFillDefault_def size_default_def thinpool_default_def)

lemmas pool_runs = volume_runs storagePoolCreateInternal_def [THEN fun_cong] storagePoolDBCreate_def [THEN fun_cong]
  dbStoragePoolCreateAndUpdateCache_def [THEN fun_cong] dbStoragePoolDeleteAndUpdateCache_def [THEN fun_cong]
  StoragePoolCreate_def [THEN fun_cong] StoragePoolDelete_def [THEN fun_cong] StoragePoolConfigAdd_def [THEN fun_cong]
  update_cache_def [THEN fun_cong] dir_StoragePoolCreate_def [THEN fun_cong] storageValidName_def
  bad_config_ok is_ok.simps driver_call_def

definition with_bad_row :: db where
  "with_bad_row = two_pools\<lparr>storage_pools := \<lparr>t_rows =
     [(1, \<lparr>po_name = ''default'', po_description = None, po_driver = ''dir''\<rparr>),
      (2, \<lparr>po_name = ''spare'', po_description = None, po_driver = ''dir''\<rparr>),
      (3, \<lparr>po_name = ''bad'', po_description = Some [], po_driver = ''dir''\<rparr>)], t_next = 4\<rparr>\<rparr>"

definition with_bad_pool :: db where
  "with_bad_pool = (case insert_pool_config 3 ''source'' ''/var/lib/apollo/containers'' with_bad_row of
     Inl e \<Rightarrow> with_bad_row | Inr d \<Rightarrow> d)"

lemma bad_inserts:
  "insert_pool ''bad'' [] ''dir'' two_pools = Inr (3, with_bad_row)"
  "insert_pool_config 3 ''source'' ''/var/lib/apollo/containers'' with_bad_row = Inr with_bad_pool"
  by code_simp+

lemma bad_tables:
  "t_where (\<lambda>r. po_name r = ''bad'') (storage_pools with_bad_pool) =
     [(3, \<lparr>po_name = ''bad'', po_description = Some [], po_driver = ''dir''\<rparr>)]"
  "map (snd \<circ> snd) (t_where (\<lambda>r. fst r = 3) (storage_pools_config with_bad_pool)) = bad_config"
  by code_simp+

lemma bad_config_run:
  "for_all f bad_config w = continue (f (''source'', ''/var/lib/apollo/containers'') w) (\<lambda>_. ret ())"
  by (simp add: bad_config_def runs fun_eq_iff)
    (simp add: continue_def runs split: prod.splits sum.splits)

lemma bad_init:
  "storageInit pool_daemon ''bad'' [] (-1) \<lparr>w_hist = h, w_db = with_bad_pool, w_drivers = l\<rparr> =
     (Inr \<lparr>so_type = storageTypeDir, so_poolID = 3, so_pool = \<lparr>sp_Name = ''bad'', sp_Driver = ''dir'', sp_Description = [],
        sp_Config = bad_config\<rparr>, so_volume = no_volume\<rparr>, \<lparr>w_hist = h @ [Stmt ''SELECT id, driver, description FROM storage_pools'', Stmt ''SELECT key, value FROM storage_pools_config''], w_db = with_bad_pool, w_drivers = l\<rparr>)"
  by (simp add: storage_runs rows_map_def bad_tables bad_config_def
      storageStringToType_def driver_of_def dir_driver_def no_volume_def cong: run_congs)

lemma bad_refused:
  "\<exists>e. dir_source ''/var/lib/apollo'' \<lparr>so_type = storageTypeDir, so_poolID = 3, so_pool = \<lparr>sp_Name = ''bad'',
     sp_Driver = ''dir'', sp_Description = [], sp_Config = bad_config\<rparr>, so_volume = no_volume\<rparr> = Inl (Errorf m e)"
  if "m = ''DIR storage pool requests in APOLLO directory \"%s\" are only valid under \"%s\" (e.g. source=%s)''"
  using that by (simp add: refused_source pool_key_def pool_name_def bad_config_def gm_str_def)

lemma bad_pool_run:
  "\<exists>e v. storagePoolCreateInternal pool_daemon ''bad'' [] ''dir'' (Some bad_config) pool_world = (Inl e, v)"
proof -
  obtain e where "dir_source ''/var/lib/apollo'' \<lparr>so_type = storageTypeDir, so_poolID = 3, so_pool = \<lparr>sp_Name = ''bad'',
     sp_Driver = ''dir'', sp_Description = [], sp_Config = bad_config\<rparr>, so_volume = no_volume\<rparr> = Inl (Errorf
     ''DIR storage pool requests in APOLLO directory \"%s\" are only valid under \"%s\" (e.g. source=%s)'' e)"
    using bad_refused by blast
  then show ?thesis
  by (simp add: pool_world_def Let_def pool_runs t_where_def two_pools_tables rows_map_def ErrNoRows_def
      NoSuchObjectError_def is_panic_def IsDbLockedError_def db_locked_def pool_statfs_def bad_inserts
      storageStringToType_def driver_of_def dir_driver_def bad_init bad_config_run
      cong: run_congs)
qed

text \<open>Its row is written, the driver refuses the source, and the row is gone again.\<close>

theorem failed_pool_creation_undone_witness:
  "\<exists>e v. storagePoolCreateInternal pool_daemon ''bad'' [] ''dir'' (Some bad_config) pool_world = (Inl e, v) \<and>
     same_rows two_pools (w_db v)"
proof -
  from bad_pool_run obtain e v where
    run: "storagePoolCreateInternal pool_daemon ''bad'' [] ''dir'' (Some bad_config) pool_world = (Inl e, v)" by blast
  from failed_pool_creation_undone [OF _ _ run] two_pools_ok run show ?thesis by simp
qed

end
