(* ===== verification/Security.thy ===== *)
theory Security
  imports StoragePools
begin

text \<open>
  The security profiles of a container: \<open>apollo/apparmor.go\<close> and \<open>apollo/seccomp.go\<close>. The profile
  texts are the code's own; the parser and the kernel are the outside. SHA-256 is a parameter.
\<close>

section \<open>The daemon\<close>

text \<open>
  What start-up found out about AppArmor and the cgroups, the paths the process was started with,
  the names of temporary files, the kind and the number of a device node, and liblxc's value of a
  configuration item.
\<close>

record ldaemon = sdaemon +
  ld_aaAvailable :: bool
  ld_aaAdmin :: bool
  ld_aaConfined :: bool
  ld_aaStacking :: bool
  ld_aaStacked :: bool
  ld_sha256 :: "string \<Rightarrow> string"
  ld_cgDevices :: bool
  ld_verbose :: bool
  ld_templates :: string
  ld_execPath :: string
  ld_lxcpath :: string
  ld_temp :: "event list \<Rightarrow> string"
  ld_dev :: "event list \<Rightarrow> string \<Rightarrow> (string \<times> nat) res"
  ld_item :: "event list \<Rightarrow> string \<Rightarrow> string \<Rightarrow> string list"

definition unlines :: "string list \<Rightarrow> string" where
  "unlines ls = concat (map (\<lambda>l. l @ [CHR 10]) ls)"

definition trim_newlines :: "string \<Rightarrow> string" where
  "trim_newlines s = rev (dropWhile (\<lambda>c. c = CHR 10) (rev (dropWhile (\<lambda>c. c = CHR 10) s)))"

section \<open>AppArmor profiles\<close>

definition AA_PROFILE_BASE :: "string list" where
  "AA_PROFILE_BASE =
     [''  ### Base profile'',
      ''  capability,'',
      ''  dbus,'',
      ''  file,'',
      ''  network,'',
      ''  umount,'',
      [],
      ''  # Allow us to receive signals from anywhere.'',
      ''  signal (receive),'',
      [],
      ''  # Allow us to send signals to ourselves'',
      ''  signal peer=@'' @ ''{profile_name},'',
      [],
      ''  # Allow other processes to read our /proc entries, futexes, perf tracing and'',
      ''  # kcmp for now (they will need 'read' in the first place). Administrators can'',
      ''  # override with:'',
      ''  #   deny ptrace (readby) ...'',
      ''  ptrace (readby),'',
      [],
      ''  # Allow other processes to trace us by default (they will need 'trace' in'',
      ''  # the first place). Administrators can override with:'',
      ''  #   deny ptrace (tracedby) ...'',
      ''  ptrace (tracedby),'',
      [],
      ''  # Allow us to ptrace ourselves'',
      ''  ptrace peer=@'' @ ''{profile_name},'',
      [],
      ''  # ignore DENIED message on / remount'',
      ''  deny mount options=(ro, remount) -> /,'',
      ''  deny mount options=(ro, remount, silent) -> /,'',
      [],
      ''  # allow tmpfs mounts everywhere'',
      ''  mount fstype=tmpfs,'',
      [],
      ''  # allow hugetlbfs mounts everywhere'',
      ''  mount fstype=hugetlbfs,'',
      [],
      ''  # allow mqueue mounts everywhere'',
      ''  mount fstype=mqueue,'',
      [],
      ''  # allow fuse mounts everywhere'',
      ''  mount fstype=fuse,'',
      ''  mount fstype=fuse.*,'',
      [],
      ''  # deny access under /proc/bus to avoid e.g. messing with pci devices directly'',
      ''  deny @'' @ ''{PROC}/bus/** wklx,'',
      [],
      ''  # deny writes in /proc/sys/fs but allow binfmt_misc to be mounted'',
      ''  mount fstype=binfmt_misc -> /proc/sys/fs/binfmt_misc/,'',
      ''  deny @'' @ ''{PROC}/sys/fs/** wklx,'',
      [],
      ''  # allow efivars to be mounted, writing to it will be blocked though'',
      ''  mount fstype=efivarfs -> /sys/firmware/efi/efivars/,'',
      [],
      ''  # block some other dangerous paths'',
      ''  deny @'' @ ''{PROC}/kcore rwklx,'',
      ''  deny @'' @ ''{PROC}/kmem rwklx,'',
      ''  deny @'' @ ''{PROC}/mem rwklx,'',
      ''  deny @'' @ ''{PROC}/sysrq-trigger rwklx,'',
      [],
      ''  # deny writes in /sys except for /sys/fs/cgroup, also allow'',
      ''  # fusectl, securityfs and debugfs to be mounted there (read-only)'',
      ''  mount fstype=fusectl -> /sys/fs/fuse/connections/,'',
      ''  mount fstype=securityfs -> /sys/kernel/security/,'',
      ''  mount fstype=debugfs -> /sys/kernel/debug/,'',
      ''  deny mount fstype=debugfs -> /var/lib/ureadahead/debugfs/,'',
      ''  mount fstype=proc -> /proc/,'',
      ''  mount fstype=sysfs -> /sys/,'',
      ''  mount options=(rw, nosuid, nodev, noexec, remount) -> /sys/,'',
      ''  deny /sys/firmware/efi/efivars/** rwklx,'',
      ''  # note, /sys/kernel/security/** handled below'',
      ''  mount options=(move) /sys/fs/cgroup/cgmanager/ -> /sys/fs/cgroup/cgmanager.lower/,'',
      ''  mount options=(ro, nosuid, nodev, noexec, remount, strictatime) -> /sys/fs/cgroup/,'',
      [],
      ''  # deny reads from debugfs'',
      ''  deny /sys/kernel/debug/{,**} rwklx,'',
      [],
      ''  # allow paths to be made slave, shared, private or unbindable'',
      ''  # FIXME: This currently doesn't work due to the apparmor parser treating those as allowing all mounts.'',
      ''#  mount options=(rw,make-slave) -> **,'',
      ''#  mount options=(rw,make-rslave) -> **,'',
      ''#  mount options=(rw,make-shared) -> **,'',
      ''#  mount options=(rw,make-rshared) -> **,'',
      ''#  mount options=(rw,make-private) -> **,'',
      ''#  mount options=(rw,make-rprivate) -> **,'',
      ''#  mount options=(rw,make-unbindable) -> **,'',
      ''#  mount options=(rw,make-runbindable) -> **,'',
      [],
      ''  # allow bind-mounts of anything except /proc, /sys and /dev'',
      ''  mount options=(rw,bind) /[^spd]*{,/**},'',
      ''  mount options=(rw,bind) /d[^e]*{,/**},'',
      ''  mount options=(rw,bind) /de[^v]*{,/**},'',
      ''  mount options=(rw,bind) /dev/.[^l]*{,/**},'',
      ''  mount options=(rw,bind) /dev/.l[^x]*{,/**},'',
      ''  mount options=(rw,bind) /dev/.lx[^c]*{,/**},'',
      ''  mount options=(rw,bind) /dev/.mercury?*{,/**},'',
      ''  mount options=(rw,bind) /dev/[^.]*{,/**},'',
      ''  mount options=(rw,bind) /dev?*{,/**},'',
      ''  mount options=(rw,bind) /p[^r]*{,/**},'',
      ''  mount options=(rw,bind) /pr[^o]*{,/**},'',
      ''  mount options=(rw,bind) /pro[^c]*{,/**},'',
      ''  mount options=(rw,bind) /proc?*{,/**},'',
      ''  mount options=(rw,bind) /s[^y]*{,/**},'',
      ''  mount options=(rw,bind) /sy[^s]*{,/**},'',
      ''  mount options=(rw,bind) /sys?*{,/**},'',
      [],
      ''  # allow moving mounts except for /proc, /sys and /dev'',
      ''  mount options=(rw,move) /[^spd]*{,/**},'',
      ''  mount options=(rw,move) /d[^e]*{,/**},'',
      ''  mount options=(rw,move) /de[^v]*{,/**},'',
      ''  mount options=(rw,move) /dev/.[^l]*{,/**},'',
      ''  mount options=(rw,move) /dev/.l[^x]*{,/**},'',
      ''  mount options=(rw,move) /dev/.lx[^c]*{,/**},'',
      ''  mount options=(rw,move) /dev/.mercury?*{,/**},'',
      ''  mount options=(rw,move) /dev/[^.]*{,/**},'',
      ''  mount options=(rw,move) /dev?*{,/**},'',
      ''  mount options=(rw,move) /p[^r]*{,/**},'',
      ''  mount options=(rw,move) /pr[^o]*{,/**},'',
      ''  mount options=(rw,move) /pro[^c]*{,/**},'',
      ''  mount options=(rw,move) /proc?*{,/**},'',
      ''  mount options=(rw,move) /s[^y]*{,/**},'',
      ''  mount options=(rw,move) /sy[^s]*{,/**},'',
      ''  mount options=(rw,move) /sys?*{,/**},'',
      [],
      ''  # generated by: mercury-generate-aa-rules.py container-rules.base'',
      ''  deny /proc/sys/[^kn]*{,/**} wklx,'',
      ''  deny /proc/sys/k[^e]*{,/**} wklx,'',
      ''  deny /proc/sys/ke[^r]*{,/**} wklx,'',
      ''  deny /proc/sys/ker[^n]*{,/**} wklx,'',
      ''  deny /proc/sys/kern[^e]*{,/**} wklx,'',
      ''  deny /proc/sys/kerne[^l]*{,/**} wklx,'',
      ''  deny /proc/sys/kernel/[^smhd]*{,/**} wklx,'',
      ''  deny /proc/sys/kernel/d[^o]*{,/**} wklx,'',
      ''  deny /proc/sys/kernel/do[^m]*{,/**} wklx,'',
      ''  deny /proc/sys/kernel/dom[^a]*{,/**} wklx,'',
      ''  deny /proc/sys/kernel/doma[^i]*{,/**} wklx,'',
      ''  deny /proc/sys/kernel/domai[^n]*{,/**} wklx,'',
      ''  deny /proc/sys/kernel/domain[^n]*{,/**} wklx,'',
      ''  deny /proc/sys/kernel/domainn[^a]*{,/**} wklx,'',
      ''  deny /proc/sys/kernel/domainna[^m]*{,/**} wklx,'',
      ''  deny /proc/sys/kernel/domainnam[^e]*{,/**} wklx,'',
      ''  deny /proc/sys/kernel/domainname?*{,/**} wklx,'',
      ''  deny /proc/sys/kernel/h[^o]*{,/**} wklx,'',
      ''  deny /proc/sys/kernel/ho[^s]*{,/**} wklx,'',
      ''  deny /proc/sys/kernel/hos[^t]*{,/**} wklx,'',
      ''  deny /proc/sys/kernel/host[^n]*{,/**} wklx,'',
      ''  deny /proc/sys/kernel/hostn[^a]*{,/**} wklx,'',
      ''  deny /proc/sys/kernel/hostna[^m]*{,/**} wklx,'',
      ''  deny /proc/sys/kernel/hostnam[^e]*{,/**} wklx,'',
      ''  deny /proc/sys/kernel/hostname?*{,/**} wklx,'',
      ''  deny /proc/sys/kernel/m[^s]*{,/**} wklx,'',
      ''  deny /proc/sys/kernel/ms[^g]*{,/**} wklx,'',
      ''  deny /proc/sys/kernel/msg*/** wklx,'',
      ''  deny /proc/sys/kernel/s[^he]*{,/**} wklx,'',
      ''  deny /proc/sys/kernel/se[^m]*{,/**} wklx,'',
      ''  deny /proc/sys/kernel/sem*/** wklx,'',
      ''  deny /proc/sys/kernel/sh[^m]*{,/**} wklx,'',
      ''  deny /proc/sys/kernel/shm*/** wklx,'',
      ''  deny /proc/sys/kernel?*{,/**} wklx,'',
      ''  deny /proc/sys/n[^e]*{,/**} wklx,'',
      ''  deny /proc/sys/ne[^t]*{,/**} wklx,'',
      ''  deny /proc/sys/net?*{,/**} wklx,'',
      ''  deny /sys/[^fdck]*{,/**} wklx,'',
      ''  deny /sys/c[^l]*{,/**} wklx,'',
      ''  deny /sys/cl[^a]*{,/**} wklx,'',
      ''  deny /sys/cla[^s]*{,/**} wklx,'',
      ''  deny /sys/clas[^s]*{,/**} wklx,'',
      ''  deny /sys/class/[^n]*{,/**} wklx,'',
      ''  deny /sys/class/n[^e]*{,/**} wklx,'',
      ''  deny /sys/class/ne[^t]*{,/**} wklx,'',
      ''  deny /sys/class/net?*{,/**} wklx,'',
      ''  deny /sys/class?*{,/**} wklx,'',
      ''  deny /sys/d[^e]*{,/**} wklx,'',
      ''  deny /sys/de[^v]*{,/**} wklx,'',
      ''  deny /sys/dev[^i]*{,/**} wklx,'',
      ''  deny /sys/devi[^c]*{,/**} wklx,'',
      ''  deny /sys/devic[^e]*{,/**} wklx,'',
      ''  deny /sys/device[^s]*{,/**} wklx,'',
      ''  deny /sys/devices/[^v]*{,/**} wklx,'',
      ''  deny /sys/devices/v[^i]*{,/**} wklx,'',
      ''  deny /sys/devices/vi[^r]*{,/**} wklx,'',
      ''  deny /sys/devices/vir[^t]*{,/**} wklx,'',
      ''  deny /sys/devices/virt[^u]*{,/**} wklx,'',
      ''  deny /sys/devices/virtu[^a]*{,/**} wklx,'',
      ''  deny /sys/devices/virtua[^l]*{,/**} wklx,'',
      ''  deny /sys/devices/virtual/[^n]*{,/**} wklx,'',
      ''  deny /sys/devices/virtual/n[^e]*{,/**} wklx,'',
      ''  deny /sys/devices/virtual/ne[^t]*{,/**} wklx,'',
      ''  deny /sys/devices/virtual/net?*{,/**} wklx,'',
      ''  deny /sys/devices/virtual?*{,/**} wklx,'',
      ''  deny /sys/devices?*{,/**} wklx,'',
      ''  deny /sys/f[^s]*{,/**} wklx,'',
      ''  deny /sys/fs/[^c]*{,/**} wklx,'',
      ''  deny /sys/fs/c[^g]*{,/**} wklx,'',
      ''  deny /sys/fs/cg[^r]*{,/**} wklx,'',
      ''  deny /sys/fs/cgr[^o]*{,/**} wklx,'',
      ''  deny /sys/fs/cgro[^u]*{,/**} wklx,'',
      ''  deny /sys/fs/cgrou[^p]*{,/**} wklx,'',
      ''  deny /sys/fs/cgroup?*{,/**} wklx,'',
      ''  deny /sys/fs?*{,/**} wklx,'']"

definition AA_PROFILE_NESTING :: "string list" where
  "AA_PROFILE_NESTING =
     [''  pivot_root,'',
      ''  ptrace,'',
      ''  signal,'',
      [],
      ''  deny /dev/.apollo/proc/** rw,'',
      ''  deny /dev/.apollo/sys/** rw,'',
      [],
      ''  mount /var/lib/apollo/shmounts/ -> /var/lib/apollo/shmounts/,'',
      ''  mount none -> /var/lib/apollo/shmounts/,'',
      ''  mount fstype=proc -> /usr/lib/*/mercury/**,'',
      ''  mount fstype=sysfs -> /usr/lib/*/mercury/**,'',
      ''  mount options=(rw,bind),'',
      ''  mount options=(rw,rbind),'',
      ''  mount options=(rw,make-rshared),'',
      [],
      ''  # there doesn't seem to be a way to ask for:'',
      ''  # mount options=(ro,nosuid,nodev,noexec,remount,bind),'',
      ''  # as we always get mount to $cdir/proc/sys with those flags denied'',
      ''  # So allow all mounts until that is straightened out:'',
      ''  mount,'',
      ''  mount options=bind /var/lib/apollo/shmounts/** -> /var/lib/apollo/**,'']"

definition AA_PROFILE_UNPRIVILEGED :: "string list" where
  "AA_PROFILE_UNPRIVILEGED =
     [''  pivot_root,'',
      [],
      ''  mount options=(rw,make-slave) -> **,'',
      ''  mount options=(rw,make-rslave) -> **,'',
      ''  mount options=(rw,make-shared) -> **,'',
      ''  mount options=(rw,make-rshared) -> **,'',
      ''  mount options=(rw,make-private) -> **,'',
      ''  mount options=(rw,make-rprivate) -> **,'',
      ''  mount options=(rw,make-unbindable) -> **,'',
      ''  mount options=(rw,make-runbindable) -> **,'',
      [],
      ''  mount options=(rw,bind),'',
      ''  mount options=(rw,rbind),'']"

definition aa_unix :: "string list" where
  "aa_unix =
     [''  ### Feature: unix'',
      ''  # Allow receive via unix sockets from anywhere'',
      ''  unix (receive),'',
      [],
      ''  # Allow all unix in the container'',
      ''  unix peer=(label=@'' @ ''{profile_name}),'']"

definition aa_stacking :: "string list" where
  "aa_stacking =
     [''  ### Configuration: apparmor profile loading (in namespace)'',
      ''  deny /sys/k[^e]*{,/**} wklx,'',
      ''  deny /sys/ke[^r]*{,/**} wklx,'',
      ''  deny /sys/ker[^n]*{,/**} wklx,'',
      ''  deny /sys/kern[^e]*{,/**} wklx,'',
      ''  deny /sys/kerne[^l]*{,/**} wklx,'',
      ''  deny /sys/kernel/[^s]*{,/**} wklx,'',
      ''  deny /sys/kernel/s[^e]*{,/**} wklx,'',
      ''  deny /sys/kernel/se[^c]*{,/**} wklx,'',
      ''  deny /sys/kernel/sec[^u]*{,/**} wklx,'',
      ''  deny /sys/kernel/secu[^r]*{,/**} wklx,'',
      ''  deny /sys/kernel/secur[^i]*{,/**} wklx,'',
      ''  deny /sys/kernel/securi[^t]*{,/**} wklx,'',
      ''  deny /sys/kernel/securit[^y]*{,/**} wklx,'',
      ''  deny /sys/kernel/security/[^a]*{,/**} wklx,'',
      ''  deny /sys/kernel/security/a[^p]*{,/**} wklx,'',
      ''  deny /sys/kernel/security/ap[^p]*{,/**} wklx,'',
      ''  deny /sys/kernel/security/app[^a]*{,/**} wklx,'',
      ''  deny /sys/kernel/security/appa[^r]*{,/**} wklx,'',
      ''  deny /sys/kernel/security/appar[^m]*{,/**} wklx,'',
      ''  deny /sys/kernel/security/apparm[^o]*{,/**} wklx,'',
      ''  deny /sys/kernel/security/apparmo[^r]*{,/**} wklx,'',
      ''  deny /sys/kernel/security/apparmor?*{,/**} wklx,'',
      ''  deny /sys/kernel/security?*{,/**} wklx,'',
      ''  deny /sys/kernel?*{,/**} wklx,'']"

definition mkApparmorName :: "'o ldaemon_scheme \<Rightarrow> string \<Rightarrow> string" where
  "mkApparmorName orc name = (if length name + 7 \<ge> 253 then ld_sha256 orc name else name)"

definition aa_trim_slashes :: "string \<Rightarrow> string" where
  "aa_trim_slashes s = rev (dropWhile (\<lambda>c. c = CHR ''/'') (rev (dropWhile (\<lambda>c. c = CHR ''/'') s)))"

definition AANamespace :: "'o ldaemon_scheme \<Rightarrow> ctr \<Rightarrow> string" where
  "AANamespace orc c =
     (let apollodir = map (\<lambda>ch. if ch = CHR ''/'' then CHR ''-'' else ch) (aa_trim_slashes (path_Join [o_var orc]))
      in ''apollo-'' @ ct_name c @ ''_<'' @ mkApparmorName orc apollodir @ ''>'')"

definition AAProfileFull :: "'o ldaemon_scheme \<Rightarrow> ctr \<Rightarrow> string" where
  "AAProfileFull orc c = ''apollo-'' @ ct_name c @ ''_<'' @ mkApparmorName orc (path_Join [o_var orc]) @ ''>''"

definition AAProfileShort :: "ctr \<Rightarrow> string" where
  "AAProfileShort c = ''apollo-'' @ ct_name c"

definition aaPath :: "'o env_scheme \<Rightarrow> string" where
  "aaPath orc = path_Join [o_var orc, ''security'', ''apparmor'']"

text \<open>\<open>Sscanf\<close> with \<open>AppArmor parser version %d.%d.%d\<close>: a blank of the format stands for one or more.\<close>

definition scan_literal :: "string \<Rightarrow> string \<Rightarrow> string option" where
  "scan_literal lit s = (if HasPrefix s lit then Some (drop (length lit) s) else None)"

definition scan_blank :: "string \<Rightarrow> string option" where
  "scan_blank s =
     (case s of [] \<Rightarrow> Some [] | c # _ \<Rightarrow> if is_space c then Some (dropWhile is_space s) else None)"

definition scan_decimal :: "string \<Rightarrow> (int \<times> string) option" where
  "scan_decimal s =
     (let t = dropWhile is_space s; sign = (if t \<noteq> [] \<and> (hd t = CHR ''+'' \<or> hd t = CHR ''-'') then [hd t] else []);
          rest = drop (length sign) t; digits = takeWhile is_digit rest
      in if digits = [] then None
         else case ParseInt (sign @ digits) 10 64 of
                Inl _ \<Rightarrow> None
              | Inr n \<Rightarrow> Some (n, drop (length digits) rest))"

fun scan_words :: "string list \<Rightarrow> string \<Rightarrow> string option" where
  "scan_words [] s = Some s"
| "scan_words (x # xs) s =
     Option.bind (scan_literal x s) (\<lambda>t. Option.bind (scan_blank t) (scan_words xs))"

definition parser_version :: "string \<Rightarrow> (int \<times> int \<times> int) option" where
  "parser_version line =
     Option.bind (scan_words [''AppArmor'', ''parser'', ''version''] line) (\<lambda>s0.
     Option.bind (scan_decimal s0) (\<lambda>(major, s1).
     Option.bind (scan_literal ''.'' s1) (\<lambda>s2.
     Option.bind (scan_decimal s2) (\<lambda>(minor, s3).
     Option.bind (scan_literal ''.'' s3) (\<lambda>s4.
     Option.bind (scan_decimal s4) (\<lambda>(micro, _). Some (major, minor, micro)))))))"

definition version_supports :: "string \<Rightarrow> int \<times> int \<times> int \<Rightarrow> bool" where
  "version_supports feature = (\<lambda>(major, minor, micro).
     if feature = ''unix'' then
       \<not> (major < 2 \<or> major = 2 \<and> minor < 10 \<or> major = 2 \<and> minor = 10 \<and> micro < 95)
     else True)"

definition aaParserSupports :: "'o ldaemon_scheme \<Rightarrow> string \<Rightarrow> ('a world_scheme, bool) prog" where
  "aaParserSupports orc feature =
     pbind (run_output orc [''apparmor_parser'', ''--version'']) (\<lambda>(out, err).
       ret (err = None \<and>
         (case parser_version (hd (Split (CHR 10) out)) of
            None \<Rightarrow> False | Some v \<Rightarrow> version_supports feature v)))"

text \<open>The body of the profile, from the features of the host and the configuration of the container.\<close>

definition stacking :: "'o ldaemon_scheme \<Rightarrow> bool" where
  "stacking orc \<longleftrightarrow> ld_aaStacking orc \<and> \<not> ld_aaStacked orc"

definition aa_features :: "'o ldaemon_scheme \<Rightarrow> ctr \<Rightarrow> bool \<Rightarrow> bool \<Rightarrow> string" where
  "aa_features orc c has_unix has_cgns =
     unlines AA_PROFILE_BASE
     @ (if has_unix then [CHR 10] @ unlines aa_unix else [])
     @ (if has_cgns then
          unlines [[], ''  ### Feature: cgroup namespace'', ''  mount fstype=cgroup -> /sys/fs/cgroup/**,'']
        else [])
     @ (if stacking orc then
          unlines [[], ''  ### Feature: apparmor stacking''] @ unlines aa_stacking
          @ unlines [''  change_profile -> \":'' @ AANamespace orc c @ ''://*\",'']
        else unlines [[], ''  ### Feature: apparmor stacking (not present)'', ''  deny /sys/k*{,/**} rwklx,''])"

definition aa_configured :: "'o ldaemon_scheme \<Rightarrow> ctr \<Rightarrow> string" where
  "aa_configured orc c =
     (if ctr_IsNesting c then
        unlines [[], ''  ### Configuration: nesting''] @ unlines AA_PROFILE_NESTING
        @ (if \<not> stacking orc then unlines [''  change_profile -> \"'' @ AAProfileFull orc c @ ''\",''] else [])
      else [])
     @ (if \<not> ctr_IsPrivileged c \<or> sd_userns orc then
          unlines [[], ''  ### Configuration: unprivileged containers''] @ unlines AA_PROFILE_UNPRIVILEGED
        else [])
     @ (case map_of (ct_expandedConfig c) ''raw.apparmor'' of
          None \<Rightarrow> []
        | Some raw \<Rightarrow>
            unlines [[], ''  ### Configuration: raw.apparmor'']
            @ unlines (map (\<lambda>l. ''  '' @ l) (Split (CHR 10) (trim_newlines raw))))"

definition getAAProfileContent :: "'o ldaemon_scheme \<Rightarrow> ctr \<Rightarrow> ('a world_scheme, string) prog" where
  "getAAProfileContent orc c =
     pbind (aaParserSupports orc ''unix'') (\<lambda>has_unix.
     pbind (path_exists orc ''/proc/self/ns/cgroup'') (\<lambda>has_cgns.
       ret (unlines
         [''#include <tunables/global>'',
          ''profile \"'' @ AAProfileFull orc c @ ''\" flags=(attach_disconnected,mediate_deleted) {'',
          trim_newlines (aa_features orc c has_unix has_cgns @ aa_configured orc c),
          ''}''])))"

section \<open>Loading and unloading\<close>

definition runApparmor :: "'o ldaemon_scheme \<Rightarrow> string \<Rightarrow> ctr \<Rightarrow> ('a world_scheme, unit) prog" where
  "runApparmor orc command c =
     (if \<not> ld_aaAvailable orc then ret ()
      else run_cmd orc [''apparmor_parser'', ''-'' @ command @ ''WL'', path_Join [aaPath orc, ''cache''],
             path_Join [aaPath orc, ''profiles'', AAProfileShort c]])"

text \<open>\<open>os.IsExist\<close> recognises this error.\<close>

definition AlreadyThere :: go_error where
  "AlreadyThere = OsError ''file exists''"

definition policy_namespace :: "string \<Rightarrow> string" where
  "policy_namespace ns = path_Join [''/sys/kernel/security/apparmor/policy/namespaces'', ns]"

definition mkApparmorNamespace :: "'o ldaemon_scheme \<Rightarrow> string \<Rightarrow> ('a world_scheme, unit) prog" where
  "mkApparmorNamespace orc ns =
     (if \<not> stacking orc then ret ()
      else pbind (attempt (perform orc (MadeDir (policy_namespace ns)))) (\<lambda>r.
             case r of Inr _ \<Rightarrow> ret () | Inl e \<Rightarrow> if e = AlreadyThere then ret () else fail e))"

definition aa_file :: "'o env_scheme \<Rightarrow> ctr \<Rightarrow> string" where
  "aa_file orc c = path_Join [aaPath orc, ''profiles'', AAProfileShort c]"

definition AALoadProfile :: "'o ldaemon_scheme \<Rightarrow> ctr \<Rightarrow> ('a world_scheme, unit) prog" where
  "AALoadProfile orc c =
     (if \<not> ld_aaAdmin orc then ret ()
      else
        pbind (mkApparmorNamespace orc (AANamespace orc c)) (\<lambda>_.
        pbind (attempt (ReadFile orc (aa_file orc c))) (\<lambda>r.
        pbind (case r of
                 Inr content \<Rightarrow> ret content
               | Inl e \<Rightarrow> if e = NotExist then ret [] else fail e) (\<lambda>content.
        pbind (getAAProfileContent orc c) (\<lambda>updated.
        seq_all
          [pwhen (content \<noteq> updated)
             (seq_all
                [os_MkdirAll orc (path_Join [aaPath orc, ''cache'']), os_MkdirAll orc (path_Join [aaPath orc, ''profiles'']),
                 perform orc (Wrote (aa_file orc c) updated)]),
           runApparmor orc ''r'' c])))))"

definition AADestroy :: "'o ldaemon_scheme \<Rightarrow> ctr \<Rightarrow> ('a world_scheme, unit) prog" where
  "AADestroy orc c =
     (if \<not> ld_aaAdmin orc then ret ()
      else seq_all
        [pwhen (stacking orc) (ignoring (perform orc (Removed (policy_namespace (AANamespace orc c))))),
         runApparmor orc ''R'' c])"

definition AAParseProfile :: "'o ldaemon_scheme \<Rightarrow> ctr \<Rightarrow> ('a world_scheme, unit) prog" where
  "AAParseProfile orc c = (if \<not> ld_aaAvailable orc then ret () else runApparmor orc ''Q'' c)"

definition AADeleteProfile :: "'o ldaemon_scheme \<Rightarrow> ctr \<Rightarrow> ('a world_scheme, unit) prog" where
  "AADeleteProfile orc c =
     (if \<not> ld_aaAdmin orc then ret ()
      else seq_all
        [os_Remove orc (path_Join [aaPath orc, ''cache'', AAProfileShort c]), os_Remove orc (aa_file orc c)])"

definition aaProfile :: "'o env_scheme \<Rightarrow> ('a world_scheme, string) prog" where
  "aaProfile orc =
     pbind (attempt (ReadFile orc ''/proc/self/attr/current'')) (\<lambda>r.
       ret (case r of Inl _ \<Rightarrow> [] | Inr s \<Rightarrow> TrimSpace s))"

section \<open>Seccomp profiles\<close>

definition SECCOMP_HEADER :: "string list" where
  "SECCOMP_HEADER = [''2'']"

definition DEFAULT_SECCOMP_POLICY :: "string list" where
  "DEFAULT_SECCOMP_POLICY =
     [''reject_force_umount  # comment this to allow umount -f;  not recommended'',
      ''[all]'',
      ''kexec_load errno 38'',
      ''open_by_handle_at errno 38'',
      ''init_module errno 38'',
      ''finit_module errno 38'',
      ''delete_module errno 38'']"

definition COMPAT_BLOCKING_POLICY :: "string \<Rightarrow> string list" where
  "COMPAT_BLOCKING_POLICY arch =
     [''['' @ arch @ '']'',
      ''compat_sys_rt_sigaction errno 38'',
      ''stub_x32_rt_sigreturn errno 38'',
      ''compat_sys_ioctl errno 38'',
      ''compat_sys_readv errno 38'',
      ''compat_sys_writev errno 38'',
      ''compat_sys_recvfrom errno 38'',
      ''compat_sys_sendmsg errno 38'',
      ''compat_sys_recvmsg errno 38'',
      ''stub_x32_execve errno 38'',
      ''compat_sys_ptrace errno 38'',
      ''compat_sys_rt_sigpending errno 38'',
      ''compat_sys_rt_sigtimedwait errno 38'',
      ''compat_sys_rt_sigqueueinfo errno 38'',
      ''compat_sys_sigaltstack errno 38'',
      ''compat_sys_timer_create errno 38'',
      ''compat_sys_mq_notify errno 38'',
      ''compat_sys_kexec_load errno 38'',
      ''compat_sys_waitid errno 38'',
      ''compat_sys_set_robust_list errno 38'',
      ''compat_sys_get_robust_list errno 38'',
      ''compat_sys_vmsplice errno 38'',
      ''compat_sys_move_pages errno 38'',
      ''compat_sys_preadv64 errno 38'',
      ''compat_sys_pwritev64 errno 38'',
      ''compat_sys_rt_tgsigqueueinfo errno 38'',
      ''compat_sys_recvmmsg errno 38'',
      ''compat_sys_sendmmsg errno 38'',
      ''compat_sys_process_vm_readv errno 38'',
      ''compat_sys_process_vm_writev errno 38'',
      ''compat_sys_setsockopt errno 38'',
      ''compat_sys_getsockopt errno 38'',
      ''compat_sys_io_setup errno 38'',
      ''compat_sys_io_submit errno 38'',
      ''stub_x32_execveat errno 38'']"

definition seccompPath :: "'o env_scheme \<Rightarrow> string" where
  "seccompPath orc = path_Join [o_var orc, ''security'', ''seccomp'']"

definition SeccompProfilePath :: "'o env_scheme \<Rightarrow> ctr \<Rightarrow> string" where
  "SeccompProfilePath orc c = path_Join [seccompPath orc, ct_name c]"

text \<open>A key that is on unless it is set to something else.\<close>

definition default_on :: "string gomap \<Rightarrow> string \<Rightarrow> bool" where
  "default_on m k \<longleftrightarrow> (case map_of m k of None \<Rightarrow> True | Some v \<Rightarrow> IsTrue v)"

definition ContainerNeedsSeccomp :: "ctr \<Rightarrow> bool" where
  "ContainerNeedsSeccomp c \<longleftrightarrow>
     list_ex (gm_has (ct_expandedConfig c))
       [''raw.seccomp'', ''security.syscalls.whitelist'', ''security.syscalls.blacklist''] \<or>
     IsTrue (gm_str (ct_expandedConfig c) ''security.syscalls.blacklist_compat'') \<or>
     default_on (ct_expandedConfig c) ''security.syscalls.blacklist_default''"

definition getSeccompProfileContent :: "ctr \<Rightarrow> string res" where
  "getSeccompProfileContent c =
     (let m = ct_expandedConfig c
      in if gm_str m ''raw.seccomp'' \<noteq> [] then Inr (gm_str m ''raw.seccomp'')
         else if gm_str m ''security.syscalls.whitelist'' \<noteq> [] then
           Inr (unlines (SECCOMP_HEADER @ [''whitelist'', ''[all]'']) @ gm_str m ''security.syscalls.whitelist'')
         else
           let policy = unlines (SECCOMP_HEADER @ [''blacklist''] @
                 (if default_on m ''security.syscalls.blacklist_default'' then DEFAULT_SECCOMP_POLICY else []))
           in if IsTrue (gm_str m ''security.syscalls.blacklist_compat'') then
                ebind (ArchitectureName (ct_architecture c)) (\<lambda>arch.
                  Inr (policy @ unlines (COMPAT_BLOCKING_POLICY arch)))
              else Inr policy)"

text \<open>A profile that cannot be made is not written, and that is no error.\<close>

definition SeccompCreateProfile :: "'o env_scheme \<Rightarrow> ctr \<Rightarrow> ('a world_scheme, unit) prog" where
  "SeccompCreateProfile orc c =
     (if \<not> ContainerNeedsSeccomp c then ret ()
      else case getSeccompProfileContent c of
             Inl _ \<Rightarrow> ret ()
           | Inr profile \<Rightarrow>
               seq_all [os_MkdirAll orc (seccompPath orc), perform orc (Wrote (SeccompProfilePath orc c) profile)])"

definition SeccompDeleteProfile :: "'o env_scheme \<Rightarrow> ctr \<Rightarrow> ('a world_scheme, unit) prog" where
  "SeccompDeleteProfile orc c = os_Remove orc (SeccompProfilePath orc c)"

end
