(* ===== verification/ContainerInit.thy ===== *)
theory ContainerInit
  imports Security
begin

text \<open>
  Configuring liblxc for a container: \<open>containerMERCURY.initMERCURY\<close> of
  \<open>apollo/container_mercury.go\<close>. The items are set one after the other on a new liblxc object,
  each of them may be refused, and the object is kept only when all were taken.
\<close>

section \<open>The object\<close>

text \<open>
  Beside its fields a container caches the liblxc object (\<open>w_lxc\<close>: it is there), the storage
  object, and remembers whether it was called from a hook.
\<close>

record lworld = cworld +
  w_lxc :: bool
  w_fromHook :: bool
  w_storage :: "store option"

type_synonym ('a, 'r) lxc_action = "('a lworld_scheme, 'r) prog"

definition lxc21 :: "'o daemon_scheme \<Rightarrow> ('a world_scheme, bool) prog" where
  "lxc21 orc = ask (\<lambda>h. h_lxc21 (dm_host orc h))"

definition IsDir :: "'o daemon_scheme \<Rightarrow> string \<Rightarrow> ('a world_scheme, bool) prog" where
  "IsDir orc path = ask (\<lambda>h. h_is_dir (dm_host orc h) path)"

definition deviceIsBlockdev :: "'o ldaemon_scheme \<Rightarrow> string \<Rightarrow> ('a world_scheme, bool) prog" where
  "deviceIsBlockdev orc path =
     ask (\<lambda>h. case ld_dev orc h path of Inl _ \<Rightarrow> False | Inr (t, _) \<Rightarrow> t = ''b'')"

text \<open>The names that items had before version 2.1.\<close>

definition old_names :: "(string \<times> string) list" where
  "old_names =
     [(''mercury.uts.name'', ''mercury.utsname''), (''mercury.pty.max'', ''mercury.pts''),
      (''mercury.tty.dir'', ''mercury.devttydir''), (''mercury.tty.max'', ''mercury.tty''),
      (''mercury.apparmor.profile'', ''mercury.aa_profile''),
      (''mercury.apparmor.allow_incomplete'', ''mercury.aa_allow_incomplete''),
      (''mercury.selinux.context'', ''mercury.se_context''), (''mercury.mount.fstab'', ''mercury.mount''),
      (''mercury.console.path'', ''mercury.console''), (''mercury.seccomp.profile'', ''mercury.seccomp''),
      (''mercury.signal.halt'', ''mercury.haltsignal''), (''mercury.signal.reboot'', ''mercury.rebootsignal''),
      (''mercury.signal.stop'', ''mercury.stopsignal''), (''mercury.log.syslog'', ''mercury.syslog''),
      (''mercury.log.level'', ''mercury.loglevel''), (''mercury.log.file'', ''mercury.logfile''),
      (''mercury.init.cmd'', ''mercury.init_cmd''), (''mercury.init.uid'', ''mercury.init_uid''),
      (''mercury.init.gid'', ''mercury.init_gid'')]"

definition item_name :: "bool \<Rightarrow> string \<Rightarrow> string" where
  "item_name new key = (if new then key else case map_of old_names key of None \<Rightarrow> key | Some k \<Rightarrow> k)"

definition mercurySetConfigItem :: "'o daemon_scheme \<Rightarrow> bool \<Rightarrow> string \<Rightarrow> string \<Rightarrow> ('a, unit) action" where
  "mercurySetConfigItem orc cc key v =
     (if \<not> cc then fail (Errorf ''Uninitialized go-mercury struct'' [])
      else pbind this (\<lambda>c. pbind (lxc21 orc) (\<lambda>new.
        let k = item_name new key
        in pbind (attempt (perform orc (Called ''SetConfigItem'' [ct_name c, k, v]))) (\<lambda>r.
             case r of Inr _ \<Rightarrow> ret () | Inl _ \<Rightarrow> fail (Errorf ''Failed to set MERCURY config: %s=%s'' [k, v])))))"

abbreviation set_item :: "'o daemon_scheme \<Rightarrow> string \<Rightarrow> string \<Rightarrow> ('a, unit) action" where
  "set_item orc \<equiv> mercurySetConfigItem orc True"

abbreviation set_int :: "'o daemon_scheme \<Rightarrow> string \<Rightarrow> int \<Rightarrow> ('a, unit) action" where
  "set_int orc key v \<equiv> set_item orc key (show_int v)"

section \<open>Paths\<close>

definition ctr_DevicesPath :: "'o env_scheme \<Rightarrow> ctr \<Rightarrow> string" where
  "ctr_DevicesPath orc c = path_Join [o_var orc, ''devices'', ct_name c]"

definition ctr_LogPath :: "'o hostenv_scheme \<Rightarrow> ctr \<Rightarrow> string" where
  "ctr_LogPath orc c = path_Join [h_log orc, ct_name c]"

definition ctr_LogFilePath :: "'o hostenv_scheme \<Rightarrow> ctr \<Rightarrow> string" where
  "ctr_LogFilePath orc c = path_Join [ctr_LogPath orc c, ''mercury.log'']"

definition dashed :: "string \<Rightarrow> string" where
  "dashed = map (\<lambda>ch. if ch = CHR ''/'' then CHR ''-'' else ch)"

section \<open>The base of the configuration\<close>

text \<open>A container that is privileged on the host itself, not in a user namespace.\<close>

definition host_root :: "'o sdaemon_scheme \<Rightarrow> ctr \<Rightarrow> bool" where
  "host_root orc c \<longleftrightarrow> ctr_IsPrivileged c \<and> \<not> sd_userns orc"

definition dropped_caps :: "'o ldaemon_scheme \<Rightarrow> string" where
  "dropped_caps orc =
     ''sys_time sys_module sys_rawio'' @ (if \<not> stacking orc then '' mac_admin mac_override'' else [])"

definition auto_mounts :: "bool \<Rightarrow> bool \<Rightarrow> string" where
  "auto_mounts root has_cgns =
     Join '' '' ((if root then [''proc:mixed'', ''sys:mixed''] else [''proc:rw'', ''sys:rw''])
       @ (if \<not> has_cgns then [''cgroup:mixed''] else []))"

definition bind_mounts :: "bool \<Rightarrow> string list" where
  "bind_mounts root =
     [''/dev/fuse'', ''/dev/net/tun'', ''/proc/sys/fs/binfmt_misc'', ''/sys/firmware/efi/efivars'',
      ''/sys/fs/fuse/connections'', ''/sys/fs/pstore'', ''/sys/kernel/debug'', ''/sys/kernel/security'']
     @ (if root then [] else [''/dev/mqueue''])"

definition bind_mount :: "'o daemon_scheme \<Rightarrow> string \<Rightarrow> ('a, unit) action" where
  "bind_mount orc mnt =
     if_exists orc mnt
       (pbind (IsDir orc mnt) (\<lambda>dir.
          set_item orc ''mercury.mount.entry''
            (mnt @ '' '' @ TrimPrefix mnt ''/'' @ '' none ''
             @ (if dir then ''rbind,create=dir,optional'' else ''bind,create=file,optional''))))"

definition base_items :: "'o ldaemon_scheme \<Rightarrow> ctr \<Rightarrow> ('a, unit) action" where
  "base_items orc c =
     seq_all
       [set_item orc ''mercury.cap.drop'' (dropped_caps orc),
        pbind (path_exists orc ''/proc/self/ns/cgroup'') (\<lambda>has_cgns.
          set_item orc ''mercury.mount.auto'' (auto_mounts (host_root orc c) has_cgns)),
        set_item orc ''mercury.autodev'' ''1'',
        set_item orc ''mercury.pty.max'' ''1024'',
        pwhen (host_root orc c)
          (set_item orc ''mercury.mount.entry'' ''mqueue dev/mqueue mqueue rw,relatime,create=dir,optional''),
        for_all (bind_mount orc) (bind_mounts (host_root orc c)),
        let confs = (if ld_templates orc = [] then ''/usr/share/mercury/config'' else ld_templates orc) @ ''/common.conf.d/''
        in if_exists orc confs (set_item orc ''mercury.include'' confs)]"

definition allowed_devices :: "string list" where
  "allowed_devices =
     [''b *:* m'', ''c *:* m'', ''c 136:* rwm'', ''c 1:3 rwm'', ''c 1:5 rwm'', ''c 1:7 rwm'', ''c 1:8 rwm'',
      ''c 1:9 rwm'', ''c 5:0 rwm'', ''c 5:1 rwm'', ''c 5:2 rwm'', ''c 10:229 rwm'', ''c 10:200 rwm'']"

definition device_cgroup :: "'o ldaemon_scheme \<Rightarrow> ctr \<Rightarrow> ('a, unit) action" where
  "device_cgroup orc c =
     pwhen (host_root orc c \<and> ld_cgDevices orc)
       (seq_all
          [set_item orc ''mercury.cgroup.devices.deny'' ''a'',
           for_all (set_item orc ''mercury.cgroup.devices.allow'') allowed_devices])"

definition nesting_items :: "'o daemon_scheme \<Rightarrow> ctr \<Rightarrow> ('a, unit) action" where
  "nesting_items orc c =
     pwhen (ctr_IsNesting c)
       (seq_all
          [set_item orc ''mercury.mount.entry'' ''proc dev/.mercury/proc proc create=dir,optional'',
           set_item orc ''mercury.mount.entry'' ''sys dev/.mercury/sys sysfs create=dir,optional''])"

definition log_level :: "'o ldaemon_scheme \<Rightarrow> string" where
  "log_level orc = (if sd_debug orc then ''trace'' else if ld_verbose orc then ''info'' else ''warn'')"

text \<open>The personality of the architecture, or of the daemon's first one.\<close>

definition personality :: "'o daemon_scheme \<Rightarrow> ctr \<Rightarrow> ('a world_scheme, string) prog" where
  "personality orc c =
     (case ArchitecturePersonality (ct_architecture c) of
        Inr p \<Rightarrow> ret p
      | Inl _ \<Rightarrow>
          pbind (ask (\<lambda>h. h_architectures (dm_host orc h))) (\<lambda>as.
          pbind (of_res (nth_or_panic as 0)) (\<lambda>a. of_res (ArchitecturePersonality a))))"

definition call_hook :: "'o ldaemon_scheme \<Rightarrow> ctr \<Rightarrow> string \<Rightarrow> string" where
  "call_hook orc c what =
     ld_execPath orc @ '' callhook '' @ path_Join [o_var orc] @ '' '' @ show_int (ct_id c) @ '' '' @ what"

definition system_items :: "'o ldaemon_scheme \<Rightarrow> ctr \<Rightarrow> ('a, unit) action" where
  "system_items orc c =
     seq_all
       [perform orc (Called ''SetLogFile'' [ct_name c, ctr_LogFilePath orc c]),
        set_item orc ''mercury.log.level'' (log_level orc),
        pbind (personality orc c) (set_item orc ''mercury.arch''),
        set_item orc ''mercury.hook.pre-start'' (call_hook orc c ''start''),
        set_item orc ''mercury.hook.post-stop'' (call_hook orc c ''stop''),
        set_item orc ''mercury.tty.max'' ''0'',
        set_item orc ''mercury.uts.name'' (ct_name c),
        set_item orc ''mercury.mount.entry''
          (path_Join [o_var orc, ''devapollo''] @ '' dev/apollo none bind,create=dir 0 0'')]"

section \<open>Isolation\<close>

definition apparmor_item :: "'o ldaemon_scheme \<Rightarrow> ctr \<Rightarrow> ('a, unit) action" where
  "apparmor_item orc c =
     pwhen (ld_aaAvailable orc)
       (if ld_aaConfined orc \<or> \<not> ld_aaAdmin orc then
          pbind (aaProfile orc) (\<lambda>p. set_item orc ''mercury.apparmor.profile'' (TrimSuffix p '' (enforce)''))
        else set_item orc ''mercury.apparmor.profile''
          (if stacking orc then AAProfileFull orc c @ ''//&:'' @ AANamespace orc c @ '':'' else AAProfileFull orc c))"

definition seccomp_item :: "'o ldaemon_scheme \<Rightarrow> ctr \<Rightarrow> ('a, unit) action" where
  "seccomp_item orc c =
     pwhen (ContainerNeedsSeccomp c) (set_item orc ''mercury.seccomp.profile'' (SeccompProfilePath orc c))"

definition idmap_items :: "'o daemon_scheme \<Rightarrow> ctr \<Rightarrow> ('a, unit) action" where
  "idmap_items orc c =
     pbind (of_res (IdmapSet orc c)) (\<lambda>m.
       case m of
         None \<Rightarrow> ret ()
       | Some s \<Rightarrow> for_all (\<lambda>l. set_item orc ''mercury.id_map'' (TrimSuffix l [CHR 10])) (set_ToLxcString s))"

definition environment_items :: "'o daemon_scheme \<Rightarrow> ctr \<Rightarrow> ('a, unit) action" where
  "environment_items orc c =
     for_all (\<lambda>(k, v). pwhen (HasPrefix k ''environment.'')
         (set_item orc ''mercury.environment'' (TrimPrefix k ''environment.'' @ ''='' @ v)))
       (ct_expandedConfig c)"

section \<open>Limits\<close>

definition memory_limit :: "'o env_scheme \<Rightarrow> string \<Rightarrow> ('a world_scheme, int) prog" where
  "memory_limit orc memory =
     (if HasSuffix memory ''%'' then
        pbind (of_res (ParseInt (TrimSuffix memory ''%'') 10 64)) (\<lambda>percent.
        pbind (ReadFile orc ''/proc/meminfo'') (\<lambda>content.
        pbind (of_res (deviceTotalMemory (Host.read_lines content))) (\<lambda>total.
          ret (mul64 (go_div total 100) percent))))
      else of_res (ParseByteSizeString memory))"

definition hard_limits :: "'o daemon_scheme \<Rightarrow> string \<Rightarrow> int \<Rightarrow> ('a, unit) action" where
  "hard_limits orc swap v =
     seq_all
       [set_int orc ''mercury.cgroup.memory.limit_in_bytes'' v,
        pwhen (dm_swap orc \<and> (swap = [] \<or> IsTrue swap)) (set_int orc ''mercury.cgroup.memory.memsw.limit_in_bytes'' v),
        set_item orc ''mercury.cgroup.memory.soft_limit_in_bytes'' (dm_soft orc v)]"

definition swappiness_item :: "'o daemon_scheme \<Rightarrow> string gomap \<Rightarrow> ('a, unit) action" where
  "swappiness_item orc conf =
     (let swap = gm_str conf ''limits.memory.swap''; prio = gm_str conf ''limits.memory.swap.priority''
      in if swap \<noteq> [] \<and> \<not> IsTrue swap then set_item orc ''mercury.cgroup.memory.swappiness'' ''0''
         else pwhen (prio \<noteq> []) (pbind (of_res (Atoi prio)) (\<lambda>p.
                set_int orc ''mercury.cgroup.memory.swappiness'' (add64 50 p))))"

definition memory_items :: "'o daemon_scheme \<Rightarrow> ctr \<Rightarrow> ('a, unit) action" where
  "memory_items orc c =
     (let conf = ct_expandedConfig c; memory = gm_str conf ''limits.memory''
      in pwhen (dm_memory orc)
        (seq_all
          [pwhen (memory \<noteq> [])
             (pbind (memory_limit orc memory) (\<lambda>v.
                if gm_str conf ''limits.memory.enforce'' = ''soft''
                then set_int orc ''mercury.cgroup.memory.soft_limit_in_bytes'' v
                else hard_limits orc (gm_str conf ''limits.memory.swap'') v)),
           swappiness_item orc conf]))"

definition cpu_items :: "'o daemon_scheme \<Rightarrow> ctr \<Rightarrow> ('a, unit) action" where
  "cpu_items orc c =
     (let prio = gm_str (ct_expandedConfig c) ''limits.cpu.priority'';
          allowance = gm_str (ct_expandedConfig c) ''limits.cpu.allowance''
      in pwhen ((prio \<noteq> [] \<or> allowance \<noteq> []) \<and> dm_cpu orc)
        (pbind (of_res (deviceParseCPU allowance prio)) (\<lambda>(shares, quota, period).
           seq_all
             [pwhen (shares \<noteq> ''1024'') (set_item orc ''mercury.cgroup.cpu.shares'' shares),
              pwhen (period \<noteq> ''-1'') (set_item orc ''mercury.cgroup.cpu.cfs_period_us'' period),
              pwhen (quota \<noteq> ''-1'') (set_item orc ''mercury.cgroup.cpu.cfs_quota_us'' quota)])))"

definition limited_disk :: "device \<Rightarrow> bool" where
  "limited_disk m \<longleftrightarrow> gm_str m ''type'' = ''disk'' \<and>
     (gm_str m ''limits.read'' \<noteq> [] \<or> gm_str m ''limits.write'' \<noteq> [] \<or> gm_str m ''limits.max'' \<noteq> [])"

definition throttle_items :: "'o daemon_scheme \<Rightarrow> string \<times> int \<times> int \<times> int \<times> int \<Rightarrow> ('a, unit) action" where
  "throttle_items orc = (\<lambda>(block, readBps, readIops, writeBps, writeIops).
     let put = (\<lambda>k v. pwhen (v > 0)
           (set_item orc (''mercury.cgroup.blkio.throttle.'' @ k) (block @ '' '' @ show_int v)))
     in seq_all [put ''read_bps_device'' readBps, put ''read_iops_device'' readIops,
                 put ''write_bps_device'' writeBps, put ''write_iops_device'' writeIops])"

definition disk_items :: "'o daemon_scheme \<Rightarrow> ctr \<Rightarrow> ('a, unit) action" where
  "disk_items orc c =
     (let prio = gm_str (ct_expandedConfig c) ''limits.disk.priority''
      in pwhen (dm_blkio orc)
        (seq_all
          [pwhen (prio \<noteq> []) (pbind (of_res (disk_weight prio)) (set_int orc ''mercury.cgroup.blkio.weight'')),
           pwhen (list_ex (\<lambda>(k, m). limited_disk m) (dm_order orc (ct_expandedDevices c)))
             (pbind (\<lambda>w. (dm_disk_limits orc (w_hist w) (ct_name c), w)) (for_all (throttle_items orc)))]))"

definition process_items :: "'o daemon_scheme \<Rightarrow> ctr \<Rightarrow> ('a, unit) action" where
  "process_items orc c =
     (let processes = gm_str (ct_expandedConfig c) ''limits.processes''
      in pwhen (dm_pids orc \<and> processes \<noteq> [])
           (pbind (of_res (ParseInt processes 10 64)) (set_int orc ''mercury.cgroup.pids.max'')))"

section \<open>Devices\<close>

text \<open>\<open>m[k]\<close>, or the other key when it is missing.\<close>

definition key_or :: "device \<Rightarrow> string \<Rightarrow> string \<Rightarrow> string" where
  "key_or m k other = (if gm_has m k then gm_str m k else gm_str m other)"

definition unix_entry :: "'o daemon_scheme \<Rightarrow> ctr \<Rightarrow> device \<Rightarrow> ('a, unit) action" where
  "unix_entry orc c m =
     (let devName = ''unix.'' @ dashed (TrimPrefix (key_or m ''source'' ''path'') ''/'');
          devPath = path_Join [ctr_DevicesPath orc c, devName]
      in set_item orc ''mercury.mount.entry''
           (devPath @ '' '' @ TrimPrefix (key_or m ''path'' ''source'') ''/'' @ '' none bind,create=file''))"

definition nic_type :: "'o daemon_scheme \<Rightarrow> (string \<Rightarrow> string) \<Rightarrow> string \<Rightarrow> ('a, unit) action" where
  "nic_type orc key nictype =
     (if StringInSlice nictype [''bridged'', ''p2p''] then set_item orc (key ''type'') ''veth''
      else if nictype = ''physical'' then set_item orc (key ''type'') ''phys''
      else if nictype = ''macvlan'' then
        seq_all [set_item orc (key ''type'') ''macvlan'', set_item orc (key ''macvlan.mode'') ''bridge'']
      else ret ())"

definition nic_link :: "'o daemon_scheme \<Rightarrow> (string \<Rightarrow> string) \<Rightarrow> device \<Rightarrow> ('a, unit) action" where
  "nic_link orc key m =
     (if gm_str m ''nictype'' = ''bridged'' then set_item orc (key ''link'') (gm_str m ''parent'')
      else if StringInSlice (gm_str m ''nictype'') [''macvlan'', ''physical''] then
        pbind (networkGetHostDevice orc (gm_str m ''parent'') (gm_str m ''vlan'')) (set_item orc (key ''link''))
      else ret ())"

definition veth_name :: "'o hostenv_scheme \<Rightarrow> device \<Rightarrow> ('a world_scheme, string) prog" where
  "veth_name orc m =
     (if gm_str m ''host_name'' \<noteq> [] then ret (gm_str m ''host_name'')
      else if IsTrue (gm_str m ''security.mac_filtering'') then deviceNextVeth orc 0
      else ret [])"

definition set_given :: "'o daemon_scheme \<Rightarrow> string \<Rightarrow> string \<Rightarrow> ('a, unit) action" where
  "set_given orc key v = pwhen (v \<noteq> []) (set_item orc key v)"

definition nic_items :: "'o daemon_scheme \<Rightarrow> string \<Rightarrow> device \<Rightarrow> nat \<Rightarrow> ('a, unit) action" where
  "nic_items orc k m0 idx =
     pbind (fillNetworkDevice orc k m0) (\<lambda>m.
     pbind (lxc21 orc) (\<lambda>new.
     let key = (\<lambda>f. (if new then ''mercury.net'' else ''mercury.network'') @ ''.'' @ show_nat idx @ ''.'' @ f)
     in seq_all
          [nic_type orc key (gm_str m ''nictype''),
           set_item orc (key ''flags'') ''up'',
           nic_link orc key m,
           pbind (veth_name orc m) (set_given orc (key ''veth.pair'')),
           set_given orc (key ''hwaddr'') (gm_str m ''hwaddr''),
           set_given orc (key ''mtu'') (gm_str m ''mtu''),
           set_given orc (key ''name'') (gm_str m ''name'')]))"

text \<open>Before 2.1 the back end of the root file system had to be chosen; where it cannot be, it is reset.\<close>

definition rootfs_backend :: "'o ldaemon_scheme \<Rightarrow> ctr \<Rightarrow> ('a, unit) action" where
  "rootfs_backend orc c =
     pbind (attempt (set_item orc ''mercury.rootfs.backend'' ''dir'')) (\<lambda>r.
       case r of
         Inl _ \<Rightarrow> ret ()
       | Inr _ \<Rightarrow>
           pbind (ask (\<lambda>h. ld_item orc h (ct_name c) ''mercury.rootfs.backend'')) (\<lambda>v.
             pwhen (v = [] \<or> hd v \<noteq> ''dir'') (ignoring (set_item orc ''mercury.rootfs.backend'' []))))"

definition rootfs_items :: "'o ldaemon_scheme \<Rightarrow> ctr \<Rightarrow> bool \<Rightarrow> ('a, unit) action" where
  "rootfs_items orc c isReadOnly =
     pbind (lxc21 orc) (\<lambda>new.
       seq_all
         [pwhen (\<not> new) (rootfs_backend orc c),
          if new then set_item orc ''mercury.rootfs.path'' (''dir:'' @ ctr_RootfsPath orc c)
          else set_item orc ''mercury.rootfs'' (ctr_RootfsPath orc c),
          pwhen isReadOnly (set_item orc ''mercury.rootfs.options'' ''ro'')])"

text \<open>A volume of a pool is always a directory.\<close>

definition source_is_file :: "'o ldaemon_scheme \<Rightarrow> device \<Rightarrow> ('a world_scheme, bool) prog" where
  "source_is_file orc m =
     (if gm_str m ''pool'' \<noteq> [] then ret False
      else pbind (IsDir orc (gm_str m ''source'')) (\<lambda>d.
             if d then ret False
             else pbind (deviceIsBlockdev orc (gm_str m ''source'')) (\<lambda>b. ret (\<not> b))))"

definition disk_entry :: "'o ldaemon_scheme \<Rightarrow> ctr \<Rightarrow> device \<Rightarrow> ('a, unit) action" where
  "disk_entry orc c m =
     (let tgtPath = TrimPrefix (gm_str m ''path'') ''/''; devName = ''disk.'' @ dashed tgtPath;
          devPath = path_Join [ctr_DevicesPath orc c, devName];
          isReadOnly = IsTrue (gm_str m ''readonly'')
      in pbind (source_is_file orc m) (\<lambda>isFile.
           if tgtPath = [] then rootfs_items orc c isReadOnly
           else
             let options = (if isReadOnly then [''ro''] else [])
                   @ (if IsTrue (gm_str m ''optional'') then [''optional''] else [])
                   @ [if isFile then ''create=file'' else ''create=dir'']
             in set_item orc ''mercury.mount.entry''
                  (devPath @ '' '' @ tgtPath @ '' none '' @ (if IsTrue (gm_str m ''recursive'') then ''r'' else [])
                   @ ''bind,'' @ Join '','' options)))"

text \<open>The number counts the network devices.\<close>

definition device_step :: "'o ldaemon_scheme \<Rightarrow> ctr \<Rightarrow> nat \<Rightarrow> string \<times> device \<Rightarrow> ('a, nat) action" where
  "device_step orc c idx = (\<lambda>(k, m).
     if is_unix m then seq_ret idx [unix_entry orc c m]
     else if gm_str m ''type'' = ''nic'' then seq_ret (idx + 1) [nic_items orc k m idx]
     else if gm_str m ''type'' = ''disk'' then seq_ret idx [disk_entry orc c m]
     else ret idx)"

definition device_items :: "'o ldaemon_scheme \<Rightarrow> ctr \<Rightarrow> ('a, unit) action" where
  "device_items orc c =
     pbind (thread (device_step orc c) (dm_order orc (ct_expandedDevices c)) 0) (\<lambda>_. ret ())"

section \<open>The whole configuration\<close>

definition shmounts_item :: "'o daemon_scheme \<Rightarrow> ctr \<Rightarrow> ('a, unit) action" where
  "shmounts_item orc c =
     set_item orc ''mercury.mount.entry''
       (path_Join [o_var orc, ''shmounts'', ct_name c] @ '' dev/.apollo-mounts none bind,create=dir 0 0'')"

definition raw_config :: "'o ldaemon_scheme \<Rightarrow> ('a, unit) action" where
  "raw_config orc =
     pbind this (\<lambda>c.
       case map_of (ct_expandedConfig c) ''raw.mercury'' of
         None \<Rightarrow> ret ()
       | Some raw \<Rightarrow>
           pbind (ask (ld_temp orc)) (\<lambda>f.
           pbind (perform orc (Created f)) (\<lambda>_.
             deferred (ignoring (perform orc (Removed f)))
               (seq_all
                  [perform orc (Wrote f raw),
                   pbind (attempt (perform orc (Called ''LoadConfigFile'' [ct_name c, raw]))) (\<lambda>r.
                     case r of Inr _ \<Rightarrow> ret () | Inl _ \<Rightarrow> fail (Errorf ''Failed to load raw.mercury'' []))]))))"

definition lxc_config :: "'o ldaemon_scheme \<Rightarrow> ctr \<Rightarrow> ('a, unit) action" where
  "lxc_config orc c =
     seq_all
       [base_items orc c, device_cgroup orc c, nesting_items orc c, system_items orc c, apparmor_item orc c,
        seccomp_item orc c, idmap_items orc c, environment_items orc c, memory_items orc c, cpu_items orc c,
        disk_items orc c, process_items orc c, device_items orc c, shmounts_item orc c, raw_config orc]"

definition initMERCURY_lxc :: "'o ldaemon_scheme \<Rightarrow> ('a, unit) lxc_action" where
  "initMERCURY_lxc orc =
     pbind this (\<lambda>c.
       if ctr_IsSnapshot c then ret ()
       else pbind (get_world w_fromHook) (\<lambda>hook.
         if hook then fail (Errorf ''You can't use go-mercury from inside a MERCURY hook.'' [])
         else pbind (get_world w_lxc) (\<lambda>loaded.
           if loaded then ret ()
           else seq_all
             [perform orc (Called ''NewContainer'' [ct_name c, ld_lxcpath orc]),
              lxc_config orc c,
              put_world (\<lambda>w. w\<lparr>w_lxc := True\<rparr>)])))"

text \<open>The storage object of the container, loaded once.\<close>

definition initStorage :: "'o sdaemon_scheme \<Rightarrow> ('a, unit) lxc_action" where
  "initStorage orc =
     pbind (get_world w_storage) (\<lambda>s.
       if s \<noteq> None then ret ()
       else pbind this (\<lambda>c.
            pbind (storagePoolVolumeContainerLoadInit orc (ct_name c)) (\<lambda>s.
              put_world (\<lambda>w. w\<lparr>w_storage := Some s\<rparr>))))"

end
