(* ===== verification/Spec2Isabelle.thy ===== *)
theory Spec2Isabelle
  imports IdmapProps IdmapAllocProps UtilProps OperationProps ContainerOpsProps DeviceSchedProps ContainerConfigProps
    NetworkProps DbReadBack ContainerUpdateProps StorageProps ContainerInit
begin

text \<open>
  \<^bold>\<open>Apollo: a model of the container daemon and what it guarantees.\<close>

  Apollo (\<open>src/apollo\<close>) is a daemon that manages containers, images, networks and storage on a
  Linux host; \<open>src/shared\<close> holds the code it has in common with its clients. A request reaches a
  REST handler, which validates the configuration, starts a background operation, changes the
  database and calls the drivers, which run commands on the host. The development follows these
  layers from the bottom up; every definition keeps the name of the Go function it translates.

  \<^bold>\<open>Ground.\<close>
  \<^item> \<open>Prelude\<close>: results as a sum type (\<open>Inl\<close> the error), Go maps as association lists in a visiting
    order (\<open>gomap\<close>, well-formed when the keys are distinct), machine integers, runs of step
    machines with the locale \<open>machine\<close> of invariants, shared list lemmas.
  \<^item> \<open>GoStd\<close>, \<open>GoNet\<close>: what the code uses of Go's \<open>strings\<close>, \<open>strconv\<close>, \<open>sort\<close> and \<open>net\<close>. Errors of the
    standard library are \<open>OsError\<close>, formatted ones are \<open>Errorf\<close> with their arguments, and a run-time
    panic is the error \<open>Panic\<close>.
  \<^item> \<open>Effects\<close>: code that runs commands and touches files, as functions from a world to a result and
    a world. The outside is a record \<open>env\<close> of functions of the whole history, so it may answer
    anything; \<open>only Q p\<close> says which commands a program may issue.

  \<^bold>\<open>Id maps.\<close> \<open>Idmap\<close> (entries, sets and their shifting functions of \<open>shared/idmapset_linux.go\<close>),
  \<open>IdmapEdit\<close> (\<open>AddSafe\<close>, \<open>Split\<close>, intersection), \<open>IdmapHost\<close> (reading the host's allocations),
  \<open>IdmapLaws\<close>, \<open>IdmapProps\<close> (shifting is a partial bijection, \<open>AddSafe\<close> overrides exactly the new
  range, shifted trees are restored, parsing and printing are inverse), and \<open>IdmapAlloc\<close>,
  \<open>IdmapAllocProps\<close> (the allocation of isolated ranges in \<open>apollo/container_mercury.go\<close>: ranges are
  disjoint).

  \<^bold>\<open>Operations.\<close> \<open>Operations\<close> and \<open>OperationProps\<close> model \<open>apollo/operations.go\<close>: an operation object,
  the registry and the goroutines of \<open>Run\<close>, \<open>Cancel\<close>, \<open>Connect\<close> and \<open>done\<close> as a step machine whose
  program counters are the source's critical sections, any interleaving allowed. \<open>ContainerOps\<close> and
  \<open>ContainerOpsProps\<close> model the per-container operation lock of \<open>apollo/container_mercury.go\<close> the
  same way.

  \<^bold>\<open>Configuration.\<close> \<open>Util\<close>, \<open>UtilProps\<close> (\<open>shared/util.go\<close>), \<open>Osarch\<close>, \<open>ConfigKeys\<close>
  (\<open>shared/container.go\<close>), \<open>Devices\<close> (\<open>apollo/types/devices.go\<close>), \<open>ContainerConfig\<close> and
  \<open>ContainerConfigProps\<close> (validation and expansion in \<open>apollo/container.go\<close> and
  \<open>container_mercury.go\<close>). Maps are visited by Go in a random order, so validation is shown to be
  independent of it.

  \<^bold>\<open>Devices and CPU balancing.\<close> \<open>DeviceSched\<close>, \<open>BalanceLaws\<close>, \<open>DeviceSchedProps\<close> model
  \<open>apollo/devices.go\<close>: USB and netlink events, CPU sets and ranges, the balancing of containers over
  CPUs (loads stay within one of each other), disk and network limits.

  \<^bold>\<open>Database.\<close> \<open>Sql\<close> models the tables of the schema with their constraints, statements, the retry
  loop around a locked database and transactions (\<open>apollo/db/db.go\<close>); \<open>DbContainers\<close>, \<open>DbNetworks\<close>,
  \<open>DbStorage\<close> and \<open>DbImages\<close> translate the calls of the other files of \<open>apollo/db\<close>. \<open>DbLaws\<close> shows
  that every statement keeps uniqueness and referential integrity and that every call is atomic,
  \<open>DbStore\<close> has the calculus of successful runs and the locale \<open>kv_store\<close> of configuration tables,
  interpreted on the six tables of the schema that are one, \<open>DbProps\<close> collects the calls into one machine
  with its invariant, and \<open>DbReadBack\<close> has what is read back, removed and retried.

  \<^bold>\<open>Networks.\<close> \<open>NetworkConfig\<close>: the validation of \<open>apollo/networks_config.go\<close> and the address
  helpers of \<open>apollo/networks_utils.go\<close>.

  \<^bold>\<open>Bounds.\<close> A locked database is asked 1000 times, as the source does, and the bound is part of the
  statements about it. \<open>TryRunCommand\<close> tries 20 times. Loops whose end is not structural carry a
  measure; a loop of the source that may run for ever is a \<open>partial_function (option)\<close>, and its
  termination is a theorem where it holds. The parser of IPv6 addresses reads at most eight groups.

  \<^bold>\<open>Not modelled.\<close> Calls into liblxc, the kernel and SQLite are the outside of the model. Storage
  drivers, the client library and the command line client, image downloads, migration streams and
  HTTP serving have no definitions here: they are sequences of external commands or of calls over
  the network. Log output is left out everywhere.
\<close>

end
